(* ===== verification/Labstor_Prelude.thy ===== *)
theory Labstor_Prelude
  imports Main "HOL-Library.Word"
begin

text \<open>
  The shared vocabulary of the development: the machine types of the sources, the region
  arithmetic of \<^verbatim>\<open>include/labstor/constants/macros.h\<close>, the error constants of
  \<^verbatim>\<open>include/labstor/userspace/util/errors.h\<close> as a datatype, and the arithmetic of ring
  indices that every ring buffer of the code base shares.

  The target is the 64-bit Linux build: pointers are 64-bit words, \<^verbatim>\<open>labstor_off_t\<close> is a
  32-bit word read as a two's complement number, and the sizes of the C structures are those
  of the x86-64 ABI.
\<close>

named_theorems labstor_defs \<open>definitions of straight-line operations\<close>

named_theorems ring_index \<open>arithmetic of ring slots\<close>

unbundle bit_operations_syntax

section \<open>Machine types\<close>

type_synonym u8 = "8 word"
type_synonym u16 = "16 word"
type_synonym u32 = "32 word"
type_synonym u64 = "64 word"
type_synonym i32 = "32 word"
type_synonym ptr = "64 word"
type_synonym labstor_off_t = "32 word"

text \<open>The errors the userspace code throws, named as in \<^verbatim>\<open>errors.h\<close>.\<close>

datatype labstor_error =
    INVALID_RING_BUFFER_SIZE u32 u32
  | INVALID_UNORDERED_MAP_SIZE u32 u32
  | INVALID_UNORDERED_MAP_KEY
  | INVALID_QP_QUERY
  | INVALID_MODULE_ID
  | DLSYM_MODULE_NOT_FOUND
  | DLSYM_MODULE_NO_CONSTRUCTOR
  | NOT_ENOUGH_REQUEST_MEMORY
  | FAILED_TO_ASSIGN_QUEUE u32 u32
  | FAILED_TO_ENQUEUE
  | FAILED_TO_COMPLETE
  | TOO_MANY_FDS
  | NOT_YET_IMPLEMENTED
  | IPC_MANAGER_CANT_REGISTER_QP
  | SHMEM_CREATE_FAILED
  | WORK_ORCHESTRATOR_HAS_NO_WORKERS
  | WORK_ORCHESTRATOR_WORK_QUEUE_ALLOC_FAILED
  | WORK_ORCHESTRATOR_WORK_QUEUE_MMAP_FAILED
  | MMAP_FAILED
  | KERNEL_IPC_MANAGER_FAILED_TO_REGISTER
  | UNIX_SOCKET_FAILED
  | UNIX_SETSOCKOPT_FAILED
  | UNIX_BIND_FAILED
  | UNIX_LISTEN_FAILED
  | YAML_EXCEPTION
  | DIVISION_BY_ZERO
  | NULL_DEREFERENCE
  | OUT_OF_BOUNDS
  | USE_AFTER_FREE

text \<open>
  The last four constructors are not thrown by the code: they stand for the hardware trap
  or undefined behaviour that the C++ code has at that point.
\<close>

type_synonym 'a result = "labstor_error + 'a"

section \<open>Region arithmetic\<close>

text \<open>
  \<^verbatim>\<open>LABSTOR_REGION_SUB\<close> truncates the pointer difference to \<^verbatim>\<open>labstor_off_t\<close>;
  \<^verbatim>\<open>LABSTOR_REGION_ADD\<close> adds an offset to a byte pointer, so a \<^verbatim>\<open>labstor_off_t\<close> is sign
  extended and an unsigned offset is zero extended.
\<close>

definition LABSTOR_REGION_SUB :: "ptr \<Rightarrow> ptr \<Rightarrow> labstor_off_t" where
  "LABSTOR_REGION_SUB p region = ucast (p - region)"

definition LABSTOR_REGION_ADD :: "labstor_off_t \<Rightarrow> ptr \<Rightarrow> ptr" where
  "LABSTOR_REGION_ADD off region = region + scast off"

definition LABSTOR_REGION_ADD_u32 :: "u32 \<Rightarrow> ptr \<Rightarrow> ptr" where
  "LABSTOR_REGION_ADD_u32 off region = region + ucast off"

lemmas region_defs = LABSTOR_REGION_SUB_def LABSTOR_REGION_ADD_def LABSTOR_REGION_ADD_u32_def

lemma unat32_less: "unat (w :: u32) < 4294967296"
  using unsigned_less [of w, where ?'a = nat] by simp

lemma unat64_less: "unat (w :: u64) < 18446744073709551616"
  using unsigned_less [of w, where ?'a = nat] by simp

lemma sint_small: "unat (w :: u32) < 2 ^ 31 \<Longrightarrow> sint w = int (unat w)"
proof -
  assume u: "unat w < 2 ^ 31"
  have "uint w < 2 ^ 31"
    using u by (simp only: uint_nat of_nat_less_iff [symmetric, where 'a = int]) simp
  moreover have "- (2 ^ 31) \<le> uint w" by (rule order_trans [OF _ uint_ge_0]) simp
  ultimately show ?thesis using signed_take_bit_int_eq_self [of 31 "uint w"] by (simp add: sint_uint)
qed

lemma nat_sint_small: "unat (w :: u32) < 2 ^ 31 \<Longrightarrow> nat (sint w) = unat w"
  by (simp only: sint_small nat_int)

lemma unat_widen [simp]: "unat (ucast (w :: u32) :: u64) = unat w"
  using unat32_less [of w] by (simp add: unsigned_ucast_eq take_bit_nat_eq_self)

lemma unat_narrow: "unat (ucast (w :: u64) :: u32) = unat w mod 4294967296"
  by (simp add: unsigned_ucast_eq take_bit_eq_mod)

lemma scast_nonneg:
  assumes "unat (n :: i32) < 2 ^ 31"
  shows "scast n = (ucast n :: u64)"
proof -
  have "int (unat n) < int (2 ^ 31)"
    using assms by (simp only: of_nat_less_iff)
  then have u: "uint n < 2 ^ 31" by simp
  have l: "- (2 ^ 31) \<le> uint n"
    by (rule order_trans [OF _ uint_ge_0]) simp
  have "sint n = uint n"
    using signed_take_bit_int_eq_self [OF l u] by (simp add: sint_uint)
  then show ?thesis by (simp only: scast_eq ucast_eq)
qed

lemma scast_ucast_small:
  fixes w :: ptr
  assumes "unat w < 2 ^ 31"
  shows "scast (ucast w :: labstor_off_t) = w"
proof -
  have "int (unat w) < int (2 ^ 31)"
    using assms by (simp only: of_nat_less_iff)
  then have u: "uint w < 2 ^ 31" by simp
  have l: "- (2 ^ 31) \<le> uint w"
    by (rule order_trans [OF _ uint_ge_0]) simp
  have "sint (ucast w :: labstor_off_t) = uint w"
    using signed_take_bit_int_eq_self [OF l u] by (simp add: signed_ucast_eq)
  then have "(scast (ucast w :: labstor_off_t) :: ptr) = word_of_int (uint w)"
    by (simp only: scast_eq)
  then show ?thesis by simp
qed

lemma region_sub_add [simp]:
  "unat (p - region) < 2 ^ 31 \<Longrightarrow> LABSTOR_REGION_ADD (LABSTOR_REGION_SUB p region) region = p"
  by (simp add: region_defs scast_ucast_small)

lemma region_sub_inj:
  assumes "unat (p - region) < 2 ^ 31" "unat (q - region) < 2 ^ 31"
    and "LABSTOR_REGION_SUB p region = LABSTOR_REGION_SUB q region"
  shows "p = q"
  using assms region_sub_add by metis

section \<open>Ring slots\<close>

text \<open>
  Every ring buffer of the code keeps two free-running 32-bit counters and uses the cell
  \<^verbatim>\<open>counter % max_depth\<close>. \<open>ring_slot d i m\<close> is the cell of the \<open>i\<close>-th element behind the
  dequeue counter \<open>d\<close>. The counters wrap at \<open>2 ^ 32\<close>; the cells stay consecutive across the
  wrap exactly when the depth divides \<open>2 ^ 32\<close>, which is what \<open>ring_window\<close> allows beside
  windows that do not reach the wrap.
\<close>

definition ring_slot :: "u32 \<Rightarrow> nat \<Rightarrow> u32 \<Rightarrow> u32" where
  "ring_slot d i m = (d + of_nat i) mod m"

definition ring_window :: "u32 \<Rightarrow> nat \<Rightarrow> u32 \<Rightarrow> bool" where
  "ring_window d n m \<longleftrightarrow> unat m dvd 2 ^ 32 \<or> unat d + n \<le> 2 ^ 32"

definition ring_contents :: "(u32 \<Rightarrow> 'a) \<Rightarrow> u32 \<Rightarrow> nat \<Rightarrow> u32 \<Rightarrow> 'a list" where
  "ring_contents q d n m = map (\<lambda>i. q (ring_slot d i m)) [0..<n]"

lemma unat_ring_slot:
  assumes "ring_window d n m" "i < n" "n \<le> 2 ^ 32"
  shows "unat (ring_slot d i m) = (unat d + i) mod unat m"
proof -
  have i: "unat (of_nat i :: u32) = i"
    using assms by (simp add: unat_of_nat)
  have s: "unat (d + of_nat i) = (unat d + i) mod 2 ^ 32"
    by (simp add: unat_word_ariths i)
  show ?thesis
    using assms(1,2) unfolding ring_window_def ring_slot_def unat_mod s
    by (auto simp: mod_mod_cancel)
qed

lemma ring_slot_inj:
  assumes w: "ring_window d n m" and n: "n \<le> unat m" and ij: "i < n" "j < n"
    and e: "ring_slot d i m = ring_slot d j m"
  shows "i = j"
proof -
  have b: "n \<le> 2 ^ 32" using n less_imp_le [OF unsigned_less [of m, where ?'a = nat]] by simp
  have "(unat d + i) mod unat m = (unat d + j) mod unat m"
    using unat_ring_slot [OF w ij(1) b] unat_ring_slot [OF w ij(2) b] e by simp
  then have "int (unat m) dvd (int (unat d + i) - int (unat d + j))"
    by (simp only: mod_eq_dvd_iff [symmetric] of_nat_mod [symmetric])
  then have "int (unat m) dvd (int i - int j)" by simp
  moreover have "\<bar>int i - int j\<bar> < int (unat m)" using ij n by linarith
  ultimately show ?thesis using zdvd_imp_le by (metis dvd_imp_le_int eq_iff_diff_eq_0 abs_of_nat linorder_not_less of_nat_eq_iff)
qed

lemma ring_contents_length [simp]: "length (ring_contents q d n m) = n"
  by (simp add: ring_contents_def)

lemma ring_contents_nth [simp]: "i < n \<Longrightarrow> ring_contents q d n m ! i = q (ring_slot d i m)"
  by (simp add: ring_contents_def)

lemma ring_contents_0 [simp]: "ring_contents q d 0 m = []"
  by (simp add: ring_contents_def)

lemma ring_slot_0 [simp]: "ring_slot d 0 m = d mod m"
  by (simp add: ring_slot_def)

lemma ring_slot_Suc: "ring_slot d (Suc i) m = ring_slot (d + 1) i m"
  by (simp add: ring_slot_def algebra_simps)

lemma ring_contents_Cons:
  "ring_contents q d (Suc n) m = q (d mod m) # ring_contents q (d + 1) n m"
  by (simp add: ring_contents_def upt_conv_Cons map_Suc_upt [symmetric] ring_slot_Suc
      del: upt_Suc)

lemma ring_contents_snoc:
  assumes "ring_window d (Suc n) m" "Suc n \<le> unat m"
  shows "ring_contents (q(ring_slot d n m := x)) d (Suc n) m = ring_contents q d n m @ [x]"
proof -
  have "ring_slot d i m \<noteq> ring_slot d n m" if "i < n" for i
    using ring_slot_inj [OF assms, of i n] that by auto
  then show ?thesis
    by (simp add: ring_contents_def)
qed

lemma ring_window_Suc: "ring_window d (Suc n) m \<Longrightarrow> ring_window (d + 1) n m"
  unfolding ring_window_def
  by (cases "unat d = 2 ^ 32 - 1") (auto simp: unat_word_ariths)

lemma ring_window_mono: "ring_window d n m \<Longrightarrow> k \<le> n \<Longrightarrow> ring_window d k m"
  by (auto simp: ring_window_def)

lemma ring_window_dvd: "unat m dvd 2 ^ 32 \<Longrightarrow> ring_window d n m"
  by (simp add: ring_window_def)

lemma counter_split: "(e :: u32) = d + of_nat (unat (e - d))"
  by simp

lemma counter_push:
  fixes e d m :: u32
  assumes "unat (e - d) < unat m"
  shows "unat (e + 1 - d) = Suc (unat (e - d))"
proof -
  have "e + 1 - d = (e - d) + 1" by simp
  moreover have "Suc (unat (e - d)) < 4294967296"
    using assms unat32_less [of m] by linarith
  ultimately show ?thesis
    by (simp only:) (simp add: unat_word_ariths)
qed

lemma counter_pop:
  assumes "(e :: u32) \<noteq> d"
  shows "unat (e - d) = Suc (unat (e - (d + 1)))"
proof -
  have "e - d \<noteq> 0" using assms by simp
  then have "unat (e - d - 1) = unat (e - d) - 1" by (rule unat_minus_one)
  moreover have "unat (e - d) \<noteq> 0" using \<open>e - d \<noteq> 0\<close> by (simp add: unat_eq_zero)
  moreover have "e - (d + 1) = e - d - 1" by simp
  ultimately show ?thesis by presburger
qed

lemma ring_slot_tail [simp]: "ring_slot d (unat (e - d)) m = e mod m"
  by (simp add: ring_slot_def)

lemma ring_push:
  assumes "unat (e - d) < unat m" "ring_window d (unat (e - d) + Suc n) m"
  shows "ring_contents (q(e mod m := x)) d (unat (e + 1 - d)) m =
         ring_contents q d (unat (e - d)) m @ [x]"
  using ring_contents_snoc [OF ring_window_mono [OF assms(2)], of "unat (e - d)" q x]
    counter_push [OF assms(1)] assms(1) by simp

lemma ring_pop:
  assumes "e \<noteq> d"
  shows "ring_contents q d (unat (e - d)) m =
         q (d mod m) # ring_contents q (d + 1) (unat (e - (d + 1))) m"
  using counter_pop [OF assms] ring_contents_Cons by metis

lemma depth_zero [simp]: "unat (e - d) = 0 \<longleftrightarrow> e = (d :: u32)"
  by (simp add: unat_eq_zero)

section \<open>Errors\<close>

text \<open>
  The shared-memory structures report a failed initialisation by \<^verbatim>\<open>return false\<close> in the
  kernel build and by throwing in the userspace build; \<open>throw_unless\<close> turns the first into
  the second.
\<close>

definition throw_unless :: "labstor_error \<Rightarrow> bool \<times> 'a \<Rightarrow> 'a result" where
  "throw_unless err r = (if fst r then Inr (snd r) else Inl err)"

lemma throw_unless_simps [simp]:
  "throw_unless err (True, s) = Inr s"
  "throw_unless err (False, s) = Inl err"
  by (simp_all add: throw_unless_def)

text \<open>Sequencing of operations that may fail, and of operations that may also not return.\<close>

definition result_bind :: "'a result \<Rightarrow> ('a \<Rightarrow> 'b result) \<Rightarrow> 'b result" where
  "result_bind m f = (case m of Inl err \<Rightarrow> Inl err | Inr x \<Rightarrow> f x)"

lemma result_bind_simps [simp]:
  "result_bind (Inl err) f = Inl err"
  "result_bind (Inr x) f = f x"
  by (simp_all add: result_bind_def)

lemma result_bind_Inr: "result_bind m f = Inr y \<longleftrightarrow> (\<exists>x. m = Inr x \<and> f x = Inr y)"
  by (simp add: result_bind_def split: sum.splits)

lemma case_prod_Inr: "(case p of (a, b) \<Rightarrow> f a b) = Inr y \<longleftrightarrow> (\<exists>a b. p = (a, b) \<and> f a b = Inr y)"
  by (cases p) simp

definition run_bind :: "'a result option \<Rightarrow> ('a \<Rightarrow> 'b result option) \<Rightarrow> 'b result option" where
  "run_bind m f = (case m of None \<Rightarrow> None | Some (Inl err) \<Rightarrow> Some (Inl err) | Some (Inr x) \<Rightarrow> f x)"

lemma run_bind_simps [simp]:
  "run_bind None f = None"
  "run_bind (Some (Inl err)) f = Some (Inl err)"
  "run_bind (Some (Inr x)) f = f x"
  by (simp_all add: run_bind_def)

lemma run_bind_Inr: "run_bind m f = Some (Inr y) \<longleftrightarrow> (\<exists>x. m = Some (Inr x) \<and> f x = Some (Inr y))"
  by (auto simp: run_bind_def split: option.splits sum.splits)

end
