(* ===== verification/Labstor_Interfaces.thy ===== *)
theory Labstor_Interfaces
  imports Labstor_Prelude
begin

text \<open>
  The contracts between the components, as locales. \<open>bounded_fifo\<close> is what the clients of a
  ring buffer rely on; \<open>block_pool\<close> is what the clients of an allocator rely on. Each is
  interpreted in the theory of the component that provides it.

  A ring buffer whose depth does not divide \<open>2 ^ 32\<close> keeps its order only until its 32-bit
  counter wraps, so both contracts carry a predicate \<open>headroom s n\<close>: \<open>n\<close> further insertions
  are possible before the counter of \<open>s\<close> wraps, or wrapping does no harm.
\<close>

section \<open>Bounded queues\<close>

datatype 'a fifo_op = Put 'a | Take

datatype 'a fifo_out = Stored bool | Taken "'a option"

fun fifo_run ::
  "('a \<Rightarrow> 's \<Rightarrow> bool \<times> 's) \<Rightarrow> ('s \<Rightarrow> 'a option \<times> 's) \<Rightarrow> 'a fifo_op list \<Rightarrow> 's \<Rightarrow> 'a fifo_out list \<times> 's"
where
  "fifo_run enq deq [] s = ([], s)"
| "fifo_run enq deq (Put x # ops) s =
     (let (b, s1) = enq x s; (outs, s2) = fifo_run enq deq ops s1 in (Stored b # outs, s2))"
| "fifo_run enq deq (Take # ops) s =
     (let (r, s1) = deq s; (outs, s2) = fifo_run enq deq ops s1 in (Taken r # outs, s2))"

text \<open>The specification: a list with a capacity.\<close>

definition list_enq :: "nat \<Rightarrow> 'a \<Rightarrow> 'a list \<Rightarrow> bool \<times> 'a list" where
  "list_enq cap x xs = (if length xs < cap then (True, xs @ [x]) else (False, xs))"

definition list_deq :: "'a list \<Rightarrow> 'a option \<times> 'a list" where
  "list_deq xs = (case xs of [] \<Rightarrow> (None, []) | x # ys \<Rightarrow> (Some x, ys))"

lemma fifo_run_append:
  "fifo_run enq deq (xs @ ys) s =
     (let (o1, s1) = fifo_run enq deq xs s; (o2, s2) = fifo_run enq deq ys s1 in (o1 @ o2, s2))"
  by (induction enq deq xs s rule: fifo_run.induct) (simp_all add: Let_def split: prod.splits)

lemma list_enq_cases:
  "list_enq cap x xs = (b, ys) \<longleftrightarrow> b = (length xs < cap) \<and> ys = (if b then xs @ [x] else xs)"
  by (auto simp: list_enq_def)

lemma list_deq_simps [simp]:
  "list_deq [] = (None, [])"
  "list_deq (x # xs) = (Some x, xs)"
  by (simp_all add: list_deq_def)

lemma list_ping_pong:
  "0 < cap \<Longrightarrow> fifo_run (list_enq cap) list_deq (concat (replicate n [Put x, Take])) [] =
     (concat (replicate n [Stored True, Taken (Some x)]), [])"
  by (induction n) (simp_all add: list_enq_def)

locale bounded_fifo =
  fixes invar :: "'s \<Rightarrow> bool"
    and contents :: "'s \<Rightarrow> 'a list"
    and capacity :: "'s \<Rightarrow> nat"
    and headroom :: "'s \<Rightarrow> nat \<Rightarrow> bool"
    and enq :: "'a \<Rightarrow> 's \<Rightarrow> bool \<times> 's"
    and deq :: "'s \<Rightarrow> 'a option \<times> 's"
  assumes contents_bound: "invar s \<Longrightarrow> length (contents s) \<le> capacity s"
    and headroom_mono: "headroom s n \<Longrightarrow> k \<le> n \<Longrightarrow> headroom s k"
    and enq_law: "invar s \<Longrightarrow> headroom s (Suc n) \<Longrightarrow> enq x s = (b, s') \<Longrightarrow>
          invar s' \<and> capacity s' = capacity s \<and> headroom s' n \<and>
          list_enq (capacity s) x (contents s) = (b, contents s')"
    and deq_law: "invar s \<Longrightarrow> headroom s n \<Longrightarrow> deq s = (r, s') \<Longrightarrow>
          invar s' \<and> capacity s' = capacity s \<and> headroom s' n \<and>
          list_deq (contents s) = (r, contents s')"
begin

lemma run_refines:
  assumes "invar s" "headroom s (length ops)" "fifo_run enq deq ops s = (outs, s')"
  shows "invar s' \<and> capacity s' = capacity s \<and>
         fifo_run (list_enq (capacity s)) list_deq ops (contents s) = (outs, contents s')"
  using assms
proof (induction ops arbitrary: s outs s')
  case Nil
  then show ?case by simp
next
  case (Cons a ops)
  show ?case
  proof (cases a)
    case (Put x)
    obtain b s1 where e: "enq x s = (b, s1)" by fastforce
    obtain o1 s2 where r: "fifo_run enq deq ops s1 = (o1, s2)" by fastforce
    note l = enq_law [OF Cons.prems(1) Cons.prems(2) [unfolded length_Cons] e]
    show ?thesis
      using Cons.IH [OF _ _ r] l Cons.prems(3) e r Put by auto
  next
    case Take
    obtain x s1 where e: "deq s = (x, s1)" by fastforce
    obtain o1 s2 where r: "fifo_run enq deq ops s1 = (o1, s2)" by fastforce
    have "headroom s (length ops)" using Cons.prems(2) by (auto intro: headroom_mono)
    note l = deq_law [OF Cons.prems(1) this e]
    show ?thesis
      using Cons.IH [OF _ _ r] l Cons.prems(3) e r Take by auto
  qed
qed

lemma enq_space:
  assumes "invar s" "headroom s (Suc n)" "length (contents s) < capacity s"
  obtains s' where "enq x s = (True, s')" "invar s'" "capacity s' = capacity s" "headroom s' n"
    "contents s' = contents s @ [x]"
proof -
  obtain b s' where e: "enq x s = (b, s')" by fastforce
  show ?thesis
    using that enq_law [OF assms(1,2) e] assms(3) e by (auto simp: list_enq_cases)
qed

lemma deq_nonempty:
  assumes "invar s" "headroom s n" "contents s = x # xs"
  obtains s' where "deq s = (Some x, s')" "invar s'" "capacity s' = capacity s" "headroom s' n"
    "contents s' = xs"
proof -
  obtain r s' where e: "deq s = (r, s')" by fastforce
  show ?thesis
    using that deq_law [OF assms(1,2) e] assms(3) e by auto
qed

end

section \<open>Pools of blocks\<close>

text \<open>
  The executions of an allocator's clients: a client holds the set \<open>L\<close> of the blocks it has
  obtained and not yet returned, and returns only those. The number counts the returns; \<open>c\<close> stands for the arguments of an allocation.
\<close>

inductive pool_reach ::
  "('c \<Rightarrow> 's \<Rightarrow> 'a option \<times> 's) \<Rightarrow> ('a \<Rightarrow> 's \<Rightarrow> bool \<times> 's) \<Rightarrow> 's \<Rightarrow> nat \<Rightarrow> 's \<Rightarrow> 'a set \<Rightarrow> bool"
  for alloc free s0
where
  init: "pool_reach alloc free s0 0 s0 {}"
| take: "pool_reach alloc free s0 n s L \<Longrightarrow> alloc c s = (Some x, s') \<Longrightarrow>
           pool_reach alloc free s0 n s' (insert x L)"
| none: "pool_reach alloc free s0 n s L \<Longrightarrow> alloc c s = (None, s') \<Longrightarrow>
           pool_reach alloc free s0 n s' L"
| give: "pool_reach alloc free s0 n s L \<Longrightarrow> x \<in> L \<Longrightarrow> free x s = (True, s') \<Longrightarrow>
           pool_reach alloc free s0 (Suc n) s' (L - {x})"
| lost: "pool_reach alloc free s0 n s L \<Longrightarrow> x \<in> L \<Longrightarrow> free x s = (False, s') \<Longrightarrow>
           pool_reach alloc free s0 (Suc n) s' L"

locale block_pool =
  fixes pinv :: "'s \<Rightarrow> bool"
    and blocks :: "'s \<Rightarrow> 'a set"
    and avail :: "'s \<Rightarrow> 'a set"
    and room :: "'s \<Rightarrow> nat \<Rightarrow> bool"
    and alloc :: "'c \<Rightarrow> 's \<Rightarrow> 'a option \<times> 's"
    and free :: "'a \<Rightarrow> 's \<Rightarrow> bool \<times> 's"
  assumes avail_blocks: "pinv s \<Longrightarrow> avail s \<subseteq> blocks s"
    and room_mono: "room s n \<Longrightarrow> k \<le> n \<Longrightarrow> room s k"
    and alloc_some: "pinv s \<Longrightarrow> room s n \<Longrightarrow> alloc c s = (Some x, s') \<Longrightarrow>
          x \<in> avail s \<and> avail s' = avail s - {x} \<and> blocks s' = blocks s \<and> pinv s' \<and> room s' n"
    and alloc_none: "pinv s \<Longrightarrow> room s n \<Longrightarrow> alloc c s = (None, s') \<Longrightarrow>
          avail s = {} \<and> avail s' = {} \<and> blocks s' = blocks s \<and> pinv s' \<and> room s' n"
    and free_law: "pinv s \<Longrightarrow> room s (Suc n) \<Longrightarrow> x \<in> blocks s - avail s \<Longrightarrow> free x s = (b, s') \<Longrightarrow>
          b \<and> avail s' = insert x (avail s) \<and> blocks s' = blocks s \<and> pinv s' \<and> room s' n"
begin

lemma reach_invariant:
  assumes "pool_reach alloc free s0 n s L" "pinv s0" "avail s0 = blocks s0" "room s0 (n + k)"
  shows "pinv s \<and> blocks s = blocks s0 \<and> L = blocks s0 - avail s \<and> room s k"
  using assms
proof (induction arbitrary: k rule: pool_reach.induct)
  case init
  then show ?case by simp
next
  case (take n s L c x s')
  then show ?case
    using alloc_some [of s k c x s'] avail_blocks [of s] by blast
next
  case (none n s L c s')
  then show ?case
    using alloc_none [of s k c s'] by blast
next
  case (give n s L x s')
  have i: "pinv s \<and> blocks s = blocks s0 \<and> L = blocks s0 - avail s \<and> room s (Suc k)"
    using give.prems by (intro give.IH) simp_all
  then show ?case
    using give.hyps free_law [of s k x True s'] by blast
next
  case (lost n s L x s')
  have i: "pinv s \<and> blocks s = blocks s0 \<and> L = blocks s0 - avail s \<and> room s (Suc k)"
    using lost.prems by (intro lost.IH) simp_all
  then show ?case
    using lost.hyps free_law [of s k x False s'] by blast
qed

lemma never_handed_out_twice:
  assumes "pool_reach alloc free s0 n s L" "pinv s0" "avail s0 = blocks s0" "room s0 n"
    and "alloc c s = (Some x, s')"
  shows "x \<in> blocks s0 \<and> x \<notin> L"
  using reach_invariant [of s0 n s L 0] alloc_some [of s 0 c x s'] avail_blocks [of s] assms by auto

lemma exhausted_only_when_all_live:
  assumes "pool_reach alloc free s0 n s L" "pinv s0" "avail s0 = blocks s0" "room s0 n"
    and "alloc c s = (None, s')"
  shows "L = blocks s0"
  using reach_invariant [of s0 n s L 0] alloc_none [of s 0 c s'] assms by auto

lemma free_accepted:
  assumes "pool_reach alloc free s0 n s L" "pinv s0" "avail s0 = blocks s0" "room s0 (Suc n)"
    and "x \<in> L" "free x s = (b, s')"
  shows "b"
  using reach_invariant [of s0 n s L 1] free_law [of s 0 x b s'] assms by auto

end

section \<open>Completion tables\<close>

text \<open>
  Where a server posts the completed requests and a client polls for its own: a partial map
  from request identifiers to requests, for a set \<open>A\<close> of identifiers that may be outstanding
  together.
\<close>

datatype ('i, 'p) completion_op = Post 'i 'p | Poll 'i

datatype 'p completion_out = Posted bool | Polled "'p option"

fun completion_run ::
  "('i \<Rightarrow> 'p \<Rightarrow> 's \<Rightarrow> bool \<times> 's) \<Rightarrow> ('i \<Rightarrow> 's \<Rightarrow> 'p option \<times> 's) \<Rightarrow> ('i, 'p) completion_op list \<Rightarrow> 's \<Rightarrow>
   'p completion_out list \<times> 's"
where
  "completion_run post poll [] s = ([], s)"
| "completion_run post poll (Post i p # ops) s =
     (let (b, s1) = post i p s; (outs, s2) = completion_run post poll ops s1
      in (Posted b # outs, s2))"
| "completion_run post poll (Poll i # ops) s =
     (let (r, s1) = poll i s; (outs, s2) = completion_run post poll ops s1
      in (Polled r # outs, s2))"

definition map_post :: "'i \<Rightarrow> 'p \<Rightarrow> ('i \<rightharpoonup> 'p) \<Rightarrow> bool \<times> ('i \<rightharpoonup> 'p)" where
  "map_post i p m = (if m i = None then (True, m(i \<mapsto> p)) else (False, m))"

definition map_poll :: "'i \<Rightarrow> ('i \<rightharpoonup> 'p) \<Rightarrow> 'p option \<times> ('i \<rightharpoonup> 'p)" where
  "map_poll i m = (m i, m(i := None))"

fun op_id :: "('i, 'p) completion_op \<Rightarrow> 'i" where
  "op_id (Post i p) = i"
| "op_id (Poll i) = i"

fun op_ok :: "('p \<Rightarrow> bool) \<Rightarrow> ('i, 'p) completion_op \<Rightarrow> bool" where
  "op_ok good (Post i p) = good p"
| "op_ok good (Poll i) = True"

locale completion_table =
  fixes represents :: "'i set \<Rightarrow> 's \<Rightarrow> ('i \<rightharpoonup> 'p) \<Rightarrow> bool"
    and good :: "'p \<Rightarrow> bool"
    and post :: "'i \<Rightarrow> 'p \<Rightarrow> 's \<Rightarrow> bool \<times> 's"
    and poll :: "'i \<Rightarrow> 's \<Rightarrow> 'p option \<times> 's"
  assumes post_law: "represents A s m \<Longrightarrow> i \<in> A \<Longrightarrow> good p \<Longrightarrow> post i p s = (b, s') \<Longrightarrow>
      map_post i p m = (b, m') \<Longrightarrow> represents A s' m'"
    and post_result: "represents A s m \<Longrightarrow> i \<in> A \<Longrightarrow> good p \<Longrightarrow>
      fst (post i p s) = (m i = None)"
    and poll_law: "represents A s m \<Longrightarrow> i \<in> A \<Longrightarrow> poll i s = (r, s') \<Longrightarrow>
      r = m i \<and> represents A s' (m(i := None))"
begin

lemma run_represents:
  assumes "represents A s m" "\<forall>x\<in>set ops. op_id x \<in> A \<and> op_ok good x"
    and "completion_run post poll ops s = (outs, s')"
  shows "\<exists>m'. completion_run map_post map_poll ops m = (outs, m') \<and> represents A s' m'"
  using assms
proof (induction ops arbitrary: s m outs s')
  case Nil
  then show ?case by simp
next
  case (Cons a ops)
  show ?case
  proof (cases a)
    case (Post i p)
    obtain b s1 where e: "post i p s = (b, s1)" by fastforce
    obtain m1 where m: "map_post i p m = (b, m1)"
      using post_result [of A s m i p] Cons.prems e Post by (auto simp: map_post_def)
    have "represents A s1 m1"
      using post_law [OF Cons.prems(1) _ _ e m] Cons.prems(2) Post by simp
    moreover obtain o1 where "completion_run post poll ops s1 = (o1, s')" "outs = Posted b # o1"
      using Cons.prems(3) Post e by (auto split: prod.splits)
    ultimately show ?thesis
      using Cons.IH [of s1 m1 o1 s'] Cons.prems(2) Post m by auto
  next
    case (Poll i)
    obtain r s1 where e: "poll i s = (r, s1)" by fastforce
    define m1 where "m1 = m(i := None)"
    have "map_poll i m = (r, m1)" "represents A s1 m1"
      using poll_law [OF Cons.prems(1) _ e] Cons.prems(2) Poll
      by (simp_all add: map_poll_def m1_def)
    moreover obtain o1 where "completion_run post poll ops s1 = (o1, s')" "outs = Polled r # o1"
      using Cons.prems(3) Poll e by (auto split: prod.splits)
    ultimately show ?thesis
      using Cons.IH [of s1 m1 o1 s'] Cons.prems(2) Poll by auto
  qed
qed

end

section \<open>Bounded logs\<close>

text \<open>A table that only grows: entries are pushed at the end and read by index.\<close>

fun push_all :: "('e \<Rightarrow> 's \<Rightarrow> bool \<times> 's) \<Rightarrow> 'e list \<Rightarrow> 's \<Rightarrow> bool list \<times> 's" where
  "push_all push [] s = ([], s)"
| "push_all push (x # xs) s =
     (let (b, s1) = push x s; (bs, s2) = push_all push xs s1 in (b # bs, s2))"

locale bounded_log =
  fixes linv :: "'s \<Rightarrow> bool"
    and entries :: "'s \<Rightarrow> 'e list"
    and cap :: "'s \<Rightarrow> nat"
    and push :: "'e \<Rightarrow> 's \<Rightarrow> bool \<times> 's"
    and peek :: "'s \<Rightarrow> nat \<Rightarrow> 'e option"
  assumes entries_bound: "linv s \<Longrightarrow> length (entries s) \<le> cap s"
    and push_law: "linv s \<Longrightarrow> push x s = (b, s') \<Longrightarrow>
          linv s' \<and> cap s' = cap s \<and> list_enq (cap s) x (entries s) = (b, entries s')"
    and peek_law: "linv s \<Longrightarrow> i < 2 ^ 31 \<Longrightarrow>
          peek s i = (if i < length (entries s) then Some (entries s ! i) else None)"
begin

lemma push_all_entries:
  assumes "linv s" "push_all push xs s = (bs, s')"
  shows "linv s' \<and> cap s' = cap s \<and> entries s' = take (cap s) (entries s @ xs) \<and>
         bs = map (\<lambda>i. length (entries s) + i < cap s) [0..<length xs]"
  using assms
proof (induction xs arbitrary: s bs s')
  case Nil
  then show ?case using entries_bound by simp
next
  case (Cons x xs)
  obtain b s1 where p: "push x s = (b, s1)" by fastforce
  obtain bs1 where r: "push_all push xs s1 = (bs1, s')" "bs = b # bs1"
    using Cons.prems(2) p by (auto split: prod.splits)
  note l = push_law [OF Cons.prems(1) p]
  note i = Cons.IH [OF _ r(1)]
  have m: "map f [0..<Suc n] = f 0 # map (\<lambda>i. f (Suc i)) [0..<n]" for f :: "nat \<Rightarrow> bool" and n
    by (simp add: upt_conv_Cons map_Suc_upt [symmetric] del: upt_Suc)
  show ?case
  proof (cases "length (entries s) < cap s")
    case True
    then have "entries s1 = entries s @ [x]" "b" "linv s1" "cap s1 = cap s"
      using l by (simp_all add: list_enq_def)
    then show ?thesis using i r(2) m [of _ "length xs"] True
      by (simp add: take_Cons' del: upt_Suc)
  next
    case False
    then show ?thesis using l i r(2) entries_bound [OF Cons.prems(1)] m [of _ "length xs"]
      by (simp add: list_enq_def del: upt_Suc)
  qed
qed

end

end
