(* ===== verification/Request_Ring.thy ===== *)
theory Request_Ring
  imports Labstor_Interfaces
begin

text \<open>
  The single-producer single-consumer ring of request offsets,
  \<^verbatim>\<open>include/labstor/types/data_structures/c/shmem_request_ring_buffer.h\<close>, as compiled
  (\<^verbatim>\<open>ENABLE_LOCKING\<close> is defined by no build file). The record is the handle of one process
  (the addresses \<open>rr_header\<close> and \<open>rr_queue\<close>) together with the shared memory it points to:
  the three header counters and the cells. The cells are a total function, so that what the
  region held before \<^verbatim>\<open>Init\<close> stays in the model.
\<close>

section \<open>The structure\<close>

record labstor_request_ring_buffer =
  rr_header :: ptr
  rr_queue :: ptr
  rr_enqueued :: u32
  rr_dequeued :: u32
  rr_max_depth :: u32
  rr_cells :: "u32 \<Rightarrow> labstor_off_t"

abbreviation sizeof_SPSC_Header :: nat where
  "sizeof_SPSC_Header \<equiv> 12"

section \<open>Operations\<close>

definition labstor_request_ring_buffer_GetSize_global :: "u32 \<Rightarrow> u32" where
  "labstor_request_ring_buffer_GetSize_global max_depth = of_nat sizeof_SPSC_Header + 4 * max_depth"

definition labstor_request_ring_buffer_GetSize :: "labstor_request_ring_buffer \<Rightarrow> u32" where
  "labstor_request_ring_buffer_GetSize rbuf =
     labstor_request_ring_buffer_GetSize_global (rr_max_depth rbuf)"

definition labstor_request_ring_buffer_GetRegion :: "labstor_request_ring_buffer \<Rightarrow> ptr" where
  "labstor_request_ring_buffer_GetRegion rbuf = rr_header rbuf"

definition labstor_request_ring_buffer_GetNextSection :: "labstor_request_ring_buffer \<Rightarrow> ptr" where
  "labstor_request_ring_buffer_GetNextSection rbuf =
     rr_header rbuf + ucast (labstor_request_ring_buffer_GetSize rbuf)"

definition labstor_request_ring_buffer_GetDepth :: "labstor_request_ring_buffer \<Rightarrow> u32" where
  "labstor_request_ring_buffer_GetDepth rbuf = rr_enqueued rbuf - rr_dequeued rbuf"

definition labstor_request_ring_buffer_GetMaxDepth :: "labstor_request_ring_buffer \<Rightarrow> u32" where
  "labstor_request_ring_buffer_GetMaxDepth rbuf = rr_max_depth rbuf"

text \<open>
  \<^verbatim>\<open>Init\<close> as the kernel build has it: the counters are reset before the size is checked, and a
  region that is too small leaves \<^verbatim>\<open>max_depth_\<close> and \<^verbatim>\<open>queue_\<close> as they were.
\<close>

definition labstor_request_ring_buffer_Init ::
  "labstor_request_ring_buffer \<Rightarrow> ptr \<Rightarrow> u32 \<Rightarrow> u32 \<Rightarrow> bool \<times> labstor_request_ring_buffer"
where
  "labstor_request_ring_buffer_Init rbuf region region_size max_depth =
     (let r = rbuf\<lparr>rr_header := region, rr_enqueued := 0, rr_dequeued := 0\<rparr> in
      if region_size < labstor_request_ring_buffer_GetSize_global max_depth then (False, r)
      else
        let depth = (if max_depth = 0 then (region_size - of_nat sizeof_SPSC_Header) div 4
                     else max_depth) in
        if depth = 0 then (False, r)
        else (True, r\<lparr>rr_max_depth := depth, rr_queue := region + of_nat sizeof_SPSC_Header\<rparr>))"

definition labstor_request_ring_buffer_Attach ::
  "labstor_request_ring_buffer \<Rightarrow> ptr \<Rightarrow> labstor_request_ring_buffer"
where
  "labstor_request_ring_buffer_Attach rbuf region =
     rbuf\<lparr>rr_header := region, rr_queue := region + of_nat sizeof_SPSC_Header\<rparr>"

definition labstor_request_ring_buffer_RemoteAttach ::
  "labstor_request_ring_buffer \<Rightarrow> ptr \<Rightarrow> labstor_request_ring_buffer"
where
  "labstor_request_ring_buffer_RemoteAttach rbuf kern_region =
     rbuf\<lparr>rr_header := kern_region, rr_queue := kern_region + of_nat sizeof_SPSC_Header\<rparr>"

definition labstor_request_ring_buffer_Enqueue ::
  "labstor_request_ring_buffer \<Rightarrow> labstor_off_t \<Rightarrow> u32 option \<times> labstor_request_ring_buffer"
where
  "labstor_request_ring_buffer_Enqueue rbuf data =
     (if rr_enqueued rbuf - rr_dequeued rbuf = rr_max_depth rbuf then (None, rbuf)
      else
        let entry = rr_enqueued rbuf mod rr_max_depth rbuf in
        (Some (rr_enqueued rbuf),
         rbuf\<lparr>rr_cells := (rr_cells rbuf)(entry := data), rr_enqueued := rr_enqueued rbuf + 1\<rparr>))"

definition labstor_request_ring_buffer_Enqueue_simple ::
  "labstor_request_ring_buffer \<Rightarrow> labstor_off_t \<Rightarrow> bool \<times> labstor_request_ring_buffer"
where
  "labstor_request_ring_buffer_Enqueue_simple rbuf data =
     (case labstor_request_ring_buffer_Enqueue rbuf data of (enqueued, r) \<Rightarrow> (enqueued \<noteq> None, r))"

definition labstor_request_ring_buffer_Peek ::
  "labstor_request_ring_buffer \<Rightarrow> i32 \<Rightarrow> labstor_off_t option"
where
  "labstor_request_ring_buffer_Peek rbuf i =
     (if rr_enqueued rbuf = rr_dequeued rbuf then None
      else Some (rr_cells rbuf ((rr_dequeued rbuf + i) mod rr_max_depth rbuf)))"

definition labstor_request_ring_buffer_Dequeue ::
  "labstor_request_ring_buffer \<Rightarrow> labstor_off_t option \<times> labstor_request_ring_buffer"
where
  "labstor_request_ring_buffer_Dequeue rbuf =
     (if rr_enqueued rbuf = rr_dequeued rbuf then (None, rbuf)
      else
        let entry = rr_dequeued rbuf mod rr_max_depth rbuf in
        (Some (rr_cells rbuf entry), rbuf\<lparr>rr_dequeued := rr_dequeued rbuf + 1\<rparr>))"

text \<open>The userspace \<^verbatim>\<open>Init\<close> method, which throws.\<close>

definition request_ring_Init ::
  "labstor_request_ring_buffer \<Rightarrow> ptr \<Rightarrow> u32 \<Rightarrow> u32 \<Rightarrow> labstor_request_ring_buffer result"
where
  "request_ring_Init rbuf region region_size max_depth =
     throw_unless (INVALID_RING_BUFFER_SIZE region_size max_depth)
       (labstor_request_ring_buffer_Init rbuf region region_size max_depth)"

lemmas [labstor_defs] =
  labstor_request_ring_buffer_GetSize_global_def labstor_request_ring_buffer_GetSize_def
  labstor_request_ring_buffer_GetRegion_def labstor_request_ring_buffer_GetNextSection_def
  labstor_request_ring_buffer_GetDepth_def labstor_request_ring_buffer_GetMaxDepth_def
  labstor_request_ring_buffer_Init_def labstor_request_ring_buffer_Attach_def
  labstor_request_ring_buffer_RemoteAttach_def labstor_request_ring_buffer_Enqueue_def
  labstor_request_ring_buffer_Enqueue_simple_def labstor_request_ring_buffer_Peek_def
  labstor_request_ring_buffer_Dequeue_def request_ring_Init_def

section \<open>Abstraction and invariant\<close>

definition rr_depth :: "labstor_request_ring_buffer \<Rightarrow> nat" where
  "rr_depth r = unat (rr_enqueued r - rr_dequeued r)"

definition rr_contents :: "labstor_request_ring_buffer \<Rightarrow> labstor_off_t list" where
  "rr_contents r = ring_contents (rr_cells r) (rr_dequeued r) (rr_depth r) (rr_max_depth r)"

definition rr_capacity :: "labstor_request_ring_buffer \<Rightarrow> nat" where
  "rr_capacity r = unat (rr_max_depth r)"

definition rr_headroom :: "labstor_request_ring_buffer \<Rightarrow> nat \<Rightarrow> bool" where
  "rr_headroom r n = ring_window (rr_dequeued r) (rr_depth r + n) (rr_max_depth r)"

definition rr_inv :: "labstor_request_ring_buffer \<Rightarrow> bool" where
  "rr_inv r \<longleftrightarrow> rr_max_depth r \<noteq> 0 \<and> rr_depth r \<le> rr_capacity r"

lemmas rr_abs_defs = rr_depth_def rr_contents_def rr_capacity_def rr_headroom_def rr_inv_def

lemma rr_not_full:
  "rr_inv r \<Longrightarrow> rr_depth r < rr_capacity r \<longleftrightarrow> rr_enqueued r - rr_dequeued r \<noteq> rr_max_depth r"
  by (auto simp: rr_abs_defs le_less word_unat_eq_iff)

lemma rr_enq_law:
  assumes "rr_inv r" "rr_headroom r (Suc n)"
    and "labstor_request_ring_buffer_Enqueue_simple r x = (b, r')"
  shows "rr_inv r' \<and> rr_capacity r' = rr_capacity r \<and> rr_headroom r' n \<and>
         list_enq (rr_capacity r) x (rr_contents r) = (b, rr_contents r')"
proof (cases "rr_depth r < rr_capacity r")
  case True
  then have r': "b" "r' = r\<lparr>rr_cells := (rr_cells r)(rr_enqueued r mod rr_max_depth r := x),
                      rr_enqueued := rr_enqueued r + 1\<rparr>"
    using assms rr_not_full [OF assms(1)] by (auto simp: labstor_defs Let_def)
  have d: "unat (rr_enqueued r - rr_dequeued r) < unat (rr_max_depth r)"
    using True by (simp add: rr_abs_defs)
  have "rr_depth r' = Suc (rr_depth r)"
    using counter_push [OF d] by (simp add: rr_depth_def r')
  moreover have "rr_contents r' = rr_contents r @ [x]"
    using ring_push [OF d assms(2) [unfolded rr_headroom_def rr_depth_def]]
    by (simp add: rr_contents_def rr_depth_def r')
  ultimately show ?thesis
    using assms(1,2) True r'
    by (auto simp: rr_headroom_def rr_inv_def rr_capacity_def list_enq_def rr_contents_def)
next
  case False
  then have "\<not> b" "r' = r"
    using assms rr_not_full [OF assms(1)] by (auto simp: labstor_defs Let_def)
  then show ?thesis
    using False assms by (auto simp: rr_abs_defs list_enq_def intro: ring_window_mono)
qed

lemma rr_deq_law:
  assumes "rr_inv r" "rr_headroom r n" "labstor_request_ring_buffer_Dequeue r = (v, r')"
  shows "rr_inv r' \<and> rr_capacity r' = rr_capacity r \<and> rr_headroom r' n \<and>
         list_deq (rr_contents r) = (v, rr_contents r')"
proof (cases "rr_enqueued r = rr_dequeued r")
  case True
  then show ?thesis
    using assms by (auto simp: labstor_defs rr_contents_def rr_depth_def)
next
  case False
  then have r': "v = Some (rr_cells r (rr_dequeued r mod rr_max_depth r))"
      "r' = r\<lparr>rr_dequeued := rr_dequeued r + 1\<rparr>"
    using assms by (auto simp: labstor_defs Let_def)
  have d: "rr_depth r = Suc (rr_depth r')"
    using counter_pop [OF False] by (simp add: rr_depth_def r')
  moreover have "rr_contents r = rr_cells r (rr_dequeued r mod rr_max_depth r) # rr_contents r'"
    using ring_pop [OF False] by (simp add: rr_contents_def rr_depth_def r')
  ultimately show ?thesis
    using assms(1,2) r' ring_window_Suc by (auto simp: rr_headroom_def rr_inv_def rr_capacity_def)
qed

abbreviation rr_enq ::
  "labstor_off_t \<Rightarrow> labstor_request_ring_buffer \<Rightarrow> bool \<times> labstor_request_ring_buffer"
where
  "rr_enq \<equiv> \<lambda>x r. labstor_request_ring_buffer_Enqueue_simple r x"

interpretation req_fifo: bounded_fifo rr_inv rr_contents rr_capacity rr_headroom
    rr_enq labstor_request_ring_buffer_Dequeue
proof
  show "length (rr_contents s) \<le> rr_capacity s" if "rr_inv s" for s
    using that by (simp add: rr_inv_def rr_contents_def)
  show "rr_headroom s k" if "rr_headroom s n" "k \<le> n" for s n k
    using that by (auto simp: rr_headroom_def intro: ring_window_mono)
qed (fact rr_enq_law rr_deq_law)+

section \<open>Initialisation, peeking, attaching\<close>

lemma rr_Init_ok:
  assumes "labstor_request_ring_buffer_Init r0 region region_size max_depth = (True, r)"
  shows "rr_inv r" "rr_contents r = []" "rr_dequeued r = 0" "rr_header r = region"
    "rr_queue r = region + 12" "rr_max_depth r \<noteq> 0"
    "rr_max_depth r = (if max_depth = 0 then (region_size - 12) div 4 else max_depth)"
    "labstor_request_ring_buffer_GetSize_global max_depth \<le> region_size"
    "rr_cells r = rr_cells r0" "rr_enqueued r = 0"
  using assms
  by (auto simp: labstor_request_ring_buffer_Init_def Let_def rr_inv_def rr_depth_def
      rr_contents_def split: if_splits)

lemma rr_Init_headroom:
  assumes "labstor_request_ring_buffer_Init r0 region region_size max_depth = (True, r)"
  shows "rr_headroom r n \<longleftrightarrow> unat (rr_max_depth r) dvd 2 ^ 32 \<or> n \<le> 2 ^ 32"
  using rr_Init_ok [OF assms] by (simp add: rr_headroom_def rr_depth_def ring_window_def)

lemma unat_GetSize_global:
  "unat max_depth < 2 ^ 30 - 3 \<Longrightarrow>
     unat (labstor_request_ring_buffer_GetSize_global max_depth) = 12 + 4 * unat max_depth"
  by (simp add: labstor_request_ring_buffer_GetSize_global_def unat_word_ariths)

lemma div4_bound: "unat (w div (4 :: u32)) < 2 ^ 30"
  using unat32_less [of w] by (simp add: unat_div less_mult_imp_div_less)

lemma rr_Init_footprint:
  assumes "labstor_request_ring_buffer_Init r0 region region_size max_depth = (True, r)"
    and "unat max_depth < 2 ^ 30 - 3"
  shows "12 + 4 * unat (rr_max_depth r) \<le> unat region_size"
proof (cases "max_depth = 0")
  case True
  then have "12 \<le> region_size"
    using rr_Init_ok(8) [OF assms(1)] by (simp add: labstor_request_ring_buffer_GetSize_global_def)
  then have "unat (region_size - 12) = unat region_size - 12" "12 \<le> unat region_size"
    by (simp_all add: unat_sub word_le_nat_alt)
  then show ?thesis
    using rr_Init_ok(7) [OF assms(1)] True by (simp add: unat_div)
next
  case False
  then show ?thesis
    using rr_Init_ok(7,8) [OF assms(1)] unat_GetSize_global [OF assms(2)]
    by (simp add: word_le_nat_alt)
qed

lemma rr_Peek_nth:
  "i < rr_depth r \<Longrightarrow>
     labstor_request_ring_buffer_Peek r (of_nat i) = Some (rr_contents r ! i)"
  by (auto simp: labstor_request_ring_buffer_Peek_def rr_contents_def ring_slot_def rr_depth_def)

lemma rr_Peek_Dequeue:
  "labstor_request_ring_buffer_Peek r 0 = fst (labstor_request_ring_buffer_Dequeue r)"
  by (simp add: labstor_defs Let_def)

lemma rr_Enqueue_req_id:
  assumes "labstor_request_ring_buffer_Enqueue r x = (Some i, r')"
  shows "i = rr_enqueued r" "rr_enqueued r' = i + 1" "rr_dequeued r' = rr_dequeued r"
    "rr_max_depth r' = rr_max_depth r"
  using assms by (auto simp: labstor_defs Let_def split: if_splits)

text \<open>
  C2. The request ring is a bounded first-in first-out queue: on a ring that \<^verbatim>\<open>Init\<close> has set
  up, every sequence of \<^verbatim>\<open>Enqueue\<close> and \<^verbatim>\<open>Dequeue\<close> calls returns what the same sequence
  returns on a list with capacity \<^verbatim>\<open>max_depth_\<close>, across the wrap-around of the 32-bit
  counters when the depth is a power of two, and for the first \<open>2 ^ 32\<close> calls otherwise.
\<close>

theorem request_ring_refines_fifo:
  assumes "request_ring_Init r0 region region_size max_depth = Inr r"
    and "unat (rr_max_depth r) dvd 2 ^ 32 \<or> length ops \<le> 2 ^ 32"
    and "fifo_run rr_enq
           labstor_request_ring_buffer_Dequeue ops r = (outs, r')"
  shows "fifo_run (list_enq (unat (rr_max_depth r))) list_deq ops [] = (outs, rr_contents r')"
proof -
  have i: "labstor_request_ring_buffer_Init r0 region region_size max_depth = (True, r)"
    using assms(1) by (simp add: request_ring_Init_def throw_unless_def prod_eq_iff split: if_splits)
  then show ?thesis
    using req_fifo.run_refines [OF rr_Init_ok(1) [OF i] _ assms(3)] rr_Init_headroom [OF i]
      rr_Init_ok(2) [OF i] assms(2) by (simp add: rr_capacity_def)
qed

definition rr_blank :: labstor_request_ring_buffer where
  "rr_blank = \<lparr>rr_header = 0, rr_queue = 0, rr_enqueued = 7, rr_dequeued = 9, rr_max_depth = 5,
     rr_cells = (\<lambda>_. 99)\<rparr>"

theorem request_ring_refines_fifo_witness:
  "let ops = [Put 10, Put 20, Put 30, Take, Put 40, Take, Take, Take];
       r = (case request_ring_Init rr_blank 4096 20 0 of Inr r \<Rightarrow> r | Inl _ \<Rightarrow> rr_blank) in
   request_ring_Init rr_blank 4096 20 0 = Inr r \<and> unat (rr_max_depth r) dvd 2 ^ 32 \<and>
   fst (fifo_run rr_enq
           labstor_request_ring_buffer_Dequeue ops r) =
   fst (fifo_run (list_enq 2) list_deq ops [])"
proof -
  let ?r = "case request_ring_Init rr_blank 4096 20 0 of Inr r \<Rightarrow> r | Inl _ \<Rightarrow> rr_blank"
  let ?ops = "[Put 10, Put 20, Put 30, Take, Put 40, Take, Take, Take]"
  have i: "request_ring_Init rr_blank 4096 20 0 = Inr ?r" "rr_max_depth ?r = 2"
    by (simp_all add: labstor_defs rr_blank_def)
  obtain outs r' where r: "fifo_run rr_enq
      labstor_request_ring_buffer_Dequeue ?ops ?r = (outs, r')" by fastforce
  show ?thesis
    using request_ring_refines_fifo [OF i(1) _ r] i r by simp
qed

section \<open>A depth that is not a power of two\<close>

lemma rr_ping_pong:
  assumes "rr_max_depth r \<noteq> 0" "rr_enqueued r = rr_dequeued r"
  shows "\<exists>c. fifo_run rr_enq labstor_request_ring_buffer_Dequeue
           (concat (replicate n [Put x, Take])) r =
         (concat (replicate n [Stored True, Taken (Some x)]),
          r\<lparr>rr_cells := c, rr_enqueued := rr_enqueued r + of_nat n,
            rr_dequeued := rr_dequeued r + of_nat n\<rparr>)"
  using assms
proof (induction n arbitrary: r)
  case 0
  then show ?case by (auto intro!: exI [of _ "rr_cells r"])
next
  case (Suc n)
  let ?e = "rr_dequeued r" and ?c = "(rr_cells r)(rr_dequeued r mod rr_max_depth r := x)"
  let ?r1 = "r\<lparr>rr_cells := ?c, rr_enqueued := ?e + 1\<rparr>"
  let ?r = "?r1\<lparr>rr_dequeued := ?e + 1\<rparr>"
  have "labstor_request_ring_buffer_Enqueue_simple r x = (True, ?r1)"
    "labstor_request_ring_buffer_Dequeue ?r1 = (Some x, ?r)"
    using Suc.prems by (simp_all add: labstor_defs Let_def)
  moreover obtain c where "fifo_run rr_enq labstor_request_ring_buffer_Dequeue
      (concat (replicate n [Put x, Take])) ?r =
      (concat (replicate n [Stored True, Taken (Some x)]),
       ?r\<lparr>rr_cells := c, rr_enqueued := ?e + 1 + of_nat n, rr_dequeued := ?e + 1 + of_nat n\<rparr>)"
    using Suc.IH [of ?r] Suc.prems by auto
  ultimately show ?case
    using Suc.prems by (auto simp: algebra_simps)
qed

text \<open>
  C38. The condition on the depth is necessary: on a ring of depth three, which \<^verbatim>\<open>Init\<close>
  accepts, there is a sequence of calls after which the ring is no longer a queue. When
  \<^verbatim>\<open>enqueued_\<close> wraps to zero, the next element is written over one that is still queued.
\<close>

theorem request_ring_wrap_loses_element:
  "\<exists>r ops. request_ring_Init rr_blank 4096 24 0 = Inr r \<and> rr_max_depth r = 3 \<and>
     fst (fifo_run rr_enq
            labstor_request_ring_buffer_Dequeue ops r) \<noteq>
     fst (fifo_run (list_enq 3) list_deq ops [])"
proof -
  obtain r where r: "request_ring_Init rr_blank 4096 24 0 = Inr r" "rr_max_depth r = 3"
      "rr_enqueued r = 0" "rr_dequeued r = 0"
    by (simp add: labstor_defs rr_blank_def)
  let ?pre = "concat (replicate 4294967295 [Put 0, Take])"
  let ?outs = "concat (replicate 4294967295 [Stored True, Taken (Some 0)])"
  obtain c where "fifo_run rr_enq labstor_request_ring_buffer_Dequeue ?pre r =
      (?outs, r\<lparr>rr_cells := c, rr_enqueued := 4294967295, rr_dequeued := 4294967295\<rparr>)"
    using rr_ping_pong [of r 4294967295 0] r by auto
  then have "fst (fifo_run rr_enq labstor_request_ring_buffer_Dequeue
      (?pre @ [Put 1, Put 2, Take]) r) = ?outs @ [Stored True, Stored True, Taken (Some 2)]"
    using r by (simp add: fifo_run_append labstor_defs)
  moreover have "fst (fifo_run (list_enq 3) list_deq (?pre @ [Put 1, Put 2, Take]) []) =
      ?outs @ [Stored True, Stored True, Taken (Some (1 :: labstor_off_t))]"
    by (simp add: fifo_run_append list_ping_pong list_enq_def)
  ultimately show ?thesis
    using r by (intro exI [of _ r] exI [of _ "?pre @ [Put 1, Put 2, Take]"]) simp
qed

end
