(* ===== verification/Busy_Wait.thy ===== *)
theory Busy_Wait
  imports Labstor_Prelude
begin

text \<open>
  The spin loops and locks of \<^verbatim>\<open>include/labstor/constants/busy_wait.h\<close> (in the builds that do
  not define \<^verbatim>\<open>LABSTOR_YIELD_SPINWAIT\<close>, which is all of them), the timer of
  \<^verbatim>\<open>include/labstor/userspace/util/timer.h\<close> and the lock of
  \<^verbatim>\<open>include/labstor/userspace/types/shmem_spinlock.h\<close>.

  The body of a loop takes the number of the attempt, so that it can first apply what the rest
  of the system did since the attempt before (\<open>interleave env body\<close>). Loops that may spin for
  ever have fuel: \<open>None\<close> is a loop that is still spinning.
\<close>

section \<open>Spinning\<close>

fun inf_spinwait :: "nat \<Rightarrow> (nat \<Rightarrow> 's \<Rightarrow> 'r option \<times> 's) \<Rightarrow> nat \<Rightarrow> 's \<Rightarrow> ('r \<times> 's) option" where
  "inf_spinwait 0 body k s = None"
| "inf_spinwait (Suc fuel) body k s =
     (case body k s of (Some r, s') \<Rightarrow> Some (r, s')
      | (None, s') \<Rightarrow> inf_spinwait fuel body (Suc k) s')"

definition interleave :: "(nat \<Rightarrow> 's \<Rightarrow> 's) \<Rightarrow> ('s \<Rightarrow> 'r option \<times> 's) \<Rightarrow> nat \<Rightarrow> 's \<Rightarrow> 'r option \<times> 's" where
  "interleave env body k s = body (env k s)"

text \<open>\<^verbatim>\<open>LABSTOR_SIMPLE_SPINWAIT\<close>: a bounded number of attempts.\<close>

fun simple_spinwait :: "nat \<Rightarrow> (nat \<Rightarrow> 's \<Rightarrow> 'r option \<times> 's) \<Rightarrow> nat \<Rightarrow> 's \<Rightarrow> 'r option \<times> 's" where
  "simple_spinwait 0 body k s = (None, s)"
| "simple_spinwait (Suc n) body k s =
     (case body k s of (Some r, s') \<Rightarrow> (Some r, s')
      | (None, s') \<Rightarrow> simple_spinwait n body (Suc k) s')"

abbreviation MAX_YIELDS :: nat where "MAX_YIELDS \<equiv> 1000"
abbreviation MAX_SPINS :: nat where "MAX_SPINS \<equiv> 100000000"

section \<open>The timer\<close>

text \<open>
  Times are whole nanoseconds; the doubles of the code hold them exactly below \<open>2 ^ 53\<close>. The
  clock reading is an argument.
\<close>

record labstor_timer =
  tm_start :: nat
  tm_time_ns :: nat

definition Timer_Resume :: "nat \<Rightarrow> labstor_timer \<Rightarrow> labstor_timer" where
  "Timer_Resume now t = t\<lparr>tm_start := now\<rparr>"

definition Timer_GetNsecFromStart :: "nat \<Rightarrow> labstor_timer \<Rightarrow> nat" where
  "Timer_GetNsecFromStart now t = now - tm_start t"

definition Timer_Pause :: "nat \<Rightarrow> labstor_timer \<Rightarrow> labstor_timer" where
  "Timer_Pause now t = t\<lparr>tm_time_ns := tm_time_ns t + Timer_GetNsecFromStart now t\<rparr>"

definition Timer_Reset :: "labstor_timer \<Rightarrow> labstor_timer" where
  "Timer_Reset t = t\<lparr>tm_time_ns := 0\<rparr>"

text \<open>\<^verbatim>\<open>GetMsec() > max_ms\<close>, where \<^verbatim>\<open>GetMsec\<close> is the quotient as a double.\<close>

definition Timer_expired :: "u32 \<Rightarrow> labstor_timer \<Rightarrow> bool" where
  "Timer_expired max_ms t \<longleftrightarrow> tm_time_ns t > unat max_ms * 1000000"

text \<open>
  \<^verbatim>\<open>LABSTOR_TIMED_SPINWAIT\<close>: rounds of attempts; the end of the first round starts the timer,
  the end of every later round pauses it and compares. The clock is read once per round. The
  result \<open>None\<close> inside is the time-out.
\<close>

fun timed_spinwait ::
  "nat \<Rightarrow> (nat \<Rightarrow> 's \<Rightarrow> 'r option \<times> 's) \<Rightarrow> (nat \<Rightarrow> nat) \<Rightarrow> u32 \<Rightarrow> nat \<Rightarrow> labstor_timer \<Rightarrow> 's \<Rightarrow>
   ('r option \<times> 's) option"
where
  "timed_spinwait 0 body clock max_ms j tm s = None"
| "timed_spinwait (Suc fuel) body clock max_ms j tm s =
     (case simple_spinwait (MAX_YIELDS * MAX_SPINS) body (j * (MAX_YIELDS * MAX_SPINS)) s of
        (Some r, s') \<Rightarrow> Some (Some r, s')
      | (None, s') \<Rightarrow>
          if j = 0 then timed_spinwait fuel body clock max_ms 1 (Timer_Resume (clock 0) tm) s'
          else
            let tm' = Timer_Pause (clock j) tm in
            if Timer_expired max_ms tm' then Some (None, s')
            else timed_spinwait fuel body clock max_ms (Suc j) tm' s')"

section \<open>Locks\<close>

text \<open>
  \<^verbatim>\<open>__atomic_compare_exchange_n\<close>: whether it succeeded, the new value of the memory, and the
  new value of the variable that holds the expected value.
\<close>

definition compare_exchange :: "'a \<Rightarrow> 'a \<Rightarrow> 'a \<Rightarrow> bool \<times> 'a \<times> 'a" where
  "compare_exchange mem expected desired =
     (if mem = expected then (True, desired, expected) else (False, mem, mem))"

definition LABSTOR_INF_LOCK_TRYLOCK :: "u16 \<Rightarrow> bool \<times> u16" where
  "LABSTOR_INF_LOCK_TRYLOCK lock =
     (case compare_exchange lock 0 1 of (ok, lock', _) \<Rightarrow> (ok, lock'))"

lemma trylock_simps [simp]:
  "LABSTOR_INF_LOCK_TRYLOCK 0 = (True, 1)"
  "lock \<noteq> 0 \<Longrightarrow> LABSTOR_INF_LOCK_TRYLOCK lock = (False, lock)"
  by (simp_all add: LABSTOR_INF_LOCK_TRYLOCK_def compare_exchange_def)

definition trylock_body :: "u16 \<Rightarrow> unit option \<times> u16" where
  "trylock_body lock = (case LABSTOR_INF_LOCK_TRYLOCK lock of
     (True, lock') \<Rightarrow> (Some (), lock') | (False, lock') \<Rightarrow> (None, lock'))"

definition LABSTOR_INF_LOCK_ACQUIRE :: "nat \<Rightarrow> (nat \<Rightarrow> u16 \<Rightarrow> u16) \<Rightarrow> u16 \<Rightarrow> (unit \<times> u16) option" where
  "LABSTOR_INF_LOCK_ACQUIRE fuel env lock = inf_spinwait fuel (interleave env trylock_body) 0 lock"

definition LABSTOR_SPINLOCK_RELEASE :: "u16 \<Rightarrow> u16" where
  "LABSTOR_SPINLOCK_RELEASE lock = 0"

text \<open>
  \<^verbatim>\<open>LABSTOR_TIMED_LOCK_ACQUIRE\<close>: the \<^verbatim>\<open>break\<close> after a successful try-lock leaves the innermost
  of the three nested loops only. \<open>timed_lock_yields\<close> is the loop over yields around it.
\<close>

fun timed_lock_yields :: "nat \<Rightarrow> u16 \<Rightarrow> u16" where
  "timed_lock_yields 0 lock = lock"
| "timed_lock_yields (Suc n) lock =
     timed_lock_yields n (snd (simple_spinwait MAX_SPINS (\<lambda>_. trylock_body) 0 lock))"

fun LABSTOR_TIMED_LOCK_ACQUIRE ::
  "nat \<Rightarrow> (nat \<Rightarrow> nat) \<Rightarrow> u32 \<Rightarrow> nat \<Rightarrow> labstor_timer \<Rightarrow> u16 \<Rightarrow> (bool \<times> u16) option"
where
  "LABSTOR_TIMED_LOCK_ACQUIRE 0 clock max_ms j tm lock = None"
| "LABSTOR_TIMED_LOCK_ACQUIRE (Suc fuel) clock max_ms j tm lock =
     (let lock' = timed_lock_yields MAX_YIELDS lock in
      if j = 0 then LABSTOR_TIMED_LOCK_ACQUIRE fuel clock max_ms 1 (Timer_Resume (clock 0) tm) lock'
      else
        let tm' = Timer_Pause (clock j) tm; timed_out = Timer_expired max_ms tm' in
        if timed_out then Some (timed_out, lock')
        else LABSTOR_TIMED_LOCK_ACQUIRE fuel clock max_ms (Suc j) tm' lock')"

section \<open>The spin lock of the userspace library\<close>

record spin_lock_header =
  sl_lock :: u32
  sl_max_time_ms :: u32
  sl_timestamp :: u64

definition SpinLock_Init :: "u32 \<Rightarrow> spin_lock_header" where
  "SpinLock_Init max_time_ms = \<lparr>sl_lock = 0, sl_max_time_ms = 0, sl_timestamp = 0\<rparr>"

text \<open>
  The \<^verbatim>\<open>while\<close> loop of \<^verbatim>\<open>Lock\<close>: the local variables \<open>is_unlocked\<close> and \<open>lock\<close> are passed by
  address as the expected values, so a failed exchange overwrites them. \<open>clock k\<close> is what
  \<^verbatim>\<open>get_time_ms\<close> returns at its \<open>k\<close>-th call.
\<close>

fun SpinLock_Lock_loop ::
  "nat \<Rightarrow> (nat \<Rightarrow> u64) \<Rightarrow> nat \<Rightarrow> u32 \<Rightarrow> u32 \<Rightarrow> spin_lock_header \<Rightarrow> (nat \<times> spin_lock_header) option"
where
  "SpinLock_Lock_loop 0 clock k is_unlocked lock h = None"
| "SpinLock_Lock_loop (Suc fuel) clock k is_unlocked lock h =
     (case compare_exchange (sl_lock h) is_unlocked lock of
        (True, m, _) \<Rightarrow> Some (k, h\<lparr>sl_lock := m\<rparr>)
      | (False, m, is_unlocked') \<Rightarrow>
          if clock k - sl_timestamp h > ucast (sl_max_time_ms h) then
            case compare_exchange m lock is_unlocked' of (_, m', lock') \<Rightarrow>
              SpinLock_Lock_loop fuel clock (Suc k) is_unlocked' lock' (h\<lparr>sl_lock := m'\<rparr>)
          else SpinLock_Lock_loop fuel clock (Suc k) is_unlocked' lock (h\<lparr>sl_lock := m\<rparr>))"

definition SpinLock_Lock :: "nat \<Rightarrow> (nat \<Rightarrow> u64) \<Rightarrow> spin_lock_header \<Rightarrow> spin_lock_header option" where
  "SpinLock_Lock fuel clock h =
     map_option (\<lambda>(k, h'). h'\<lparr>sl_timestamp := clock k\<rparr>) (SpinLock_Lock_loop fuel clock 0 0 1 h)"

definition SpinLock_UnLock :: "spin_lock_header \<Rightarrow> spin_lock_header" where
  "SpinLock_UnLock h = h\<lparr>sl_lock := 0\<rparr>"

section \<open>Laws of the loops\<close>

lemma inf_spinwait_first:
  "body k s = (Some r, s') \<Longrightarrow> inf_spinwait (Suc fuel) body k s = Some (r, s')"
  by simp

lemma inf_spinwait_mono:
  "inf_spinwait fuel body k s = Some v \<Longrightarrow> fuel \<le> fuel' \<Longrightarrow> inf_spinwait fuel' body k s = Some v"
proof (induction fuel arbitrary: k s fuel')
  case (Suc fuel)
  then obtain f where "fuel' = Suc f" "fuel \<le> f" by (cases fuel') auto
  then show ?case using Suc by (auto split: prod.splits option.splits)
qed simp

lemma inf_spinwait_stuck:
  assumes "\<And>j. body j s = (None, s)"
  shows "inf_spinwait fuel body k s = None"
  by (induction fuel arbitrary: k) (simp_all add: assms)

lemma inf_spinwait_eventually:
  assumes "\<And>j. j < n \<Longrightarrow> body (k + j) s = (None, s)" "body (k + n) s = (Some r, s')"
  shows "inf_spinwait (Suc n) body k s = Some (r, s')"
  using assms
proof (induction n arbitrary: k)
  case 0
  then show ?case by simp
next
  case (Suc n)
  have "body k s = (None, s)" using Suc.prems(1) [of 0] by simp
  moreover have "inf_spinwait (Suc n) body (Suc k) s = Some (r, s')"
    using Suc.prems(1) [of "Suc _"] Suc.prems(2) by (intro Suc.IH) auto
  ultimately show ?case by simp
qed

lemma simple_spinwait_first:
  "0 < n \<Longrightarrow> body k s = (Some r, s') \<Longrightarrow> simple_spinwait n body k s = (Some r, s')"
  by (cases n) simp_all

lemma simple_spinwait_stuck:
  "(\<And>j. body j s = (None, s)) \<Longrightarrow> simple_spinwait n body k s = (None, s)"
  by (induction n arbitrary: k) simp_all

lemma trylock_body_simps [simp]:
  "trylock_body 0 = (Some (), 1)"
  "lock \<noteq> 0 \<Longrightarrow> trylock_body lock = (None, lock)"
  by (simp_all add: trylock_body_def)

lemma timed_lock_yields_held: "timed_lock_yields n 1 = 1"
  by (induction n) (simp_all add: simple_spinwait_stuck)

lemma timed_lock_yields_free: "0 < n \<Longrightarrow> timed_lock_yields n 0 = 1"
  by (cases n) (simp_all add: simple_spinwait_first timed_lock_yields_held)

lemma timed_lock_held_result:
  "LABSTOR_TIMED_LOCK_ACQUIRE fuel clock max_ms j tm 1 = None \<or>
   LABSTOR_TIMED_LOCK_ACQUIRE fuel clock max_ms j tm 1 = Some (True, 1)"
  by (induction fuel arbitrary: j tm) (simp_all add: timed_lock_yields_held Let_def)

section \<open>Properties of the locks\<close>

text \<open>
  The blocking acquisition of a lock is live: if the holder releases the lock before
  attempt \<open>n\<close> and nobody takes it in between, the loop ends with the lock held by the caller,
  for every amount of fuel above \<open>n\<close>; while the lock stays taken it never ends.
\<close>

theorem inf_lock_acquire_live:
  assumes "\<And>j. j < n \<Longrightarrow> env j lock = lock" "env n lock = 0" "lock \<noteq> 0" "n < fuel"
  shows "LABSTOR_INF_LOCK_ACQUIRE fuel env lock = Some ((), 1) \<and>
         LABSTOR_INF_LOCK_ACQUIRE n env lock = None"
proof -
  have "inf_spinwait (Suc n) (interleave env trylock_body) 0 lock = Some ((), 1)"
    by (rule inf_spinwait_eventually) (use assms in \<open>auto simp: interleave_def\<close>)
  from inf_spinwait_mono [OF this, of fuel]
  have "inf_spinwait fuel (interleave env trylock_body) 0 lock = Some ((), 1)"
    using assms(4) by simp
  moreover have "inf_spinwait m (interleave env trylock_body) (n - m) lock = None" if "m \<le> n" for m
    using that
  proof (induction m)
    case (Suc m)
    then show ?case
      using assms(1) [of "n - Suc m"] assms(3) by (simp add: interleave_def Suc_diff_Suc)
  qed simp
  from this [of n] have "inf_spinwait n (interleave env trylock_body) 0 lock = None" by simp
  ultimately show ?thesis
    unfolding LABSTOR_INF_LOCK_ACQUIRE_def by simp
qed

theorem inf_lock_acquire_live_witness:
  "LABSTOR_INF_LOCK_ACQUIRE 4 (\<lambda>j l. if j = 3 then 0 else l) 1 = Some ((), 1)"
  using inf_lock_acquire_live [of 3 "\<lambda>j l. if j = 3 then 0 else l" 1 4] by simp

text \<open>
  The timed acquisition is of no use: its \<^verbatim>\<open>break\<close> leaves only the innermost loop, so the
  macro ends by timing out whether it took a free lock or found the lock taken, and the two
  cases cannot be told apart from its result.
\<close>

theorem timed_lock_acquire_always_times_out:
  "LABSTOR_TIMED_LOCK_ACQUIRE fuel clock max_ms 0 tm 0 =
     LABSTOR_TIMED_LOCK_ACQUIRE fuel clock max_ms 0 tm 1 \<and>
   LABSTOR_TIMED_LOCK_ACQUIRE fuel clock max_ms 0 tm 0 \<in> {None, Some (True, 1)}"
proof -
  have "LABSTOR_TIMED_LOCK_ACQUIRE fuel clock max_ms 0 tm 0 =
     LABSTOR_TIMED_LOCK_ACQUIRE fuel clock max_ms 0 tm 1"
    by (cases fuel) (simp_all add: timed_lock_yields_held timed_lock_yields_free)
  then show ?thesis
    using timed_lock_held_result [of fuel clock max_ms 0 tm] by simp
qed

text \<open>
  The spin lock of the userspace library does not exclude: the failed exchange stores the
  value 1 in the variable that holds the expected value, so a second \<^verbatim>\<open>Lock\<close> of a held lock
  returns in its second iteration, whatever the clock says.
\<close>

theorem SpinLock_held_lock_is_acquired_again:
  "\<exists>h h'. SpinLock_Lock 1 clock (SpinLock_Init max_ms) = Some h \<and> sl_lock h = 1 \<and>
     SpinLock_Lock 2 clock' h = Some h' \<and> sl_lock h' = 1"
  by (simp add: SpinLock_Lock_def SpinLock_Init_def compare_exchange_def numeral_2_eq_2)

text \<open>
  Pausing the timer again without resuming it counts the same interval twice: after two
  pauses the timer holds both distances to the same start, so a timed wait gives up early.
\<close>

theorem Timer_Pause_counts_twice:
  assumes "t0 \<le> t1" "t1 \<le> t2"
  shows "tm_time_ns (Timer_Pause t2 (Timer_Pause t1 (Timer_Resume t0 tm))) =
         tm_time_ns tm + (t2 - t0) + (t1 - t0)"
  using assms by (simp add: Timer_Pause_def Timer_Resume_def Timer_GetNsecFromStart_def)

theorem Timer_Pause_counts_twice_witness:
  "Timer_expired 1 (Timer_Pause 600000 (Timer_Pause 500000 (Timer_Resume 0 \<lparr>tm_start = 0, tm_time_ns = 0\<rparr>)))"
  using Timer_Pause_counts_twice [of 0 500000 600000 "\<lparr>tm_start = 0, tm_time_ns = 0\<rparr>"]
  by (simp add: Timer_expired_def)

end
