(* ===== verification/Mpmc_Ring.thy ===== *)
theory Mpmc_Ring
  imports Labstor_Interfaces Busy_Wait
begin

text \<open>
  The ring buffer with an enqueue lock and a dequeue lock,
  \<^verbatim>\<open>include/labstor/types/data_structures/shmem_ring_buffer.h\<close>, on the try-lock of the theory
  \<open>Busy_Wait\<close>. The element type is a type variable, its
  size the parameter \<open>sizeof_T\<close>. The structure has a virtual table pointer and two pointers, so
  \<^verbatim>\<open>sizeof(struct ring_buffer)\<close>, which the code uses for the header, is 24; the header itself
  takes 16 bytes.
\<close>

section \<open>The structure\<close>

record 'a ring_buffer =
  rb_header :: ptr
  rb_queue :: ptr
  rb_enqueued :: u32
  rb_dequeued :: u32
  rb_e_lock :: u16
  rb_d_lock :: u16
  rb_max_depth :: u32
  rb_cells :: "u32 \<Rightarrow> 'a"

abbreviation sizeof_ring_buffer :: u32 where
  "sizeof_ring_buffer \<equiv> 24"

abbreviation sizeof_ring_buffer_header :: ptr where
  "sizeof_ring_buffer_header \<equiv> 16"

section \<open>Operations\<close>

definition ring_buffer_GetSize :: "u32 \<Rightarrow> u32 \<Rightarrow> u32" where
  "ring_buffer_GetSize sizeof_T max_depth = sizeof_ring_buffer + sizeof_T * max_depth"

definition ring_buffer_GetNextSection :: "u32 \<Rightarrow> 'a ring_buffer \<Rightarrow> ptr" where
  "ring_buffer_GetNextSection sizeof_T rb =
     rb_header rb + ucast (ring_buffer_GetSize sizeof_T (rb_max_depth rb))"

definition ring_buffer_GetDepth :: "'a ring_buffer \<Rightarrow> u32" where
  "ring_buffer_GetDepth rb =
     (let enqueued = rb_enqueued rb; dequeued = rb_dequeued rb in
      if enqueued < dequeued then 0 else enqueued - dequeued)"

definition ring_buffer_GetMaxDepth :: "'a ring_buffer \<Rightarrow> u32" where
  "ring_buffer_GetMaxDepth rb = rb_max_depth rb"

definition ring_buffer_Init ::
  "u32 \<Rightarrow> 'a ring_buffer \<Rightarrow> ptr \<Rightarrow> u32 \<Rightarrow> u32 \<Rightarrow> 'a ring_buffer result"
where
  "ring_buffer_Init sizeof_T rb region region_size max_depth =
     (let r = rb\<lparr>rb_header := region, rb_enqueued := 0, rb_dequeued := 0,
                 rb_e_lock := 0, rb_d_lock := 0\<rparr> in
      if region_size < ring_buffer_GetSize sizeof_T max_depth
      then Inl (INVALID_RING_BUFFER_SIZE region_size max_depth)
      else
        let depth = (if max_depth = 0 then (region_size - sizeof_ring_buffer) div sizeof_T
                     else max_depth) in
        if depth = 0 then Inl (INVALID_RING_BUFFER_SIZE region_size depth)
        else Inr (r\<lparr>rb_max_depth := depth, rb_queue := region + sizeof_ring_buffer_header\<rparr>))"

definition ring_buffer_Attach :: "'a ring_buffer \<Rightarrow> ptr \<Rightarrow> 'a ring_buffer" where
  "ring_buffer_Attach rb region =
     rb\<lparr>rb_header := region, rb_queue := region + sizeof_ring_buffer_header\<rparr>"

definition ring_buffer_Enqueue :: "'a ring_buffer \<Rightarrow> 'a \<Rightarrow> u32 option \<times> 'a ring_buffer" where
  "ring_buffer_Enqueue rb data =
     (case LABSTOR_INF_LOCK_TRYLOCK (rb_e_lock rb) of
        (False, _) \<Rightarrow> (None, rb)
      | (True, lk) \<Rightarrow>
          let rb = rb\<lparr>rb_e_lock := lk\<rparr>; enqueued = rb_enqueued rb; dequeued = rb_dequeued rb in
          if enqueued - dequeued \<ge> rb_max_depth rb then (None, rb\<lparr>rb_e_lock := 0\<rparr>)
          else
            let entry = enqueued mod rb_max_depth rb in
            (Some enqueued,
             rb\<lparr>rb_cells := (rb_cells rb)(entry := data), rb_enqueued := rb_enqueued rb + 1,
                rb_e_lock := 0\<rparr>))"

definition ring_buffer_Enqueue_simple :: "'a ring_buffer \<Rightarrow> 'a \<Rightarrow> bool \<times> 'a ring_buffer" where
  "ring_buffer_Enqueue_simple rb data =
     (case ring_buffer_Enqueue rb data of (enqueued, r) \<Rightarrow> (enqueued \<noteq> None, r))"

definition ring_buffer_Dequeue :: "'a ring_buffer \<Rightarrow> 'a option \<times> 'a ring_buffer" where
  "ring_buffer_Dequeue rb =
     (case LABSTOR_INF_LOCK_TRYLOCK (rb_d_lock rb) of
        (False, _) \<Rightarrow> (None, rb)
      | (True, lk) \<Rightarrow>
          let rb = rb\<lparr>rb_d_lock := lk\<rparr>; enqueued = rb_enqueued rb; dequeued = rb_dequeued rb;
              entry = dequeued mod rb_max_depth rb in
          if enqueued - dequeued = 0 then (None, rb\<lparr>rb_d_lock := 0\<rparr>)
          else
            (Some (rb_cells rb entry),
             rb\<lparr>rb_dequeued := rb_dequeued rb + 1, rb_d_lock := 0\<rparr>))"

text \<open>Queue plugging: a client may hold either lock across calls.\<close>

definition ring_buffer_TryEnqueueLock :: "'a ring_buffer \<Rightarrow> bool \<times> 'a ring_buffer" where
  "ring_buffer_TryEnqueueLock rb =
     (case LABSTOR_INF_LOCK_TRYLOCK (rb_e_lock rb) of (b, lk) \<Rightarrow> (b, rb\<lparr>rb_e_lock := lk\<rparr>))"

definition ring_buffer_TryDequeueLock :: "'a ring_buffer \<Rightarrow> bool \<times> 'a ring_buffer" where
  "ring_buffer_TryDequeueLock rb =
     (case LABSTOR_INF_LOCK_TRYLOCK (rb_d_lock rb) of (b, lk) \<Rightarrow> (b, rb\<lparr>rb_d_lock := lk\<rparr>))"

definition ring_buffer_ReleaseEnqueueLock :: "'a ring_buffer \<Rightarrow> 'a ring_buffer" where
  "ring_buffer_ReleaseEnqueueLock rb = rb\<lparr>rb_e_lock := 0\<rparr>"

definition ring_buffer_ReleaseDequeueLock :: "'a ring_buffer \<Rightarrow> 'a ring_buffer" where
  "ring_buffer_ReleaseDequeueLock rb = rb\<lparr>rb_d_lock := 0\<rparr>"

text \<open>The blocking acquisitions wait for the lock; \<open>env\<close> is what others do to it meanwhile.\<close>

definition ring_buffer_AcquireEnqueueLock ::
  "nat \<Rightarrow> (nat \<Rightarrow> u16 \<Rightarrow> u16) \<Rightarrow> 'a ring_buffer \<Rightarrow> 'a ring_buffer option"
where
  "ring_buffer_AcquireEnqueueLock fuel env rb =
     map_option (\<lambda>(_, lk). rb\<lparr>rb_e_lock := lk\<rparr>) (LABSTOR_INF_LOCK_ACQUIRE fuel env (rb_e_lock rb))"

definition ring_buffer_AcquireDequeueLock ::
  "nat \<Rightarrow> (nat \<Rightarrow> u16 \<Rightarrow> u16) \<Rightarrow> 'a ring_buffer \<Rightarrow> 'a ring_buffer option"
where
  "ring_buffer_AcquireDequeueLock fuel env rb =
     map_option (\<lambda>(_, lk). rb\<lparr>rb_d_lock := lk\<rparr>) (LABSTOR_INF_LOCK_ACQUIRE fuel env (rb_d_lock rb))"

text \<open>The result of the timed acquisitions is true when they time out.\<close>

definition ring_buffer_AcquireTimedEnqueueLock ::
  "nat \<Rightarrow> (nat \<Rightarrow> nat) \<Rightarrow> u32 \<Rightarrow> 'a ring_buffer \<Rightarrow> (bool \<times> 'a ring_buffer) option"
where
  "ring_buffer_AcquireTimedEnqueueLock fuel clock max_ms rb =
     map_option (\<lambda>(timed_out, lk). (timed_out, rb\<lparr>rb_e_lock := lk\<rparr>))
       (LABSTOR_TIMED_LOCK_ACQUIRE fuel clock max_ms 0 \<lparr>tm_start = 0, tm_time_ns = 0\<rparr> (rb_e_lock rb))"

definition ring_buffer_AcquireTimedDequeueLock ::
  "nat \<Rightarrow> (nat \<Rightarrow> nat) \<Rightarrow> u32 \<Rightarrow> 'a ring_buffer \<Rightarrow> (bool \<times> 'a ring_buffer) option"
where
  "ring_buffer_AcquireTimedDequeueLock fuel clock max_ms rb =
     map_option (\<lambda>(timed_out, lk). (timed_out, rb\<lparr>rb_d_lock := lk\<rparr>))
       (LABSTOR_TIMED_LOCK_ACQUIRE fuel clock max_ms 0 \<lparr>tm_start = 0, tm_time_ns = 0\<rparr> (rb_d_lock rb))"

lemmas [labstor_defs] =
  ring_buffer_GetSize_def ring_buffer_GetNextSection_def
  ring_buffer_GetDepth_def ring_buffer_GetMaxDepth_def ring_buffer_Init_def
  ring_buffer_Attach_def ring_buffer_Enqueue_def ring_buffer_Enqueue_simple_def
  ring_buffer_Dequeue_def ring_buffer_TryEnqueueLock_def ring_buffer_TryDequeueLock_def
  ring_buffer_ReleaseEnqueueLock_def ring_buffer_ReleaseDequeueLock_def

section \<open>Abstraction and invariant\<close>

definition rb_depth :: "'a ring_buffer \<Rightarrow> nat" where
  "rb_depth r = unat (rb_enqueued r - rb_dequeued r)"

definition rb_contents :: "'a ring_buffer \<Rightarrow> 'a list" where
  "rb_contents r = ring_contents (rb_cells r) (rb_dequeued r) (rb_depth r) (rb_max_depth r)"

definition rb_capacity :: "'a ring_buffer \<Rightarrow> nat" where
  "rb_capacity r = unat (rb_max_depth r)"

definition rb_headroom :: "'a ring_buffer \<Rightarrow> nat \<Rightarrow> bool" where
  "rb_headroom r n = ring_window (rb_dequeued r) (rb_depth r + n) (rb_max_depth r)"

definition rb_inv :: "'a ring_buffer \<Rightarrow> bool" where
  "rb_inv r \<longleftrightarrow> rb_max_depth r \<noteq> 0 \<and> rb_depth r \<le> rb_capacity r \<and> rb_e_lock r = 0 \<and> rb_d_lock r = 0"

lemmas rb_abs_defs = rb_depth_def rb_contents_def rb_capacity_def rb_headroom_def rb_inv_def

abbreviation rb_enq :: "'a \<Rightarrow> 'a ring_buffer \<Rightarrow> bool \<times> 'a ring_buffer" where
  "rb_enq \<equiv> \<lambda>x r. ring_buffer_Enqueue_simple r x"

lemma rb_enqueue_eq:
  assumes "rb_inv r"
  shows "ring_buffer_Enqueue r x =
    (if rb_depth r < rb_capacity r
     then (Some (rb_enqueued r),
           r\<lparr>rb_cells := (rb_cells r)(rb_enqueued r mod rb_max_depth r := x),
             rb_enqueued := rb_enqueued r + 1\<rparr>)
     else (None, r))"
  using assms by (auto simp: labstor_defs rb_abs_defs Let_def word_le_nat_alt)

lemma rb_dequeue_eq:
  assumes "rb_inv r"
  shows "ring_buffer_Dequeue r =
    (if rb_enqueued r = rb_dequeued r then (None, r)
     else (Some (rb_cells r (rb_dequeued r mod rb_max_depth r)),
           r\<lparr>rb_dequeued := rb_dequeued r + 1\<rparr>))"
  using assms by (auto simp: labstor_defs rb_abs_defs Let_def)

lemma rb_enq_law:
  assumes "rb_inv r" "rb_headroom r (Suc n)" "ring_buffer_Enqueue_simple r x = (b, r')"
  shows "rb_inv r' \<and> rb_capacity r' = rb_capacity r \<and> rb_headroom r' n \<and>
         list_enq (rb_capacity r) x (rb_contents r) = (b, rb_contents r')"
proof (cases "rb_depth r < rb_capacity r")
  case True
  then have r': "b" "r' = r\<lparr>rb_cells := (rb_cells r)(rb_enqueued r mod rb_max_depth r := x),
                      rb_enqueued := rb_enqueued r + 1\<rparr>"
    using assms(3) by (auto simp: ring_buffer_Enqueue_simple_def rb_enqueue_eq [OF assms(1)])
  have d: "unat (rb_enqueued r - rb_dequeued r) < unat (rb_max_depth r)"
    using True by (simp add: rb_abs_defs)
  have "rb_depth r' = Suc (rb_depth r)"
    using counter_push [OF d] by (simp add: rb_depth_def r')
  moreover have "rb_contents r' = rb_contents r @ [x]"
    using ring_push [OF d assms(2) [unfolded rb_headroom_def rb_depth_def]]
    by (simp add: rb_contents_def rb_depth_def r')
  ultimately show ?thesis
    using assms(1,2) True r'
    by (auto simp: rb_headroom_def rb_inv_def rb_capacity_def list_enq_def rb_contents_def)
next
  case False
  then have "\<not> b" "r' = r"
    using assms(3) by (auto simp: ring_buffer_Enqueue_simple_def rb_enqueue_eq [OF assms(1)])
  then show ?thesis
    using False assms by (auto simp: rb_abs_defs list_enq_def intro: ring_window_mono)
qed

lemma rb_deq_law:
  assumes "rb_inv r" "rb_headroom r n" "ring_buffer_Dequeue r = (v, r')"
  shows "rb_inv r' \<and> rb_capacity r' = rb_capacity r \<and> rb_headroom r' n \<and>
         list_deq (rb_contents r) = (v, rb_contents r')"
proof (cases "rb_enqueued r = rb_dequeued r")
  case True
  then show ?thesis
    using assms by (auto simp: rb_dequeue_eq rb_contents_def rb_depth_def)
next
  case False
  then have r': "v = Some (rb_cells r (rb_dequeued r mod rb_max_depth r))"
      "r' = r\<lparr>rb_dequeued := rb_dequeued r + 1\<rparr>"
    using assms(3) by (auto simp: rb_dequeue_eq [OF assms(1)])
  have d: "rb_depth r = Suc (rb_depth r')"
    using counter_pop [OF False] by (simp add: rb_depth_def r')
  moreover have "rb_contents r = rb_cells r (rb_dequeued r mod rb_max_depth r) # rb_contents r'"
    using ring_pop [OF False] by (simp add: rb_contents_def rb_depth_def r')
  ultimately show ?thesis
    using assms(1,2) r' ring_window_Suc by (auto simp: rb_headroom_def rb_inv_def rb_capacity_def)
qed

interpretation mpmc_fifo: bounded_fifo rb_inv rb_contents rb_capacity rb_headroom
    rb_enq ring_buffer_Dequeue
proof
  show "length (rb_contents s) \<le> rb_capacity s" if "rb_inv s" for s :: "'a ring_buffer"
    using that by (simp add: rb_inv_def rb_contents_def)
  show "rb_headroom s k" if "rb_headroom s n" "k \<le> n" for s :: "'a ring_buffer" and n k
    using that by (auto simp: rb_headroom_def intro: ring_window_mono)
qed (fact rb_enq_law rb_deq_law)+

section \<open>Initialisation\<close>

lemma rb_Init_ok:
  assumes "ring_buffer_Init sizeof_T r0 region region_size max_depth = Inr r"
  shows "rb_inv r" "rb_contents r = []" "rb_dequeued r = 0" "rb_header r = region"
    "rb_max_depth r = (if max_depth = 0 then (region_size - 24) div sizeof_T else max_depth)"
    "ring_buffer_GetSize sizeof_T max_depth \<le> region_size" "rb_enqueued r = 0"
  using assms
  by (auto simp: ring_buffer_Init_def Let_def rb_inv_def rb_depth_def rb_contents_def
      split: if_splits)

lemma rb_Init_headroom:
  assumes "ring_buffer_Init sizeof_T r0 region region_size max_depth = Inr r"
  shows "rb_headroom r n \<longleftrightarrow> unat (rb_max_depth r) dvd 2 ^ 32 \<or> n \<le> 2 ^ 32"
  using rb_Init_ok [OF assms] by (simp add: rb_headroom_def rb_depth_def ring_window_def)

lemma rb_GetDepth_no_wrap:
  "rb_dequeued r \<le> rb_enqueued r \<Longrightarrow> unat (ring_buffer_GetDepth r) = length (rb_contents r)"
  by (simp add: ring_buffer_GetDepth_def rb_contents_def rb_depth_def Let_def leD)

lemma rb_GetDepth_wrapped:
  "rb_enqueued r < rb_dequeued r \<Longrightarrow> ring_buffer_GetDepth r = 0"
  by (simp add: ring_buffer_GetDepth_def)

section \<open>Plugging\<close>

text \<open>While a client holds the enqueue lock nothing is added, and releasing it lets the queue go on.\<close>

lemma plugged_enqueue:
  assumes "ring_buffer_TryEnqueueLock r = (True, r1)"
  shows "ring_buffer_Enqueue_simple r1 x = (False, r1)" "ring_buffer_ReleaseEnqueueLock r1 = r"
proof -
  have "rb_e_lock r = 0"
    using assms by (cases "rb_e_lock r = 0") (auto simp: ring_buffer_TryEnqueueLock_def)
  then show "ring_buffer_Enqueue_simple r1 x = (False, r1)" "ring_buffer_ReleaseEnqueueLock r1 = r"
    using assms by (auto simp: labstor_defs)
qed

lemma acquire_free_lock:
  "rb_e_lock r = 0 \<Longrightarrow> ring_buffer_AcquireEnqueueLock (Suc fuel) (\<lambda>_ s. s) r = Some (r\<lparr>rb_e_lock := 1\<rparr>)"
  "rb_d_lock r = 0 \<Longrightarrow> ring_buffer_AcquireDequeueLock (Suc fuel) (\<lambda>_ s. s) r = Some (r\<lparr>rb_d_lock := 1\<rparr>)"
  by (simp_all add: ring_buffer_AcquireEnqueueLock_def ring_buffer_AcquireDequeueLock_def
      LABSTOR_INF_LOCK_ACQUIRE_def interleave_def trylock_body_def)

end
