(* ===== verification/Bitmaps.thy ===== *)
theory Bitmaps
  imports Labstor_Prelude
begin

text \<open>
  The bitmap of \<^verbatim>\<open>include/labstor/types/data_structures/bitmap.h\<close> and the two-bits-per-entry
  map of \<^verbatim>\<open>include/labstor/types/data_structures/bit2map.h\<close>. A map is the function from block
  numbers to 32-bit blocks. The functions here are the calls of one thread with nobody else
  running, where the compare-and-swap of each loop succeeds at the first attempt; the theory
  \<open>Bit2map_Concurrent\<close> has the loops step by step.
\<close>

section \<open>Bits of a block\<close>

lemma nonzero_bit: "(w :: u32) \<noteq> 0 \<longleftrightarrow> (\<exists>n<32. bit w n)"
  using bit_word_eqI [of w 0] by auto

lemma bit32: "bit (w :: u32) n \<Longrightarrow> n < 32"
  by (drule bit_imp_le_length) simp

lemma bit_two: "bit (2 :: u32) k \<longleftrightarrow> k = 1"
  using bit_exp_iff [of 1 k, where 'a = u32] by (auto dest: bit_imp_le_length)

lemma bit_three: "bit (3 :: u32) k \<longleftrightarrow> k = 0 \<or> k = 1"
proof -
  have "(3 :: u32) = 1 OR 2" by simp
  then show ?thesis by (simp only: bit_or_iff bit_two) (auto simp: bit_simps)
qed

lemma bit_push_one: "bit (push_bit n (1 :: u32)) k \<longleftrightarrow> k = n \<and> k < 32"
  by (auto simp: bit_simps)

lemma bit_push_two: "bit (push_bit n (2 :: u32)) k \<longleftrightarrow> k = Suc n \<and> k < 32"
  unfolding bit_push_bit_iff bit_two possible_bit_word by (simp, arith)

lemma bit_push_three: "bit (push_bit n (3 :: u32)) k \<longleftrightarrow> (k = n \<or> k = Suc n) \<and> k < 32"
  unfolding bit_push_bit_iff bit_three possible_bit_word by (simp, arith)

lemmas bit_push = bit_push_one bit_push_two bit_push_three

lemma and_push_one: "(w :: u32) AND push_bit n 1 \<noteq> 0 \<longleftrightarrow> bit w n"
  unfolding nonzero_bit bit_and_iff bit_push using bit32 [of w] by blast

lemma and_push_two: "(w :: u32) AND push_bit n 2 \<noteq> 0 \<longleftrightarrow> bit w (Suc n)"
  unfolding nonzero_bit bit_and_iff bit_push using bit32 [of w] by blast

lemma and_push_three: "(w :: u32) AND push_bit n 3 \<noteq> 0 \<longleftrightarrow> bit w n \<or> bit w (Suc n)"
  unfolding nonzero_bit bit_and_iff bit_push using bit32 [of w] by blast

lemmas and_push = and_push_one and_push_two and_push_three

lemma bit_not32: "bit (NOT (w :: u32)) k \<longleftrightarrow> k < 32 \<and> \<not> bit w k"
  by (simp add: bit_simps)

section \<open>The plain bitmap\<close>

type_synonym labstor_bitmap_t = "u32 \<Rightarrow> u32"

definition LABSTOR_BITMAP_POS :: "u32 \<Rightarrow> u32 \<times> nat" where
  "LABSTOR_BITMAP_POS entry_idx = (entry_idx div 32, unat (entry_idx mod 32))"

definition labstor_bitmap_GetSize :: "i32 \<Rightarrow> u32" where
  "labstor_bitmap_GetSize num_entries =
     (let n = scast num_entries :: u64 in
      if n mod 32 = 0 then ucast (n div 32 * 4) else ucast ((n div 32 + 1) * 4))"

definition labstor_bitmap_Init :: "labstor_bitmap_t \<Rightarrow> u32 \<Rightarrow> labstor_bitmap_t" where
  "labstor_bitmap_Init bitmap num_entries =
     (\<lambda>b. if 4 * unat b < unat (labstor_bitmap_GetSize num_entries) then 0 else bitmap b)"

definition labstor_bitmap_Set :: "labstor_bitmap_t \<Rightarrow> u32 \<Rightarrow> labstor_bitmap_t" where
  "labstor_bitmap_Set bitmap entry_idx =
     (case LABSTOR_BITMAP_POS entry_idx of (entry_block, bit_in_block) \<Rightarrow>
        bitmap(entry_block := bitmap entry_block OR push_bit bit_in_block 1))"

text \<open>The compare-and-swap expects the block just read, and finds it.\<close>

definition labstor_bitmap_TestAndSet :: "labstor_bitmap_t \<Rightarrow> u32 \<Rightarrow> bool \<times> labstor_bitmap_t" where
  "labstor_bitmap_TestAndSet bitmap entry_idx =
     (case LABSTOR_BITMAP_POS entry_idx of (entry_block, bit_in_block) \<Rightarrow>
        let block = bitmap entry_block in
        if bitmap entry_block = block
        then (True, bitmap(entry_block := block OR push_bit bit_in_block 1))
        else (False, bitmap))"

definition labstor_bitmap_Unset :: "labstor_bitmap_t \<Rightarrow> u32 \<Rightarrow> labstor_bitmap_t" where
  "labstor_bitmap_Unset bitmap entry_idx =
     (case LABSTOR_BITMAP_POS entry_idx of (entry_block, bit_in_block) \<Rightarrow>
        bitmap(entry_block := bitmap entry_block AND NOT (push_bit bit_in_block 1)))"

definition labstor_bitmap_IsSet :: "labstor_bitmap_t \<Rightarrow> u32 \<Rightarrow> bool" where
  "labstor_bitmap_IsSet bitmap entry_idx =
     (case LABSTOR_BITMAP_POS entry_idx of (entry_block, bit_in_block) \<Rightarrow>
        bitmap entry_block AND push_bit bit_in_block 1 \<noteq> 0)"

section \<open>The two-bit map\<close>

type_synonym labstor_bit2map_t = "u32 \<Rightarrow> u32"

definition LABSTOR_BIT2MAP_POS :: "u32 \<Rightarrow> u32 \<times> nat" where
  "LABSTOR_BIT2MAP_POS entry_idx = (entry_idx div 16, unat (entry_idx mod 16) * 2)"

definition labstor_bit2map_GetSize :: "i32 \<Rightarrow> u32" where
  "labstor_bit2map_GetSize num_entries =
     (let n = scast num_entries :: u64 in
      if n mod 16 = 0 then ucast (n div 16 * 4) else ucast ((n div 16 + 1) * 4))"

definition labstor_bit2map_GetNextSection :: "ptr \<Rightarrow> u32 \<Rightarrow> ptr" where
  "labstor_bit2map_GetNextSection bitmap num_entries =
     bitmap + ucast (labstor_bit2map_GetSize num_entries)"

definition labstor_bit2map_Init :: "labstor_bit2map_t \<Rightarrow> u32 \<Rightarrow> labstor_bit2map_t" where
  "labstor_bit2map_Init bitmap num_entries =
     (\<lambda>b. if 4 * unat b < unat (labstor_bit2map_GetSize num_entries) then 0 else bitmap b)"

definition labstor_bit2map_Set :: "labstor_bit2map_t \<Rightarrow> u32 \<Rightarrow> u32 \<Rightarrow> labstor_bit2map_t" where
  "labstor_bit2map_Set bitmap entry_idx msk =
     (case LABSTOR_BIT2MAP_POS entry_idx of (entry_block, entry_start) \<Rightarrow>
        bitmap(entry_block := bitmap entry_block OR push_bit entry_start msk))"

definition labstor_bit2map_IsSet :: "labstor_bit2map_t \<Rightarrow> u32 \<Rightarrow> u32 \<Rightarrow> bool" where
  "labstor_bit2map_IsSet bitmap entry_idx msk =
     (case LABSTOR_BIT2MAP_POS entry_idx of (entry_block, entry_start) \<Rightarrow>
        bitmap entry_block AND push_bit entry_start msk \<noteq> 0)"

definition labstor_bit2map_IsValid :: "labstor_bit2map_t \<Rightarrow> u32 \<Rightarrow> bool" where
  "labstor_bit2map_IsValid bitmap entry_idx = labstor_bit2map_IsSet bitmap entry_idx 1"

definition labstor_bit2map_IsBeingSet :: "labstor_bit2map_t \<Rightarrow> u32 \<Rightarrow> bool" where
  "labstor_bit2map_IsBeingSet bitmap entry_idx = labstor_bit2map_IsSet bitmap entry_idx 2"

text \<open>
  Each loop reads a block, may return, and computes the block to write; the three functions
  below are those bodies.
\<close>

definition begin_modify_block :: "nat \<Rightarrow> u32 \<Rightarrow> u32 option" where
  "begin_modify_block entry_start tmp =
     (if tmp AND push_bit entry_start 3 \<noteq> 0 then None else Some (tmp OR push_bit entry_start 2))"

definition commit_modify_block :: "nat \<Rightarrow> u32 \<Rightarrow> u32" where
  "commit_modify_block entry_start tmp =
     (tmp OR push_bit entry_start 1) AND NOT (push_bit entry_start 2)"

definition begin_remove_block :: "nat \<Rightarrow> u32 \<Rightarrow> u32 option" where
  "begin_remove_block entry_start tmp =
     (let block = tmp OR push_bit entry_start 3 in
      if \<not> tmp AND push_bit entry_start 1 \<noteq> 0 \<or> tmp AND push_bit entry_start 2 \<noteq> 0
      then None else Some block)"

definition commit_remove_block :: "nat \<Rightarrow> u32 \<Rightarrow> u32" where
  "commit_remove_block entry_start tmp = tmp AND NOT (push_bit entry_start 3)"

definition labstor_bit2map_BeginModify :: "labstor_bit2map_t \<Rightarrow> u32 \<Rightarrow> bool \<times> labstor_bit2map_t" where
  "labstor_bit2map_BeginModify bitmap entry_idx =
     (case LABSTOR_BIT2MAP_POS entry_idx of (entry_block, entry_start) \<Rightarrow>
        case begin_modify_block entry_start (bitmap entry_block) of
          None \<Rightarrow> (False, bitmap)
        | Some block \<Rightarrow> (True, bitmap(entry_block := block)))"

definition labstor_bit2map_CommitModify :: "labstor_bit2map_t \<Rightarrow> u32 \<Rightarrow> labstor_bit2map_t" where
  "labstor_bit2map_CommitModify bitmap entry_idx =
     (case LABSTOR_BIT2MAP_POS entry_idx of (entry_block, entry_start) \<Rightarrow>
        bitmap(entry_block := commit_modify_block entry_start (bitmap entry_block)))"

definition labstor_bit2map_BeginRemove :: "labstor_bit2map_t \<Rightarrow> u32 \<Rightarrow> bool \<times> labstor_bit2map_t" where
  "labstor_bit2map_BeginRemove bitmap entry_idx =
     (case LABSTOR_BIT2MAP_POS entry_idx of (entry_block, entry_start) \<Rightarrow>
        case begin_remove_block entry_start (bitmap entry_block) of
          None \<Rightarrow> (False, bitmap)
        | Some block \<Rightarrow> (True, bitmap(entry_block := block)))"

definition labstor_bit2map_CommitRemove :: "labstor_bit2map_t \<Rightarrow> u32 \<Rightarrow> labstor_bit2map_t" where
  "labstor_bit2map_CommitRemove bitmap entry_idx =
     (case LABSTOR_BIT2MAP_POS entry_idx of (entry_block, entry_start) \<Rightarrow>
        bitmap(entry_block := commit_remove_block entry_start (bitmap entry_block)))"

definition labstor_bit2map_IgnoreRemove :: "labstor_bit2map_t \<Rightarrow> u32 \<Rightarrow> labstor_bit2map_t" where
  "labstor_bit2map_IgnoreRemove bitmap entry_idx = labstor_bit2map_CommitModify bitmap entry_idx"

definition labstor_bit2map_Unset :: "labstor_bit2map_t \<Rightarrow> u32 \<Rightarrow> u32 \<Rightarrow> labstor_bit2map_t" where
  "labstor_bit2map_Unset bitmap entry_idx msk =
     (case LABSTOR_BIT2MAP_POS entry_idx of (entry_block, entry_start) \<Rightarrow>
        bitmap(entry_block := bitmap entry_block AND NOT (push_bit entry_start msk)))"

section \<open>The state of an entry\<close>

datatype entry_state = Free_Entry | Being_Set | Valid_Entry | Being_Removed

fun entry_of_bits :: "bool \<Rightarrow> bool \<Rightarrow> entry_state" where
  "entry_of_bits False False = Free_Entry"
| "entry_of_bits False True = Being_Set"
| "entry_of_bits True False = Valid_Entry"
| "entry_of_bits True True = Being_Removed"

definition block_entry :: "nat \<Rightarrow> u32 \<Rightarrow> entry_state" where
  "block_entry s w = entry_of_bits (bit w s) (bit w (Suc s))"

definition entry_start :: "u32 \<Rightarrow> nat" where
  "entry_start i = unat (i mod 16) * 2"

definition b2_entry :: "labstor_bit2map_t \<Rightarrow> u32 \<Rightarrow> entry_state" where
  "b2_entry bm i = block_entry (entry_start i) (bm (i div 16))"

lemma pos_eq: "LABSTOR_BIT2MAP_POS i = (i div 16, entry_start i)"
  by (simp add: LABSTOR_BIT2MAP_POS_def entry_start_def)

lemma entry_start_bound: "Suc (entry_start i) < 32"
proof -
  have "unat (i mod 16) < 16" by (simp add: unat_mod)
  then show ?thesis by (simp add: entry_start_def)
qed

lemma entry_start_inj: "i div 16 = j div 16 \<Longrightarrow> entry_start i = entry_start j \<Longrightarrow> i = j"
proof -
  assume "i div 16 = j div 16" "entry_start i = entry_start j"
  then have "unat i div 16 = unat j div 16" "unat i mod 16 = unat j mod 16"
    by (auto simp: entry_start_def word_unat_eq_iff unat_div unat_mod)
  then have "unat i = unat j" by (metis div_mult_mod_eq)
  then show "i = j" by (simp add: word_unat_eq_iff)
qed

lemma entry_start_odd: "entry_start i \<noteq> Suc (entry_start j)"
  unfolding entry_start_def by presburger

lemma entry_of_bits_eq [simp]:
  "entry_of_bits v b = Free_Entry \<longleftrightarrow> \<not> v \<and> \<not> b"
  "entry_of_bits v b = Being_Set \<longleftrightarrow> \<not> v \<and> b"
  "entry_of_bits v b = Valid_Entry \<longleftrightarrow> v \<and> \<not> b"
  "entry_of_bits v b = Being_Removed \<longleftrightarrow> v \<and> b"
  by (cases v; cases b; simp)+

text \<open>Writing two neighbouring bits of one entry leaves every other entry alone.\<close>

lemma b2_entry_frame:
  assumes "\<And>k. k \<noteq> entry_start i \<Longrightarrow> k \<noteq> Suc (entry_start i) \<Longrightarrow> bit w k = bit (bm (i div 16)) k"
    and "j \<noteq> i"
  shows "b2_entry (bm(i div 16 := w)) j = b2_entry bm j"
proof (cases "j div 16 = i div 16")
  case True
  have "entry_start j \<noteq> entry_start i" using entry_start_inj True assms(2) by blast
  then show ?thesis
    using True assms(1) entry_start_odd [of i j] entry_start_odd [of j i]
    by (simp add: b2_entry_def block_entry_def)
qed (simp add: b2_entry_def)

lemma b2_entry_update:
  assumes "\<And>k. k \<noteq> entry_start i \<Longrightarrow> k \<noteq> Suc (entry_start i) \<Longrightarrow> bit w k = bit (bm (i div 16)) k"
  shows "b2_entry (bm(i div 16 := w)) = (b2_entry bm)(i := block_entry (entry_start i) w)"
proof
  fix j
  show "b2_entry (bm(i div 16 := w)) j = ((b2_entry bm)(i := block_entry (entry_start i) w)) j"
    using b2_entry_frame [of i w bm j] assms by (cases "j = i") (auto simp: b2_entry_def)
qed

lemma begin_modify_block_eq:
  "Suc s < 32 \<Longrightarrow> begin_modify_block s w =
     (if block_entry s w = Free_Entry then Some (w OR push_bit s 2) else None)"
  unfolding begin_modify_block_def and_push block_entry_def by simp

lemma begin_remove_block_eq:
  "Suc s < 32 \<Longrightarrow> begin_remove_block s w =
     (if block_entry s w = Valid_Entry then Some (w OR push_bit s 3) else None)"
  unfolding begin_remove_block_def and_push block_entry_def by simp

lemma block_entry_updates:
  assumes "Suc s < 32"
  shows "block_entry s w = Free_Entry \<Longrightarrow> block_entry s (w OR push_bit s 2) = Being_Set"
    "block_entry s w = Valid_Entry \<Longrightarrow> block_entry s (w OR push_bit s 3) = Being_Removed"
    "block_entry s (commit_modify_block s w) = Valid_Entry"
    "block_entry s (commit_remove_block s w) = Free_Entry"
  using assms
  unfolding block_entry_def commit_modify_block_def commit_remove_block_def
    bit_or_iff bit_and_iff bit_not32 bit_push
  by simp_all

lemma block_entry_other_bits:
  assumes "k \<noteq> s" "k \<noteq> Suc s"
  shows "bit (w OR push_bit s 2) k = bit w k" "bit (w OR push_bit s 3) k = bit w k"
    "bit (commit_modify_block s w) k = bit w k" "bit (commit_remove_block s w) k = bit w k"
  using assms bit32 [of w k]
  unfolding commit_modify_block_def commit_remove_block_def bit_or_iff bit_and_iff bit_not32 bit_push
  by auto

lemmas b2_entry_writes =
  b2_entry_update [OF block_entry_other_bits(1)] b2_entry_update [OF block_entry_other_bits(2)]
  b2_entry_update [OF block_entry_other_bits(3)] b2_entry_update [OF block_entry_other_bits(4)]

lemma BeginModify_entry:
  assumes "labstor_bit2map_BeginModify bm i = (b, bm')"
  shows "b \<longleftrightarrow> b2_entry bm i = Free_Entry"
    and "b2_entry bm' = (if b then (b2_entry bm)(i := Being_Set) else b2_entry bm)"
proof -
  have "(b, bm') = (if b2_entry bm i = Free_Entry
      then (True, bm(i div 16 := bm (i div 16) OR push_bit (entry_start i) 2)) else (False, bm))"
    using assms by (simp add: labstor_bit2map_BeginModify_def pos_eq b2_entry_def
        begin_modify_block_eq [OF entry_start_bound] split: if_splits)
  then show "b \<longleftrightarrow> b2_entry bm i = Free_Entry"
    "b2_entry bm' = (if b then (b2_entry bm)(i := Being_Set) else b2_entry bm)"
    using block_entry_updates(1) [OF entry_start_bound, of i "bm (i div 16)"]
    by (simp_all add: b2_entry_writes b2_entry_def [of bm i] split: if_splits)
qed

lemma CommitModify_entry:
  "b2_entry (labstor_bit2map_CommitModify bm i) = (b2_entry bm)(i := Valid_Entry)"
  by (simp add: labstor_bit2map_CommitModify_def pos_eq b2_entry_writes
      block_entry_updates(3) [OF entry_start_bound])

lemma BeginRemove_entry:
  assumes "labstor_bit2map_BeginRemove bm i = (b, bm')"
  shows "b \<longleftrightarrow> b2_entry bm i = Valid_Entry"
    and "b2_entry bm' = (if b then (b2_entry bm)(i := Being_Removed) else b2_entry bm)"
proof -
  have "(b, bm') = (if b2_entry bm i = Valid_Entry
      then (True, bm(i div 16 := bm (i div 16) OR push_bit (entry_start i) 3)) else (False, bm))"
    using assms by (simp add: labstor_bit2map_BeginRemove_def pos_eq b2_entry_def
        begin_remove_block_eq [OF entry_start_bound] split: if_splits)
  then show "b \<longleftrightarrow> b2_entry bm i = Valid_Entry"
    "b2_entry bm' = (if b then (b2_entry bm)(i := Being_Removed) else b2_entry bm)"
    using block_entry_updates(2) [OF entry_start_bound, of i "bm (i div 16)"]
    by (simp_all add: b2_entry_writes b2_entry_def [of bm i] split: if_splits)
qed

lemma CommitRemove_entry:
  "b2_entry (labstor_bit2map_CommitRemove bm i) = (b2_entry bm)(i := Free_Entry)"
  by (simp add: labstor_bit2map_CommitRemove_def pos_eq b2_entry_writes
      block_entry_updates(4) [OF entry_start_bound])

lemma IgnoreRemove_entry:
  "b2_entry (labstor_bit2map_IgnoreRemove bm i) = (b2_entry bm)(i := Valid_Entry)"
  by (simp add: labstor_bit2map_IgnoreRemove_def CommitModify_entry)

lemma IsValid_entry:
  "labstor_bit2map_IsValid bm i \<longleftrightarrow> b2_entry bm i \<in> {Valid_Entry, Being_Removed}"
  unfolding labstor_bit2map_IsValid_def labstor_bit2map_IsSet_def pos_eq prod.case and_push
    b2_entry_def block_entry_def by auto

lemma IsBeingSet_entry:
  "labstor_bit2map_IsBeingSet bm i \<longleftrightarrow> b2_entry bm i \<in> {Being_Set, Being_Removed}"
  unfolding labstor_bit2map_IsBeingSet_def labstor_bit2map_IsSet_def pos_eq prod.case and_push
    b2_entry_def block_entry_def by auto

section \<open>Sizes\<close>

lemma ceil_div16: "(m + 15) div 16 = (if m mod 16 = 0 then m div 16 else m div 16 + 1)" for m :: nat
proof -
  have m: "m div 16 * 16 + m mod 16 = m" by (rule div_mult_mod_eq)
  have "m mod 16 < 16" by simp
  then have "(m + 15) div 16 = m div 16" if "m mod 16 = 0"
    using that m by (intro div_nat_eqI; (unfold mult_Suc_right distrib_left)?; linarith)
  moreover have "(m + 15) div 16 = m div 16 + 1" if "0 < m mod 16"
    using that m \<open>m mod 16 < 16\<close>
    by (intro div_nat_eqI; (unfold mult_Suc_right distrib_left)?; linarith)
  ultimately show ?thesis by (cases "m mod 16 = 0") simp_all
qed

lemma unat_bit2map_GetSize:
  assumes "unat n < 2 ^ 31"
  shows "unat (labstor_bit2map_GetSize n) = 4 * ((unat n + 15) div 16)"
proof -
  let ?n = "ucast n :: u64"
  have n: "unat (?n div 16) = unat n div 16" "unat (?n mod 16) = unat n mod 16"
    by (simp_all add: unat_div unat_mod)
  have b: "unat n div 16 < 2 ^ 27" using assms by (simp add: less_mult_imp_div_less)
  have "unat (?n div 16 * 4) = unat n div 16 * 4"
      "unat ((?n div 16 + 1) * 4) = (unat n div 16 + 1) * 4"
    using b by (simp_all add: unat_word_ariths)
  moreover have "?n mod 16 = 0 \<longleftrightarrow> unat n mod 16 = 0"
    using n(2) unat_eq_zero [of "?n mod 16"] by simp
  ultimately show ?thesis
    using b ceil_div16 [of "unat n"]
    unfolding labstor_bit2map_GetSize_def Let_def scast_nonneg [OF assms]
    by (cases "unat n mod 16 = 0") (simp_all add: unat_narrow)
qed

lemma bit2map_GetSize_covers:
  assumes "unat n < 2 ^ 31" "i < n"
  shows "4 * unat (i div 16) < unat (labstor_bit2map_GetSize n)"
proof -
  have "unat i div 16 + 1 = (unat i + 16) div 16" by simp
  also have "\<dots> \<le> (unat n + 15) div 16"
    using assms(2) by (intro div_le_mono) (simp add: word_less_nat_alt)
  finally show ?thesis unfolding unat_bit2map_GetSize [OF assms(1)] by (simp add: unat_div)
qed

lemma bit2map_Init_free:
  assumes "unat n < 2 ^ 31" "i < n"
  shows "b2_entry (labstor_bit2map_Init bm n) i = Free_Entry"
  using bit2map_GetSize_covers [OF assms]
  by (simp add: b2_entry_def labstor_bit2map_Init_def block_entry_def)

section \<open>Properties\<close>

lemma bitmap_pos_inj: "LABSTOR_BITMAP_POS i = LABSTOR_BITMAP_POS j \<longleftrightarrow> i = j"
proof
  assume "LABSTOR_BITMAP_POS i = LABSTOR_BITMAP_POS j"
  then have "unat i div 32 = unat j div 32" "unat i mod 32 = unat j mod 32"
    by (auto simp: LABSTOR_BITMAP_POS_def word_unat_eq_iff unat_div unat_mod)
  then have "unat i = unat j" by (metis div_mult_mod_eq)
  then show "i = j" by (simp add: word_unat_eq_iff)
qed simp

lemma bitmap_pos_bound: "LABSTOR_BITMAP_POS i = (b, s) \<Longrightarrow> s < 32"
  by (auto simp: LABSTOR_BITMAP_POS_def unat_mod)

lemma bitmap_IsSet_updates:
  "labstor_bitmap_IsSet (labstor_bitmap_Set bm i) j \<longleftrightarrow> j = i \<or> labstor_bitmap_IsSet bm j"
  "labstor_bitmap_IsSet (labstor_bitmap_Unset bm i) j \<longleftrightarrow> j \<noteq> i \<and> labstor_bitmap_IsSet bm j"
proof -
  obtain b s where i: "LABSTOR_BITMAP_POS i = (b, s)" by fastforce
  obtain c t where j: "LABSTOR_BITMAP_POS j = (c, t)" by fastforce
  have e: "j = i \<longleftrightarrow> c = b \<and> t = s" using bitmap_pos_inj [of j i] i j by auto
  have r: "t < 32" using bitmap_pos_bound [OF j] .
  show "labstor_bitmap_IsSet (labstor_bitmap_Set bm i) j \<longleftrightarrow> j = i \<or> labstor_bitmap_IsSet bm j"
    unfolding labstor_bitmap_IsSet_def labstor_bitmap_Set_def i j prod.case and_push e
    using r by (auto simp: bit_or_iff bit_push simp del: push_bit_of_1)
  show "labstor_bitmap_IsSet (labstor_bitmap_Unset bm i) j \<longleftrightarrow> j \<noteq> i \<and> labstor_bitmap_IsSet bm j"
    unfolding labstor_bitmap_IsSet_def labstor_bitmap_Unset_def i j prod.case and_push e
    using r by (auto simp: bit_and_iff bit_not32 bit_push simp del: push_bit_of_1)
qed

text \<open>
  The plain bitmap is a set of entries: \<^verbatim>\<open>Set\<close> adds exactly its entry, \<^verbatim>\<open>Unset\<close> removes
  exactly its entry, for entries of the same block as for entries of different blocks.
\<close>

theorem bitmap_Set_Unset_IsSet:
  "(labstor_bitmap_IsSet (labstor_bitmap_Set bm i) j = (j = i \<or> labstor_bitmap_IsSet bm j)) \<and>
   (labstor_bitmap_IsSet (labstor_bitmap_Unset bm i) j = (j \<noteq> i \<and> labstor_bitmap_IsSet bm j))"
  by (simp add: bitmap_IsSet_updates)

text \<open>
  \<^verbatim>\<open>labstor_bitmap_TestAndSet\<close> does not test: with nobody else running it reports success
  for an entry that was already set, so two callers in a row both believe they set it.
\<close>

theorem bitmap_TestAndSet_succeeds_twice:
  "fst (labstor_bitmap_TestAndSet bm i) \<and>
   fst (labstor_bitmap_TestAndSet (snd (labstor_bitmap_TestAndSet bm i)) i) \<and>
   labstor_bitmap_IsSet (snd (labstor_bitmap_TestAndSet bm i)) i"
  using bitmap_pos_bound [of i]
  by (auto simp: labstor_bitmap_TestAndSet_def labstor_bitmap_IsSet_def and_push bit_or_iff bit_push
      simp del: push_bit_of_1 split: prod.splits)

text \<open>
  C8. The two-bit map gives every entry its own state machine. \<^verbatim>\<open>BeginModify\<close> succeeds exactly
  on a free entry and makes it being-set, \<^verbatim>\<open>CommitModify\<close> makes it valid, \<^verbatim>\<open>BeginRemove\<close>
  succeeds exactly on a valid entry that nobody is changing, \<^verbatim>\<open>CommitRemove\<close> frees it and
  \<^verbatim>\<open>IgnoreRemove\<close> makes it valid again; a failing call changes nothing, and no call changes
  another entry of the map.
\<close>

theorem bit2map_entry_machine:
  "fst (labstor_bit2map_BeginModify bm i) = (b2_entry bm i = Free_Entry) \<and>
   b2_entry (snd (labstor_bit2map_BeginModify bm i)) =
     (if b2_entry bm i = Free_Entry then (b2_entry bm)(i := Being_Set) else b2_entry bm) \<and>
   b2_entry (labstor_bit2map_CommitModify bm i) = (b2_entry bm)(i := Valid_Entry) \<and>
   fst (labstor_bit2map_BeginRemove bm i) = (b2_entry bm i = Valid_Entry) \<and>
   b2_entry (snd (labstor_bit2map_BeginRemove bm i)) =
     (if b2_entry bm i = Valid_Entry then (b2_entry bm)(i := Being_Removed) else b2_entry bm) \<and>
   b2_entry (labstor_bit2map_CommitRemove bm i) = (b2_entry bm)(i := Free_Entry) \<and>
   b2_entry (labstor_bit2map_IgnoreRemove bm i) = (b2_entry bm)(i := Valid_Entry)"
  using BeginModify_entry [of bm i] BeginRemove_entry [of bm i]
  by (cases "labstor_bit2map_BeginModify bm i"; cases "labstor_bit2map_BeginRemove bm i")
    (simp add: CommitModify_entry CommitRemove_entry IgnoreRemove_entry)

end
