(* ===== verification/Bit2map_Concurrent.thy ===== *)
theory Bit2map_Concurrent
  imports Bitmaps
begin

text \<open>
  The compare-and-swap loops of \<^verbatim>\<open>bit2map.h\<close> run by any number of threads, one memory access
  per step and in any interleaving (under sequential consistency). A thread claims an entry
  with \<^verbatim>\<open>BeginModify\<close> or \<^verbatim>\<open>BeginRemove\<close>, and ends its claim with \<^verbatim>\<open>CommitModify\<close>,
  \<^verbatim>\<open>CommitRemove\<close> or \<^verbatim>\<open>IgnoreRemove\<close>, as \<^verbatim>\<open>shmem_unordered_map.h\<close> does.
\<close>

section \<open>Threads\<close>

text \<open>
  \<open>Load\<close> is the position before the read of the block, \<open>Cas\<close> the position before the
  compare-and-swap, with the block that was read.
\<close>

datatype b2_pc =
    Idle
  | Modify_Load u32
  | Modify_Cas u32 u32
  | Modifying u32
  | Commit_Load u32
  | Commit_Cas u32 u32
  | Remove_Load u32
  | Remove_Cas u32 u32
  | Removing u32
  | Ignore_Load u32
  | Ignore_Cas u32 u32

inductive b2_thread :: "labstor_bit2map_t \<Rightarrow> b2_pc \<Rightarrow> labstor_bit2map_t \<Rightarrow> b2_pc \<Rightarrow> bool" where
  modify_call: "b2_thread bm Idle bm (Modify_Load i)"
| modify_refused: "begin_modify_block (entry_start i) (bm (i div 16)) = None \<Longrightarrow>
    b2_thread bm (Modify_Load i) bm Idle"
| modify_load: "begin_modify_block (entry_start i) (bm (i div 16)) = Some block \<Longrightarrow>
    b2_thread bm (Modify_Load i) bm (Modify_Cas i (bm (i div 16)))"
| modify_cas: "bm (i div 16) = tmp \<Longrightarrow> begin_modify_block (entry_start i) tmp = Some block \<Longrightarrow>
    b2_thread bm (Modify_Cas i tmp) (bm(i div 16 := block)) (Modifying i)"
| modify_retry: "bm (i div 16) \<noteq> tmp \<Longrightarrow> b2_thread bm (Modify_Cas i tmp) bm (Modify_Load i)"
| commit_call: "b2_thread bm (Modifying i) bm (Commit_Load i)"
| commit_load: "b2_thread bm (Commit_Load i) bm (Commit_Cas i (bm (i div 16)))"
| commit_cas: "bm (i div 16) = tmp \<Longrightarrow>
    b2_thread bm (Commit_Cas i tmp) (bm(i div 16 := commit_modify_block (entry_start i) tmp)) Idle"
| commit_retry: "bm (i div 16) \<noteq> tmp \<Longrightarrow> b2_thread bm (Commit_Cas i tmp) bm (Commit_Load i)"
| remove_call: "b2_thread bm Idle bm (Remove_Load i)"
| remove_refused: "begin_remove_block (entry_start i) (bm (i div 16)) = None \<Longrightarrow>
    b2_thread bm (Remove_Load i) bm Idle"
| remove_load: "begin_remove_block (entry_start i) (bm (i div 16)) = Some block \<Longrightarrow>
    b2_thread bm (Remove_Load i) bm (Remove_Cas i (bm (i div 16)))"
| remove_cas: "bm (i div 16) = tmp \<Longrightarrow> begin_remove_block (entry_start i) tmp = Some block \<Longrightarrow>
    b2_thread bm (Remove_Cas i tmp) (bm(i div 16 := block)) (Removing i)"
| remove_retry: "bm (i div 16) \<noteq> tmp \<Longrightarrow> b2_thread bm (Remove_Cas i tmp) bm (Remove_Load i)"
| remove_commit: "b2_thread bm (Removing i)
    (bm(i div 16 := commit_remove_block (entry_start i) (bm (i div 16)))) Idle"
| ignore_call: "b2_thread bm (Removing i) bm (Ignore_Load i)"
| ignore_load: "b2_thread bm (Ignore_Load i) bm (Ignore_Cas i (bm (i div 16)))"
| ignore_cas: "bm (i div 16) = tmp \<Longrightarrow>
    b2_thread bm (Ignore_Cas i tmp) (bm(i div 16 := commit_modify_block (entry_start i) tmp)) Idle"
| ignore_retry: "bm (i div 16) \<noteq> tmp \<Longrightarrow> b2_thread bm (Ignore_Cas i tmp) bm (Ignore_Load i)"

inductive b2_reach :: "labstor_bit2map_t \<Rightarrow> labstor_bit2map_t \<Rightarrow> ('t \<Rightarrow> b2_pc) \<Rightarrow> bool" for bm0 where
  start: "b2_reach bm0 bm0 (\<lambda>_. Idle)"
| step: "b2_reach bm0 bm P \<Longrightarrow> b2_thread bm (P t) bm' pc \<Longrightarrow> b2_reach bm0 bm' (P(t := pc))"

section \<open>Ownership\<close>

text \<open>The entry a thread has claimed, and the state the claim gives the entry.\<close>

fun claim :: "b2_pc \<Rightarrow> (u32 \<times> entry_state) option" where
  "claim (Modifying i) = Some (i, Being_Set)"
| "claim (Commit_Load i) = Some (i, Being_Set)"
| "claim (Commit_Cas i _) = Some (i, Being_Set)"
| "claim (Removing i) = Some (i, Being_Removed)"
| "claim (Ignore_Load i) = Some (i, Being_Removed)"
| "claim (Ignore_Cas i _) = Some (i, Being_Removed)"
| "claim _ = None"

abbreviation busy :: "entry_state set" where
  "busy \<equiv> {Being_Set, Being_Removed}"

definition b2_owned :: "(u32 \<Rightarrow> entry_state) \<Rightarrow> ('t \<Rightarrow> b2_pc) \<Rightarrow> bool" where
  "b2_owned e P \<longleftrightarrow>
     (\<forall>i. \<forall>s\<in>busy. e i = s \<longleftrightarrow> (\<exists>t. claim (P t) = Some (i, s))) \<and>
     (\<forall>t u i s s'. claim (P t) = Some (i, s) \<and> claim (P u) = Some (i, s') \<longrightarrow> t = u)"

lemma claim_busy: "claim p = Some (i, s) \<Longrightarrow> s \<in> busy"
  by (cases p) auto

text \<open>A step keeps the entries and its claim, or starts a claim, or ends one.\<close>

lemma b2_thread_effect:
  assumes "b2_thread bm p bm' q"
  obtains "claim q = claim p" "b2_entry bm' = b2_entry bm"
  | i s where "s \<in> busy" "b2_entry bm i \<notin> busy" "claim p = None" "claim q = Some (i, s)"
      "b2_entry bm' = (b2_entry bm)(i := s)"
  | i s s' where "s' \<notin> busy" "claim p = Some (i, s)" "claim q = None"
      "b2_entry bm' = (b2_entry bm)(i := s')"
  using assms
proof cases
  case (modify_cas i tmp block)
  then have "labstor_bit2map_BeginModify bm i = (True, bm')"
    by (simp add: labstor_bit2map_BeginModify_def pos_eq)
  from BeginModify_entry [OF this] show ?thesis
    using that(2) [of Being_Set i] modify_cas by simp
next
  case (commit_cas i tmp)
  then have "bm' = labstor_bit2map_CommitModify bm i"
    by (simp add: labstor_bit2map_CommitModify_def pos_eq)
  then show ?thesis
    using that(3) [of Valid_Entry i] commit_cas CommitModify_entry by simp
next
  case (remove_cas i tmp block)
  then have "labstor_bit2map_BeginRemove bm i = (True, bm')"
    by (simp add: labstor_bit2map_BeginRemove_def pos_eq)
  from BeginRemove_entry [OF this] show ?thesis
    using that(2) [of Being_Removed i] remove_cas by simp
next
  case (remove_commit i)
  then have "bm' = labstor_bit2map_CommitRemove bm i"
    by (simp add: labstor_bit2map_CommitRemove_def pos_eq)
  then show ?thesis
    using that(3) [of Free_Entry i] remove_commit CommitRemove_entry by simp
next
  case (ignore_cas i tmp)
  then have "bm' = labstor_bit2map_CommitModify bm i"
    by (simp add: labstor_bit2map_CommitModify_def pos_eq)
  then show ?thesis
    using that(3) [of Valid_Entry i] ignore_cas CommitModify_entry by simp
qed (use that(1) in simp_all)

lemma b2_owned_start:
  "\<forall>i. e i \<notin> busy \<Longrightarrow> b2_owned e (\<lambda>_. Idle)"
  by (auto simp: b2_owned_def)

lemma b2_owned_claim:
  assumes o: "b2_owned e P" and "s \<in> busy" "e i \<notin> busy" "claim (P t) = None" "claim q = Some (i, s)"
  shows "b2_owned (e(i := s)) (P(t := q))"
proof -
  have "claim (P u) \<noteq> Some (i, s')" for u s'
    using o assms(3) claim_busy [of "P u" i s'] unfolding b2_owned_def by blast
  then show ?thesis
    using o assms(2-) unfolding b2_owned_def
    by (intro conjI allI ballI) (auto simp: fun_upd_def split: if_splits,
      (metis option.distinct(1) option.inject prod.inject)+)
qed

lemma b2_owned_release:
  assumes o: "b2_owned e P" and "s' \<notin> busy" "claim (P t) = Some (i, s)" "claim q = None"
  shows "b2_owned (e(i := s')) (P(t := q))"
proof -
  have "claim (P u) \<noteq> Some (i, s'')" if "u \<noteq> t" for u s''
    using o assms(3) that unfolding b2_owned_def by blast
  then show ?thesis
    using o assms(2-) unfolding b2_owned_def
    by (intro conjI allI ballI) (auto simp: fun_upd_def split: if_splits,
      (metis option.distinct(1) option.inject prod.inject)+)
qed

lemma b2_reach_owned:
  assumes "b2_reach bm0 bm P" "\<forall>i. b2_entry bm0 i \<notin> busy"
  shows "b2_owned (b2_entry bm) P"
  using assms
proof (induction rule: b2_reach.induct)
  case start
  then show ?case by (rule b2_owned_start)
next
  case (step bm P t bm' pc)
  then have o: "b2_owned (b2_entry bm) P" by blast
  from step.hyps(2) show ?case
  proof (cases rule: b2_thread_effect)
    case 1
    then have "(\<lambda>u. claim ((P(t := pc)) u)) = (\<lambda>u. claim (P u))" by auto
    then show ?thesis using o 1 unfolding b2_owned_def by metis
  next
    case (2 i s)
    show ?thesis unfolding 2(5) by (rule b2_owned_claim [OF o 2(1-4)])
  next
    case (3 i s s')
    show ?thesis unfolding 3(4) by (rule b2_owned_release [OF o 3(1-3)])
  qed
qed

text \<open>
  C4. Claims on entries of the two-bit map are exclusive in every interleaving of any number
  of threads: an entry is being set, or being removed, exactly when some thread is between the
  call that claimed it and the end of the call that gives it back, and there is never a second
  such thread.
\<close>

theorem bit2map_exclusive_claims:
  assumes "b2_reach bm0 bm P" and "\<forall>i. b2_entry bm0 i \<in> {Free_Entry, Valid_Entry}"
  shows "(b2_entry bm i = Being_Set) = (\<exists>t. claim (P t) = Some (i, Being_Set)) \<and>
    (b2_entry bm i = Being_Removed) = (\<exists>t. claim (P t) = Some (i, Being_Removed)) \<and>
    (claim (P t) = Some (i, s) \<and> claim (P u) = Some (i, s') \<longrightarrow> t = u)"
proof -
  have "b2_entry bm0 j \<notin> busy" for j
    using assms(2) [THEN spec, of j] by auto
  then have "b2_owned (b2_entry bm) P"
    using b2_reach_owned [OF assms(1)] by blast
  then show ?thesis unfolding b2_owned_def by auto
qed

text \<open>
  Two threads race for entry 3: both have loaded the block, the first swaps, the second fails
  its swap, reloads and is refused.
\<close>

definition race_start :: labstor_bit2map_t where
  "race_start = (\<lambda>_. 0)"

definition race_won :: labstor_bit2map_t where
  "race_won = race_start(0 := 128)"

lemma race_reach:
  "b2_reach race_start race_won ((\<lambda>_. Idle)(0 := Modifying 3, 1 := Modify_Load 3) :: nat \<Rightarrow> b2_pc)"
proof -
  let ?P = "\<lambda>p q. (\<lambda>_. Idle)(0 := p, 1 := q) :: nat \<Rightarrow> b2_pc"
  have s: "entry_start 3 = 6" by (simp add: entry_start_def)
  have b: "begin_modify_block 6 0 = Some 128" by (simp add: begin_modify_block_def)
  have "b2_reach race_start race_start (?P Idle Idle)"
    using b2_reach.start [of race_start] by (simp add: fun_upd_idem)
  from b2_reach.step [OF this, of 0, simplified, OF modify_call [of _ 3]]
  have "b2_reach race_start race_start (?P (Modify_Load 3) Idle)" by (simp add: fun_upd_twist)
  from b2_reach.step [OF this, of 1, simplified, OF modify_call [of _ 3]]
  have "b2_reach race_start race_start (?P (Modify_Load 3) (Modify_Load 3))" by simp
  from b2_reach.step [OF this, of 0, simplified, OF modify_load [of 3 _ 128]]
  have "b2_reach race_start race_start (?P (Modify_Cas 3 0) (Modify_Load 3))"
    by (simp add: fun_upd_twist s b race_start_def)
  from b2_reach.step [OF this, of 1, simplified, OF modify_load [of 3 _ 128]]
  have "b2_reach race_start race_start (?P (Modify_Cas 3 0) (Modify_Cas 3 0))"
    by (simp add: s b race_start_def)
  from b2_reach.step [OF this, of 0, simplified, OF modify_cas [of _ 3 0 128]]
  have "b2_reach race_start race_won (?P (Modifying 3) (Modify_Cas 3 0))"
    by (simp add: fun_upd_twist s b race_start_def race_won_def)
  from b2_reach.step [OF this, of 1, simplified, OF modify_retry [of _ 3 0]]
  show ?thesis by (simp add: race_won_def)
qed

theorem bit2map_exclusive_claims_witness:
  "b2_entry race_won 3 = Being_Set"
proof -
  have "\<forall>i. b2_entry race_start i \<in> {Free_Entry, Valid_Entry}"
    by (simp add: race_start_def b2_entry_def block_entry_def)
  from bit2map_exclusive_claims [OF race_reach this, of 3] show ?thesis
    by (metis claim.simps(1) fun_upd_def zero_neq_one)
qed

end
