(* ===== verification/Requests.thy ===== *)
theory Requests
  imports Labstor_Prelude
begin

text \<open>
  Requests, queue identifiers and queue tokens: \<^verbatim>\<open>shmem_request.h\<close>, \<^verbatim>\<open>shmem_qtok.h\<close>, the
  flags of \<^verbatim>\<open>c/shmem_queue_pair.h\<close> and the choice of a queue in \<^verbatim>\<open>queue_pair.h\<close> (all under
  \<^verbatim>\<open>include/labstor/types/data_structures\<close>). Requests live in a heap indexed by their address.
\<close>

section \<open>Requests\<close>

abbreviation (input) LABSTOR_REQUEST_SUCCESS :: u32 where "LABSTOR_REQUEST_SUCCESS \<equiv> 0"
abbreviation (input) LABSTOR_REQUEST_FAILED :: u32 where "LABSTOR_REQUEST_FAILED \<equiv> - 1000"

record labstor_request =
  rq_req_id :: u32
  rq_ns_id :: u32
  rq_code :: u32
  rq_op :: u16

type_synonym request_heap = "ptr \<Rightarrow> labstor_request"

definition labstor_request_Start :: "labstor_request \<Rightarrow> u32 \<Rightarrow> u32 \<Rightarrow> u16 \<Rightarrow> u32 \<Rightarrow> labstor_request" where
  "labstor_request_Start rq req_id ns_id opc code =
     rq\<lparr>rq_req_id := req_id, rq_ns_id := ns_id, rq_op := opc, rq_code := code\<rparr>"

definition labstor_request_SetCode :: "labstor_request \<Rightarrow> u32 \<Rightarrow> labstor_request" where
  "labstor_request_SetCode rq code = rq\<lparr>rq_code := code\<rparr>"

text \<open>\<^verbatim>\<open>SetOp\<close> takes 32 bits and stores 16.\<close>

definition labstor_request_SetOp :: "labstor_request \<Rightarrow> u32 \<Rightarrow> labstor_request" where
  "labstor_request_SetOp rq opc = rq\<lparr>rq_op := ucast opc\<rparr>"

section \<open>Queue identifiers and tokens\<close>

record labstor_qid_t =
  qid_flags :: u8
  qid_type :: u8
  qid_cnt :: u16
  qid_pid :: u32

definition labstor_qid_Hash :: "labstor_qid_t \<Rightarrow> u64" where
  "labstor_qid_Hash qid =
     (let num = 0;
          num = num + ucast (qid_flags qid);
          num = push_bit 8 num;
          num = num + ucast (qid_type qid);
          num = push_bit 8 num;
          num = num + ucast (qid_pid qid mod 65536);
          num = push_bit 16 num in
      num + ucast (qid_cnt qid))"

definition labstor_qid_eq :: "labstor_qid_t \<Rightarrow> labstor_qid_t \<Rightarrow> bool" where
  "labstor_qid_eq self qid \<longleftrightarrow>
     qid_flags qid = qid_flags self \<and> qid_pid qid = qid_pid self \<and> qid_cnt qid = qid_cnt self"

record labstor_qtok_t =
  qtok_qid :: labstor_qid_t
  qtok_req_id :: u32

text \<open>
  The parameters of \<^verbatim>\<open>labstor_qtok_t::Init\<close> have the names of the members and hide them: the
  assignments go from each parameter to itself.
\<close>

definition labstor_qtok_Init :: "labstor_qtok_t \<Rightarrow> labstor_qid_t \<Rightarrow> u32 \<Rightarrow> labstor_qtok_t" where
  "labstor_qtok_Init self qid req_id = (let qid = qid; req_id = req_id in self)"

section \<open>Flags\<close>

definition LABSTOR_QP_INTERMEDIATE :: u8 where "LABSTOR_QP_INTERMEDIATE = push_bit 4 1"
definition LABSTOR_QP_UNORDERED :: u8 where "LABSTOR_QP_UNORDERED = push_bit 3 1"
definition LABSTOR_QP_BATCH :: u8 where "LABSTOR_QP_BATCH = push_bit 2 1"
definition LABSTOR_QP_HIGH_LATENCY :: u8 where "LABSTOR_QP_HIGH_LATENCY = push_bit 1 1"
definition LABSTOR_QP_PRIVATE :: u8 where "LABSTOR_QP_PRIVATE = push_bit 0 1"
definition LABSTOR_QP_ALL_FLAGS :: u8 where "LABSTOR_QP_ALL_FLAGS = 31"

definition LABSTOR_QP_IS_PRIMARY :: "u8 \<Rightarrow> bool" where
  "LABSTOR_QP_IS_PRIMARY flags \<longleftrightarrow> flags AND LABSTOR_QP_INTERMEDIATE = 0"

definition LABSTOR_QP_IS_ORDERED :: "u8 \<Rightarrow> bool" where
  "LABSTOR_QP_IS_ORDERED flags \<longleftrightarrow> flags AND LABSTOR_QP_UNORDERED = 0"

definition LABSTOR_QP_IS_LOW_LATENCY :: "u8 \<Rightarrow> bool" where
  "LABSTOR_QP_IS_LOW_LATENCY flags \<longleftrightarrow> flags AND LABSTOR_QP_HIGH_LATENCY = 0"

definition LABSTOR_QP_IS_SHMEM :: "u8 \<Rightarrow> bool" where
  "LABSTOR_QP_IS_SHMEM flags \<longleftrightarrow> flags AND LABSTOR_QP_PRIVATE = 0"

lemmas qp_flag_defs = LABSTOR_QP_INTERMEDIATE_def LABSTOR_QP_UNORDERED_def LABSTOR_QP_BATCH_def
  LABSTOR_QP_HIGH_LATENCY_def LABSTOR_QP_PRIVATE_def LABSTOR_QP_ALL_FLAGS_def
  LABSTOR_QP_IS_PRIMARY_def LABSTOR_QP_IS_ORDERED_def LABSTOR_QP_IS_LOW_LATENCY_def
  LABSTOR_QP_IS_SHMEM_def

section \<open>Choosing a queue\<close>

text \<open>
  \<^verbatim>\<open>queue_pair::GetQID\<close>; the remainder by zero traps, and the 32-bit remainder is stored in the
  16-bit counter.
\<close>

definition queue_pair_GetQID :: "u8 \<Rightarrow> u8 \<Rightarrow> u32 \<Rightarrow> u32 \<Rightarrow> i32 \<Rightarrow> labstor_qid_t result" where
  "queue_pair_GetQID type flags hash num_qps pid =
     (if num_qps = 0 then Inl DIVISION_BY_ZERO
      else Inr \<lparr>qid_flags = flags, qid_type = type, qid_cnt = ucast (hash mod num_qps), qid_pid = pid\<rparr>)"

text \<open>The characters of a \<^verbatim>\<open>std::string\<close> are signed bytes, promoted to \<^verbatim>\<open>int\<close> and shifted.\<close>

fun string_hash_from :: "nat \<Rightarrow> u32 \<Rightarrow> u8 list \<Rightarrow> u32" where
  "string_hash_from i hash [] = hash"
| "string_hash_from i hash (c # cs) =
     string_hash_from (Suc i) (hash + push_bit (4 * (i mod 4)) (scast c)) cs"

definition queue_pair_GetQID_str ::
  "u8 \<Rightarrow> u8 \<Rightarrow> u8 list \<Rightarrow> u32 \<Rightarrow> u32 \<Rightarrow> i32 \<Rightarrow> labstor_qid_t result"
where
  "queue_pair_GetQID_str type flags str ns_id num_qps pid =
     (let hash = string_hash_from 0 0 str; hash = hash * ns_id in
      queue_pair_GetQID type flags hash num_qps pid)"

definition queue_pair_GetQIDOff :: "u8 \<Rightarrow> u8 \<Rightarrow> u32 \<Rightarrow> u32 \<Rightarrow> i32 \<Rightarrow> u32 result" where
  "queue_pair_GetQIDOff type flags hash num_qps pid =
     map_sum id (\<lambda>qid. ucast (qid_cnt qid)) (queue_pair_GetQID type flags hash num_qps pid)"

section \<open>Properties\<close>

lemma GetQID_cnt_bound:
  assumes "queue_pair_GetQID type flags hash num_qps pid = Inr qid" "unat num_qps \<le> 65536"
  shows "unat (qid_cnt qid) < unat num_qps"
proof -
  have "num_qps \<noteq> 0" "qid_cnt qid = ucast (hash mod num_qps)"
    using assms(1) by (auto simp: queue_pair_GetQID_def split: if_splits)
  moreover have "unat (hash mod num_qps) < unat num_qps"
    using \<open>num_qps \<noteq> 0\<close> by (simp add: unat_mod unat_gt_0)
  ultimately show ?thesis
    using assms(2) by (simp add: unsigned_ucast_eq take_bit_nat_eq_self)
qed

text \<open>
  The queue chosen for a hash exists: with at least one and at most 65536 queues of a type,
  \<^verbatim>\<open>GetQID\<close> returns an index below the number of queues, and with none it traps.
\<close>

theorem GetQID_in_range:
  assumes "unat num_qps \<le> 65536"
  shows "(queue_pair_GetQID type flags hash num_qps pid = Inl DIVISION_BY_ZERO \<and> num_qps = 0) \<or>
    (\<exists>qid. queue_pair_GetQID type flags hash num_qps pid = Inr qid \<and>
       unat (qid_cnt qid) < unat num_qps \<and> qid_flags qid = flags \<and> qid_type qid = type \<and>
       qid_pid qid = pid)"
proof (cases "num_qps = 0")
  case False
  then obtain qid where q: "queue_pair_GetQID type flags hash num_qps pid = Inr qid"
    by (auto simp: queue_pair_GetQID_def)
  then show ?thesis
    using GetQID_cnt_bound [OF q assms] by (auto simp: queue_pair_GetQID_def split: if_splits)
qed (simp add: queue_pair_GetQID_def)

theorem GetQID_in_range_witness:
  "\<exists>qid. queue_pair_GetQID 1 4 1000003 12 77 = Inr qid \<and> unat (qid_cnt qid) < 12"
  using GetQID_in_range [of 12 1 4 1000003 77] by auto

text \<open>
  The hash of a queue identifier does not separate queues: the shift before the process
  identifier is added leaves it only eight bits, so it runs into the type. The low sixteen bits
  are the queue counter.
\<close>

theorem qid_Hash_collision:
  "labstor_qid_Hash \<lparr>qid_flags = f, qid_type = 1, qid_cnt = c, qid_pid = 0\<rparr> =
     labstor_qid_Hash \<lparr>qid_flags = f, qid_type = 0, qid_cnt = c, qid_pid = 256\<rparr>"
proof -
  have "(256 :: u32) mod 65536 = 256" by (simp add: word_unat_eq_iff unat_mod)
  then show ?thesis
    by (simp add: labstor_qid_Hash_def Let_def push_bit_eq_mult distrib_left)
qed

lemma qtok_Init_no_effect: "labstor_qtok_Init tok qid req_id = tok"
  by (simp add: labstor_qtok_Init_def)

end
