(* ===== verification/Request_Map.thy ===== *)
theory Request_Map
  imports Labstor_Interfaces Requests
begin

text \<open>
  The completion side of a queue pair,
  \<^verbatim>\<open>include/labstor/types/data_structures/c/shmem_request_map.h\<close>: one cell per bucket, holding
  the offset of a completed request or \<^verbatim>\<open>-1\<close>. The record is the handle of one process with
  the shared memory it points to.
\<close>

section \<open>The structure and its operations\<close>

record labstor_request_map =
  rm_header :: ptr
  rm_buckets :: ptr
  rm_base_region :: ptr
  rm_num_buckets :: u32
  rm_cells :: "u32 \<Rightarrow> labstor_off_t"

definition labstor_request_map_GetSize_global :: "u32 \<Rightarrow> u32" where
  "labstor_request_map_GetSize_global num_buckets = 4 + 4 * num_buckets"

definition labstor_request_map_GetSize :: "labstor_request_map \<Rightarrow> u32" where
  "labstor_request_map_GetSize m = labstor_request_map_GetSize_global (rm_num_buckets m)"

definition labstor_request_map_GetRegion :: "labstor_request_map \<Rightarrow> ptr" where
  "labstor_request_map_GetRegion m = rm_header m"

definition labstor_request_map_GetBaseRegion :: "labstor_request_map \<Rightarrow> ptr" where
  "labstor_request_map_GetBaseRegion m = rm_base_region m"

definition labstor_request_map_GetNumBuckets :: "labstor_request_map \<Rightarrow> u32" where
  "labstor_request_map_GetNumBuckets m = rm_num_buckets m"

definition labstor_request_map_Init ::
  "labstor_request_map \<Rightarrow> ptr \<Rightarrow> ptr \<Rightarrow> u32 \<Rightarrow> u32 \<Rightarrow> bool \<times> labstor_request_map"
where
  "labstor_request_map_Init m base_region region region_size num_buckets =
     (let m = m\<lparr>rm_base_region := base_region, rm_header := region\<rparr> in
      if region_size < labstor_request_map_GetSize_global num_buckets then (False, m)
      else
        let n = (if num_buckets = 0 then (region_size - 4) div 4 else num_buckets) in
        if n = 0 then (False, m)
        else (True, m\<lparr>rm_num_buckets := n, rm_buckets := region + 4,
                      rm_cells := (\<lambda>b. if b < n then - 1 else rm_cells m b)\<rparr>))"

definition labstor_request_map_Attach ::
  "labstor_request_map \<Rightarrow> ptr \<Rightarrow> ptr \<Rightarrow> labstor_request_map"
where
  "labstor_request_map_Attach m base_region region =
     m\<lparr>rm_base_region := base_region, rm_header := region, rm_buckets := region + 4\<rparr>"

definition labstor_request_map_RemoteAttach ::
  "labstor_request_map \<Rightarrow> ptr \<Rightarrow> ptr \<Rightarrow> labstor_request_map"
where
  "labstor_request_map_RemoteAttach m kern_base_region kern_region =
     m\<lparr>rm_base_region := kern_base_region, rm_header := kern_region, rm_buckets := kern_region + 4\<rparr>"

definition labstor_request_map_Set ::
  "request_heap \<Rightarrow> labstor_request_map \<Rightarrow> ptr \<Rightarrow> bool \<times> labstor_request_map"
where
  "labstor_request_map_Set heap m rq =
     (let b = rq_req_id (heap rq) mod rm_num_buckets m in
      if rm_cells m b \<noteq> - 1 then (False, m)
      else (True, m\<lparr>rm_cells := (rm_cells m)(b := LABSTOR_REGION_SUB rq (rm_base_region m))\<rparr>))"

definition labstor_request_map_FindAndRemove ::
  "labstor_request_map \<Rightarrow> u32 \<Rightarrow> ptr option \<times> labstor_request_map"
where
  "labstor_request_map_FindAndRemove m key =
     (let b = key mod rm_num_buckets m in
      if rm_cells m b = - 1 then (None, m)
      else (Some (LABSTOR_REGION_ADD (rm_cells m b) (rm_base_region m)),
            m\<lparr>rm_cells := (rm_cells m)(b := - 1)\<rparr>))"

definition request_map_Init ::
  "labstor_request_map \<Rightarrow> ptr \<Rightarrow> ptr \<Rightarrow> u32 \<Rightarrow> u32 \<Rightarrow> labstor_request_map result"
where
  "request_map_Init m base_region region region_size num_buckets =
     throw_unless (INVALID_UNORDERED_MAP_SIZE region_size num_buckets)
       (labstor_request_map_Init m base_region region region_size num_buckets)"

section \<open>Refinement to a partial map\<close>

text \<open>
  A request can be posted if its offset from the base region is representable and is not the
  offset that marks an empty cell.
\<close>

definition rm_offset_ok :: "ptr \<Rightarrow> ptr \<Rightarrow> bool" where
  "rm_offset_ok base p \<longleftrightarrow> unat (p - base) < 2 ^ 31"

definition rm_cell_of :: "ptr \<Rightarrow> ptr option \<Rightarrow> labstor_off_t" where
  "rm_cell_of base v = (case v of None \<Rightarrow> - 1 | Some p \<Rightarrow> LABSTOR_REGION_SUB p base)"

definition distinct_slots :: "u32 \<Rightarrow> u32 set \<Rightarrow> bool" where
  "distinct_slots n A \<longleftrightarrow> (\<forall>i\<in>A. \<forall>j\<in>A. i mod n = j mod n \<longrightarrow> i = j)"

definition rm_value_ok :: "ptr \<Rightarrow> ptr option \<Rightarrow> bool" where
  "rm_value_ok base v = (case v of None \<Rightarrow> True | Some p \<Rightarrow> rm_offset_ok base p)"

definition rm_represents :: "ptr \<Rightarrow> u32 set \<Rightarrow> labstor_request_map \<Rightarrow> (u32 \<rightharpoonup> ptr) \<Rightarrow> bool" where
  "rm_represents base A s m \<longleftrightarrow> rm_base_region s = base \<and> distinct_slots (rm_num_buckets s) A \<and>
     (\<forall>i\<in>A. rm_cells s (i mod rm_num_buckets s) = rm_cell_of base (m i) \<and> rm_value_ok base (m i))"

text \<open>Posting a request whose identifier is \<open>i\<close>.\<close>

definition rm_post :: "u32 \<Rightarrow> ptr \<Rightarrow> labstor_request_map \<Rightarrow> bool \<times> labstor_request_map" where
  "rm_post i p s =
     labstor_request_map_Set (\<lambda>_. \<lparr>rq_req_id = i, rq_ns_id = 0, rq_code = 0, rq_op = 0\<rparr>) s p"

definition rm_poll :: "u32 \<Rightarrow> labstor_request_map \<Rightarrow> ptr option \<times> labstor_request_map" where
  "rm_poll i s = labstor_request_map_FindAndRemove s i"

lemma rm_Set_eq_post: "rq_req_id (heap p) = i \<Longrightarrow> labstor_request_map_Set heap s p = rm_post i p s"
  by (simp add: rm_post_def labstor_request_map_Set_def)

lemma offset_not_empty:
  assumes "rm_offset_ok base p"
  shows "LABSTOR_REGION_SUB p base \<noteq> - 1"
proof
  assume "LABSTOR_REGION_SUB p base = - 1"
  then have "unat (ucast (p - base) :: u32) = unat (- 1 :: u32)" by (simp add: LABSTOR_REGION_SUB_def)
  then have "unat (p - base) mod 4294967296 = 4294967295"
    by (simp add: unat_narrow unsigned_minus_1_eq_mask mask_eq_exp_minus_1)
  then show False using assms by (simp add: rm_offset_ok_def)
qed

lemma cell_of_empty: "rm_value_ok base v \<Longrightarrow> rm_cell_of base v = - 1 \<longleftrightarrow> v = None"
  by (cases v) (simp_all add: rm_cell_of_def rm_value_ok_def offset_not_empty)

lemma rm_cell:
  assumes "rm_represents base A s m" "i \<in> A"
  shows "rm_cells s (i mod rm_num_buckets s) = rm_cell_of base (m i)"
    and "rm_cells s (i mod rm_num_buckets s) = - 1 \<longleftrightarrow> m i = None"
    and "rm_base_region s = base"
    and "m i = Some p \<Longrightarrow> LABSTOR_REGION_ADD (rm_cells s (i mod rm_num_buckets s)) base = p"
  using assms cell_of_empty [of base "m i"]
  by (auto simp: rm_represents_def rm_value_ok_def rm_offset_ok_def rm_cell_of_def)

lemma rm_update:
  assumes r: "rm_represents base A s m" and i: "i \<in> A" and v: "rm_value_ok base v"
  shows "rm_represents base A
    (s\<lparr>rm_cells := (rm_cells s)(i mod rm_num_buckets s := rm_cell_of base v)\<rparr>) (m(i := v))"
proof -
  have "j mod rm_num_buckets s = i mod rm_num_buckets s \<longleftrightarrow> j = i" if "j \<in> A" for j
    using r i that unfolding rm_represents_def distinct_slots_def by blast
  then show ?thesis
    using r v unfolding rm_represents_def by simp
qed

lemma rm_post_eq:
  assumes "rm_represents base A s m" "i \<in> A"
  shows "rm_post i p s = (if m i = None
    then (True, s\<lparr>rm_cells := (rm_cells s)(i mod rm_num_buckets s := rm_cell_of base (Some p))\<rparr>)
    else (False, s))"
  using rm_cell(2,3) [OF assms]
  by (simp add: rm_post_def labstor_request_map_Set_def rm_cell_of_def)

lemma rm_poll_eq:
  assumes "rm_represents base A s m" "i \<in> A"
  shows "rm_poll i s = (m i, if m i = None then s else
    s\<lparr>rm_cells := (rm_cells s)(i mod rm_num_buckets s := rm_cell_of base None)\<rparr>)"
  using rm_cell(2-4) [OF assms]
  by (cases "m i") (simp_all add: rm_poll_def labstor_request_map_FindAndRemove_def rm_cell_of_def)

interpretation rm_table: completion_table "rm_represents base" "rm_offset_ok base" rm_post rm_poll
  for base
proof
  fix A s m i p
  assume a: "rm_represents base A s m" "i \<in> A" "rm_offset_ok base p"
  show "fst (rm_post i p s) = (m i = None)"
    by (simp add: rm_post_eq [OF a(1,2)])
  fix b s' m'
  assume "rm_post i p s = (b, s')" "map_post i p m = (b, m')"
  then show "rm_represents base A s' m'"
    using rm_update [OF a(1,2), of "Some p"] a
    by (auto simp: rm_post_eq [OF a(1,2)] map_post_def rm_value_ok_def split: if_splits)
next
  fix A s m i r s'
  assume a: "rm_represents base A s m" "i \<in> A" "rm_poll i s = (r, s')"
  then have "r = m i" "s' = (if m i = None then s else
      s\<lparr>rm_cells := (rm_cells s)(i mod rm_num_buckets s := rm_cell_of base None)\<rparr>)"
    using rm_poll_eq [OF a(1,2)] by auto
  then show "r = m i \<and> rm_represents base A s' (m(i := None))"
    using a(1) rm_update [OF a(1,2), of None]
    by (cases "m i") (simp_all add: rm_value_ok_def fun_upd_idem)
qed

section \<open>Initialisation\<close>

lemma rm_Init_ok:
  assumes "labstor_request_map_Init m0 base region region_size num_buckets = (True, m)"
  shows "rm_num_buckets m \<noteq> 0" "rm_base_region m = base" "rm_header m = region"
    "rm_num_buckets m = (if num_buckets = 0 then (region_size - 4) div 4 else num_buckets)"
    "b < rm_num_buckets m \<Longrightarrow> rm_cells m b = - 1"
    "labstor_request_map_GetSize_global num_buckets \<le> region_size"
  using assms by (auto simp: labstor_request_map_Init_def Let_def split: if_splits)

lemma rm_Init_represents:
  assumes "labstor_request_map_Init m0 base region region_size num_buckets = (True, m)"
    and "distinct_slots (rm_num_buckets m) A"
  shows "rm_represents base A m Map.empty"
proof -
  have "i mod rm_num_buckets m < rm_num_buckets m" for i
    using rm_Init_ok(1) [OF assms(1)] by (simp add: word_less_nat_alt unat_mod unat_gt_0)
  then show ?thesis
    using assms rm_Init_ok(2,5) [OF assms(1)]
    by (simp add: rm_represents_def rm_cell_of_def rm_value_ok_def)
qed

text \<open>Identifiers that are handed out consecutively share no bucket while at most one round is out.\<close>

lemma distinct_slots_window:
  assumes "n \<le> unat nb" "ring_window d n nb"
  shows "distinct_slots nb {d + of_nat i |i. i < n}"
  unfolding distinct_slots_def
  using ring_slot_inj [OF assms(2,1)] by (auto simp: ring_slot_def)

section \<open>Properties\<close>

text \<open>
  C5. The request map delivers completions by identifier: after \<^verbatim>\<open>Init\<close>, for identifiers that
  can be outstanding together because they use different buckets, every sequence of \<^verbatim>\<open>Set\<close>
  and \<^verbatim>\<open>FindAndRemove\<close> calls returns what a partial map from identifiers to requests returns:
  a request is found exactly under its own identifier, once, and is never overwritten.
\<close>

theorem request_map_refines_partial_map:
  assumes "request_map_Init m0 base region region_size num_buckets = Inr s"
    and "distinct_slots (rm_num_buckets s) A"
    and "\<forall>x\<in>set ops. op_id x \<in> A \<and> op_ok (rm_offset_ok base) x"
  shows "fst (completion_run rm_post rm_poll ops s) =
         fst (completion_run map_post map_poll ops Map.empty)"
proof -
  have "labstor_request_map_Init m0 base region region_size num_buckets = (True, s)"
    using assms(1) by (simp add: request_map_Init_def throw_unless_def prod_eq_iff split: if_splits)
  from rm_Init_represents [OF this assms(2)]
  show ?thesis
    using rm_table.run_represents [of base A s Map.empty ops] assms(3)
    by (cases "completion_run rm_post rm_poll ops s") fastforce
qed

definition rm_blank :: labstor_request_map where
  "rm_blank = \<lparr>rm_header = 0, rm_buckets = 0, rm_base_region = 0, rm_num_buckets = 9, rm_cells = (\<lambda>_. 5)\<rparr>"

theorem request_map_refines_partial_map_witness:
  "let s = (case request_map_Init rm_blank 4096 8192 20 0 of Inr s \<Rightarrow> s | Inl _ \<Rightarrow> rm_blank);
       ops = [Poll 6, Post 6 5000, Post 7 6000, Poll 5, Poll 6, Poll 6, Poll 7] in
   request_map_Init rm_blank 4096 8192 20 0 = Inr s \<and> rm_num_buckets s = 4 \<and>
   fst (completion_run rm_post rm_poll ops s) =
     [Polled None, Posted True, Posted True, Polled None, Polled (Some 5000), Polled None,
      Polled (Some 6000)]"
proof -
  let ?s = "case request_map_Init rm_blank 4096 8192 20 0 of Inr s \<Rightarrow> s | Inl _ \<Rightarrow> rm_blank"
  let ?ops = "[Poll 6, Post 6 5000, Post 7 6000, Poll 5, Poll 6, Poll 6, Poll 7] ::
    (u32, ptr) completion_op list"
  have s: "request_map_Init rm_blank 4096 8192 20 0 = Inr ?s" "rm_num_buckets ?s = 4"
    by (simp_all add: request_map_Init_def labstor_request_map_Init_def
        labstor_request_map_GetSize_global_def rm_blank_def)
  have "distinct_slots (rm_num_buckets ?s) {5, 6, 7}"
    unfolding s(2) by (simp add: distinct_slots_def word_unat_eq_iff unat_mod)
  moreover have "\<forall>x\<in>set ?ops. op_id x \<in> {5, 6, 7} \<and> op_ok (rm_offset_ok 4096) x"
    by (simp add: rm_offset_ok_def)
  ultimately have "fst (completion_run rm_post rm_poll ?ops ?s) =
      fst (completion_run map_post map_poll ?ops Map.empty)"
    by (rule request_map_refines_partial_map [OF s(1)])
  then show ?thesis using s by (simp add: map_post_def map_poll_def)
qed

text \<open>
  C39. The hypothesis on the identifiers is needed, because \<^verbatim>\<open>FindAndRemove\<close> does not compare the
  identifier of the request it finds. In every map, after a request was completed into its bucket,
  every identifier with the same remainder gets that request, and the map is as it was before the
  completion, so that the request is not found any more under its own identifier; an identifier
  with another remainder is answered as before. Until then no other request with the same
  remainder can be completed.
\<close>

theorem request_map_hands_out_foreign_request:
  fixes heap :: request_heap and m :: labstor_request_map and rq :: ptr
  defines "b \<equiv> rq_req_id (heap rq) mod rm_num_buckets m"
  assumes "rm_cells m b = - 1" "rm_offset_ok (rm_base_region m) rq"
  shows "\<exists>m1. labstor_request_map_Set heap m rq = (True, m1) \<and>
    (\<forall>j. if j mod rm_num_buckets m = b
         then labstor_request_map_FindAndRemove m1 j = (Some rq, m)
         else fst (labstor_request_map_FindAndRemove m1 j) = fst (labstor_request_map_FindAndRemove m j)) \<and>
    labstor_request_map_FindAndRemove m (rq_req_id (heap rq)) = (None, m) \<and>
    (\<forall>rq'. if rq_req_id (heap rq') mod rm_num_buckets m = b then labstor_request_map_Set heap m1 rq' = (False, m1) else True)"
proof -
  let ?o = "LABSTOR_REGION_SUB rq (rm_base_region m)"
  have o: "?o \<noteq> - 1" by (rule offset_not_empty [OF assms(3)])
  have r: "LABSTOR_REGION_ADD ?o (rm_base_region m) = rq"
    using assms(3) by (simp add: rm_offset_ok_def)
  have "m\<lparr>rm_cells := (rm_cells m)(b := - 1)\<rparr> = m" using assms(2) by (simp add: fun_upd_idem)
  then show ?thesis
    using assms(2) o r
    by (intro exI [of _ "m\<lparr>rm_cells := (rm_cells m)(b := ?o)\<rparr>"])
      (simp add: labstor_request_map_Set_def labstor_request_map_FindAndRemove_def Let_def b_def)
qed

theorem request_map_hands_out_foreign_request_witness:
  "\<exists>m m1. request_map_Init rm_blank 4096 8192 12 0 = Inr m \<and>
     labstor_request_map_Set (\<lambda>_. \<lparr>rq_req_id = 0, rq_ns_id = 0, rq_code = 0, rq_op = 0\<rparr>) m 5000 = (True, m1) \<and>
     labstor_request_map_FindAndRemove m1 2 = (Some 5000, m) \<and> labstor_request_map_FindAndRemove m 0 = (None, m)"
proof -
  let ?heap = "\<lambda>_. \<lparr>rq_req_id = 0, rq_ns_id = 0, rq_code = 0, rq_op = 0\<rparr> :: labstor_request"
  obtain m where m: "request_map_Init rm_blank 4096 8192 12 0 = Inr m" "rm_num_buckets m = 2" "rm_cells m 0 = - 1" "rm_base_region m = 4096"
    by (simp add: request_map_Init_def labstor_request_map_Init_def labstor_request_map_GetSize_global_def rm_blank_def)
  have "(2 :: u32) mod 2 = 0" by (simp add: word_unat_eq_iff unat_mod)
  moreover have "rm_offset_ok (rm_base_region m) 5000" by (simp add: rm_offset_ok_def m(4))
  ultimately show ?thesis
    using request_map_hands_out_foreign_request [of m ?heap 5000] m by auto
qed

end
