(* ===== verification/Request_Queue.thy ===== *)
theory Request_Queue
  imports Request_Ring Requests Busy_Wait
begin

text \<open>
  The submission side of a queue pair,
  \<^verbatim>\<open>include/labstor/types/data_structures/c/shmem_request_queue.h\<close>: a request ring behind a
  header with the queue identifier. Pointers to requests are stored as offsets from the base
  region of the process that stores them.
\<close>

section \<open>The structure and its operations\<close>

record labstor_request_queue =
  lrq_base_region :: ptr
  lrq_header :: ptr
  lrq_qid :: labstor_qid_t
  lrq_update :: "u16 \<times> u16"
  lrq_queue :: labstor_request_ring_buffer

definition labstor_request_queue_GetSize_global :: "u32 \<Rightarrow> u32" where
  "labstor_request_queue_GetSize_global max_depth =
     12 + labstor_request_ring_buffer_GetSize_global max_depth"

definition labstor_request_queue_GetSize :: "labstor_request_queue \<Rightarrow> u32" where
  "labstor_request_queue_GetSize lrq =
     labstor_request_queue_GetSize_global (labstor_request_ring_buffer_GetMaxDepth (lrq_queue lrq))"

definition labstor_request_queue_GetRegion :: "labstor_request_queue \<Rightarrow> ptr" where
  "labstor_request_queue_GetRegion lrq = lrq_header lrq"

definition labstor_request_queue_GetDepth :: "labstor_request_queue \<Rightarrow> u32" where
  "labstor_request_queue_GetDepth lrq = labstor_request_ring_buffer_GetDepth (lrq_queue lrq)"

definition labstor_request_queue_GetMaxDepth :: "labstor_request_queue \<Rightarrow> u32" where
  "labstor_request_queue_GetMaxDepth lrq = labstor_request_ring_buffer_GetMaxDepth (lrq_queue lrq)"

definition labstor_request_queue_GetFlags :: "labstor_request_queue \<Rightarrow> u32" where
  "labstor_request_queue_GetFlags lrq = ucast (qid_flags (lrq_qid lrq))"

definition labstor_request_queue_GetQID :: "labstor_request_queue \<Rightarrow> labstor_qid_t" where
  "labstor_request_queue_GetQID lrq = lrq_qid lrq"

text \<open>
  The result of the ring's \<^verbatim>\<open>Init\<close> is dropped by the kernel build and is an exception in the
  userspace build. The 32-bit subtraction of the header size wraps for a region below 12 bytes.
\<close>

definition labstor_request_queue_Init ::
  "labstor_request_queue \<Rightarrow> ptr \<Rightarrow> ptr \<Rightarrow> u32 \<Rightarrow> u32 \<Rightarrow> labstor_qid_t \<Rightarrow> bool \<times> labstor_request_queue"
where
  "labstor_request_queue_Init lrq base_region region region_size depth qid =
     (case labstor_request_ring_buffer_Init (lrq_queue lrq) (region + 12) (region_size - 12) depth of
        (ok, q) \<Rightarrow>
          (ok, lrq\<lparr>lrq_base_region := base_region, lrq_header := region, lrq_qid := qid,
                   lrq_update := (0, 0), lrq_queue := q\<rparr>))"

definition labstor_request_queue_Attach ::
  "labstor_request_queue \<Rightarrow> ptr \<Rightarrow> ptr \<Rightarrow> labstor_request_queue"
where
  "labstor_request_queue_Attach lrq base_region region =
     lrq\<lparr>lrq_base_region := base_region, lrq_header := region,
         lrq_queue := labstor_request_ring_buffer_Attach (lrq_queue lrq) (region + 12)\<rparr>"

definition labstor_request_queue_RemoteAttach ::
  "labstor_request_queue \<Rightarrow> ptr \<Rightarrow> ptr \<Rightarrow> labstor_request_queue"
where
  "labstor_request_queue_RemoteAttach lrq kern_lrq_region kern_base_region =
     lrq\<lparr>lrq_base_region := kern_base_region, lrq_header := kern_lrq_region,
         lrq_queue := labstor_request_ring_buffer_RemoteAttach (lrq_queue lrq) (kern_lrq_region + 12)\<rparr>"

text \<open>
  One attempt of the enqueue loop: the ring stores the offset and writes the identifier into the
  request; the token then reads it back from the request.
\<close>

definition request_queue_attempt ::
  "ptr \<Rightarrow> request_heap \<times> labstor_request_queue \<Rightarrow>
   labstor_qtok_t option \<times> (request_heap \<times> labstor_request_queue)"
where
  "request_queue_attempt rq st =
     (case st of (heap, lrq) \<Rightarrow>
        case labstor_request_ring_buffer_Enqueue (lrq_queue lrq)
               (LABSTOR_REGION_SUB rq (lrq_base_region lrq)) of
          (None, q) \<Rightarrow> (None, heap, lrq\<lparr>lrq_queue := q\<rparr>)
        | (Some req_id, q) \<Rightarrow>
            let heap = heap(rq := (heap rq)\<lparr>rq_req_id := req_id\<rparr>); lrq = lrq\<lparr>lrq_queue := q\<rparr> in
            (Some \<lparr>qtok_qid = lrq_qid lrq, qtok_req_id = rq_req_id (heap rq)\<rparr>, heap, lrq))"

definition labstor_request_queue_Enqueue ::
  "nat \<Rightarrow> (nat \<Rightarrow> request_heap \<times> labstor_request_queue \<Rightarrow> request_heap \<times> labstor_request_queue) \<Rightarrow>
   request_heap \<Rightarrow> labstor_request_queue \<Rightarrow> ptr \<Rightarrow>
   (labstor_qtok_t \<times> request_heap \<times> labstor_request_queue) option"
where
  "labstor_request_queue_Enqueue fuel env heap lrq rq =
     inf_spinwait fuel (interleave env (request_queue_attempt rq)) 0 (heap, lrq)"

definition labstor_request_queue_EnqueueSimple ::
  "nat \<Rightarrow> (nat \<Rightarrow> request_heap \<times> labstor_request_queue \<Rightarrow> request_heap \<times> labstor_request_queue) \<Rightarrow>
   request_heap \<Rightarrow> labstor_request_queue \<Rightarrow> ptr \<Rightarrow> (request_heap \<times> labstor_request_queue) option"
where
  "labstor_request_queue_EnqueueSimple fuel env heap lrq rq =
     map_option snd (inf_spinwait fuel (interleave env (request_queue_attempt rq)) 0 (heap, lrq))"

definition labstor_request_queue_Peek :: "labstor_request_queue \<Rightarrow> i32 \<Rightarrow> ptr option" where
  "labstor_request_queue_Peek lrq i =
     (case labstor_request_ring_buffer_Peek (lrq_queue lrq) i of
        None \<Rightarrow> None | Some off \<Rightarrow> Some (LABSTOR_REGION_ADD off (lrq_base_region lrq)))"

definition labstor_request_queue_Dequeue ::
  "labstor_request_queue \<Rightarrow> ptr option \<times> labstor_request_queue"
where
  "labstor_request_queue_Dequeue lrq =
     (case labstor_request_ring_buffer_Dequeue (lrq_queue lrq) of
        (None, q) \<Rightarrow> (None, lrq\<lparr>lrq_queue := q\<rparr>)
      | (Some off, q) \<Rightarrow>
          (Some (LABSTOR_REGION_ADD off (lrq_base_region lrq)), lrq\<lparr>lrq_queue := q\<rparr>))"

definition labstor_request_queue_IsPaused :: "labstor_request_queue \<Rightarrow> bool" where
  "labstor_request_queue_IsPaused lrq = False"

section \<open>Laws\<close>

abbreviation no_env :: "nat \<Rightarrow> 's \<Rightarrow> 's" where
  "no_env \<equiv> \<lambda>_ s. s"

lemma lrq_Enqueue_space:
  assumes "rr_inv (lrq_queue lrq)" "rr_depth (lrq_queue lrq) < rr_capacity (lrq_queue lrq)"
  shows "labstor_request_queue_Enqueue (Suc fuel) no_env heap lrq rq =
    (let q = lrq_queue lrq; i = rr_enqueued q in
     Some (\<lparr>qtok_qid = lrq_qid lrq, qtok_req_id = i\<rparr>,
           heap(rq := (heap rq)\<lparr>rq_req_id := i\<rparr>),
           lrq\<lparr>lrq_queue := snd (labstor_request_ring_buffer_Enqueue q
                                  (LABSTOR_REGION_SUB rq (lrq_base_region lrq)))\<rparr>))"
  using rr_not_full [OF assms(1)] assms(2)
  by (simp add: labstor_request_queue_Enqueue_def interleave_def request_queue_attempt_def
      labstor_request_ring_buffer_Enqueue_def Let_def)

lemma lrq_Enqueue_full:
  assumes "rr_enqueued (lrq_queue lrq) - rr_dequeued (lrq_queue lrq) = rr_max_depth (lrq_queue lrq)"
  shows "labstor_request_queue_Enqueue fuel no_env heap lrq rq = None"
  unfolding labstor_request_queue_Enqueue_def
  by (rule inf_spinwait_stuck)
    (use assms in \<open>simp add: interleave_def request_queue_attempt_def labstor_request_ring_buffer_Enqueue_def\<close>)

lemma lrq_Peek_Dequeue: "labstor_request_queue_Peek lrq 0 = fst (labstor_request_queue_Dequeue lrq)"
  using rr_Peek_Dequeue [of "lrq_queue lrq"]
  by (auto simp: labstor_request_queue_Peek_def labstor_request_queue_Dequeue_def
      split: option.splits prod.splits)

text \<open>
  Initialisation checks the size after a subtraction that wraps: a region of eight bytes is
  accepted for a queue of any depth, although the header alone needs twelve.
\<close>

theorem request_queue_Init_accepts_tiny_region:
  assumes "depth \<noteq> 0" "unat depth < 2 ^ 30 - 6"
  shows "fst (labstor_request_queue_Init lrq base region 8 depth qid)"
proof -
  have "unat (labstor_request_ring_buffer_GetSize_global depth) = 12 + 4 * unat depth"
    using assms(2) by (intro unat_GetSize_global) simp
  moreover have "unat (8 - 12 :: u32) = 4294967292" by simp
  ultimately have "\<not> (8 - 12 :: u32) < labstor_request_ring_buffer_GetSize_global depth"
    using assms(2) by (simp add: word_less_nat_alt)
  then show ?thesis
    using assms(1)
    by (simp add: labstor_request_queue_Init_def labstor_request_ring_buffer_Init_def Let_def)
qed

theorem request_queue_Init_accepts_tiny_region_witness:
  "fst (labstor_request_queue_Init
     \<lparr>lrq_base_region = 0, lrq_header = 0, lrq_qid = \<lparr>qid_flags = 0, qid_type = 0, qid_cnt = 0, qid_pid = 0\<rparr>,
       lrq_update = (0, 0), lrq_queue = rr_blank\<rparr>
     4096 8192 8 512 \<lparr>qid_flags = 0, qid_type = 0, qid_cnt = 0, qid_pid = 0\<rparr>)"
  using request_queue_Init_accepts_tiny_region [of 512] by simp

end
