(* ===== verification/Queue_Pair.thy ===== *)
theory Queue_Pair
  imports Request_Queue Request_Map
begin

text \<open>
  Queue pairs, \<^verbatim>\<open>include/labstor/types/data_structures/c/shmem_queue_pair.h\<close>: a submission
  queue and a completion map. Operations that spin take fuel and the interference of the other
  processes. The heap holds the requests at the addresses of the process that runs the operation.
\<close>

section \<open>The structure\<close>

record labstor_queue_pair =
  qp_sq :: labstor_request_queue
  qp_cq :: labstor_request_map

record labstor_queue_pair_ptr =
  qpp_sq_off :: labstor_off_t
  qpp_cq_off :: labstor_off_t
  qpp_pid :: u32

type_synonym qp_state = "request_heap \<times> labstor_queue_pair"

text \<open>
  In the userspace build the queue and the map each carry a virtual table pointer, so the
  handle takes 80 bytes; in the kernel build it takes 56.
\<close>

abbreviation sizeof_queue_pair_user :: u32 where "sizeof_queue_pair_user \<equiv> 80"
abbreviation sizeof_queue_pair_kernel :: u32 where "sizeof_queue_pair_kernel \<equiv> 56"

section \<open>Operations\<close>

definition labstor_queue_pair_ptr_Init :: "labstor_qid_t \<Rightarrow> ptr \<Rightarrow> ptr \<Rightarrow> ptr \<Rightarrow> labstor_queue_pair_ptr" where
  "labstor_queue_pair_ptr_Init qid sq_region cq_region base_region =
     \<lparr>qpp_sq_off = LABSTOR_REGION_SUB sq_region base_region,
      qpp_cq_off = LABSTOR_REGION_SUB cq_region base_region, qpp_pid = qid_pid qid\<rparr>"

definition labstor_queue_pair_GetSize_global :: "u32 \<Rightarrow> u32" where
  "labstor_queue_pair_GetSize_global queue_depth =
     sizeof_queue_pair_user + labstor_request_queue_GetSize_global queue_depth +
     labstor_request_map_GetSize_global queue_depth"

definition labstor_queue_pair_GetPointer :: "labstor_queue_pair \<Rightarrow> ptr \<Rightarrow> labstor_queue_pair_ptr" where
  "labstor_queue_pair_GetPointer qp base_region =
     labstor_queue_pair_ptr_Init (labstor_request_queue_GetQID (qp_sq qp))
       (labstor_request_queue_GetRegion (qp_sq qp)) (labstor_request_map_GetRegion (qp_cq qp))
       base_region"

text \<open>\<^verbatim>\<open>Init\<close>; the flag is false where the userspace build throws.\<close>

definition labstor_queue_pair_Init ::
  "labstor_queue_pair \<Rightarrow> labstor_qid_t \<Rightarrow> ptr \<Rightarrow> u32 \<Rightarrow> ptr \<Rightarrow> u32 \<Rightarrow> ptr \<Rightarrow> u32 \<Rightarrow> bool \<times> labstor_queue_pair"
where
  "labstor_queue_pair_Init qp qid base_region depth sq_region sq_size cq_region cq_size =
     (let (ok1, sq) = labstor_request_queue_Init (qp_sq qp) base_region sq_region sq_size depth qid;
          (ok2, cq) = labstor_request_map_Init (qp_cq qp) base_region cq_region cq_size depth
      in (ok1 \<and> ok2, qp\<lparr>qp_sq := sq, qp_cq := cq\<rparr>))"

text \<open>
  The record of a queue pair has the queues in shared memory beside the pointers to them; attaching
  sets the pointers, and the queues are what is at these addresses.
\<close>

definition labstor_queue_pair_Attach ::
  "labstor_queue_pair \<Rightarrow> labstor_queue_pair_ptr \<Rightarrow> ptr \<Rightarrow> labstor_queue_pair"
where
  "labstor_queue_pair_Attach qp p base_region =
     qp\<lparr>qp_sq := labstor_request_queue_Attach (qp_sq qp) base_region
                  (LABSTOR_REGION_ADD (qpp_sq_off p) base_region),
        qp_cq := labstor_request_map_Attach (qp_cq qp) base_region
                  (LABSTOR_REGION_ADD (qpp_cq_off p) base_region)\<rparr>"

text \<open>
  \<^verbatim>\<open>RemoteAttach\<close> passes the base region first, where \<^verbatim>\<open>labstor_request_queue_RemoteAttach\<close>
  expects the region of the queue.
\<close>

definition labstor_queue_pair_RemoteAttach ::
  "labstor_queue_pair \<Rightarrow> labstor_queue_pair_ptr \<Rightarrow> ptr \<Rightarrow> labstor_queue_pair"
where
  "labstor_queue_pair_RemoteAttach qp p kern_base_region =
     qp\<lparr>qp_sq := labstor_request_queue_RemoteAttach (qp_sq qp) kern_base_region
                  (LABSTOR_REGION_ADD (qpp_sq_off p) kern_base_region),
        qp_cq := labstor_request_map_RemoteAttach (qp_cq qp) kern_base_region
                  (LABSTOR_REGION_ADD (qpp_cq_off p) kern_base_region)\<rparr>"

definition labstor_queue_pair_Enqueue ::
  "nat \<Rightarrow> (nat \<Rightarrow> request_heap \<times> labstor_request_queue \<Rightarrow> request_heap \<times> labstor_request_queue) \<Rightarrow>
   qp_state \<Rightarrow> ptr \<Rightarrow> (labstor_qtok_t \<times> qp_state) option"
where
  "labstor_queue_pair_Enqueue fuel env st rq =
     (case st of (heap, qp) \<Rightarrow>
        map_option (\<lambda>(qtok, heap, sq). (qtok, heap, qp\<lparr>qp_sq := sq\<rparr>))
          (labstor_request_queue_Enqueue fuel env heap (qp_sq qp) rq))"

definition labstor_queue_pair_Peek :: "labstor_queue_pair \<Rightarrow> i32 \<Rightarrow> ptr option" where
  "labstor_queue_pair_Peek qp i = labstor_request_queue_Peek (qp_sq qp) i"

definition labstor_queue_pair_Dequeue :: "labstor_queue_pair \<Rightarrow> ptr option \<times> labstor_queue_pair" where
  "labstor_queue_pair_Dequeue qp =
     (case labstor_request_queue_Dequeue (qp_sq qp) of (r, sq) \<Rightarrow> (r, qp\<lparr>qp_sq := sq\<rparr>))"

definition complete_attempt :: "ptr \<Rightarrow> qp_state \<Rightarrow> unit option \<times> qp_state" where
  "complete_attempt rq st =
     (case st of (heap, qp) \<Rightarrow>
        case labstor_request_map_Set heap (qp_cq qp) rq of
          (ok, cq) \<Rightarrow> (if ok then Some () else None, heap, qp\<lparr>qp_cq := cq\<rparr>))"

definition labstor_queue_pair_CompleteTimed ::
  "nat \<Rightarrow> (nat \<Rightarrow> nat) \<Rightarrow> (nat \<Rightarrow> qp_state \<Rightarrow> qp_state) \<Rightarrow> qp_state \<Rightarrow> i32 \<Rightarrow> ptr \<Rightarrow> (bool \<times> qp_state) option"
where
  "labstor_queue_pair_CompleteTimed fuel clock env st req_id rq =
     (case st of (heap, qp) \<Rightarrow>
        map_option (\<lambda>(r, st). (r \<noteq> None, st))
          (timed_spinwait fuel (interleave env (complete_attempt rq)) clock 50 0
             \<lparr>tm_start = 0, tm_time_ns = 0\<rparr> (heap(rq := (heap rq)\<lparr>rq_req_id := req_id\<rparr>), qp)))"

definition labstor_queue_pair_CompleteInf ::
  "nat \<Rightarrow> (nat \<Rightarrow> qp_state \<Rightarrow> qp_state) \<Rightarrow> qp_state \<Rightarrow> ptr \<Rightarrow> (unit \<times> qp_state) option"
where
  "labstor_queue_pair_CompleteInf fuel env st rq =
     inf_spinwait fuel (interleave env (complete_attempt rq)) 0 st"

definition labstor_queue_pair_CompleteQuick ::
  "nat \<Rightarrow> (nat \<Rightarrow> qp_state \<Rightarrow> qp_state) \<Rightarrow> qp_state \<Rightarrow> ptr \<Rightarrow> ptr \<Rightarrow> (unit \<times> qp_state) option"
where
  "labstor_queue_pair_CompleteQuick fuel env st old_rq new_rq =
     (case st of (heap, qp) \<Rightarrow>
        labstor_queue_pair_CompleteInf fuel env
          (heap(new_rq := (heap new_rq)\<lparr>rq_req_id := rq_req_id (heap old_rq)\<rparr>), qp) new_rq)"

definition labstor_queue_pair_CompleteByQtok ::
  "nat \<Rightarrow> (nat \<Rightarrow> qp_state \<Rightarrow> qp_state) \<Rightarrow> qp_state \<Rightarrow> labstor_qtok_t \<Rightarrow> ptr \<Rightarrow> (unit \<times> qp_state) option"
where
  "labstor_queue_pair_CompleteByQtok fuel env st qtok rq =
     (case st of (heap, qp) \<Rightarrow>
        labstor_queue_pair_CompleteInf fuel env
          (heap(rq := (heap rq)\<lparr>rq_req_id := qtok_req_id qtok\<rparr>), qp) rq)"

definition labstor_queue_pair_Complete ::
  "nat \<Rightarrow> (nat \<Rightarrow> qp_state \<Rightarrow> qp_state) \<Rightarrow> qp_state \<Rightarrow> ptr \<Rightarrow> ptr \<Rightarrow> (unit \<times> qp_state) option"
where
  "labstor_queue_pair_Complete fuel env st old_rq new_rq =
     (case st of (heap, qp) \<Rightarrow>
        labstor_queue_pair_CompleteInf fuel env
          (heap(new_rq := (heap new_rq)\<lparr>rq_req_id := rq_req_id (heap old_rq)\<rparr>), qp) new_rq)"

definition labstor_queue_pair_IsComplete :: "labstor_queue_pair \<Rightarrow> u32 \<Rightarrow> ptr option \<times> labstor_queue_pair" where
  "labstor_queue_pair_IsComplete qp req_id =
     (case labstor_request_map_FindAndRemove (qp_cq qp) req_id of (r, cq) \<Rightarrow> (r, qp\<lparr>qp_cq := cq\<rparr>))"

definition labstor_queue_pair_Wait ::
  "nat \<Rightarrow> (nat \<Rightarrow> labstor_queue_pair \<Rightarrow> labstor_queue_pair) \<Rightarrow> labstor_queue_pair \<Rightarrow> u32 \<Rightarrow>
   (ptr \<times> labstor_queue_pair) option"
where
  "labstor_queue_pair_Wait fuel env qp req_id =
     inf_spinwait fuel (interleave env (\<lambda>qp. labstor_queue_pair_IsComplete qp req_id)) 0 qp"

definition labstor_queue_pair_TimedWait ::
  "nat \<Rightarrow> (nat \<Rightarrow> nat) \<Rightarrow> (nat \<Rightarrow> labstor_queue_pair \<Rightarrow> labstor_queue_pair) \<Rightarrow> labstor_queue_pair \<Rightarrow> u32 \<Rightarrow> u32 \<Rightarrow>
   (ptr option \<times> labstor_queue_pair) option"
where
  "labstor_queue_pair_TimedWait fuel clock env qp req_id max_ms =
     timed_spinwait fuel (interleave env (\<lambda>qp. labstor_queue_pair_IsComplete qp req_id)) clock max_ms 0
       \<lparr>tm_start = 0, tm_time_ns = 0\<rparr> qp"

definition labstor_queue_pair_GetDepth :: "labstor_queue_pair \<Rightarrow> u32" where
  "labstor_queue_pair_GetDepth qp = labstor_request_queue_GetDepth (qp_sq qp)"

definition labstor_queue_pair_GetQID :: "labstor_queue_pair \<Rightarrow> labstor_qid_t" where
  "labstor_queue_pair_GetQID qp = labstor_request_queue_GetQID (qp_sq qp)"

definition labstor_queue_pair_GetPID :: "labstor_queue_pair \<Rightarrow> i32" where
  "labstor_queue_pair_GetPID qp = qid_pid (labstor_queue_pair_GetQID qp)"

text \<open>
  \<^verbatim>\<open>shmem_queue_pair::_Complete\<close> ignores the identifier it is given.
\<close>

definition shmem_queue_pair_Complete ::
  "nat \<Rightarrow> (nat \<Rightarrow> qp_state \<Rightarrow> qp_state) \<Rightarrow> qp_state \<Rightarrow> u32 \<Rightarrow> ptr \<Rightarrow> (unit \<times> qp_state) option"
where
  "shmem_queue_pair_Complete fuel env st req_id rq = labstor_queue_pair_CompleteInf fuel env st rq"

lemmas qp_op_defs =
  labstor_queue_pair_Enqueue_def labstor_queue_pair_Dequeue_def labstor_queue_pair_Peek_def
  labstor_queue_pair_CompleteInf_def labstor_queue_pair_IsComplete_def labstor_queue_pair_Wait_def
  labstor_queue_pair_Attach_def complete_attempt_def

section \<open>Laws\<close>

lemma Complete_free:
  assumes "rm_cells (qp_cq qp) (rq_req_id (heap rq) mod rm_num_buckets (qp_cq qp)) = - 1"
  shows "labstor_queue_pair_CompleteInf (Suc fuel) no_env (heap, qp) rq =
    Some ((), heap, qp\<lparr>qp_cq := (qp_cq qp)\<lparr>rm_cells := (rm_cells (qp_cq qp))
      (rq_req_id (heap rq) mod rm_num_buckets (qp_cq qp) :=
         LABSTOR_REGION_SUB rq (rm_base_region (qp_cq qp)))\<rparr>\<rparr>)"
  using assms
  by (simp add: labstor_queue_pair_CompleteInf_def interleave_def complete_attempt_def
      labstor_request_map_Set_def)

lemma Complete_blocked:
  assumes "rm_cells (qp_cq qp) (rq_req_id (heap rq) mod rm_num_buckets (qp_cq qp)) \<noteq> - 1"
  shows "labstor_queue_pair_CompleteInf fuel no_env (heap, qp) rq = None"
  unfolding labstor_queue_pair_CompleteInf_def
  by (rule inf_spinwait_stuck)
    (use assms in \<open>simp add: interleave_def complete_attempt_def labstor_request_map_Set_def\<close>)

text \<open>A completion that nobody interferes with puts the request into its bucket, which was free.\<close>

lemma CompleteInf_effect:
  assumes "labstor_queue_pair_CompleteInf fuel no_env (heap, qp) rq = Some (u, heap', qp')"
  shows "heap' = heap \<and> rm_cells (qp_cq qp) (rq_req_id (heap rq) mod rm_num_buckets (qp_cq qp)) = - 1 \<and>
    qp' = qp\<lparr>qp_cq := (qp_cq qp)\<lparr>rm_cells := (rm_cells (qp_cq qp))
      (rq_req_id (heap rq) mod rm_num_buckets (qp_cq qp) := LABSTOR_REGION_SUB rq (rm_base_region (qp_cq qp)))\<rparr>\<rparr>"
proof (cases fuel)
  case 0
  then show ?thesis using assms by (simp add: labstor_queue_pair_CompleteInf_def)
next
  case (Suc f)
  show ?thesis
    using assms Complete_free [of qp heap rq f] Complete_blocked [of qp heap rq fuel] Suc
    by (cases "rm_cells (qp_cq qp) (rq_req_id (heap rq) mod rm_num_buckets (qp_cq qp)) = - 1") auto
qed

lemma region_translate:
  assumes "unat (p - bc) < 2 ^ 31"
  shows "LABSTOR_REGION_ADD (LABSTOR_REGION_SUB p bc) bs = bs + (p - bc)"
    "LABSTOR_REGION_SUB (bs + (p - bc)) bs = LABSTOR_REGION_SUB p bc"
  using assms by (simp_all add: region_defs scast_ucast_small)

lemma submit_and_dequeue:
  assumes "rr_inv (lrq_queue (qp_sq qp))" "rr_contents (lrq_queue (qp_sq qp)) = []"
    and "lrq_base_region (qp_sq qp) = bc" "unat (rq - bc) < 2 ^ 31"
  defines "e \<equiv> rr_enqueued (lrq_queue (qp_sq qp))"
  obtains qp1 qs2 where
    "labstor_queue_pair_Enqueue (Suc fuel) no_env (heap, qp) rq =
       Some (\<lparr>qtok_qid = lrq_qid (qp_sq qp), qtok_req_id = e\<rparr>, heap(rq := (heap rq)\<lparr>rq_req_id := e\<rparr>), qp1)"
    "labstor_queue_pair_Dequeue (labstor_queue_pair_Attach qp1 p bs) = (Some (bs + (rq - bc)), qs2)"
    "rr_contents (lrq_queue (qp_sq qs2)) = []" "rm_base_region (qp_cq qs2) = bs"
    "rm_cells (qp_cq qs2) = rm_cells (qp_cq qp)" "rm_num_buckets (qp_cq qs2) = rm_num_buckets (qp_cq qp)"
proof -
  let ?q = "lrq_queue (qp_sq qp)" and ?o = "LABSTOR_REGION_SUB rq bc"
  have "rr_depth ?q = 0" using assms(2) by (metis length_0_conv ring_contents_length rr_contents_def)
  then have d: "rr_enqueued ?q = rr_dequeued ?q" "rr_depth ?q < rr_capacity ?q"
    using assms(1) by (simp_all add: rr_inv_def rr_depth_def rr_capacity_def unat_gt_0)
  define q1 where "q1 = ?q\<lparr>rr_cells := (rr_cells ?q)(e mod rr_max_depth ?q := ?o), rr_enqueued := e + 1\<rparr>"
  define qp1 where "qp1 = qp\<lparr>qp_sq := (qp_sq qp)\<lparr>lrq_queue := q1\<rparr>\<rparr>"
  define qa where "qa = labstor_queue_pair_Attach qp1 p bs"
  define qs2 where "qs2 = qa\<lparr>qp_sq := (qp_sq qa)\<lparr>lrq_queue :=
     (lrq_queue (qp_sq qa))\<lparr>rr_dequeued := e + 1\<rparr>\<rparr>\<rparr>"
  have a: "labstor_queue_pair_Enqueue (Suc fuel) no_env (heap, qp) rq =
      Some (\<lparr>qtok_qid = lrq_qid (qp_sq qp), qtok_req_id = e\<rparr>, heap(rq := (heap rq)\<lparr>rq_req_id := e\<rparr>), qp1)"
    using d lrq_Enqueue_space [OF assms(1) d(2), of fuel heap rq] assms(1)
    by (simp add: labstor_queue_pair_Enqueue_def qp1_def q1_def assms(3) e_def Let_def rr_inv_def
        labstor_request_ring_buffer_Enqueue_def)
  have b: "labstor_queue_pair_Dequeue qa = (Some (bs + (rq - bc)), qs2)"
    using d region_translate [OF assms(4)]
    by (simp add: labstor_queue_pair_Dequeue_def labstor_request_queue_Dequeue_def qs2_def qa_def
        qp1_def q1_def e_def labstor_queue_pair_Attach_def labstor_request_queue_Attach_def
        labstor_request_ring_buffer_Attach_def labstor_request_ring_buffer_Dequeue_def Let_def)
  have c: "rr_contents (lrq_queue (qp_sq qs2)) = []" "rm_base_region (qp_cq qs2) = bs"
      "rm_cells (qp_cq qs2) = rm_cells (qp_cq qp)" "rm_num_buckets (qp_cq qs2) = rm_num_buckets (qp_cq qp)"
    by (simp_all add: qs2_def qa_def qp1_def q1_def rr_contents_def rr_depth_def
        labstor_queue_pair_Attach_def labstor_request_queue_Attach_def labstor_request_map_Attach_def
        labstor_request_ring_buffer_Attach_def)
  show ?thesis by (rule that [OF a b [unfolded qa_def] c])
qed

lemma complete_and_wait:
  assumes "rm_base_region (qp_cq qs) = bs" "unat (rq - bc) < 2 ^ 31"
    and "rm_cells (qp_cq qs) (i mod rm_num_buckets (qp_cq qs)) = - 1"
  obtains qs3 qp4 where
    "\<forall>heap2. rq_req_id (heap2 (bs + (rq - bc))) = i \<longrightarrow>
       labstor_queue_pair_CompleteInf (Suc fuel) no_env (heap2, qs) (bs + (rq - bc)) = Some ((), heap2, qs3)"
    "labstor_queue_pair_Wait (Suc fuel) no_env (labstor_queue_pair_Attach qs3 p bc) i = Some (rq, qp4)"
    "rr_contents (lrq_queue (qp_sq qp4)) = rr_contents (lrq_queue (qp_sq qs))"
    "rm_cells (qp_cq qp4) = rm_cells (qp_cq qs)"
proof -
  let ?m = "qp_cq qs" and ?o = "LABSTOR_REGION_SUB rq bc"
  note t = region_translate [OF assms(2)]
  have o: "?o \<noteq> - 1" using offset_not_empty [of bc rq] assms(2) by (simp add: rm_offset_ok_def)
  define qs3 where "qs3 = qs\<lparr>qp_cq := ?m\<lparr>rm_cells := (rm_cells ?m)(i mod rm_num_buckets ?m := ?o)\<rparr>\<rparr>"
  define qb where "qb = labstor_queue_pair_Attach qs3 p bc"
  define qp4 where "qp4 = qb\<lparr>qp_cq := (qp_cq qb)\<lparr>rm_cells := rm_cells ?m\<rparr>\<rparr>"
  have a: "labstor_queue_pair_CompleteInf (Suc fuel) no_env (heap2, qs) (bs + (rq - bc)) = Some ((), heap2, qs3)"
    if "rq_req_id (heap2 (bs + (rq - bc))) = i" for heap2
    using Complete_free [of qs heap2 "bs + (rq - bc)" fuel] t assms that by (simp add: qs3_def)
  have "rm_base_region (qp_cq qb) = bc" "rm_num_buckets (qp_cq qb) = rm_num_buckets ?m"
      "rm_cells (qp_cq qb) = (rm_cells ?m)(i mod rm_num_buckets ?m := ?o)"
    by (simp_all add: qb_def qs3_def labstor_queue_pair_Attach_def labstor_request_map_Attach_def)
  then have b: "labstor_queue_pair_Wait (Suc fuel) no_env qb i = Some (rq, qp4)"
    using o t assms(3)
    by (simp add: labstor_queue_pair_Wait_def interleave_def labstor_queue_pair_IsComplete_def
        labstor_request_map_FindAndRemove_def qp4_def fun_upd_idem)
  have c: "rr_contents (lrq_queue (qp_sq qp4)) = rr_contents (lrq_queue (qp_sq qs))"
      "rm_cells (qp_cq qp4) = rm_cells ?m"
    by (simp_all add: qp4_def qb_def qs3_def rr_contents_def rr_depth_def labstor_queue_pair_Attach_def
        labstor_request_queue_Attach_def labstor_request_ring_buffer_Attach_def)
  have "\<forall>heap2. rq_req_id (heap2 (bs + (rq - bc))) = i \<longrightarrow>
      labstor_queue_pair_CompleteInf (Suc fuel) no_env (heap2, qs) (bs + (rq - bc)) = Some ((), heap2, qs3)"
    using a by blast
  then show ?thesis by (rule that [OF _ b [unfolded qb_def] c])
qed

lemma Enqueue_effect:
  assumes "labstor_queue_pair_Enqueue fuel no_env (heap, qp) rq = Some (qtok, heap', qp')"
  shows "heap' = heap(rq := (heap rq)\<lparr>rq_req_id := qtok_req_id qtok\<rparr>)" "qp_cq qp' = qp_cq qp"
proof -
  have "inf_spinwait fuel (interleave no_env (request_queue_attempt rq)) k (heap, lrq) = Some (qtok, heap', sq) \<Longrightarrow>
      heap' = heap(rq := (heap rq)\<lparr>rq_req_id := qtok_req_id qtok\<rparr>)" for k lrq sq
    by (induction fuel arbitrary: k lrq)
      (auto simp: interleave_def request_queue_attempt_def Let_def split: prod.splits option.splits)
  then show "heap' = heap(rq := (heap rq)\<lparr>rq_req_id := qtok_req_id qtok\<rparr>)" "qp_cq qp' = qp_cq qp"
    using assms by (auto simp: labstor_queue_pair_Enqueue_def labstor_request_queue_Enqueue_def)
qed

section \<open>Completed requests\<close>

text \<open>The client that waits for \<open>req_id\<close> finds \<open>rq\<close>.\<close>

definition completed_as :: "labstor_queue_pair \<Rightarrow> u32 \<Rightarrow> ptr \<Rightarrow> bool" where
  "completed_as qp req_id rq \<longleftrightarrow> fst (labstor_queue_pair_IsComplete qp req_id) = Some rq"

text \<open>The place of \<open>rq\<close> among the completed requests is free.\<close>

definition completable :: "request_heap \<Rightarrow> labstor_queue_pair \<Rightarrow> ptr \<Rightarrow> bool" where
  "completable heap qp rq \<longleftrightarrow>
     rm_cells (qp_cq qp) (rq_req_id (heap rq) mod rm_num_buckets (qp_cq qp)) = - 1 \<and>
     unat (rq - rm_base_region (qp_cq qp)) < 2 ^ 31"

lemma CompleteInf_completes:
  assumes "completable heap qp rq"
  shows "\<exists>qp'. labstor_queue_pair_CompleteInf (Suc fuel) no_env (heap, qp) rq = Some ((), heap, qp') \<and>
    completed_as qp' (rq_req_id (heap rq)) rq \<and> qp_sq qp' = qp_sq qp"
proof -
  let ?m = "qp_cq qp"
  let ?b = "rq_req_id (heap rq) mod rm_num_buckets ?m"
  let ?o = "LABSTOR_REGION_SUB rq (rm_base_region ?m)"
  define qp' where "qp' = qp\<lparr>qp_cq := ?m\<lparr>rm_cells := (rm_cells ?m)(?b := ?o)\<rparr>\<rparr>"
  have o: "?o \<noteq> - 1"
    by (rule offset_not_empty) (use assms in \<open>simp add: completable_def rm_offset_ok_def\<close>)
  have a: "LABSTOR_REGION_ADD ?o (rm_base_region ?m) = rq"
    using assms by (simp add: completable_def region_sub_add)
  have "completed_as qp' (rq_req_id (heap rq)) rq"
    using o a by (simp add: completed_as_def qp'_def labstor_queue_pair_IsComplete_def
        labstor_request_map_FindAndRemove_def)
  moreover have "labstor_queue_pair_CompleteInf (Suc fuel) no_env (heap, qp) rq = Some ((), heap, qp')"
    using Complete_free [of qp heap rq fuel] assms by (simp add: completable_def qp'_def)
  ultimately show ?thesis by (intro exI [of _ qp']) (simp add: qp'_def)
qed

section \<open>The requests of a queue pair\<close>

definition qp_requests :: "labstor_queue_pair \<Rightarrow> ptr list" where
  "qp_requests qp = map (\<lambda>off. LABSTOR_REGION_ADD off (lrq_base_region (qp_sq qp))) (rr_contents (lrq_queue (qp_sq qp)))"

lemma qp_requests_Cons:
  assumes "qp_requests qp = rq # rqs"
  shows "labstor_queue_pair_Peek qp 0 = Some rq" "qp_requests (snd (labstor_queue_pair_Dequeue qp)) = rqs"
proof -
  let ?r = "lrq_queue (qp_sq qp)"
  have ne: "rr_enqueued ?r \<noteq> rr_dequeued ?r"
    using assms by (auto simp: qp_requests_def rr_contents_def rr_depth_def)
  have "rr_contents ?r = rr_cells ?r (rr_dequeued ?r mod rr_max_depth ?r) #
      rr_contents (?r\<lparr>rr_dequeued := rr_dequeued ?r + 1\<rparr>)"
    using ring_pop [OF ne] by (simp add: rr_contents_def rr_depth_def)
  moreover have "labstor_request_ring_buffer_Dequeue ?r = (Some (rr_cells ?r (rr_dequeued ?r mod rr_max_depth ?r)),
      ?r\<lparr>rr_dequeued := rr_dequeued ?r + 1\<rparr>)"
    using ne by (simp add: labstor_request_ring_buffer_Dequeue_def Let_def)
  ultimately show "labstor_queue_pair_Peek qp 0 = Some rq" "qp_requests (snd (labstor_queue_pair_Dequeue qp)) = rqs"
    using assms lrq_Peek_Dequeue [of "qp_sq qp"]
    by (simp_all add: labstor_queue_pair_Peek_def qp_requests_def labstor_queue_pair_Dequeue_def
        labstor_request_queue_Dequeue_def)
qed

lemma qp_requests_sq: "qp_sq a = qp_sq b \<Longrightarrow> qp_requests a = qp_requests b"
  by (simp add: qp_requests_def)

lemma Dequeue_sq: "qp_sq a = qp_sq b \<Longrightarrow>
  qp_requests (snd (labstor_queue_pair_Dequeue a)) = qp_requests (snd (labstor_queue_pair_Dequeue b))"
  by (simp add: labstor_queue_pair_Dequeue_def qp_requests_def split: prod.splits)

lemma GetDepth_requests: "unat (labstor_queue_pair_GetDepth qp) = length (qp_requests qp)"
  by (simp add: labstor_queue_pair_GetDepth_def labstor_request_queue_GetDepth_def
      labstor_request_ring_buffer_GetDepth_def qp_requests_def rr_contents_def rr_depth_def)

lemma qp_requests_Dequeue:
  assumes "qp_requests qp = rq # rqs"
  shows "labstor_queue_pair_Dequeue qp = (Some rq, snd (labstor_queue_pair_Dequeue qp))"
  using qp_requests_Cons(1) [OF assms] lrq_Peek_Dequeue [of "qp_sq qp"]
  by (auto simp: labstor_queue_pair_Peek_def labstor_queue_pair_Dequeue_def split: prod.splits)

lemma Dequeue_base_region [simp]:
  "lrq_base_region (qp_sq (snd (labstor_queue_pair_Dequeue qp))) = lrq_base_region (qp_sq qp)"
  "qp_cq (snd (labstor_queue_pair_Dequeue qp)) = qp_cq qp"
  by (auto simp: labstor_queue_pair_Dequeue_def labstor_request_queue_Dequeue_def split: prod.splits option.splits)

section \<open>Properties\<close>

text \<open>
  C1. A request makes the round trip between two address spaces: submitted on an idle queue pair
  by a client that maps the shared region at \<open>bc\<close>, it is dequeued by a server that maps it at
  \<open>bs\<close> at the corresponding address, and when the server completes it, the client waiting with
  its token gets its own pointer back. Afterwards the queue pair is idle again.
\<close>

theorem queue_pair_round_trip:
  assumes "rr_inv (lrq_queue (qp_sq qp))" "rr_contents (lrq_queue (qp_sq qp)) = []"
    and "lrq_base_region (qp_sq qp) = bc" "rm_base_region (qp_cq qp) = bc"
    and "unat (rq - bc) < 2 ^ 31"
    and "rm_cells (qp_cq qp)
           (rr_enqueued (lrq_queue (qp_sq qp)) mod rm_num_buckets (qp_cq qp)) = - 1"
  shows "\<exists>qtok heap1 qp1 qs2 qs3 qp4.
     labstor_queue_pair_Enqueue (Suc fuel) no_env (heap, qp) rq = Some (qtok, heap1, qp1) \<and>
     labstor_queue_pair_Dequeue (labstor_queue_pair_Attach qp1 p bs) = (Some (bs + (rq - bc)), qs2) \<and>
     (\<forall>heap2. rq_req_id (heap2 (bs + (rq - bc))) = rq_req_id (heap1 rq) \<longrightarrow>
        labstor_queue_pair_CompleteInf (Suc fuel) no_env (heap2, qs2) (bs + (rq - bc)) =
          Some ((), heap2, qs3)) \<and>
     labstor_queue_pair_Wait (Suc fuel) no_env (labstor_queue_pair_Attach qs3 p bc) (qtok_req_id qtok) =
       Some (rq, qp4) \<and>
     rr_contents (lrq_queue (qp_sq qp4)) = [] \<and> rm_cells (qp_cq qp4) = rm_cells (qp_cq qp)"
proof -
  let ?e = "rr_enqueued (lrq_queue (qp_sq qp))"
  let ?tok = "\<lparr>qtok_qid = lrq_qid (qp_sq qp), qtok_req_id = ?e\<rparr>"
  let ?heap1 = "heap(rq := (heap rq)\<lparr>rq_req_id := ?e\<rparr>)"
  obtain qp1 qs2 where a: "labstor_queue_pair_Enqueue (Suc fuel) no_env (heap, qp) rq = Some (?tok, ?heap1, qp1)"
      "labstor_queue_pair_Dequeue (labstor_queue_pair_Attach qp1 p bs) = (Some (bs + (rq - bc)), qs2)"
      "rr_contents (lrq_queue (qp_sq qs2)) = []" "rm_base_region (qp_cq qs2) = bs"
      "rm_cells (qp_cq qs2) = rm_cells (qp_cq qp)"
      "rm_num_buckets (qp_cq qs2) = rm_num_buckets (qp_cq qp)"
    by (rule submit_and_dequeue [OF assms(1,2,3,5)])
  have f: "rm_cells (qp_cq qs2) (?e mod rm_num_buckets (qp_cq qs2)) = - 1"
    unfolding a(5,6) by (rule assms(6))
  obtain qs3 qp4 where b: "\<forall>heap2. rq_req_id (heap2 (bs + (rq - bc))) = ?e \<longrightarrow>
       labstor_queue_pair_CompleteInf (Suc fuel) no_env (heap2, qs2) (bs + (rq - bc)) = Some ((), heap2, qs3)"
      "labstor_queue_pair_Wait (Suc fuel) no_env (labstor_queue_pair_Attach qs3 p bc) ?e = Some (rq, qp4)"
      "rr_contents (lrq_queue (qp_sq qp4)) = rr_contents (lrq_queue (qp_sq qs2))"
      "rm_cells (qp_cq qp4) = rm_cells (qp_cq qs2)"
    by (rule complete_and_wait [OF a(4) assms(5) f, of fuel p])
  have h: "rq_req_id (?heap1 rq) = ?e" by simp
  show ?thesis
    by (rule exI [of _ ?tok], rule exI [of _ ?heap1], rule exI [of _ qp1], rule exI [of _ qs2],
        rule exI [of _ qs3], rule exI [of _ qp4], intro conjI)
      (use a b in \<open>simp_all only: h labstor_qtok_t.select_convs\<close>)
qed

definition idle_qp :: labstor_queue_pair where
  "idle_qp =
     \<lparr>qp_sq = \<lparr>lrq_base_region = 4096, lrq_header = 8192,
        lrq_qid = \<lparr>qid_flags = 0, qid_type = 0, qid_cnt = 0, qid_pid = 42\<rparr>, lrq_update = (0, 0),
        lrq_queue = \<lparr>rr_header = 8204, rr_queue = 8216, rr_enqueued = 5, rr_dequeued = 5,
          rr_max_depth = 4, rr_cells = (\<lambda>_. 0)\<rparr>\<rparr>,
      qp_cq = \<lparr>rm_header = 9000, rm_buckets = 9004, rm_base_region = 4096, rm_num_buckets = 4,
        rm_cells = (\<lambda>_. - 1)\<rparr>\<rparr>"

theorem queue_pair_round_trip_witness:
  "\<exists>qtok heap1 qp1 qs2.
     labstor_queue_pair_Enqueue 1 no_env (\<lambda>_. \<lparr>rq_req_id = 0, rq_ns_id = 0, rq_code = 0, rq_op = 0\<rparr>, idle_qp) 5000
       = Some (qtok, heap1, qp1) \<and>
     labstor_queue_pair_Dequeue (labstor_queue_pair_Attach qp1 (labstor_queue_pair_GetPointer idle_qp 4096) 65536)
       = (Some 66440, qs2)"
proof -
  have "rr_inv (lrq_queue (qp_sq idle_qp))" "rr_contents (lrq_queue (qp_sq idle_qp)) = []"
    "lrq_base_region (qp_sq idle_qp) = 4096" "rm_base_region (qp_cq idle_qp) = 4096"
    "rm_cells (qp_cq idle_qp) (rr_enqueued (lrq_queue (qp_sq idle_qp)) mod rm_num_buckets (qp_cq idle_qp)) = - 1"
    by (simp_all add: idle_qp_def rr_inv_def rr_depth_def rr_capacity_def rr_contents_def)
  note i = this
  have o: "unat (5000 - 4096 :: ptr) < 2 ^ 31" "65536 + (5000 - 4096) = (66440 :: ptr)" by simp_all
  from queue_pair_round_trip [OF i(1-4) o(1) i(5), of 0
      "\<lambda>_. \<lparr>rq_req_id = 0, rq_ns_id = 0, rq_code = 0, rq_op = 0\<rparr>"
      "labstor_queue_pair_GetPointer idle_qp 4096" 65536]
  show ?thesis unfolding o(2) One_nat_def by (elim exE conjE) (intro exI conjI)
qed

text \<open>
  \<^verbatim>\<open>labstor_queue_pair_RemoteAttach\<close> attaches the submission queue to the wrong address: the
  header is taken to be at the base of the shared region and the base region to be at the queue,
  so the handle differs from the one of \<^verbatim>\<open>Attach\<close> unless the queue is at offset zero.
\<close>

theorem RemoteAttach_swaps_regions:
  "lrq_header (qp_sq (labstor_queue_pair_RemoteAttach qp p kern)) = kern \<and>
   lrq_base_region (qp_sq (labstor_queue_pair_RemoteAttach qp p kern)) =
     LABSTOR_REGION_ADD (qpp_sq_off p) kern \<and>
   (labstor_queue_pair_RemoteAttach qp p kern = labstor_queue_pair_Attach qp p kern) =
     (LABSTOR_REGION_ADD (qpp_sq_off p) kern = kern)"
proof -
  have "labstor_queue_pair_RemoteAttach qp p kern = labstor_queue_pair_Attach qp p kern"
    if "LABSTOR_REGION_ADD (qpp_sq_off p) kern = kern"
    using that
    by (simp add: labstor_queue_pair_RemoteAttach_def labstor_queue_pair_Attach_def
        labstor_request_queue_RemoteAttach_def labstor_request_queue_Attach_def
        labstor_request_map_RemoteAttach_def labstor_request_map_Attach_def
        labstor_request_ring_buffer_RemoteAttach_def labstor_request_ring_buffer_Attach_def)
  moreover have "LABSTOR_REGION_ADD (qpp_sq_off p) kern = kern"
    if "labstor_queue_pair_RemoteAttach qp p kern = labstor_queue_pair_Attach qp p kern"
    using arg_cong [OF that, of "\<lambda>q. lrq_base_region (qp_sq q)"]
    by (simp add: labstor_queue_pair_RemoteAttach_def labstor_queue_pair_Attach_def
        labstor_request_queue_RemoteAttach_def labstor_request_queue_Attach_def)
  ultimately have e: "(labstor_queue_pair_RemoteAttach qp p kern = labstor_queue_pair_Attach qp p kern) =
      (LABSTOR_REGION_ADD (qpp_sq_off p) kern = kern)" by blast
  show ?thesis
    unfolding e by (simp add: labstor_queue_pair_RemoteAttach_def labstor_request_queue_RemoteAttach_def)
qed

end
