(* ===== verification/Work_Queues.thy ===== *)
theory Work_Queues
  imports Labstor_Interfaces
begin

text \<open>
  The tables of queue pairs a worker polls:
  \<^verbatim>\<open>include/labstor/types/data_structures/c/shmem_work_queue.h\<close> and
  \<^verbatim>\<open>shmem_work_queue_secure.h\<close>. Both are append-only. Entries of the first are pointers to queue
  pairs, entries of the second also point to the credentials of the queue's owner; the record
  is shared and has the entry type as its parameter.
\<close>

section \<open>The structures and their operations\<close>

record 'e labstor_work_queue =
  wq_header :: ptr
  wq_queue :: ptr
  wq_enqueued :: u32
  wq_max_depth :: u32
  wq_plug :: "u16 \<times> u16"
  wq_cells :: "u32 \<Rightarrow> 'e"

text \<open>The size is computed with the size of an offset, although an entry is a pointer.\<close>

definition labstor_work_queue_GetSize_global :: "u32 \<Rightarrow> u32" where
  "labstor_work_queue_GetSize_global max_depth = 12 + 4 * max_depth"

definition labstor_work_queue_GetSize :: "'e labstor_work_queue \<Rightarrow> u32" where
  "labstor_work_queue_GetSize rbuf = labstor_work_queue_GetSize_global (wq_max_depth rbuf)"

definition labstor_work_queue_GetRegion :: "'e labstor_work_queue \<Rightarrow> ptr" where
  "labstor_work_queue_GetRegion rbuf = wq_header rbuf"

definition labstor_work_queue_GetNextSection :: "'e labstor_work_queue \<Rightarrow> ptr" where
  "labstor_work_queue_GetNextSection rbuf = wq_header rbuf + ucast (labstor_work_queue_GetSize rbuf)"

definition labstor_work_queue_GetDepth :: "'e labstor_work_queue \<Rightarrow> u32" where
  "labstor_work_queue_GetDepth rbuf = wq_enqueued rbuf"

definition labstor_work_queue_GetMaxDepth :: "'e labstor_work_queue \<Rightarrow> u32" where
  "labstor_work_queue_GetMaxDepth rbuf = wq_max_depth rbuf"

definition labstor_work_queue_Init ::
  "ptr labstor_work_queue \<Rightarrow> ptr \<Rightarrow> u32 \<Rightarrow> u32 \<Rightarrow> bool \<times> ptr labstor_work_queue"
where
  "labstor_work_queue_Init rbuf region region_size max_depth =
     (let r = rbuf\<lparr>wq_header := region, wq_enqueued := 0, wq_plug := (0, 0)\<rparr> in
      if region_size < labstor_work_queue_GetSize_global max_depth then (False, r)
      else
        let depth = (if max_depth = 0 then (region_size - 12) div 8 else max_depth) in
        if depth = 0 then (False, r)
        else (True, r\<lparr>wq_max_depth := depth, wq_queue := region + 12\<rparr>))"

definition labstor_work_queue_Attach :: "ptr labstor_work_queue \<Rightarrow> ptr \<Rightarrow> ptr labstor_work_queue" where
  "labstor_work_queue_Attach rbuf region = rbuf\<lparr>wq_header := region, wq_queue := region + 12\<rparr>"

definition labstor_work_queue_Enqueue ::
  "ptr labstor_work_queue \<Rightarrow> ptr \<Rightarrow> bool \<times> ptr labstor_work_queue"
where
  "labstor_work_queue_Enqueue rbuf qp =
     (if wq_enqueued rbuf \<ge> wq_max_depth rbuf then (False, rbuf)
      else (True, rbuf\<lparr>wq_cells := (wq_cells rbuf)(wq_enqueued rbuf := qp),
                       wq_enqueued := wq_enqueued rbuf + 1\<rparr>))"

text \<open>The index is an \<^verbatim>\<open>int\<close>, compared as an unsigned number.\<close>

definition labstor_work_queue_Peek :: "ptr labstor_work_queue \<Rightarrow> i32 \<Rightarrow> ptr option" where
  "labstor_work_queue_Peek rbuf i =
     (if i \<ge> wq_enqueued rbuf then None else Some (wq_cells rbuf i))"

definition labstor_work_queue_secure_GetSize_global :: "u32 \<Rightarrow> u32" where
  "labstor_work_queue_secure_GetSize_global max_depth = 12 + 16 * max_depth"

definition labstor_work_queue_secure_GetSize :: "(ptr \<times> ptr) labstor_work_queue \<Rightarrow> u32" where
  "labstor_work_queue_secure_GetSize rbuf =
     labstor_work_queue_secure_GetSize_global (wq_max_depth rbuf)"

definition labstor_work_queue_secure_GetNextSection :: "(ptr \<times> ptr) labstor_work_queue \<Rightarrow> ptr" where
  "labstor_work_queue_secure_GetNextSection rbuf =
     wq_header rbuf + ucast (labstor_work_queue_secure_GetSize rbuf)"

definition labstor_work_queue_secure_Init ::
  "(ptr \<times> ptr) labstor_work_queue \<Rightarrow> ptr \<Rightarrow> u32 \<Rightarrow> u32 \<Rightarrow> bool \<times> (ptr \<times> ptr) labstor_work_queue"
where
  "labstor_work_queue_secure_Init rbuf region region_size max_depth =
     (let r = rbuf\<lparr>wq_header := region, wq_enqueued := 0, wq_plug := (0, 0)\<rparr> in
      if region_size < labstor_work_queue_secure_GetSize_global max_depth then (False, r)
      else
        let depth = (if max_depth = 0 then (region_size - 12) div 16 else max_depth) in
        if depth = 0 then (False, r)
        else (True, r\<lparr>wq_max_depth := depth, wq_queue := region + 12\<rparr>))"

definition labstor_work_queue_secure_Attach ::
  "(ptr \<times> ptr) labstor_work_queue \<Rightarrow> ptr \<Rightarrow> (ptr \<times> ptr) labstor_work_queue"
where
  "labstor_work_queue_secure_Attach rbuf region = rbuf\<lparr>wq_header := region, wq_queue := region + 12\<rparr>"

definition labstor_work_queue_secure_Enqueue ::
  "(ptr \<times> ptr) labstor_work_queue \<Rightarrow> ptr \<Rightarrow> ptr \<Rightarrow> bool \<times> (ptr \<times> ptr) labstor_work_queue"
where
  "labstor_work_queue_secure_Enqueue rbuf qp creds =
     (if wq_enqueued rbuf \<ge> wq_max_depth rbuf then (False, rbuf)
      else (True, rbuf\<lparr>wq_cells := (wq_cells rbuf)(wq_enqueued rbuf := (qp, creds)),
                       wq_enqueued := wq_enqueued rbuf + 1\<rparr>))"

definition labstor_work_queue_secure_Peek ::
  "(ptr \<times> ptr) labstor_work_queue \<Rightarrow> i32 \<Rightarrow> (ptr \<times> ptr) option"
where
  "labstor_work_queue_secure_Peek rbuf i =
     (if i \<ge> wq_enqueued rbuf then None else Some (wq_cells rbuf i))"

section \<open>Both are bounded logs\<close>

definition wq_inv :: "'e labstor_work_queue \<Rightarrow> bool" where
  "wq_inv w \<longleftrightarrow> wq_enqueued w \<le> wq_max_depth w"

definition wq_entries :: "'e labstor_work_queue \<Rightarrow> 'e list" where
  "wq_entries w = map (\<lambda>i. wq_cells w (of_nat i)) [0..<unat (wq_enqueued w)]"

definition wq_cap :: "'e labstor_work_queue \<Rightarrow> nat" where
  "wq_cap w = unat (wq_max_depth w)"

definition wq_append :: "'e \<Rightarrow> 'e labstor_work_queue \<Rightarrow> 'e labstor_work_queue" where
  "wq_append x w = w\<lparr>wq_cells := (wq_cells w)(wq_enqueued w := x), wq_enqueued := wq_enqueued w + 1\<rparr>"

lemma unat_of_nat_below: "i < unat (w :: u32) \<Longrightarrow> unat (of_nat i :: u32) = i"
  using less_trans [OF _ unat32_less [of w]] by (simp add: unat_of_nat)

lemma of_nat_eq_counter: "i < unat (w :: u32) \<Longrightarrow> (of_nat i :: u32) \<noteq> w"
  using unat_of_nat_below [of i w] by auto

lemma wq_entries_length [simp]: "length (wq_entries w) = unat (wq_enqueued w)"
  by (simp add: wq_entries_def)

lemma wq_append_law:
  assumes "wq_enqueued w < wq_max_depth w"
  shows "wq_inv (wq_append x w)" "wq_entries (wq_append x w) = wq_entries w @ [x]"
    "wq_cap (wq_append x w) = wq_cap w"
proof -
  have "unat (wq_enqueued w) < unat (wq_max_depth w)" using assms by (simp add: word_less_nat_alt)
  then have s: "unat (wq_enqueued w + 1) = Suc (unat (wq_enqueued w))"
    using counter_push [of "wq_enqueued w" 0] by simp
  show "wq_inv (wq_append x w)"
    using assms s by (simp add: wq_inv_def wq_append_def word_le_nat_alt word_less_nat_alt)
  show "wq_entries (wq_append x w) = wq_entries w @ [x]"
    by (simp add: wq_entries_def wq_append_def s of_nat_eq_counter)
  show "wq_cap (wq_append x w) = wq_cap w" by (simp add: wq_cap_def wq_append_def)
qed

lemma wq_push_law:
  assumes "wq_inv w"
    and "(if wq_enqueued w \<ge> wq_max_depth w then (False, w) else (True, wq_append x w)) = (b, w')"
  shows "wq_inv w' \<and> wq_cap w' = wq_cap w \<and> list_enq (wq_cap w) x (wq_entries w) = (b, wq_entries w')"
  using assms wq_append_law [of w x]
  by (auto simp: list_enq_def wq_cap_def wq_inv_def not_le word_less_nat_alt
      word_le_nat_alt split: if_splits)

lemma wq_peek_law:
  "(if of_nat i \<ge> wq_enqueued w then None else Some (wq_cells w (of_nat i))) =
     (if i < length (wq_entries w) then Some (wq_entries w ! i) else None)" if "i < 2 ^ 31"
proof -
  have "unat (of_nat i :: u32) = i" using that by (simp add: unat_of_nat)
  then show ?thesis by (auto simp: wq_entries_def word_le_nat_alt)
qed

lemma wq_Enqueue_append:
  "labstor_work_queue_Enqueue w x =
     (if wq_enqueued w \<ge> wq_max_depth w then (False, w) else (True, wq_append x w))"
  by (simp add: labstor_work_queue_Enqueue_def wq_append_def)

lemma wq_secure_Enqueue_append:
  "labstor_work_queue_secure_Enqueue w (fst x) (snd x) =
     (if wq_enqueued w \<ge> wq_max_depth w then (False, w) else (True, wq_append x w))"
  by (simp add: labstor_work_queue_secure_Enqueue_def wq_append_def)

interpretation wq_log: bounded_log wq_inv wq_entries wq_cap
    "\<lambda>x w. labstor_work_queue_Enqueue w x" "\<lambda>w i. labstor_work_queue_Peek w (of_nat i)"
proof
  fix s :: "ptr labstor_work_queue"
  assume s: "wq_inv s"
  show "length (wq_entries s) \<le> wq_cap s"
    using s by (simp add: wq_cap_def wq_inv_def word_le_nat_alt)
  show "wq_inv s' \<and> wq_cap s' = wq_cap s \<and> list_enq (wq_cap s) x (wq_entries s) = (b, wq_entries s')"
    if "labstor_work_queue_Enqueue s x = (b, s')" for x b s'
    by (rule wq_push_law [OF s that [unfolded wq_Enqueue_append]])
  show "labstor_work_queue_Peek s (of_nat i) =
      (if i < length (wq_entries s) then Some (wq_entries s ! i) else None)" if "i < 2 ^ 31" for i
    using wq_peek_law [OF that] by (simp only: labstor_work_queue_Peek_def)
qed

interpretation wqs_log: bounded_log wq_inv wq_entries wq_cap
    "\<lambda>x w. labstor_work_queue_secure_Enqueue w (fst x) (snd x)"
    "\<lambda>w i. labstor_work_queue_secure_Peek w (of_nat i)"
proof
  fix s :: "(ptr \<times> ptr) labstor_work_queue"
  assume s: "wq_inv s"
  show "length (wq_entries s) \<le> wq_cap s"
    using s by (simp add: wq_cap_def wq_inv_def word_le_nat_alt)
  show "wq_inv s' \<and> wq_cap s' = wq_cap s \<and> list_enq (wq_cap s) x (wq_entries s) = (b, wq_entries s')"
    if "labstor_work_queue_secure_Enqueue s (fst x) (snd x) = (b, s')" for x b s'
    by (rule wq_push_law [OF s that [unfolded wq_secure_Enqueue_append]])
  show "labstor_work_queue_secure_Peek s (of_nat i) =
      (if i < length (wq_entries s) then Some (wq_entries s ! i) else None)" if "i < 2 ^ 31" for i
    using wq_peek_law [OF that] by (simp only: labstor_work_queue_secure_Peek_def)
qed

section \<open>Properties\<close>

lemma wq_secure_Init_ok:
  assumes "labstor_work_queue_secure_Init w0 region region_size max_depth = (True, w)"
  shows "wq_inv w" "wq_entries w = []" "wq_max_depth w \<noteq> 0" "wq_header w = region"
    "wq_max_depth w = (if max_depth = 0 then (region_size - 12) div 16 else max_depth)"
  using assms
  by (auto simp: labstor_work_queue_secure_Init_def Let_def wq_inv_def wq_entries_def split: if_splits)

lemma wq_Init_ok:
  assumes "labstor_work_queue_Init w0 region region_size max_depth = (True, w)"
  shows "wq_inv w" "wq_entries w = []" "wq_max_depth w \<noteq> 0" "wq_header w = region"
    "wq_max_depth w = (if max_depth = 0 then (region_size - 12) div 8 else max_depth)"
    "labstor_work_queue_GetSize_global max_depth \<le> region_size"
  using assms
  by (auto simp: labstor_work_queue_Init_def Let_def wq_inv_def wq_entries_def split: if_splits)

text \<open>
  C9. A worker sees exactly the queue pairs that were assigned to it, in order, with the
  credentials they were registered with: after \<^verbatim>\<open>Init\<close> and any sequence of \<^verbatim>\<open>Enqueue\<close>
  calls on the secure work queue, the calls up to the depth succeed, the later ones fail, and
  \<^verbatim>\<open>Peek\<close> at an index returns the queue pair and credentials of that call.
\<close>

theorem secure_work_queue_assignments:
  assumes "labstor_work_queue_secure_Init w0 region region_size max_depth = (True, w)"
    and "push_all (\<lambda>x w. labstor_work_queue_secure_Enqueue w (fst x) (snd x)) xs w = (oks, w')"
    and "i < 2 ^ 31"
  shows "oks = map (\<lambda>k. k < unat (wq_max_depth w)) [0..<length xs] \<and>
    labstor_work_queue_secure_Peek w' (of_nat i) =
      (if i < length xs \<and> i < unat (wq_max_depth w) then Some (xs ! i) else None)"
proof -
  note w = wq_secure_Init_ok [OF assms(1)]
  have e: "wq_inv w'" "wq_entries w' = take (unat (wq_max_depth w)) xs"
      "oks = map (\<lambda>k. k < unat (wq_max_depth w)) [0..<length xs]"
    using wqs_log.push_all_entries [OF w(1) assms(2)] w(2) by (simp_all add: wq_cap_def)
  have "length (wq_entries w') = min (length xs) (unat (wq_max_depth w))" by (simp only: e(2) length_take min.commute)
  then show ?thesis
    using wqs_log.peek_law [OF e(1) assms(3)] e(2,3) by (simp del: wq_entries_length)
qed

definition wq_blank :: "'e \<Rightarrow> 'e labstor_work_queue" where
  "wq_blank x = \<lparr>wq_header = 0, wq_queue = 0, wq_enqueued = 7, wq_max_depth = 0, wq_plug = (1, 1),
     wq_cells = (\<lambda>_. x)\<rparr>"

theorem secure_work_queue_assignments_witness:
  "\<exists>w w'. labstor_work_queue_secure_Init (wq_blank (0, 0)) 4096 44 0 = (True, w) \<and>
     labstor_work_queue_secure_Peek w' 1 = Some (22, 5) \<and>
     push_all (\<lambda>x w. labstor_work_queue_secure_Enqueue w (fst x) (snd x)) [(11, 5), (22, 5), (33, 6)] w =
       ([True, True, False], w')"
proof -
  obtain w where w: "labstor_work_queue_secure_Init (wq_blank (0, 0)) 4096 44 0 = (True, w)"
      "wq_max_depth w = 2"
    by (simp add: labstor_work_queue_secure_Init_def labstor_work_queue_secure_GetSize_global_def)
  obtain oks w' where p: "push_all (\<lambda>x w. labstor_work_queue_secure_Enqueue w (fst x) (snd x))
      [(11, 5), (22, 5), (33, 6)] w = (oks, w')" by fastforce
  show ?thesis
    using secure_work_queue_assignments [OF w(1) p, of 1] w p by auto
qed

text \<open>
  Consecutive work queues overlap: the size of a work queue counts four bytes for an entry of
  eight, so the section behind a queue of depth at least two begins inside that queue, in the
  entry with the index of half its depth.
\<close>

theorem work_queue_next_section_overlaps:
  assumes "labstor_work_queue_Init w0 region region_size 0 = (True, w)" "2 \<le> unat (wq_max_depth w)"
  shows "let i = unat (wq_max_depth w) div 2; next = unat (labstor_work_queue_GetSize w) in
    i < wq_cap w \<and> 12 + 8 * i \<le> next \<and> next < 12 + 8 * (i + 1)"
proof -
  let ?d = "unat (wq_max_depth w)"
  have "?d = unat (region_size - 12) div 8"
    using wq_Init_ok(5) [OF assms(1)] by (simp add: unat_div)
  moreover have "unat (region_size - 12) < 4294967296" by (rule unat32_less)
  ultimately have "?d < 536870912" by (simp add: less_mult_imp_div_less)
  then have "unat (labstor_work_queue_GetSize w) = 12 + 4 * ?d"
    by (simp add: labstor_work_queue_GetSize_def labstor_work_queue_GetSize_global_def unat_word_ariths)
  then show ?thesis
    using assms(2) by (simp add: Let_def wq_cap_def)
qed

theorem work_queue_next_section_overlaps_witness:
  "\<exists>w. labstor_work_queue_Init (wq_blank 0) 65536 524 0 = (True, w) \<and> wq_max_depth w = 64 \<and>
     unat (labstor_work_queue_GetSize w) < 12 + 8 * 33"
proof -
  obtain w where w: "labstor_work_queue_Init (wq_blank 0) 65536 524 0 = (True, w)" "wq_max_depth w = 64"
    by (simp add: labstor_work_queue_Init_def labstor_work_queue_GetSize_global_def)
  show ?thesis
    using work_queue_next_section_overlaps [OF w(1)] w by (auto simp: Let_def)
qed

end
