(* ===== verification/Private_Allocator.thy ===== *)
theory Private_Allocator
  imports Request_Ring
begin

text \<open>
  The segment allocator and the fixed-size block allocator of one core:
  \<^verbatim>\<open>include/labstor/types/allocator/segment_allocator.h\<close> and
  \<^verbatim>\<open>private_shmem_allocator.h\<close>. The block allocator keeps the offsets of its free blocks in a
  request ring at the start of its region and cuts the rest of the region into blocks.
\<close>

section \<open>The segment allocator\<close>

record labstor_segment_allocator =
  seg_offset :: u32
  seg_max_size :: u32
  seg_region :: ptr

definition labstor_segment_allocator_Init :: "ptr \<Rightarrow> u32 \<Rightarrow> labstor_segment_allocator" where
  "labstor_segment_allocator_Init region sz =
     \<lparr>seg_offset = 0, seg_max_size = sz, seg_region = region\<rparr>"

definition labstor_segment_allocator_Attach :: "ptr \<Rightarrow> u32 \<Rightarrow> labstor_segment_allocator" where
  "labstor_segment_allocator_Attach region sz = labstor_segment_allocator_Init region sz"

definition labstor_segment_allocator_Alloc ::
  "labstor_segment_allocator \<Rightarrow> u32 \<Rightarrow> ptr \<times> labstor_segment_allocator"
where
  "labstor_segment_allocator_Alloc alloc sz =
     (LABSTOR_REGION_ADD_u32 (seg_offset alloc) (seg_region alloc),
      alloc\<lparr>seg_offset := seg_offset alloc + sz\<rparr>)"

text \<open>A sequence of allocations, and the offsets they are given.\<close>

fun seg_alloc_all :: "u32 list \<Rightarrow> labstor_segment_allocator \<Rightarrow> ptr list \<times> labstor_segment_allocator" where
  "seg_alloc_all [] a = ([], a)"
| "seg_alloc_all (n # ns) a =
     (let (p, a1) = labstor_segment_allocator_Alloc a n; (ps, a2) = seg_alloc_all ns a1 in (p # ps, a2))"

section \<open>The block allocator\<close>

record labstor_private_shmem_allocator =
  pa_base_region :: ptr
  pa_header :: ptr
  pa_region_size :: u32
  pa_request_unit :: u32
  pa_objs :: labstor_request_ring_buffer

definition labstor_private_shmem_allocator_GetSize :: "labstor_private_shmem_allocator \<Rightarrow> u32" where
  "labstor_private_shmem_allocator_GetSize alloc =
     48 + labstor_request_ring_buffer_GetSize (pa_objs alloc)"

text \<open>The loop of \<^verbatim>\<open>Init\<close> that enqueues the blocks of the remainder of the region.\<close>

fun private_fill ::
  "nat \<Rightarrow> u32 \<Rightarrow> ptr \<Rightarrow> ptr \<Rightarrow> labstor_request_ring_buffer \<Rightarrow> labstor_request_ring_buffer"
where
  "private_fill 0 request_unit base remainder objs = objs"
| "private_fill (Suc n) request_unit base remainder objs =
     private_fill n request_unit base (LABSTOR_REGION_ADD_u32 request_unit remainder)
       (snd (labstor_request_ring_buffer_Enqueue_simple objs (LABSTOR_REGION_SUB remainder base)))"

definition labstor_private_shmem_allocator_Init ::
  "labstor_private_shmem_allocator \<Rightarrow> ptr \<Rightarrow> ptr \<Rightarrow> u32 \<Rightarrow> u32 \<Rightarrow> labstor_private_shmem_allocator result"
where
  "labstor_private_shmem_allocator_Init alloc base_region region region_size request_unit =
     (if request_unit = 0 then Inl DIVISION_BY_ZERO
      else
        let max_objs = region_size div request_unit in
        case request_ring_Init (pa_objs alloc) (region + 8) (region_size - 8) max_objs of
          Inl err \<Rightarrow> Inl err
        | Inr objs \<Rightarrow>
            let remainder = labstor_request_ring_buffer_GetNextSection objs;
                remainder_size = ucast (region + ucast region_size - remainder) :: u32;
                remainder_objs = remainder_size div request_unit in
            Inr (alloc\<lparr>pa_base_region := base_region, pa_header := region,
                   pa_region_size := region_size, pa_request_unit := request_unit,
                   pa_objs := private_fill (unat remainder_objs) request_unit base_region remainder objs\<rparr>))"

definition labstor_private_shmem_allocator_Attach ::
  "labstor_private_shmem_allocator \<Rightarrow> ptr \<Rightarrow> ptr \<Rightarrow> labstor_private_shmem_allocator"
where
  "labstor_private_shmem_allocator_Attach alloc base_region region =
     alloc\<lparr>pa_base_region := base_region, pa_header := region,
           pa_objs := labstor_request_ring_buffer_Attach (pa_objs alloc) (region + 8)\<rparr>"

text \<open>Neither the size nor the core is used; \<open>None\<close> is the null pointer.\<close>

definition labstor_private_shmem_allocator_Alloc ::
  "labstor_private_shmem_allocator \<Rightarrow> u32 \<Rightarrow> u32 \<Rightarrow> ptr option \<times> labstor_private_shmem_allocator"
where
  "labstor_private_shmem_allocator_Alloc alloc sz core =
     (case labstor_request_ring_buffer_Dequeue (pa_objs alloc) of
        (None, q) \<Rightarrow> (None, alloc\<lparr>pa_objs := q\<rparr>)
      | (Some off, q) \<Rightarrow>
          (Some (LABSTOR_REGION_ADD off (pa_base_region alloc)), alloc\<lparr>pa_objs := q\<rparr>))"

definition labstor_private_shmem_allocator_Free ::
  "labstor_private_shmem_allocator \<Rightarrow> ptr \<Rightarrow> bool \<times> labstor_private_shmem_allocator"
where
  "labstor_private_shmem_allocator_Free alloc data =
     (case labstor_request_ring_buffer_Enqueue_simple (pa_objs alloc)
             (LABSTOR_REGION_SUB data (pa_base_region alloc)) of
        (ok, q) \<Rightarrow> (ok, alloc\<lparr>pa_objs := q\<rparr>))"

section \<open>Segments\<close>

lemma seg_alloc_all_offsets:
  assumes "unat (seg_offset a) + sum_list (map unat ns) < 2 ^ 32" "seg_alloc_all ns a = (ps, a')"
  shows "ps = map (\<lambda>k. seg_region a + of_nat (unat (seg_offset a) + sum_list (map unat (take k ns))))
               [0..<length ns]"
  using assms
proof (induction ns arbitrary: a ps a')
  case Nil
  then show ?case by simp
next
  case (Cons n ns)
  let ?a = "a\<lparr>seg_offset := seg_offset a + n\<rparr>"
  obtain qs where q: "seg_alloc_all ns ?a = (qs, a')" "ps = LABSTOR_REGION_ADD_u32 (seg_offset a) (seg_region a) # qs"
    using Cons.prems(2) by (auto simp: labstor_segment_allocator_Alloc_def split: prod.splits)
  have o: "unat (seg_offset a + n) = unat (seg_offset a) + unat n"
    using Cons.prems(1) by (simp add: unat_word_ariths)
  have "qs = map (\<lambda>k. seg_region a + of_nat (unat (seg_offset a) + unat n + sum_list (map unat (take k ns))))
               [0..<length ns]"
    using Cons.IH [OF _ q(1)] Cons.prems(1) o by (simp add: add.assoc)
  moreover have "LABSTOR_REGION_ADD_u32 (seg_offset a) (seg_region a) = seg_region a + of_nat (unat (seg_offset a))"
    by (simp add: LABSTOR_REGION_ADD_u32_def)
  ultimately show ?case
    using q(2) by (simp add: upt_conv_Cons map_Suc_upt [symmetric] add.assoc del: upt_Suc map_Suc_upt)
qed

section \<open>Blocks\<close>

definition pa_start :: "labstor_private_shmem_allocator \<Rightarrow> ptr" where
  "pa_start a = labstor_request_ring_buffer_GetNextSection (pa_objs a)"

definition pa_count :: "labstor_private_shmem_allocator \<Rightarrow> nat" where
  "pa_count a =
     unat ((ucast (pa_header a + ucast (pa_region_size a) - pa_start a) :: u32) div pa_request_unit a)"

definition pa_block :: "labstor_private_shmem_allocator \<Rightarrow> nat \<Rightarrow> ptr" where
  "pa_block a k = pa_start a + of_nat k * ucast (pa_request_unit a)"

definition pa_blocks :: "labstor_private_shmem_allocator \<Rightarrow> ptr set" where
  "pa_blocks a = pa_block a ` {..<pa_count a}"

abbreviation pa_off :: "labstor_private_shmem_allocator \<Rightarrow> ptr \<Rightarrow> labstor_off_t" where
  "pa_off a p \<equiv> LABSTOR_REGION_SUB p (pa_base_region a)"

definition pa_fits :: "labstor_private_shmem_allocator \<Rightarrow> bool" where
  "pa_fits a \<longleftrightarrow> pa_request_unit a \<noteq> 0 \<and>
     unat (pa_start a - pa_base_region a) + pa_count a * unat (pa_request_unit a) < 2 ^ 31"

definition pa_inv :: "labstor_private_shmem_allocator \<Rightarrow> bool" where
  "pa_inv a \<longleftrightarrow> rr_inv (pa_objs a) \<and> pa_fits a \<and> pa_count a \<le> rr_capacity (pa_objs a) \<and>
     distinct (rr_contents (pa_objs a)) \<and> set (rr_contents (pa_objs a)) \<subseteq> pa_off a ` pa_blocks a"

definition pa_avail :: "labstor_private_shmem_allocator \<Rightarrow> ptr set" where
  "pa_avail a = {p \<in> pa_blocks a. pa_off a p \<in> set (rr_contents (pa_objs a))}"

definition pa_room :: "labstor_private_shmem_allocator \<Rightarrow> nat \<Rightarrow> bool" where
  "pa_room a n = rr_headroom (pa_objs a) n"

lemma block_offset:
  fixes start base :: ptr and u :: u32
  assumes "unat (start - base) + n * unat u < 2 ^ 31" "k \<le> n"
  shows "unat (start + of_nat k * ucast u - base) = unat (start - base) + k * unat u"
proof -
  have b: "unat (start - base) + k * unat u < 2 ^ 31"
    using assms mult_le_mono1 [OF assms(2), of "unat u"] by linarith
  have "start + of_nat k * ucast u - base = of_nat (unat (start - base) + k * unat u)"
    by simp
  then show ?thesis using b by (simp only: unat_of_nat) simp
qed

lemma pa_block_offset:
  assumes "pa_fits a" "k < pa_count a"
  shows "unat (pa_block a k - pa_base_region a) =
      unat (pa_start a - pa_base_region a) + k * unat (pa_request_unit a)"
  unfolding pa_block_def
  by (rule block_offset [of _ _ "pa_count a"]) (use assms in \<open>simp_all add: pa_fits_def\<close>)

lemma pa_block_offset_bound:
  assumes "pa_fits a" "p \<in> pa_blocks a"
  shows "unat (p - pa_base_region a) < 2 ^ 31"
proof -
  obtain k where k: "k < pa_count a" "p = pa_block a k" using assms(2) by (auto simp: pa_blocks_def)
  have "k * unat (pa_request_unit a) \<le> pa_count a * unat (pa_request_unit a)"
    using k by (intro mult_le_mono1) simp
  moreover have "unat (pa_start a - pa_base_region a) + pa_count a * unat (pa_request_unit a) < 2 ^ 31"
    using assms(1) by (simp add: pa_fits_def)
  ultimately show ?thesis
    unfolding k(2) pa_block_offset [OF assms(1) k(1)] by linarith
qed

lemma pa_off_inj: "pa_fits a \<Longrightarrow> inj_on (pa_off a) (pa_blocks a)"
  using region_sub_inj pa_block_offset_bound by (intro inj_onI) blast

lemma pa_block_inj: "pa_fits a \<Longrightarrow> inj_on (pa_block a) {..<pa_count a}"
proof (rule inj_onI)
  fix i j
  assume a: "pa_fits a" "i \<in> {..<pa_count a}" "j \<in> {..<pa_count a}" "pa_block a i = pa_block a j"
  then have "i * unat (pa_request_unit a) = j * unat (pa_request_unit a)"
    using pa_block_offset [OF a(1)] by (metis add_left_cancel lessThan_iff)
  moreover have "unat (pa_request_unit a) \<noteq> 0" using a(1) by (simp add: pa_fits_def unat_eq_zero)
  ultimately show "i = j" by simp
qed

lemma pa_objs_update:
  assumes "rr_header q = rr_header (pa_objs a)" "rr_max_depth q = rr_max_depth (pa_objs a)"
  shows "pa_blocks (a\<lparr>pa_objs := q\<rparr>) = pa_blocks a" "pa_fits (a\<lparr>pa_objs := q\<rparr>) = pa_fits a"
    "pa_count (a\<lparr>pa_objs := q\<rparr>) = pa_count a"
  using assms
  by (simp_all add: pa_blocks_def pa_block_def pa_count_def pa_fits_def pa_start_def
      labstor_request_ring_buffer_GetNextSection_def labstor_request_ring_buffer_GetSize_def cong: image_cong)

lemma rr_ops_keep:
  "labstor_request_ring_buffer_Dequeue q = (v, q') \<Longrightarrow>
     rr_header q' = rr_header q \<and> rr_max_depth q' = rr_max_depth q"
  "labstor_request_ring_buffer_Enqueue_simple q x = (b, q') \<Longrightarrow>
     rr_header q' = rr_header q \<and> rr_max_depth q' = rr_max_depth q"
  by (auto simp: labstor_defs Let_def split: if_splits prod.splits)

section \<open>The allocator is a pool of blocks\<close>

lemma pa_off_mem:
  assumes "pa_inv a" "p \<in> pa_blocks a" "q \<in> pa_blocks a"
  shows "pa_off a p = pa_off a q \<longleftrightarrow> p = q"
  using pa_off_inj [of a] assms by (auto simp: pa_inv_def inj_on_def)

lemma pa_alloc_some:
  assumes i: "pa_inv a" and r: "pa_room a n"
    and e: "labstor_private_shmem_allocator_Alloc a sz core = (Some x, a')"
  shows "x \<in> pa_avail a \<and> pa_avail a' = pa_avail a - {x} \<and> pa_blocks a' = pa_blocks a \<and>
         pa_inv a' \<and> pa_room a' n"
proof -
  obtain off q where d: "labstor_request_ring_buffer_Dequeue (pa_objs a) = (Some off, q)"
      "x = LABSTOR_REGION_ADD off (pa_base_region a)" "a' = a\<lparr>pa_objs := q\<rparr>"
    using e by (auto simp: labstor_private_shmem_allocator_Alloc_def split: prod.splits option.splits)
  have l: "rr_inv q \<and> rr_capacity q = rr_capacity (pa_objs a) \<and> rr_headroom q n \<and>
      list_deq (rr_contents (pa_objs a)) = (Some off, rr_contents q)"
    using rr_deq_law [OF _ _ d(1), of n] i r by (simp add: pa_inv_def pa_room_def)
  then have c: "rr_contents (pa_objs a) = off # rr_contents q"
    by (cases "rr_contents (pa_objs a)") auto
  then obtain p where p: "p \<in> pa_blocks a" "off = pa_off a p"
    using i by (auto simp: pa_inv_def)
  then have x: "x = p"
    using d(2) pa_block_offset_bound [of a p] i by (simp add: pa_inv_def)
  have k: "pa_blocks a' = pa_blocks a" "pa_fits a' = pa_fits a" "pa_count a' = pa_count a"
      "pa_objs a' = q" "pa_base_region a' = pa_base_region a"
    using pa_objs_update [of q a] rr_ops_keep(1) [OF d(1)] d(3) by simp_all
  have "pa_avail a' = pa_avail a - {x}"
    using pa_off_mem [OF i _ p(1)] c k i p x by (auto simp: pa_avail_def pa_inv_def)
  then show ?thesis
    using i l c k p x by (auto simp: pa_avail_def pa_inv_def pa_room_def)
qed

lemma pa_alloc_none:
  assumes i: "pa_inv a" and r: "pa_room a n"
    and e: "labstor_private_shmem_allocator_Alloc a sz core = (None, a')"
  shows "pa_avail a = {}" "a' = a"
proof -
  obtain q where d: "labstor_request_ring_buffer_Dequeue (pa_objs a) = (None, q)" "a' = a\<lparr>pa_objs := q\<rparr>"
    using e by (auto simp: labstor_private_shmem_allocator_Alloc_def split: prod.splits option.splits)
  have "list_deq (rr_contents (pa_objs a)) = (None, rr_contents q)" "q = pa_objs a"
    using rr_deq_law [OF _ _ d(1), of n] i r d(1)
    by (auto simp: pa_inv_def pa_room_def labstor_defs Let_def split: if_splits)
  then have "rr_contents (pa_objs a) = []" "a' = a"
    using d(2) by (cases "rr_contents (pa_objs a)"; simp)+
  then show "pa_avail a = {}" "a' = a" by (simp_all add: pa_avail_def)
qed

lemma pa_free_law:
  assumes i: "pa_inv a" and r: "pa_room a (Suc n)" and x: "x \<in> pa_blocks a - pa_avail a"
    and e: "labstor_private_shmem_allocator_Free a x = (b, a')"
  shows "b \<and> pa_avail a' = insert x (pa_avail a) \<and> pa_blocks a' = pa_blocks a \<and> pa_inv a' \<and> pa_room a' n"
proof -
  let ?c = "rr_contents (pa_objs a)"
  obtain q where d: "labstor_request_ring_buffer_Enqueue_simple (pa_objs a) (pa_off a x) = (b, q)"
      "a' = a\<lparr>pa_objs := q\<rparr>"
    using e by (auto simp: labstor_private_shmem_allocator_Free_def split: prod.splits)
  have x': "x \<in> pa_blocks a" "pa_off a x \<notin> set ?c" using x by (auto simp: pa_avail_def)
  have "set ?c \<subseteq> pa_off a ` pa_blocks a - {pa_off a x}" using i x' by (auto simp: pa_inv_def)
  then have "card (set ?c) \<le> card (pa_off a ` pa_blocks a - {pa_off a x})"
    by (rule card_mono [rotated]) (simp add: pa_blocks_def)
  also have "\<dots> < card (pa_off a ` pa_blocks a)"
    using x' by (intro card_Diff1_less) (simp_all add: pa_blocks_def)
  also have "\<dots> \<le> pa_count a"
    unfolding pa_blocks_def by (metis card_image_le card_lessThan finite_imageI finite_lessThan le_trans)
  finally have "length ?c < rr_capacity (pa_objs a)"
    using i by (simp add: pa_inv_def distinct_card)
  then have l: "b" "rr_inv q" "rr_capacity q = rr_capacity (pa_objs a)" "rr_headroom q n"
      "rr_contents q = ?c @ [pa_off a x]"
    using rr_enq_law [OF _ _ d(1), of n] i r by (auto simp: pa_inv_def pa_room_def list_enq_cases)
  have k: "pa_blocks a' = pa_blocks a" "pa_fits a' = pa_fits a" "pa_count a' = pa_count a"
      "pa_objs a' = q" "pa_base_region a' = pa_base_region a"
    using pa_objs_update [of q a] rr_ops_keep(2) [OF d(1)] d(2) by simp_all
  have "pa_avail a' = insert x (pa_avail a)"
    using pa_off_mem [OF i _ x'(1)] l k x' by (auto simp: pa_avail_def)
  then show ?thesis
    using i l k x' by (auto simp: pa_inv_def pa_room_def)
qed

interpretation priv_pool: block_pool pa_inv pa_blocks pa_avail pa_room
    "\<lambda>k a. labstor_private_shmem_allocator_Alloc a (fst k) (snd k)"
    "\<lambda>x a. labstor_private_shmem_allocator_Free a x"
proof
  show "pa_avail s \<subseteq> pa_blocks s" for s by (auto simp: pa_avail_def)
  show "pa_room s k" if "pa_room s n" "k \<le> n" for s n k
    using that req_fifo.headroom_mono by (auto simp: pa_room_def)
  show "pa_avail s = {} \<and> pa_avail s' = {} \<and> pa_blocks s' = pa_blocks s \<and> pa_inv s' \<and> pa_room s' n"
    if "pa_inv s" "pa_room s n" "labstor_private_shmem_allocator_Alloc s (fst k) (snd k) = (None, s')" for s n k s'
    using pa_alloc_none [OF that] that by simp
qed (fact pa_alloc_some pa_free_law)+

section \<open>Initialisation\<close>

lemma private_fill_contents:
  assumes "rr_inv q" "rr_headroom q (n + m)" "length (rr_contents q) + n \<le> rr_capacity q"
  shows "let q' = private_fill n u base rem q in rr_inv q' \<and> rr_headroom q' m \<and>
    rr_header q' = rr_header q \<and> rr_max_depth q' = rr_max_depth q \<and>
    rr_contents q' = rr_contents q @
      map (\<lambda>k. LABSTOR_REGION_SUB (rem + of_nat k * ucast u) base) [0..<n]"
  using assms
proof (induction n arbitrary: q rem)
  case 0
  then show ?case by simp
next
  case (Suc n)
  let ?off = "LABSTOR_REGION_SUB rem base"
  obtain q1 where q1: "labstor_request_ring_buffer_Enqueue_simple q ?off = (True, q1)" "rr_inv q1"
      "rr_capacity q1 = rr_capacity q" "rr_headroom q1 (n + m)" "rr_contents q1 = rr_contents q @ [?off]"
    using req_fifo.enq_space [of q "n + m" ?off] Suc.prems by auto
  have k: "rr_header q1 = rr_header q" "rr_max_depth q1 = rr_max_depth q"
    using rr_ops_keep(2) [OF q1(1)] by simp_all
  have m: "map (\<lambda>k. LABSTOR_REGION_SUB (rem + of_nat k * ucast u) base) [0..<Suc n] =
      ?off # map (\<lambda>k. LABSTOR_REGION_SUB (LABSTOR_REGION_ADD_u32 u rem + of_nat k * ucast u) base) [0..<n]"
    by (simp add: upt_conv_Cons map_Suc_upt [symmetric] LABSTOR_REGION_ADD_u32_def algebra_simps
        del: upt_Suc map_Suc_upt)
  show ?case
    using Suc.IH [of q1 "LABSTOR_REGION_ADD_u32 u rem"] q1 k Suc.prems(3)
    by (simp add: Let_def m del: upt_Suc)
qed

text \<open>
  What \<^verbatim>\<open>Init\<close> computes, for a region of at least the size of its two headers that lies below
  2 GiB from the base region and does not wrap around the address space.
\<close>

definition pa_region_ok :: "ptr \<Rightarrow> ptr \<Rightarrow> u32 \<Rightarrow> bool" where
  "pa_region_ok base region region_size \<longleftrightarrow> 20 \<le> unat region_size \<and> unat region_size < 2 ^ 30 - 3 \<and>
     unat (region - base) + unat region_size < 2 ^ 31"

lemma pa_Init_cases:
  assumes "labstor_private_shmem_allocator_Init a0 base region region_size u = Inr a"
  obtains q where "u \<noteq> 0"
    "labstor_request_ring_buffer_Init (pa_objs a0) (region + 8) (region_size - 8) (region_size div u) = (True, q)"
    "a = a0\<lparr>pa_base_region := base, pa_header := region, pa_region_size := region_size,
       pa_request_unit := u, pa_objs := private_fill
         (unat ((ucast (region + ucast region_size - labstor_request_ring_buffer_GetNextSection q) :: u32) div u))
         u base (labstor_request_ring_buffer_GetNextSection q) q\<rparr>"
proof -
  have "u \<noteq> 0" using assms by (auto simp: labstor_private_shmem_allocator_Init_def split: if_splits)
  moreover obtain ok q where "labstor_request_ring_buffer_Init (pa_objs a0) (region + 8) (region_size - 8)
      (region_size div u) = (ok, q)" by fastforce
  ultimately show ?thesis
    using assms that by (cases ok) (simp_all add: labstor_private_shmem_allocator_Init_def request_ring_Init_def Let_def)
qed

text \<open>Where the blocks begin and how many there are, for a ring of depth \<open>d\<close>.\<close>

lemma pa_geometry:
  fixes region base :: ptr and region_size u :: u32
  assumes "pa_region_ok base region region_size" "20 + 4 * d \<le> unat region_size"
    and "rr_header q = region + 8" "unat (rr_max_depth q) = d"
  defines "start \<equiv> labstor_request_ring_buffer_GetNextSection q"
  shows "start = region + of_nat (20 + 4 * d)"
    "unat (start - base) = unat (region - base) + (20 + 4 * d)"
    "unat ((ucast (region + ucast region_size - start) :: u32) div u) =
       (unat region_size - (20 + 4 * d)) div unat u"
proof -
  have b: "unat region_size < 2 ^ 30 - 3" using assms(1) by (simp add: pa_region_ok_def)
  have g: "unat (labstor_request_ring_buffer_GetSize q) = 12 + 4 * d"
    using assms(2,4) b unat_GetSize_global [of "rr_max_depth q"]
    by (simp add: labstor_request_ring_buffer_GetSize_def)
  have "(ucast (labstor_request_ring_buffer_GetSize q) :: ptr) = of_nat (12 + 4 * d)"
    using arg_cong [OF g, of "of_nat :: nat \<Rightarrow> ptr"] by simp
  then show s: "start = region + of_nat (20 + 4 * d)"
    by (simp add: start_def labstor_request_ring_buffer_GetNextSection_def assms(3))
  have "start - base = of_nat (unat (region - base) + (20 + 4 * d))"
    by (simp add: s)
  then show "unat (start - base) = unat (region - base) + (20 + 4 * d)"
    using assms(1,2) by (simp only: unat_of_nat) (simp add: pa_region_ok_def)
  have "region + ucast region_size - start = of_nat (unat region_size - (20 + 4 * d))"
    using assms(2) by (simp add: s of_nat_diff)
  then have "unat (region + ucast region_size - start) = unat region_size - (20 + 4 * d)"
    using b by (simp only: unat_of_nat) simp
  then show "unat ((ucast (region + ucast region_size - start) :: u32) div u) =
       (unat region_size - (20 + 4 * d)) div unat u"
    using b by (simp add: unat_div unat_narrow)
qed

lemma pa_Init_ring:
  assumes ok: "pa_region_ok base region region_size" and "u \<noteq> 0"
    and q: "labstor_request_ring_buffer_Init q0 (region + 8) (region_size - 8) (region_size div u) = (True, q)"
  defines "d \<equiv> unat (rr_max_depth q)"
  shows "20 + 4 * d \<le> unat region_size" "(unat region_size - (20 + 4 * d)) div unat u \<le> rr_capacity q"
proof -
  have b: "20 \<le> unat region_size" "unat region_size < 2 ^ 30 - 3"
    using ok by (simp_all add: pa_region_ok_def)
  have "unat (region_size div u) \<le> unat region_size" by (simp add: unat_div)
  then have "12 + 4 * d \<le> unat (region_size - 8)"
    unfolding d_def using b by (intro rr_Init_footprint [OF q]) linarith
  moreover have "unat (region_size - 8) = unat region_size - 8"
    using b(1) by (simp add: unat_sub word_le_nat_alt)
  ultimately show "20 + 4 * d \<le> unat region_size" using b(1) by linarith
  show "(unat region_size - (20 + 4 * d)) div unat u \<le> rr_capacity q"
  proof (cases "region_size div u = 0")
    case True
    then have "unat region_size div unat u = 0" by (metis unat_0 unat_div)
    then have "(unat region_size - (20 + 4 * d)) div unat u = 0"
      using div_le_mono [of "unat region_size - (20 + 4 * d)" "unat region_size" "unat u"] by simp
    then show ?thesis by simp
  next
    case False
    then have "rr_capacity q = unat region_size div unat u"
      using rr_Init_ok(7) [OF q] by (simp add: rr_capacity_def unat_div)
    then show ?thesis by (simp add: div_le_mono)
  qed
qed

lemma pa_Init_ok:
  assumes i: "labstor_private_shmem_allocator_Init a0 base region region_size u = Inr a"
    and ok: "pa_region_ok base region region_size"
  defines "d \<equiv> unat (rr_max_depth (pa_objs a))"
  shows "pa_inv a" "pa_avail a = pa_blocks a" "pa_count a + m \<le> 2 ^ 32 \<Longrightarrow> pa_room a m"
    "pa_start a = region + of_nat (20 + 4 * d)" "20 + 4 * d \<le> unat region_size"
    "pa_count a = (unat region_size - (20 + 4 * d)) div unat u" "pa_request_unit a = u" "u \<noteq> 0"
    "pa_base_region a = base" "region_size div u \<noteq> 0 \<Longrightarrow> d = unat region_size div unat u"
proof -
  obtain q where q: "u \<noteq> 0" "labstor_request_ring_buffer_Init (pa_objs a0) (region + 8)
      (region_size - 8) (region_size div u) = (True, q)"
    and a: "a = a0\<lparr>pa_base_region := base, pa_header := region, pa_region_size := region_size,
       pa_request_unit := u, pa_objs := private_fill
         (unat ((ucast (region + ucast region_size - labstor_request_ring_buffer_GetNextSection q) :: u32) div u))
         u base (labstor_request_ring_buffer_GetNextSection q) q\<rparr>"
    using pa_Init_cases [OF i] .
  let ?D = "unat (rr_max_depth q)" and ?start = "labstor_request_ring_buffer_GetNextSection q"
  note D = pa_Init_ring [OF ok q]
  note g = pa_geometry [OF ok D(1) rr_Init_ok(4) [OF q(2)] refl]
  define n where "n = (unat region_size - (20 + 4 * ?D)) div unat u"
  have objs: "pa_objs a = private_fill n u base ?start q" by (simp add: a g(3) n_def)
  have n: "n \<le> 2 ^ 32" "length (rr_contents q) + n \<le> rr_capacity q" "n * unat u \<le> unat region_size - (20 + 4 * ?D)"
    using D(2) unat32_less [of "rr_max_depth q"] rr_Init_ok(2) [OF q(2)]
    by (simp_all add: n_def rr_capacity_def div_times_less_eq_dividend)
  have f: "let q' = pa_objs a in rr_inv q' \<and> rr_headroom q' m \<and> rr_header q' = rr_header q \<and>
      rr_max_depth q' = rr_max_depth q \<and> rr_contents q' =
      map (\<lambda>k. LABSTOR_REGION_SUB (?start + of_nat k * ucast u) base) [0..<n]" if "n + m \<le> 2 ^ 32" for m
    using private_fill_contents [OF rr_Init_ok(1) [OF q(2)] _ n(2), of m u base ?start]
      rr_Init_headroom [OF q(2)] rr_Init_ok(2) [OF q(2)] that by (simp add: objs)
  then have f0: "rr_inv (pa_objs a)" "rr_header (pa_objs a) = rr_header q"
      "rr_max_depth (pa_objs a) = rr_max_depth q"
      "rr_contents (pa_objs a) = map (\<lambda>k. LABSTOR_REGION_SUB (?start + of_nat k * ucast u) base) [0..<n]"
    using f [of 0] n(1) by (simp_all add: Let_def)
  have st: "pa_start a = ?start"
    using f0 by (simp add: pa_start_def labstor_request_ring_buffer_GetNextSection_def
        labstor_request_ring_buffer_GetSize_def)
  have un: "pa_request_unit a = u" "pa_base_region a = base" "pa_header a = region"
      "pa_region_size a = region_size"
    by (simp_all add: a)
  have ct: "pa_count a = n" unfolding pa_count_def st un n_def by (rule g(3))
  have ft: "pa_fits a"
    using q(1) n(3) g(2) D(1) ok unfolding pa_fits_def st ct un pa_region_ok_def by linarith
  have co: "rr_contents (pa_objs a) = map (\<lambda>k. pa_off a (pa_block a k)) [0..<n]"
    by (simp add: f0(4) pa_block_def st un)
  show "pa_avail a = pa_blocks a" by (auto simp: pa_avail_def pa_blocks_def ct co)
  have "inj_on (\<lambda>k. pa_off a (pa_block a k)) {..<n}"
    using comp_inj_on [OF pa_block_inj [OF ft]] pa_off_inj [OF ft] by (simp add: pa_blocks_def ct comp_def)
  then have "distinct (rr_contents (pa_objs a))"
    by (simp add: co distinct_map atLeast0LessThan)
  then show "pa_inv a"
    using f0(1,3) ft n(2) by (auto simp: pa_inv_def co pa_blocks_def ct rr_capacity_def)
  show "pa_room a m" if "pa_count a + m \<le> 2 ^ 32" using f [of m] that by (simp add: ct pa_room_def Let_def)
  show "pa_start a = region + of_nat (20 + 4 * d)" "20 + 4 * d \<le> unat region_size"
    "pa_count a = (unat region_size - (20 + 4 * d)) div unat u"
    using g(1) D(1) by (simp_all add: st ct d_def f0(3) n_def)
  show "pa_request_unit a = u" "u \<noteq> 0" "pa_base_region a = base" by (rule un(1) q(1) un(2))+
  show "d = unat region_size div unat u" if "region_size div u \<noteq> 0"
    using rr_Init_ok(7) [OF q(2)] that by (simp add: d_def f0(3) unat_div)
qed

lemma pa_block_in_region:
  assumes i: "labstor_private_shmem_allocator_Init a0 base region region_size u = Inr a"
    and ok: "pa_region_ok base region region_size" and p: "p \<in> pa_blocks a"
  shows "unat (p - region) + unat u \<le> unat region_size"
    and "p' \<in> pa_blocks a \<Longrightarrow> p' \<noteq> p \<Longrightarrow>
      unat (p - region) + unat u \<le> unat (p' - region) \<or> unat (p' - region) + unat u \<le> unat (p - region)"
proof -
  let ?d = "20 + 4 * unat (rr_max_depth (pa_objs a))"
  note I = pa_Init_ok [OF i ok]
  have m: "pa_count a * unat u \<le> unat region_size - ?d"
    unfolding I(6) by (simp add: div_times_less_eq_dividend)
  have off: "unat (pa_block a k - region) = ?d + k * unat u" if "k < pa_count a" for k
  proof -
    have "k * unat u \<le> pa_count a * unat u" using that by (intro mult_le_mono1) simp
    then have "?d + k * unat u < 2 ^ 30" using m I(5) ok unfolding pa_region_ok_def by linarith
    moreover have "pa_block a k - region = of_nat (?d + k * unat u)"
      by (simp add: pa_block_def I(4,7))
    ultimately show ?thesis by (simp only: unat_of_nat) simp
  qed
  obtain k where k: "k < pa_count a" "p = pa_block a k" using p by (auto simp: pa_blocks_def)
  have "Suc k * unat u \<le> pa_count a * unat u" using k by (intro mult_le_mono1) simp
  then show "unat (p - region) + unat u \<le> unat region_size"
    using off [OF k(1)] k(2) m I(5) by simp
  show "unat (p - region) + unat u \<le> unat (p' - region) \<or> unat (p' - region) + unat u \<le> unat (p - region)"
    if p': "p' \<in> pa_blocks a" "p' \<noteq> p"
  proof -
    obtain j where j: "j < pa_count a" "p' = pa_block a j" using p'(1) by (auto simp: pa_blocks_def)
    then have "j \<noteq> k" using k(2) p'(2) by auto
    then have "Suc k \<le> j \<or> Suc j \<le> k" by linarith
    then have "Suc k * unat u \<le> j * unat u \<or> Suc j * unat u \<le> k * unat u"
      using mult_le_mono1 by blast
    then show ?thesis using off [OF k(1)] off [OF j(1)] k(2) j(2) by (simp add: add.commute)
  qed
qed

section \<open>Properties\<close>

text \<open>
  The segment allocator hands out consecutive, disjoint segments: as long as the sizes add
  up to less than 4 GiB, the \<open>k\<close>-th segment starts where the earlier ones end. It never refuses,
  also past the size it was initialised with.
\<close>

theorem segment_allocator_consecutive:
  assumes "sum_list (map unat sizes) < 2 ^ 32"
  shows "fst (seg_alloc_all sizes (labstor_segment_allocator_Init region max_size)) =
    map (\<lambda>k. region + of_nat (sum_list (map unat (take k sizes)))) [0..<length sizes]"
proof -
  obtain ps a' where e: "seg_alloc_all sizes (labstor_segment_allocator_Init region max_size) = (ps, a')"
    by fastforce
  show ?thesis
    using seg_alloc_all_offsets [OF _ e] assms e by (simp add: labstor_segment_allocator_Init_def)
qed

theorem segment_allocator_consecutive_witness:
  "fst (seg_alloc_all [80, 2072, 2052] (labstor_segment_allocator_Init 4096 100)) = [4096, 4176, 6248]"
  using segment_allocator_consecutive [of "[80, 2072, 2052]" 4096 100]
  by simp

text \<open>
  C6. The block allocator of a core is safe: after \<^verbatim>\<open>Init\<close>, in every execution of its clients, an
  allocation returns a block that is not in use, lies inside the region and overlaps no other
  block; it fails only when every block is in use; and a returned block is always accepted.
  The number \<open>n\<close> of returns is bounded by the wrap-around of the ring's counter.
\<close>

theorem private_allocator_safe:
  assumes "labstor_private_shmem_allocator_Init a0 base region region_size u = Inr a"
    and "pa_region_ok base region region_size"
    and "pool_reach (\<lambda>k a. labstor_private_shmem_allocator_Alloc a (fst k) (snd k))
           (\<lambda>x a. labstor_private_shmem_allocator_Free a x) a n s L"
    and "pa_count a + Suc n \<le> 2 ^ 32"
  shows "(case labstor_private_shmem_allocator_Alloc s sz core of
       (None, s') \<Rightarrow> L = pa_blocks a
     | (Some x, s') \<Rightarrow> x \<notin> L \<and> unat (x - region) + unat u \<le> unat region_size \<and>
         (\<forall>y\<in>L. unat (x - region) + unat u \<le> unat (y - region) \<or>
                unat (y - region) + unat u \<le> unat (x - region))) \<and>
    (\<forall>x\<in>L. fst (labstor_private_shmem_allocator_Free s x))"
proof -
  note I = pa_Init_ok [OF assms(1,2)]
  have r: "pa_room a (Suc n)" "pa_room a n" using I(3) assms(4) by simp_all
  note p = assms(3) I(1,2)
  have L: "L \<subseteq> pa_blocks a" using priv_pool.reach_invariant [OF p, of 0] r by auto
  have "fst (labstor_private_shmem_allocator_Free s x)" if "x \<in> L" for x
    using priv_pool.free_accepted [OF p r(1) that] by (metis prod.collapse)
  moreover have "case labstor_private_shmem_allocator_Alloc s sz core of
       (None, s') \<Rightarrow> L = pa_blocks a
     | (Some x, s') \<Rightarrow> x \<notin> L \<and> unat (x - region) + unat u \<le> unat region_size \<and>
         (\<forall>y\<in>L. unat (x - region) + unat u \<le> unat (y - region) \<or>
                unat (y - region) + unat u \<le> unat (x - region))"
  proof (cases "labstor_private_shmem_allocator_Alloc s sz core")
    case (Pair v s')
    show ?thesis
    proof (cases v)
      case None
      then show ?thesis using Pair priv_pool.exhausted_only_when_all_live [OF p r(2), of "(sz, core)"] by auto
    next
      case (Some x)
      then have x: "x \<in> pa_blocks a" "x \<notin> L"
        using Pair priv_pool.never_handed_out_twice [OF p r(2), of "(sz, core)"] by auto
      then show ?thesis
        using Pair Some pa_block_in_region [OF assms(1,2) x(1)] L by auto
    qed
  qed
  ultimately show ?thesis by blast
qed

definition pa_blank :: labstor_private_shmem_allocator where
  "pa_blank = \<lparr>pa_base_region = 0, pa_header = 0, pa_region_size = 0, pa_request_unit = 0, pa_objs = rr_blank\<rparr>"

theorem private_allocator_safe_witness:
  "\<exists>a. labstor_private_shmem_allocator_Init pa_blank 4096 8192 100 20 = Inr a \<and>
     (case labstor_private_shmem_allocator_Alloc a 8 0 of
        (None, s') \<Rightarrow> pa_blocks a = {} | (Some x, s') \<Rightarrow> unat (x - 8192) + 20 \<le> 100)"
proof -
  obtain a where a: "labstor_private_shmem_allocator_Init pa_blank 4096 8192 100 20 = Inr a"
    by (simp add: labstor_private_shmem_allocator_Init_def labstor_defs pa_blank_def)
  have ok: "pa_region_ok 4096 8192 100" by (simp add: pa_region_ok_def)
  have "pa_count a + Suc 0 \<le> 2 ^ 32"
    unfolding pa_Init_ok(6) [OF a ok] by (rule order_trans [OF add_right_mono [OF div_le_dividend]]) simp
  from private_allocator_safe [OF a ok pool_reach.init this, of 8 0] a show ?thesis
    by (auto split: prod.splits option.splits)
qed

end
