(* ===== verification/Shmem_Allocator.thy ===== *)
theory Shmem_Allocator
  imports Private_Allocator Busy_Wait
begin

text \<open>
  The allocator shared by all cores, \<^verbatim>\<open>include/labstor/types/allocator/shmem_allocator.h\<close>: one
  block allocator per core, and in front of every block the number of the core it belongs to.
  \<open>sa_core p\<close> is the \<^verbatim>\<open>core_\<close> field of the page at address \<open>p\<close>; it takes two bytes.
\<close>

section \<open>The structure and its operations\<close>

record labstor_shmem_allocator =
  sa_base_region :: ptr
  sa_concurrency :: i32
  sa_region_size :: u32
  sa_header :: ptr
  sa_hdr_region_size :: u32
  sa_hdr_concurrency :: i32
  sa_per_core :: "labstor_private_shmem_allocator list"
  sa_core :: "ptr \<Rightarrow> u16"

definition labstor_shmem_allocator_GetRegion :: "labstor_shmem_allocator \<Rightarrow> ptr" where
  "labstor_shmem_allocator_GetRegion alloc = sa_header alloc"

definition labstor_shmem_allocator_GetBaseRegion :: "labstor_shmem_allocator \<Rightarrow> ptr" where
  "labstor_shmem_allocator_GetBaseRegion alloc = sa_base_region alloc"

definition labstor_shmem_allocator_GetSize :: "labstor_shmem_allocator \<Rightarrow> u32" where
  "labstor_shmem_allocator_GetSize alloc = sa_region_size alloc"

text \<open>A per-core allocator over the zeroed region, before its \<^verbatim>\<open>Init\<close>.\<close>

definition pa_zeroed :: labstor_private_shmem_allocator where
  "pa_zeroed = \<lparr>pa_base_region = 0, pa_header = 0, pa_region_size = 0, pa_request_unit = 0,
     pa_objs = \<lparr>rr_header = 0, rr_queue = 0, rr_enqueued = 0, rr_dequeued = 0, rr_max_depth = 0,
       rr_cells = (\<lambda>_. 0)\<rparr>\<rparr>"

fun shmem_init_cores ::
  "nat \<Rightarrow> ptr \<Rightarrow> ptr \<Rightarrow> u32 \<Rightarrow> u32 \<Rightarrow> labstor_private_shmem_allocator list result"
where
  "shmem_init_cores 0 base core_region per_core_size request_unit = Inr []"
| "shmem_init_cores (Suc n) base core_region per_core_size request_unit =
     (case labstor_private_shmem_allocator_Init pa_zeroed base core_region per_core_size request_unit of
        Inl err \<Rightarrow> Inl err
      | Inr a \<Rightarrow>
          (case shmem_init_cores n base (core_region + ucast per_core_size) per_core_size request_unit of
             Inl err \<Rightarrow> Inl err | Inr as \<Rightarrow> Inr (a # as)))"

text \<open>\<open>nprocs\<close> is the number of configured processors, used when no concurrency is given.\<close>

definition labstor_shmem_allocator_Init ::
  "i32 \<Rightarrow> labstor_shmem_allocator \<Rightarrow> ptr \<Rightarrow> ptr \<Rightarrow> u32 \<Rightarrow> u32 \<Rightarrow> i32 \<Rightarrow> labstor_shmem_allocator result"
where
  "labstor_shmem_allocator_Init nprocs alloc base_region region region_size request_unit concurrency =
     (let concurrency = (if concurrency = 0 then nprocs else concurrency);
          request_unit = request_unit + 2 in
      if concurrency = 0 then Inl DIVISION_BY_ZERO
      else
        let per_core_region_size = region_size div concurrency in
        case shmem_init_cores (nat (sint concurrency)) base_region (region + 8)
               per_core_region_size request_unit of
          Inl err \<Rightarrow> Inl err
        | Inr cores \<Rightarrow>
            Inr (alloc\<lparr>sa_base_region := base_region, sa_region_size := region_size,
                   sa_header := region, sa_hdr_region_size := region_size,
                   sa_hdr_concurrency := concurrency, sa_concurrency := concurrency,
                   sa_per_core := cores,
                   sa_core := (\<lambda>p. if p - region < ucast region_size then 0 else sa_core alloc p)\<rparr>))"

fun shmem_attach_cores ::
  "labstor_private_shmem_allocator list \<Rightarrow> ptr \<Rightarrow> ptr \<Rightarrow> u32 \<Rightarrow> labstor_private_shmem_allocator list"
where
  "shmem_attach_cores [] base core_region per_core_size = []"
| "shmem_attach_cores (a # as) base core_region per_core_size =
     labstor_private_shmem_allocator_Attach a base core_region #
     shmem_attach_cores as base (core_region + ucast per_core_size) per_core_size"

definition labstor_shmem_allocator_Attach ::
  "labstor_shmem_allocator \<Rightarrow> ptr \<Rightarrow> ptr \<Rightarrow> labstor_shmem_allocator result"
where
  "labstor_shmem_allocator_Attach alloc base_region region =
     (let a = alloc\<lparr>sa_base_region := base_region, sa_header := region,
                    sa_region_size := sa_hdr_region_size alloc,
                    sa_concurrency := sa_hdr_concurrency alloc\<rparr> in
      if sa_concurrency a = 0 then Inl DIVISION_BY_ZERO
      else
        Inr (a\<lparr>sa_per_core := shmem_attach_cores (sa_per_core alloc) base_region (region + 8)
                  (sa_region_size a div sa_concurrency a)\<rparr>))"

text \<open>The do-while loop of \<^verbatim>\<open>Alloc\<close>, from \<open>core\<close> round to \<open>save\<close>; \<open>None\<close> is out of fuel.\<close>

fun shmem_Alloc_loop ::
  "nat \<Rightarrow> u32 \<Rightarrow> nat \<Rightarrow> nat \<Rightarrow> labstor_shmem_allocator \<Rightarrow> (ptr option \<times> labstor_shmem_allocator) option"
where
  "shmem_Alloc_loop 0 sz core save alloc = None"
| "shmem_Alloc_loop (Suc fuel) sz core save alloc =
     (case labstor_private_shmem_allocator_Alloc (sa_per_core alloc ! core) sz (of_nat core) of
        (Some page, a) \<Rightarrow>
          Some (Some (page + 2),
                alloc\<lparr>sa_per_core := (sa_per_core alloc)[core := a],
                      sa_core := (sa_core alloc)(page := of_nat core)\<rparr>)
      | (None, a) \<Rightarrow>
          let alloc = alloc\<lparr>sa_per_core := (sa_per_core alloc)[core := a]\<rparr>;
              core = (core + 1) mod unat (sa_concurrency alloc) in
          if core \<noteq> save then shmem_Alloc_loop fuel sz core save alloc else Some (None, alloc))"

definition labstor_shmem_allocator_Alloc ::
  "labstor_shmem_allocator \<Rightarrow> u32 \<Rightarrow> u32 \<Rightarrow> (ptr option \<times> labstor_shmem_allocator) option"
where
  "labstor_shmem_allocator_Alloc alloc sz core =
     (let core = unat (core mod sa_concurrency alloc) in
      shmem_Alloc_loop (unat (sa_concurrency alloc)) sz core core alloc)"

definition shmem_free_attempt ::
  "ptr \<Rightarrow> nat \<times> labstor_shmem_allocator \<Rightarrow> unit option \<times> nat \<times> labstor_shmem_allocator"
where
  "shmem_free_attempt page st =
     (case st of (core, alloc) \<Rightarrow>
        case labstor_private_shmem_allocator_Free (sa_per_core alloc ! core) page of
          (True, a) \<Rightarrow> (Some (), core, alloc\<lparr>sa_per_core := (sa_per_core alloc)[core := a]\<rparr>)
        | (False, a) \<Rightarrow>
            (None, (core + 1) mod unat (sa_concurrency alloc),
             alloc\<lparr>sa_per_core := (sa_per_core alloc)[core := a]\<rparr>))"

definition labstor_shmem_allocator_Free ::
  "nat \<Rightarrow> (nat \<Rightarrow> nat \<times> labstor_shmem_allocator \<Rightarrow> nat \<times> labstor_shmem_allocator) \<Rightarrow>
   labstor_shmem_allocator \<Rightarrow> ptr \<Rightarrow> labstor_shmem_allocator option"
where
  "labstor_shmem_allocator_Free fuel env alloc data =
     (let page = data - 2; core = unat (sa_core alloc page) in
      map_option (\<lambda>(_, _, alloc). alloc)
        (inf_spinwait fuel (interleave env (shmem_free_attempt page)) 0 (core, alloc)))"

section \<open>Blocks and their owners\<close>

text \<open>
  \<open>sa_pages c s\<close> are the pages of core \<open>c\<close>; the clients hold the addresses two bytes behind.
  The invariant: the cores have disjoint pages, and a page that is handed out is tagged with its
  core, so that \<^verbatim>\<open>Free\<close> brings it back to the allocator it came from.
\<close>

definition sa_inv :: "labstor_shmem_allocator \<Rightarrow> bool" where
  "sa_inv s \<longleftrightarrow> unat (sa_concurrency s) = length (sa_per_core s) \<and> sa_per_core s \<noteq> [] \<and>
     length (sa_per_core s) \<le> 2 ^ 16 \<and> (\<forall>c < length (sa_per_core s). pa_inv (sa_per_core s ! c)) \<and>
     (\<forall>c < length (sa_per_core s). \<forall>d < length (sa_per_core s). c \<noteq> d \<longrightarrow>
        pa_blocks (sa_per_core s ! c) \<inter> pa_blocks (sa_per_core s ! d) = {}) \<and>
     (\<forall>c < length (sa_per_core s). \<forall>p \<in> pa_blocks (sa_per_core s ! c) - pa_avail (sa_per_core s ! c).
        sa_core s p = of_nat c)"

definition sa_blocks :: "labstor_shmem_allocator \<Rightarrow> ptr set" where
  "sa_blocks s = {x. \<exists>c < length (sa_per_core s). x - 2 \<in> pa_blocks (sa_per_core s ! c)}"

definition sa_avail :: "labstor_shmem_allocator \<Rightarrow> ptr set" where
  "sa_avail s = {x. \<exists>c < length (sa_per_core s). x - 2 \<in> pa_avail (sa_per_core s ! c)}"

definition sa_room :: "labstor_shmem_allocator \<Rightarrow> nat \<Rightarrow> bool" where
  "sa_room s n \<longleftrightarrow> (\<forall>c < length (sa_per_core s). pa_room (sa_per_core s ! c) n)"

definition sa_alloc :: "u32 \<Rightarrow> u32 \<Rightarrow> labstor_shmem_allocator \<Rightarrow> ptr option \<times> labstor_shmem_allocator" where
  "sa_alloc sz core s = (case labstor_shmem_allocator_Alloc s sz core of Some r \<Rightarrow> r | None \<Rightarrow> (None, s))"

text \<open>\<^verbatim>\<open>Free\<close> with one iteration of its loop and nobody interfering.\<close>

definition sa_free :: "ptr \<Rightarrow> labstor_shmem_allocator \<Rightarrow> bool \<times> labstor_shmem_allocator" where
  "sa_free x s =
     (case labstor_shmem_allocator_Free 1 (\<lambda>_ st. st) s x of Some s' \<Rightarrow> (True, s') | None \<Rightarrow> (False, s))"

lemma pa_avail_blocks: "pa_avail a \<subseteq> pa_blocks a"
  by (auto simp: pa_avail_def)

text \<open>Replacing the allocator of one core by one with the same pages.\<close>

lemma sa_update:
  assumes i: "sa_inv s" and c: "c < length (sa_per_core s)"
    and a: "pa_inv a" "pa_blocks a = pa_blocks (sa_per_core s ! c)"
    and t: "\<forall>p \<in> pa_blocks a - pa_avail a. tags p = of_nat c"
    and o: "\<forall>p. p \<notin> pa_blocks a \<longrightarrow> tags p = sa_core s p"
  defines "s' \<equiv> s\<lparr>sa_per_core := (sa_per_core s)[c := a], sa_core := tags\<rparr>"
  shows "sa_inv s'" "sa_blocks s' = sa_blocks s"
    "sa_room s n \<Longrightarrow> pa_room a n \<Longrightarrow> sa_room s' n"
    "sa_avail s' = {x \<in> sa_avail s. x - 2 \<notin> pa_blocks a} \<union> {x. x - 2 \<in> pa_avail a}"
proof -
  have n: "sa_per_core s' ! d = (if d = c then a else sa_per_core s ! d)" if "d < length (sa_per_core s)" for d
    using that by (simp add: s'_def)
  have l: "length (sa_per_core s') = length (sa_per_core s)" "sa_concurrency s' = sa_concurrency s"
      "sa_core s' = tags" by (simp_all add: s'_def)
  have dj: "p \<notin> pa_blocks a" if "p \<in> pa_blocks (sa_per_core s ! d)" "d \<noteq> c" "d < length (sa_per_core s)" for p d
    using i c a(2) that unfolding sa_inv_def by blast
  have "sa_core s' p = of_nat d"
    if "d < length (sa_per_core s)" "p \<in> pa_blocks (sa_per_core s' ! d) - pa_avail (sa_per_core s' ! d)" for d p
    using that t o [rule_format, OF dj, of p d] i unfolding l(3) sa_inv_def by (cases "d = c") (simp_all add: n)
  moreover have blk: "pa_blocks (sa_per_core s' ! d) = pa_blocks (sa_per_core s ! d)" "pa_inv (sa_per_core s' ! d)"
    if "d < length (sa_per_core s)" for d
    using that i a by (simp_all add: n sa_inv_def)
  moreover have "sa_per_core s' \<noteq> []" using c l(1) by (cases "sa_per_core s'") auto
  ultimately show "sa_inv s'"
    using i unfolding sa_inv_def l by simp
  show "sa_blocks s' = sa_blocks s" unfolding sa_blocks_def l using blk(1) by blast
  show "sa_room s n \<Longrightarrow> pa_room a n \<Longrightarrow> sa_room s' n" by (simp add: sa_room_def l n)
  show "sa_avail s' = {x \<in> sa_avail s. x - 2 \<notin> pa_blocks a} \<union> {x. x - 2 \<in> pa_avail a}"
  proof (intro equalityI subsetI)
    fix x
    assume "x \<in> sa_avail s'"
    then obtain d where d: "d < length (sa_per_core s)" "x - 2 \<in> pa_avail (sa_per_core s' ! d)"
      by (auto simp: sa_avail_def l)
    then show "x \<in> {x \<in> sa_avail s. x - 2 \<notin> pa_blocks a} \<union> {x. x - 2 \<in> pa_avail a}"
      using dj [of "x - 2" d] pa_avail_blocks [of "sa_per_core s ! d"]
      by (cases "d = c") (auto simp: n sa_avail_def)
  next
    fix x
    assume "x \<in> {x \<in> sa_avail s. x - 2 \<notin> pa_blocks a} \<union> {x. x - 2 \<in> pa_avail a}"
    then consider "x - 2 \<in> pa_avail a" | d where "d < length (sa_per_core s)" "x - 2 \<notin> pa_blocks a"
        "x - 2 \<in> pa_avail (sa_per_core s ! d)"
      by (auto simp: sa_avail_def)
    then show "x \<in> sa_avail s'"
    proof cases
      case 1
      then show ?thesis using c n [of c] by (auto simp: sa_avail_def l)
    next
      case (2 d)
      then have "d \<noteq> c" using pa_avail_blocks [of "sa_per_core s ! d"] a(2) by auto
      then show ?thesis using 2 n [of d] by (auto simp: sa_avail_def l)
    qed
  qed
qed

lemma sa_avail_core:
  assumes "sa_inv s" "c < length (sa_per_core s)" "x - 2 \<in> pa_blocks (sa_per_core s ! c)"
  shows "x \<in> sa_avail s \<longleftrightarrow> x - 2 \<in> pa_avail (sa_per_core s ! c)"
proof
  assume "x \<in> sa_avail s"
  then obtain d where "d < length (sa_per_core s)" "x - 2 \<in> pa_avail (sa_per_core s ! d)"
    by (auto simp: sa_avail_def)
  then show "x - 2 \<in> pa_avail (sa_per_core s ! c)"
    using assms pa_avail_blocks [of "sa_per_core s ! d"] unfolding sa_inv_def by blast
qed (use assms(2) in \<open>auto simp: sa_avail_def\<close>)

section \<open>The search over the cores\<close>

lemma cyclic_next: "k < N \<Longrightarrow> ((save + (N - Suc k)) mod N + 1) mod N = (save + (N - k)) mod (N :: nat)"
  by (simp only: mod_add_left_eq) (simp add: Suc_diff_Suc)

lemma cyclic_neq:
  assumes "save < N" "0 < k" "k < N"
  shows "(save + (N - k)) mod N \<noteq> (save :: nat)"
proof (cases "save + (N - k) < N")
  case False
  then have "(save + (N - k)) mod N = save + (N - k) - N" using assms by (simp add: le_mod_geq)
  then show ?thesis using assms False by linarith
qed (use assms in simp)

lemma shmem_Alloc_loop_step_none:
  assumes "sa_inv s" "sa_room s n" "core < length (sa_per_core s)"
    and "labstor_private_shmem_allocator_Alloc (sa_per_core s ! core) sz (of_nat core) = (None, a)"
  shows "shmem_Alloc_loop (Suc fuel) sz core save s =
      (let core = (core + 1) mod length (sa_per_core s) in
       if core \<noteq> save then shmem_Alloc_loop fuel sz core save s else Some (None, s))"
    "pa_avail (sa_per_core s ! core) = {}"
proof -
  have "pa_avail (sa_per_core s ! core) = {}" "a = sa_per_core s ! core"
    using pa_alloc_none [OF _ _ assms(4), of n] assms by (simp_all add: sa_inv_def sa_room_def)
  then show "shmem_Alloc_loop (Suc fuel) sz core save s =
      (let core = (core + 1) mod length (sa_per_core s) in
       if core \<noteq> save then shmem_Alloc_loop fuel sz core save s else Some (None, s))"
    "pa_avail (sa_per_core s ! core) = {}"
    using assms(1,4) by (simp_all add: sa_inv_def Let_def)
qed

lemma shmem_Alloc_loop_cases:
  assumes "sa_inv s" "sa_room s n" "save < length (sa_per_core s)" "0 < k" "k \<le> length (sa_per_core s)"
    and "core = (save + (length (sa_per_core s) - k)) mod length (sa_per_core s)"
    and "\<forall>j < length (sa_per_core s) - k.
           pa_avail (sa_per_core s ! ((save + j) mod length (sa_per_core s))) = {}"
  shows "(\<exists>c page a. c < length (sa_per_core s) \<and>
        labstor_private_shmem_allocator_Alloc (sa_per_core s ! c) sz (of_nat c) = (Some page, a) \<and>
        shmem_Alloc_loop k sz core save s = Some (Some (page + 2),
          s\<lparr>sa_per_core := (sa_per_core s)[c := a], sa_core := (sa_core s)(page := of_nat c)\<rparr>)) \<or>
      shmem_Alloc_loop k sz core save s = Some (None, s) \<and>
      (\<forall>j < length (sa_per_core s). pa_avail (sa_per_core s ! ((save + j) mod length (sa_per_core s))) = {})"
  using assms(4-)
proof (induction k arbitrary: core)
  case 0
  then show ?case by simp
next
  case (Suc k)
  let ?N = "length (sa_per_core s)"
  have core: "core < ?N" unfolding Suc.prems(3) using assms(3) by (intro mod_less_divisor) linarith
  obtain v a where al: "labstor_private_shmem_allocator_Alloc (sa_per_core s ! core) sz (of_nat core) = (v, a)"
    by fastforce
  show ?case
  proof (cases v)
    case (Some page)
    then have "shmem_Alloc_loop (Suc k) sz core save s = Some (Some (page + 2),
        s\<lparr>sa_per_core := (sa_per_core s)[core := a], sa_core := (sa_core s)(page := of_nat core)\<rparr>)"
      using al by simp
    then show ?thesis using al core Some by blast
  next
    case None
    note st = shmem_Alloc_loop_step_none(1) [OF assms(1,2) core al [unfolded None], of k save]
      shmem_Alloc_loop_step_none(2) [OF assms(1,2) core al [unfolded None]]
    have nx: "(core + 1) mod ?N = (save + (?N - k)) mod ?N"
      unfolding Suc.prems(3) using Suc.prems(2) by (intro cyclic_next) simp
    have all: "\<forall>j < ?N - k. pa_avail (sa_per_core s ! ((save + j) mod ?N)) = {}"
    proof (intro allI impI)
      fix j
      assume "j < ?N - k"
      then consider "j < ?N - Suc k" | "j = ?N - Suc k" by linarith
      then show "pa_avail (sa_per_core s ! ((save + j) mod ?N)) = {}"
        using Suc.prems(4) st(2) unfolding Suc.prems(3) by cases auto
    qed
    show ?thesis
    proof (cases "k = 0")
      case True
      then show ?thesis using st(1) nx all assms(3) by simp
    next
      case False
      have "(save + (?N - k)) mod ?N \<noteq> save"
        using False Suc.prems(2) assms(3) by (intro cyclic_neq) simp_all
      then show ?thesis
        using Suc.IH [of "(save + (?N - k)) mod ?N"] False Suc.prems(2) all st(1) nx by simp
    qed
  qed
qed

lemma sa_Alloc_cases:
  assumes "sa_inv s" "sa_room s n"
  obtains (page) c page a where "c < length (sa_per_core s)"
      "labstor_private_shmem_allocator_Alloc (sa_per_core s ! c) sz (of_nat c) = (Some page, a)"
      "labstor_shmem_allocator_Alloc s sz core = Some (Some (page + 2),
         s\<lparr>sa_per_core := (sa_per_core s)[c := a], sa_core := (sa_core s)(page := of_nat c)\<rparr>)"
  | (none) "labstor_shmem_allocator_Alloc s sz core = Some (None, s)" "sa_avail s = {}"
proof -
  let ?N = "length (sa_per_core s)"
  define save where "save = unat (core mod sa_concurrency s)"
  have N: "unat (sa_concurrency s) = ?N" "0 < ?N" using assms(1) by (simp_all add: sa_inv_def)
  have save: "save < ?N" using N by (simp add: save_def unat_mod)
  have e: "labstor_shmem_allocator_Alloc s sz core = shmem_Alloc_loop ?N sz save save s"
    by (simp add: labstor_shmem_allocator_Alloc_def save_def N(1) Let_def)
  have "sa_avail s = {}" if a: "\<forall>j < ?N. pa_avail (sa_per_core s ! ((save + j) mod ?N)) = {}"
  proof -
    have "pa_avail (sa_per_core s ! c) = {}" if c: "c < ?N" for c
    proof -
      have "(save + (c + (?N - save)) mod ?N) mod ?N = (save + (c + (?N - save))) mod ?N"
        by (simp add: mod_add_right_eq)
      also have "\<dots> = c" using c save by simp
      finally show ?thesis
        using a [rule_format, of "(c + (?N - save)) mod ?N"] N(2) by simp
    qed
    then show ?thesis by (auto simp: sa_avail_def)
  qed
  then show ?thesis
    using shmem_Alloc_loop_cases [OF assms save N(2) order.refl, of save sz] save that
    unfolding e by auto
qed

section \<open>The allocator is a pool of blocks\<close>

lemma sa_alloc_some:
  assumes "sa_inv s" "sa_room s n" "sa_alloc sz core s = (Some x, s')"
  shows "x \<in> sa_avail s \<and> sa_avail s' = sa_avail s - {x} \<and> sa_blocks s' = sa_blocks s \<and> sa_inv s' \<and> sa_room s' n"
proof (rule sa_Alloc_cases [OF assms(1,2), of sz core])
  fix c page a
  assume c: "c < length (sa_per_core s)"
    and al: "labstor_private_shmem_allocator_Alloc (sa_per_core s ! c) sz (of_nat c) = (Some page, a)"
    and e: "labstor_shmem_allocator_Alloc s sz core = Some (Some (page + 2),
         s\<lparr>sa_per_core := (sa_per_core s)[c := a], sa_core := (sa_core s)(page := of_nat c)\<rparr>)"
  have x: "x = page + 2" "s' = s\<lparr>sa_per_core := (sa_per_core s)[c := a], sa_core := (sa_core s)(page := of_nat c)\<rparr>"
    using assms(3) e by (simp_all add: sa_alloc_def)
  have p: "page \<in> pa_avail (sa_per_core s ! c)" "pa_avail a = pa_avail (sa_per_core s ! c) - {page}"
      "pa_blocks a = pa_blocks (sa_per_core s ! c)" "pa_inv a" "pa_room a n"
    using pa_alloc_some [OF _ _ al, of n] assms(1,2) c by (simp_all add: sa_inv_def sa_room_def)
  have "page \<in> pa_blocks a" using p(1,3) pa_avail_blocks by blast
  then have t: "\<forall>p \<in> pa_blocks a - pa_avail a. ((sa_core s)(page := of_nat c)) p = of_nat c"
    using assms(1) c p(2,3) by (auto simp: sa_inv_def)
  have o: "\<forall>p. p \<notin> pa_blocks a \<longrightarrow> ((sa_core s)(page := of_nat c)) p = sa_core s p"
    using \<open>page \<in> pa_blocks a\<close> by auto
  note u = sa_update [OF assms(1) c p(4,3) t o, folded x(2)]
  have "x \<in> sa_avail s" using c p(1) by (auto simp: sa_avail_def x(1))
  moreover have "sa_avail s' = sa_avail s - {x}"
    unfolding u(4) p(2,3) using sa_avail_core [OF assms(1) c] \<open>page \<in> pa_blocks a\<close> p(3)
      pa_avail_blocks [of "sa_per_core s ! c"] by (auto simp: x(1))
  ultimately show ?thesis using u(1,2,3) assms(2) p(5) by blast
qed (use assms(3) in \<open>simp add: sa_alloc_def\<close>)

lemma sa_alloc_none:
  assumes "sa_inv s" "sa_room s n" "sa_alloc sz core s = (None, s')"
  shows "sa_avail s = {} \<and> s' = s"
  by (rule sa_Alloc_cases [OF assms(1,2), of sz core]) (use assms(3) in \<open>simp_all add: sa_alloc_def\<close>)

lemma sa_free_law:
  assumes i: "sa_inv s" and r: "sa_room s (Suc n)" and x: "x \<in> sa_blocks s - sa_avail s"
    and f: "sa_free x s = (b, s')"
  shows "b \<and> sa_avail s' = insert x (sa_avail s) \<and> sa_blocks s' = sa_blocks s \<and> sa_inv s' \<and> sa_room s' n"
proof -
  obtain c where c: "c < length (sa_per_core s)" "x - 2 \<in> pa_blocks (sa_per_core s ! c)"
    using x by (auto simp: sa_blocks_def)
  then have p: "x - 2 \<in> pa_blocks (sa_per_core s ! c) - pa_avail (sa_per_core s ! c)"
    using x by (auto simp: sa_avail_def)
  have "c < 2 ^ 16" using i c(1) by (simp add: sa_inv_def)
  then have t: "unat (sa_core s (x - 2)) = c"
    using i c(1) p by (simp add: sa_inv_def unat_of_nat)
  obtain ok a where e: "labstor_private_shmem_allocator_Free (sa_per_core s ! c) (x - 2) = (ok, a)" by fastforce
  have l: "ok" "pa_avail a = insert (x - 2) (pa_avail (sa_per_core s ! c))"
      "pa_blocks a = pa_blocks (sa_per_core s ! c)" "pa_inv a" "pa_room a n"
    using pa_free_law [OF _ _ p e, of n] i r c(1) by (simp_all add: sa_inv_def sa_room_def)
  have "sa_free x s = (True, s\<lparr>sa_per_core := (sa_per_core s)[c := a], sa_core := sa_core s\<rparr>)"
    using e l(1) by (simp add: sa_free_def labstor_shmem_allocator_Free_def t interleave_def shmem_free_attempt_def)
  then have s': "b" "s' = s\<lparr>sa_per_core := (sa_per_core s)[c := a], sa_core := sa_core s\<rparr>"
    using f by simp_all
  have tg: "\<forall>p \<in> pa_blocks a - pa_avail a. sa_core s p = of_nat c"
    using i c(1) l(2,3) by (auto simp: sa_inv_def)
  have o: "\<forall>p. p \<notin> pa_blocks a \<longrightarrow> sa_core s p = sa_core s p" by simp
  note u = sa_update [OF i c(1) l(4,3) tg o, folded s'(2)]
  have "pa_room (sa_per_core s ! d) n" if "d < length (sa_per_core s)" for d
    using that r priv_pool.room_mono [of _ "Suc n" n] by (auto simp: sa_room_def)
  then have "sa_room s n" by (simp add: sa_room_def)
  moreover have "y - 2 = x - 2 \<longleftrightarrow> y = x" for y by simp
  then have "sa_avail s' = insert x (sa_avail s)"
    unfolding u(4) l(2,3) using sa_avail_core [OF i c(1)] c(2) pa_avail_blocks [of "sa_per_core s ! c"] by auto
  ultimately show ?thesis using u(1,2,3) l(5) s'(1) by blast
qed

interpretation shm_pool: block_pool sa_inv sa_blocks sa_avail sa_room
    "\<lambda>k. sa_alloc (fst k) (snd k)" sa_free
proof
  show "sa_avail s \<subseteq> sa_blocks s" for s
    using pa_avail_blocks by (fastforce simp: sa_avail_def sa_blocks_def)
  show "sa_room s k" if "sa_room s n" "k \<le> n" for s n k
    using that priv_pool.room_mono [of _ n k] by (auto simp: sa_room_def)
  show "sa_avail s = {} \<and> sa_avail s' = {} \<and> sa_blocks s' = sa_blocks s \<and> sa_inv s' \<and> sa_room s' n"
    if "sa_inv s" "sa_room s n" "sa_alloc (fst k) (snd k) s = (None, s')" for s n k s'
    using sa_alloc_none [OF that] that by simp
qed (fact sa_alloc_some sa_free_law)+

section \<open>Initialisation\<close>

lemma shmem_init_cores_nth:
  "shmem_init_cores n base r per u = Inr as \<Longrightarrow>
     length as = n \<and> (\<forall>c < n. labstor_private_shmem_allocator_Init pa_zeroed base
       (r + of_nat c * ucast per) per u = Inr (as ! c))"
proof (induction n arbitrary: r as)
  case (Suc n)
  then obtain a bs where as: "as = a # bs" "labstor_private_shmem_allocator_Init pa_zeroed base r per u = Inr a"
      "shmem_init_cores n base (r + ucast per) per u = Inr bs"
    by (auto split: sum.splits)
  then show ?case
    using Suc.IH [OF as(3)] by (auto simp: less_Suc_eq_0_disj algebra_simps)
qed simp

text \<open>Regions below 2 GiB from the base, with room for the headers of every core.\<close>

definition sa_region_ok :: "ptr \<Rightarrow> ptr \<Rightarrow> u32 \<Rightarrow> i32 \<Rightarrow> bool" where
  "sa_region_ok base region region_size concurrency \<longleftrightarrow> 0 < sint concurrency \<and>
     unat concurrency \<le> 2 ^ 16 \<and> 20 * unat concurrency \<le> unat region_size \<and> unat region_size < 2 ^ 30 - 3 \<and>
     unat (region - base) + 8 + unat region_size < 2 ^ 31"

lemma sint_pos_unat:
  assumes "0 < sint (w :: i32)"
  shows "nat (sint w) = unat w" "0 < unat w"
proof -
  have u: "uint w < 2 ^ 32" using uint_lt2p [of w] by simp
  moreover have "sint w = uint w - 2 ^ 32 * of_bool (bit (uint w) 31)"
    using u by (simp add: sint_uint signed_take_bit_eq_take_bit_minus take_bit_eq_mod)
  ultimately have "sint w = uint w" using assms by (cases "bit (uint w) 31") simp_all
  then show "nat (sint w) = unat w" by simp
  show "0 < unat w" using assms by (metis less_irrefl signed_0 unat_gt_0)
qed

lemma sa_core_region:
  assumes "sa_region_ok base region region_size conc" "c < unat conc"
  defines "per \<equiv> region_size div conc"
  shows "unat (of_nat c * ucast per :: ptr) = c * unat per" "Suc c * unat per \<le> unat region_size"
    "pa_region_ok base (region + 8 + of_nat c * ucast per) per"
proof -
  have n: "0 < unat conc" "20 * unat conc \<le> unat region_size"
    using assms(1) sint_pos_unat(2) [of conc] by (simp_all add: sa_region_ok_def)
  have p: "unat per = unat region_size div unat conc" by (simp add: per_def unat_div)
  then have "unat conc * unat per \<le> unat region_size" by simp
  moreover have "Suc c * unat per \<le> unat conc * unat per" using assms(2) by (intro mult_le_mono1) simp
  ultimately show m: "Suc c * unat per \<le> unat region_size" by linarith
  have rs: "unat region_size < 2 ^ 30 - 3" "unat (region - base) + 8 + unat region_size < 2 ^ 31"
    using assms(1) by (simp_all add: sa_region_ok_def)
  have "(of_nat c * ucast per :: ptr) = of_nat (c * unat per)" by simp
  then show u: "unat (of_nat c * ucast per :: ptr) = c * unat per"
    using m rs by (simp only: unat_of_nat) simp
  have "region + 8 + of_nat c * ucast per - base = of_nat (unat (region - base) + 8 + c * unat per)"
    by simp
  then have "unat (region + 8 + of_nat c * ucast per - base) = unat (region - base) + 8 + c * unat per"
    using m rs by (simp only: unat_of_nat) simp
  moreover have "20 \<le> unat per" unfolding p using n by (simp add: less_eq_div_iff_mult_less_eq)
  moreover have "unat per \<le> unat region_size" unfolding p by simp
  ultimately show "pa_region_ok base (region + 8 + of_nat c * ucast per) per"
    using m rs unfolding pa_region_ok_def by simp
qed

lemma sa_Init_cases:
  assumes "labstor_shmem_allocator_Init nprocs s0 base region region_size u concurrency = Inr s"
    and "conc = (if concurrency = 0 then nprocs else concurrency)"
    and "sa_region_ok base region region_size conc"
  shows "length (sa_per_core s) = unat conc" "sa_concurrency s = conc"
    "c < unat conc \<Longrightarrow> labstor_private_shmem_allocator_Init pa_zeroed base
       (region + 8 + of_nat c * ucast (region_size div conc)) (region_size div conc) (u + 2) = Inr (sa_per_core s ! c)"
proof -
  have "nat (sint conc) = unat conc" using assms(3) sint_pos_unat(1) by (simp add: sa_region_ok_def)
  then have "shmem_init_cores (unat conc) base (region + 8) (region_size div conc) (u + 2) = Inr (sa_per_core s)"
    "sa_concurrency s = conc"
    using assms(1,2) by (auto simp: labstor_shmem_allocator_Init_def Let_def split: if_splits sum.splits)
  then show "length (sa_per_core s) = unat conc" "sa_concurrency s = conc"
    "c < unat conc \<Longrightarrow> labstor_private_shmem_allocator_Init pa_zeroed base
       (region + 8 + of_nat c * ucast (region_size div conc)) (region_size div conc) (u + 2) = Inr (sa_per_core s ! c)"
    using shmem_init_cores_nth [of "unat conc" base "region + 8"] by auto
qed

text \<open>
  Where the blocks of core \<open>c\<close> lie: behind the header of 8 bytes and the parts of the cores
  before it. \<open>x\<close> is the address that a client sees, two bytes behind the start of its page.
\<close>

lemma sa_block_bounds:
  assumes i: "labstor_shmem_allocator_Init nprocs s0 base region region_size u concurrency = Inr s"
    and conc: "conc = (if concurrency = 0 then nprocs else concurrency)"
    and ok: "sa_region_ok base region region_size conc"
    and c: "c < unat conc" and x: "x - 2 \<in> pa_blocks (sa_per_core s ! c)"
  defines "per \<equiv> unat (region_size div conc)"
  shows "8 + c * per \<le> unat (x - 2 - region)" "unat (x - 2 - region) + unat (u + 2) \<le> 8 + Suc c * per"
    "unat (x - 2 - region) = 8 + c * per + unat (x - 2 - (region + 8 + of_nat c * ucast (region_size div conc)))"
proof -
  let ?r = "region + 8 + of_nat c * ucast (region_size div conc)"
  note I = sa_Init_cases(3) [OF i conc ok c] and R = sa_core_region [OF ok c]
  have b: "unat (x - 2 - ?r) + unat (u + 2) \<le> per"
    using pa_block_in_region(1) [OF I R(3) x] by (simp add: per_def)
  have "x - 2 - region = of_nat (8 + c * per + unat (x - 2 - ?r))"
    by (simp add: per_def)
  moreover have "8 + c * per + unat (x - 2 - ?r) < 2 ^ 64"
    using b R(2) ok by (simp add: per_def sa_region_ok_def)
  ultimately show e: "unat (x - 2 - region) = 8 + c * per + unat (x - 2 - ?r)"
    by (simp only: unat_of_nat) simp
  show "8 + c * per \<le> unat (x - 2 - region)" "unat (x - 2 - region) + unat (u + 2) \<le> 8 + Suc c * per"
    using e b by simp_all
qed

lemma sa_block_separate:
  assumes i: "labstor_shmem_allocator_Init nprocs s0 base region region_size u concurrency = Inr s"
    and conc: "conc = (if concurrency = 0 then nprocs else concurrency)"
    and ok: "sa_region_ok base region region_size conc"
    and c: "c < unat conc" "x - 2 \<in> pa_blocks (sa_per_core s ! c)"
    and d: "d < unat conc" "y - 2 \<in> pa_blocks (sa_per_core s ! d)" and ne: "c \<noteq> d \<or> x \<noteq> y"
  shows "unat (x - 2 - region) + unat (u + 2) \<le> unat (y - 2 - region) \<or>
         unat (y - 2 - region) + unat (u + 2) \<le> unat (x - 2 - region)"
proof (cases "c = d")
  case True
  then have "y - 2 \<noteq> x - 2" using ne by simp
  then show ?thesis
    using pa_block_in_region(2) [OF sa_Init_cases(3) [OF i conc ok c(1)] sa_core_region(3) [OF ok c(1)] c(2), of "y - 2"]
      sa_block_bounds(3) [OF i conc ok c] sa_block_bounds(3) [OF i conc ok d] d(2) True by auto
next
  case False
  let ?per = "unat (region_size div conc)"
  have "Suc c \<le> d \<or> Suc d \<le> c" using False by linarith
  then have "Suc c * ?per \<le> d * ?per \<or> Suc d * ?per \<le> c * ?per" using mult_le_mono1 by blast
  then show ?thesis
    using sa_block_bounds(1,2) [OF i conc ok c] sa_block_bounds(1,2) [OF i conc ok d] by linarith
qed

lemma sa_Init_ok:
  assumes i: "labstor_shmem_allocator_Init nprocs s0 base region region_size u concurrency = Inr s"
    and conc: "conc = (if concurrency = 0 then nprocs else concurrency)"
    and ok: "sa_region_ok base region region_size conc"
  shows "sa_inv s" "sa_avail s = sa_blocks s" "m + 2 ^ 30 \<le> 2 ^ 32 \<Longrightarrow> sa_room s m"
proof -
  note C = sa_Init_cases [OF i conc ok]
  have P: "pa_inv (sa_per_core s ! c)" "pa_avail (sa_per_core s ! c) = pa_blocks (sa_per_core s ! c)"
      "pa_count (sa_per_core s ! c) + m \<le> 2 ^ 32 \<Longrightarrow> pa_room (sa_per_core s ! c) m"
      "pa_count (sa_per_core s ! c) \<le> 2 ^ 30" if c: "c < unat conc" for c
  proof -
    note I = pa_Init_ok [OF C(3) [OF c] sa_core_region(3) [OF ok c]]
    have "unat (region_size div conc) \<le> 2 ^ 30"
      using sa_core_region(2) [OF ok c] ok by (simp add: sa_region_ok_def)
    then show "pa_count (sa_per_core s ! c) \<le> 2 ^ 30"
      unfolding I(6) by (meson diff_le_self div_le_dividend order_trans)
    show "pa_inv (sa_per_core s ! c)" "pa_avail (sa_per_core s ! c) = pa_blocks (sa_per_core s ! c)"
      "pa_count (sa_per_core s ! c) + m \<le> 2 ^ 32 \<Longrightarrow> pa_room (sa_per_core s ! c) m"
      by (rule I(1) I(2) I(3))+
  qed
  have "pa_blocks (sa_per_core s ! c) \<inter> pa_blocks (sa_per_core s ! d) = {}"
    if cd: "c < unat conc" "d < unat conc" "c \<noteq> d" for c d
  proof -
    have False if p: "p \<in> pa_blocks (sa_per_core s ! c)" "p \<in> pa_blocks (sa_per_core s ! d)" for p
    proof -
      have "unat (u + 2) \<noteq> 0"
        using pa_Init_ok(8) [OF C(3) [OF cd(1)] sa_core_region(3) [OF ok cd(1)]] by (simp add: unat_eq_zero)
      then show False
        using sa_block_separate [OF i conc ok cd(1), of "p + 2" d "p + 2"] cd p by simp
    qed
    then show ?thesis by blast
  qed
  moreover have "0 < unat conc" "unat conc \<le> 2 ^ 16"
    using ok sint_pos_unat(2) [of conc] by (simp_all add: sa_region_ok_def)
  moreover from this have "sa_per_core s \<noteq> []" using C(1) by auto
  ultimately show "sa_inv s" unfolding sa_inv_def C(1,2) using P(1,2) by simp
  show "sa_avail s = sa_blocks s" using P(2) by (auto simp: sa_avail_def sa_blocks_def C(1))
  show "sa_room s m" if "m + 2 ^ 30 \<le> 2 ^ 32"
  proof -
    have "pa_room (sa_per_core s ! c) m" if c: "c < unat conc" for c
    proof (rule P(3) [OF c])
      show "pa_count (sa_per_core s ! c) + m \<le> 2 ^ 32" using P(4) [OF c] \<open>m + 2 ^ 30 \<le> 2 ^ 32\<close> by linarith
    qed
    then show ?thesis by (simp add: sa_room_def C(1))
  qed
qed

lemma shmem_init_cores_succeeds:
  "(\<forall>r. \<exists>a. labstor_private_shmem_allocator_Init pa_zeroed base r per u = Inr a) \<Longrightarrow>
     \<exists>as. shmem_init_cores n base r per u = Inr as"
proof (induction n arbitrary: r)
  case (Suc n)
  obtain a where a: "labstor_private_shmem_allocator_Init pa_zeroed base r per u = Inr a"
    using Suc.prems by blast
  show ?case using Suc.IH [OF Suc.prems, of "r + ucast per"] a by auto
qed simp

lemma private_Init_succeeds:
  assumes "u \<noteq> 0" "sz div u \<noteq> 0" "labstor_request_ring_buffer_GetSize_global (sz div u) \<le> sz - 8"
  shows "\<exists>a. labstor_private_shmem_allocator_Init a0 base r sz u = Inr a"
  using assms by (simp add: labstor_private_shmem_allocator_Init_def request_ring_Init_def
      labstor_request_ring_buffer_Init_def Let_def)

lemma sa_Init_succeeds:
  assumes "concurrency \<noteq> 0"
    and "\<forall>r. \<exists>a. labstor_private_shmem_allocator_Init pa_zeroed base r (region_size div concurrency) (u + 2) = Inr a"
  shows "\<exists>s. labstor_shmem_allocator_Init nprocs s0 base region region_size u concurrency = Inr s"
  using shmem_init_cores_succeeds [OF assms(2), of "nat (sint concurrency)" "region + 8"] assms(1)
  by (auto simp: labstor_shmem_allocator_Init_def Let_def)

section \<open>Properties\<close>

text \<open>
  C3. The shared allocator is safe across cores. After \<^verbatim>\<open>Init\<close>, in every execution in which
  clients of any core allocate and return blocks, an allocation terminates after at most one
  round over the cores and returns a block that is not in use and overlaps no block in use; it
  fails only when the blocks of all cores are in use; and returning a block succeeds at the
  first attempt. Blocks end at most 8 bytes behind the region, the size of the allocator's header.
\<close>

theorem shmem_allocator_safe:
  assumes "labstor_shmem_allocator_Init nprocs s0 base region region_size u concurrency = Inr s"
    and "concurrency \<noteq> 0" "sa_region_ok base region region_size concurrency"
    and "pool_reach (\<lambda>k. sa_alloc (fst k) (snd k)) sa_free s n t L" "n < 2 ^ 31"
  shows "(\<exists>v t'. labstor_shmem_allocator_Alloc t sz core = Some (v, t') \<and>
       (case v of
          None \<Rightarrow> L = sa_blocks s
        | Some x \<Rightarrow> x \<notin> L \<and> unat (x - 2 - region) + unat (u + 2) \<le> unat region_size + 8 \<and>
            (\<forall>y\<in>L. unat (x - 2 - region) + unat (u + 2) \<le> unat (y - 2 - region) \<or>
                   unat (y - 2 - region) + unat (u + 2) \<le> unat (x - 2 - region)))) \<and>
     (\<forall>x\<in>L. labstor_shmem_allocator_Free 1 (\<lambda>_ st. st) t x \<noteq> None)"
proof -
  have conc: "concurrency = (if concurrency = 0 then nprocs else concurrency)" using assms(2) by simp
  note I = assms(1) conc assms(3) and ok = sa_Init_ok [OF assms(1) conc assms(3)]
  note len = sa_Init_cases(1) [OF I]
  have r: "sa_room s (Suc n)" "sa_room s n" using ok(3) assms(5) by simp_all
  note p = assms(4) ok(1,2)
  have t: "sa_inv t" "sa_room t 0" "L \<subseteq> sa_blocks s"
    using shm_pool.reach_invariant [OF p, of 0] r(2) by auto
  have "labstor_shmem_allocator_Free 1 (\<lambda>_ st. st) t x \<noteq> None" if "x \<in> L" for x
  proof -
    have "fst (sa_free x t)" using shm_pool.free_accepted [OF p r(1) that] by (metis prod.collapse)
    then show ?thesis by (auto simp: sa_free_def split: option.splits)
  qed
  moreover obtain v t' where e: "labstor_shmem_allocator_Alloc t sz core = Some (v, t')"
    by (rule sa_Alloc_cases [OF t(1,2), of sz core]) auto
  then have a: "sa_alloc (fst (sz, core)) (snd (sz, core)) t = (v, t')" by (simp add: sa_alloc_def)
  have "case v of
          None \<Rightarrow> L = sa_blocks s
        | Some x \<Rightarrow> x \<notin> L \<and> unat (x - 2 - region) + unat (u + 2) \<le> unat region_size + 8 \<and>
            (\<forall>y\<in>L. unat (x - 2 - region) + unat (u + 2) \<le> unat (y - 2 - region) \<or>
                   unat (y - 2 - region) + unat (u + 2) \<le> unat (x - 2 - region))"
  proof (cases v)
    case None
    then show ?thesis using shm_pool.exhausted_only_when_all_live [OF p r(2)] a by auto
  next
    case (Some x)
    have x: "x \<in> sa_blocks s" "x \<notin> L" using shm_pool.never_handed_out_twice [OF p r(2) a [unfolded Some]] by auto
    then obtain c where c: "c < unat concurrency" "x - 2 \<in> pa_blocks (sa_per_core s ! c)"
      by (auto simp: sa_blocks_def len)
    have "unat (x - 2 - region) + unat (u + 2) \<le> unat region_size + 8"
      using sa_block_bounds(2) [OF I c] sa_core_region(2) [OF assms(3) c(1)] by linarith
    moreover have "unat (x - 2 - region) + unat (u + 2) \<le> unat (y - 2 - region) \<or>
        unat (y - 2 - region) + unat (u + 2) \<le> unat (x - 2 - region)" if y: "y \<in> L" for y
    proof -
      obtain d where d: "d < unat concurrency" "y - 2 \<in> pa_blocks (sa_per_core s ! d)"
        using y t(3) by (auto simp: sa_blocks_def len)
      show ?thesis using sa_block_separate [OF I c d] x(2) y by auto
    qed
    ultimately show ?thesis using Some x(2) by simp
  qed
  ultimately show ?thesis using e by blast
qed

definition sa_blank :: labstor_shmem_allocator where
  "sa_blank = \<lparr>sa_base_region = 0, sa_concurrency = 0, sa_region_size = 0, sa_header = 0,
     sa_hdr_region_size = 0, sa_hdr_concurrency = 0, sa_per_core = [], sa_core = (\<lambda>_. 0)\<rparr>"

theorem shmem_allocator_safe_witness:
  "\<exists>s. labstor_shmem_allocator_Init 4 sa_blank 4096 8192 200 18 2 = Inr s \<and>
     (\<exists>v t'. labstor_shmem_allocator_Alloc s 8 1 = Some (v, t') \<and>
       (case v of None \<Rightarrow> sa_blocks s = {} | Some x \<Rightarrow> unat (x - 2 - 8192) + 20 \<le> 208))"
proof -
  obtain s where s: "labstor_shmem_allocator_Init 4 sa_blank 4096 8192 200 18 2 = Inr s"
    using sa_Init_succeeds [of 2 4096 200 18 4 sa_blank 8192] private_Init_succeeds [of 20 100 pa_zeroed 4096]
    by (simp add: labstor_request_ring_buffer_GetSize_global_def word_div_def) blast
  have "sa_region_ok 4096 8192 200 2" by (simp add: sa_region_ok_def)
  from shmem_allocator_safe [OF s _ this pool_reach.init, of 8 1] s show ?thesis
    by (auto split: option.splits)
qed


text \<open>
  C40. With the sizes of the shipped client configuration, a request region of 981312 bytes,
  requests of 256 bytes and 8 cores, the last block of the last core ends 8 bytes behind the
  region: \<^verbatim>\<open>Init\<close> divides the whole region among the cores and puts the first one behind the header.
\<close>

theorem shmem_allocator_overruns_region:
  "\<exists>s x. labstor_shmem_allocator_Init nprocs sa_blank region region 981312 256 8 = Inr s \<and>
     x \<in> sa_blocks s \<and> unat (x - 2 - region) + 258 = 981312 + 8"
proof -
  have per: "(981312 :: u32) div 8 = 122664" "(122664 :: u32) div 258 = 475" by (simp_all add: word_div_def)
  obtain s where s: "labstor_shmem_allocator_Init nprocs sa_blank region region 981312 256 8 = Inr s"
    using sa_Init_succeeds [of 8 region 981312 256 nprocs sa_blank region]
      private_Init_succeeds [of 258 122664 pa_zeroed region]
    by (simp add: labstor_request_ring_buffer_GetSize_global_def per) blast
  have ok: "sa_region_ok region region 981312 8" by (simp add: sa_region_ok_def)
  have c: "7 < unat (8 :: i32)" by simp
  let ?a = "sa_per_core s ! 7"
  note P = pa_Init_ok [OF sa_Init_cases(3) [OF s _ ok c] sa_core_region(3) [OF ok c], unfolded per]
  have d: "unat (rr_max_depth (pa_objs ?a)) = 475" using P(10) by (simp add: per)
  have n: "pa_count ?a = 468" using P(6) d by simp
  have "pa_block ?a 467 = region + of_nat (981320 - 258)"
    using P(4,7) d by (simp add: pa_block_def)
  then have "unat (pa_block ?a 467 + 2 - 2 - region) + 258 = 981312 + 8" by simp
  moreover have "pa_block ?a 467 + 2 \<in> sa_blocks s"
    using n sa_Init_cases(1) [OF s _ ok] by (auto simp: sa_blocks_def pa_blocks_def intro!: exI [of _ 7])
  ultimately show ?thesis using s by blast
qed

end
