(* ===== verification/Queue_Pool.thy ===== *)
theory Queue_Pool
  imports Requests Shmem_Allocator
begin

text \<open>
  The tables of a process: its queue pairs, \<^verbatim>\<open>include/labstor/userspace/types/queue_pool.h\<close>, and its
  allocators, \<^verbatim>\<open>include/labstor/userspace/types/memory_manager.h\<close>. A queue pair is a reference \<open>'q\<close>
  here; the identifier that the code reads through it is an argument.
\<close>

section \<open>Queue pools\<close>

record 'q queue_pool =
  qpl_type_ids :: "(string \<times> i32) list"
  qpl_qps :: "'q list list list"

text \<open>\<^verbatim>\<open>emplace\<close> leaves an existing entry alone, while the row of queues is added in every case.\<close>

definition QueuePool_RegisterQueuePairType :: "'q queue_pool \<Rightarrow> string \<Rightarrow> u8 \<Rightarrow> i32 \<times> 'q queue_pool" where
  "QueuePool_RegisterQueuePairType pool qp_type possible_flags =
     (let ids = (case map_of (qpl_type_ids pool) qp_type of
                   None \<Rightarrow> qpl_type_ids pool @ [(qp_type, of_nat (length (qpl_type_ids pool)))]
                 | Some _ \<Rightarrow> qpl_type_ids pool) in
      (the (map_of ids qp_type),
       pool\<lparr>qpl_type_ids := ids,
            qpl_qps := qpl_qps pool @ [replicate (unat possible_flags + 1) []]\<rparr>))"

definition QueuePool_new :: "'q queue_pool" where
  "QueuePool_new =
     snd (QueuePool_RegisterQueuePairType \<lparr>qpl_type_ids = [], qpl_qps = []\<rparr> ''LabStor'' LABSTOR_QP_ALL_FLAGS)"

text \<open>
  The offsets and the number of queues to reserve are of type \<^verbatim>\<open>int\<close> and compared with sizes: a
  negative one becomes a size beyond every vector. Two of the functions raise their error without
  the arguments of its message, which is undefined behaviour (theory \<open>Error_Format\<close>).
\<close>

definition QueuePool_ReserveQueues :: "'q queue_pool \<Rightarrow> i32 \<Rightarrow> u8 \<Rightarrow> i32 \<Rightarrow> unit result" where
  "QueuePool_ReserveQueues pool type flags n =
     (if unat (scast type :: u64) \<ge> length (qpl_qps pool) then Inl OUT_OF_BOUNDS
      else if unat flags \<ge> length (qpl_qps pool ! unat (scast type :: u64)) then Inl OUT_OF_BOUNDS
      else if sint n < 0 then Inl OUT_OF_BOUNDS
      else Inr ())"

definition QueuePool_GetQueuePairTypeID :: "'q queue_pool \<Rightarrow> string \<Rightarrow> i32 \<times> 'q queue_pool" where
  "QueuePool_GetQueuePairTypeID pool qp_type =
     (case map_of (qpl_type_ids pool) qp_type of
        Some i \<Rightarrow> (i, pool)
      | None \<Rightarrow> (0, pool\<lparr>qpl_type_ids := qpl_type_ids pool @ [(qp_type, 0)]\<rparr>))"

definition QueuePool_RegisterQueuePair :: "'q queue_pool \<Rightarrow> labstor_qid_t \<Rightarrow> 'q \<Rightarrow> 'q queue_pool result" where
  "QueuePool_RegisterQueuePair pool qid qp =
     (let t = unat (qid_type qid); f = unat (qid_flags qid) in
      if t \<ge> length (qpl_qps pool) then Inl INVALID_QP_QUERY
      else if f \<ge> length (qpl_qps pool ! t) then Inl INVALID_QP_QUERY
      else Inr (pool\<lparr>qpl_qps := (qpl_qps pool)[t := (qpl_qps pool ! t)[f := qpl_qps pool ! t ! f @ [qp]]]\<rparr>))"

definition QueuePool_GetQueuePair_off :: "'q queue_pool \<Rightarrow> u8 \<Rightarrow> u8 \<Rightarrow> i32 \<Rightarrow> 'q result" where
  "QueuePool_GetQueuePair_off pool type flags off =
     (let t = unat type; f = unat flags; i = unat (scast off :: u64) in
      if t \<ge> length (qpl_qps pool) then Inl INVALID_QP_QUERY
      else if f \<ge> length (qpl_qps pool ! t) then Inl INVALID_QP_QUERY
      else if i \<ge> length (qpl_qps pool ! t ! f) then Inl INVALID_QP_QUERY
      else Inr (qpl_qps pool ! t ! f ! i))"

definition QueuePool_GetQueuePair :: "'q queue_pool \<Rightarrow> labstor_qid_t \<Rightarrow> 'q result" where
  "QueuePool_GetQueuePair pool qid =
     QueuePool_GetQueuePair_off pool (qid_type qid) (qid_flags qid) (ucast (qid_cnt qid))"

definition QueuePool_GetQueuePair_qtok :: "'q queue_pool \<Rightarrow> labstor_qtok_t \<Rightarrow> 'q result" where
  "QueuePool_GetQueuePair_qtok pool qtok = QueuePool_GetQueuePair pool (qtok_qid qtok)"

definition QueuePool_GetNumQueuePairs :: "'q queue_pool \<Rightarrow> u8 \<Rightarrow> u8 \<Rightarrow> i32 result" where
  "QueuePool_GetNumQueuePairs pool type flags =
     (let t = unat type; f = unat flags in
      if t \<ge> length (qpl_qps pool) then Inl OUT_OF_BOUNDS
      else if f \<ge> length (qpl_qps pool ! t) then Inl OUT_OF_BOUNDS
      else Inr (of_nat (length (qpl_qps pool ! t ! f))))"

text \<open>The fast variant does not check its indices.\<close>

definition QueuePool_GetNumQueuePairsFast :: "'q queue_pool \<Rightarrow> u8 \<Rightarrow> u8 \<Rightarrow> i32 result" where
  "QueuePool_GetNumQueuePairsFast pool type flags =
     (let t = unat type; f = unat flags in
      if t \<ge> length (qpl_qps pool) \<or> f \<ge> length (qpl_qps pool ! t) then Inl OUT_OF_BOUNDS
      else Inr (of_nat (length (qpl_qps pool ! t ! f))))"

section \<open>Memory managers\<close>

text \<open>
  The allocators are pointers that may not have been set yet. In the server one allocator object
  serves as the private and the shared allocator of the private queues; both fields then hold it.
\<close>

record memory_manager =
  mm_private_alloc :: "labstor_shmem_allocator option"
  mm_shmem_alloc :: "labstor_shmem_allocator option"
  mm_qp_alloc :: "labstor_segment_allocator option"

definition MemoryManager_SetPrivateAlloc :: "memory_manager \<Rightarrow> labstor_shmem_allocator \<Rightarrow> memory_manager" where
  "MemoryManager_SetPrivateAlloc mm a = mm\<lparr>mm_private_alloc := Some a\<rparr>"

definition MemoryManager_SetShmemAlloc :: "memory_manager \<Rightarrow> labstor_shmem_allocator \<Rightarrow> memory_manager" where
  "MemoryManager_SetShmemAlloc mm a = mm\<lparr>mm_shmem_alloc := Some a\<rparr>"

definition MemoryManager_SetQueueAlloc :: "memory_manager \<Rightarrow> labstor_segment_allocator \<Rightarrow> memory_manager" where
  "MemoryManager_SetQueueAlloc mm a = mm\<lparr>mm_qp_alloc := Some a\<rparr>"

definition MemoryManager_GetRegion :: "memory_manager \<Rightarrow> u8 \<Rightarrow> ptr result" where
  "MemoryManager_GetRegion mm flags =
     (case (if LABSTOR_QP_IS_SHMEM flags then mm_shmem_alloc mm else mm_private_alloc mm) of
        None \<Rightarrow> Inl NULL_DEREFERENCE
      | Some a \<Rightarrow> Inr (labstor_shmem_allocator_GetRegion a))"

definition MemoryManager_AllocShmemQueue :: "memory_manager \<Rightarrow> u32 \<Rightarrow> (ptr \<times> memory_manager) result" where
  "MemoryManager_AllocShmemQueue mm sz =
     (case mm_qp_alloc mm of
        None \<Rightarrow> Inl NULL_DEREFERENCE
      | Some a \<Rightarrow> (case labstor_segment_allocator_Alloc a sz of (p, a) \<Rightarrow> Inr (p, mm\<lparr>mm_qp_alloc := Some a\<rparr>)))"

text \<open>
  Requests are allocated with the identifier of the thread; \<open>None\<close> inside is the null pointer, and
  \<open>None\<close> outside a search that does not end, which the allocator's lemmas exclude.
\<close>

definition MemoryManager_AllocRequest ::
  "memory_manager \<Rightarrow> u8 \<Rightarrow> u32 \<Rightarrow> u32 \<Rightarrow> (ptr option \<times> memory_manager) result option"
where
  "MemoryManager_AllocRequest mm flags sz tid =
     (if LABSTOR_QP_IS_SHMEM flags
      then (case mm_shmem_alloc mm of
              None \<Rightarrow> Some (Inl NULL_DEREFERENCE)
            | Some a \<Rightarrow> map_option (\<lambda>(p, a). Inr (p, mm\<lparr>mm_shmem_alloc := Some a\<rparr>))
                          (labstor_shmem_allocator_Alloc a sz tid))
      else (case mm_private_alloc mm of
              None \<Rightarrow> Some (Inl NULL_DEREFERENCE)
            | Some a \<Rightarrow> map_option (\<lambda>(p, a). Inr (p, mm\<lparr>mm_private_alloc := Some a\<rparr>))
                          (labstor_shmem_allocator_Alloc a sz tid)))"

definition MemoryManager_AllocPrivateQueue ::
  "memory_manager \<Rightarrow> u32 \<Rightarrow> u32 \<Rightarrow> (ptr option \<times> memory_manager) result option"
where
  "MemoryManager_AllocPrivateQueue mm sz tid = MemoryManager_AllocRequest mm LABSTOR_QP_PRIVATE sz tid"

definition MemoryManager_FreeRequest ::
  "nat \<Rightarrow> (nat \<Rightarrow> nat \<times> labstor_shmem_allocator \<Rightarrow> nat \<times> labstor_shmem_allocator) \<Rightarrow>
   memory_manager \<Rightarrow> u8 \<Rightarrow> ptr \<Rightarrow> memory_manager result option"
where
  "MemoryManager_FreeRequest fuel env mm flags rq =
     (if LABSTOR_QP_IS_SHMEM flags
      then (case mm_shmem_alloc mm of
              None \<Rightarrow> Some (Inl NULL_DEREFERENCE)
            | Some a \<Rightarrow> map_option (\<lambda>a. Inr (mm\<lparr>mm_shmem_alloc := Some a\<rparr>))
                          (labstor_shmem_allocator_Free fuel env a rq))
      else (case mm_private_alloc mm of
              None \<Rightarrow> Some (Inl NULL_DEREFERENCE)
            | Some a \<Rightarrow> map_option (\<lambda>a. Inr (mm\<lparr>mm_private_alloc := Some a\<rparr>))
                          (labstor_shmem_allocator_Free fuel env a rq)))"

section \<open>The interface of a queue directory\<close>

text \<open>
  What the owners of a pool rely on: registering a queue pair puts it behind the ones of its type
  and flags, and an identifier finds the queue pair at its counter.
\<close>

fun register_all :: "('d \<Rightarrow> labstor_qid_t \<Rightarrow> 'q \<Rightarrow> 'd result) \<Rightarrow> (labstor_qid_t \<times> 'q) list \<Rightarrow> 'd \<Rightarrow> 'd result" where
  "register_all reg [] d = Inr d"
| "register_all reg ((qid, q) # qs) d =
     (case reg d qid q of Inl err \<Rightarrow> Inl err | Inr d \<Rightarrow> register_all reg qs d)"

text \<open>The queue pairs of one type and one flag combination, in the order of their registration.\<close>

definition registered_row :: "(labstor_qid_t \<times> 'q) list \<Rightarrow> labstor_qid_t \<Rightarrow> 'q list" where
  "registered_row qs x = map snd (filter (\<lambda>(qid, q). qid_type qid = qid_type x \<and> qid_flags qid = qid_flags x) qs)"

lemma registered_row_simps [simp]:
  "registered_row [] x = []"
  "registered_row ((qid, q) # qs) x =
     (if qid_type qid = qid_type x \<and> qid_flags qid = qid_flags x then q # registered_row qs x else registered_row qs x)"
  by (simp_all add: registered_row_def)

lemma registered_row_nth:
  assumes "k < length qs"
  defines "i \<equiv> length (registered_row (take k qs) (fst (qs ! k)))"
  shows "i < length (registered_row qs (fst (qs ! k))) \<and> registered_row qs (fst (qs ! k)) ! i = snd (qs ! k)"
proof -
  have "registered_row qs x = registered_row (take k qs) x @ registered_row (qs ! k # drop (Suc k) qs) x" for x
    using assms(1) by (metis (no_types, lifting) append_take_drop_id Cons_nth_drop_Suc filter_append map_append registered_row_def)
  then show ?thesis by (cases "qs ! k") (simp add: i_def)
qed

locale queue_directory =
  fixes known :: "'d \<Rightarrow> u8 \<Rightarrow> u8 \<Rightarrow> bool"
    and num :: "'d \<Rightarrow> u8 \<Rightarrow> u8 \<Rightarrow> nat"
    and reg :: "'d \<Rightarrow> labstor_qid_t \<Rightarrow> 'q \<Rightarrow> 'd result"
    and get :: "'d \<Rightarrow> labstor_qid_t \<Rightarrow> 'q result"
  assumes reg_known: "known d (qid_type qid) (qid_flags qid) \<Longrightarrow>
      \<exists>d'. reg d qid q = Inr d' \<and> known d' = known d \<and>
        num d' = (num d)(qid_type qid := (num d (qid_type qid))(qid_flags qid := Suc (num d (qid_type qid) (qid_flags qid)))) \<and>
        (\<forall>x. get d' x =
           (if qid_type x = qid_type qid \<and> qid_flags x = qid_flags qid \<and>
               unat (qid_cnt x) = num d (qid_type qid) (qid_flags qid) then Inr q else get d x))"
    and reg_unknown: "\<not> known d (qid_type qid) (qid_flags qid) \<Longrightarrow> reg d qid q = Inl INVALID_QP_QUERY"
    and get_range: "(\<exists>q. get d x = Inr q) \<longleftrightarrow>
      known d (qid_type x) (qid_flags x) \<and> unat (qid_cnt x) < num d (qid_type x) (qid_flags x)"
begin

lemma register_all_get:
  assumes "\<forall>(qid, q) \<in> set qs. known d (qid_type qid) (qid_flags qid)"
  shows "\<exists>d'. register_all reg qs d = Inr d' \<and> known d' = known d \<and>
    (\<forall>x. get d' x =
       (let n = num d (qid_type x) (qid_flags x); i = unat (qid_cnt x); row = registered_row qs x in
        if n \<le> i \<and> i < n + length row then Inr (row ! (i - n)) else get d x))"
  using assms
proof (induction qs arbitrary: d)
  case Nil
  then show ?case by (auto simp: Let_def)
next
  case (Cons p qs)
  obtain qid q where p: "p = (qid, q)" by fastforce
  obtain d1 where d1: "reg d qid q = Inr d1" "known d1 = known d"
      "num d1 = (num d)(qid_type qid := (num d (qid_type qid))(qid_flags qid := Suc (num d (qid_type qid) (qid_flags qid))))"
      "\<And>x. get d1 x =
         (if qid_type x = qid_type qid \<and> qid_flags x = qid_flags qid \<and>
             unat (qid_cnt x) = num d (qid_type qid) (qid_flags qid) then Inr q else get d x)"
    using reg_known [of d qid q] Cons.prems p by auto
  obtain d' where d': "register_all reg qs d1 = Inr d'" "known d' = known d1"
      "\<And>x. get d' x =
       (let n = num d1 (qid_type x) (qid_flags x); i = unat (qid_cnt x); row = registered_row qs x in
        if n \<le> i \<and> i < n + length row then Inr (row ! (i - n)) else get d1 x)"
    using Cons.IH [of d1] Cons.prems d1(2) by auto
  have "get d' x =
       (let n = num d (qid_type x) (qid_flags x); i = unat (qid_cnt x); row = registered_row (p # qs) x in
        if n \<le> i \<and> i < n + length row then Inr (row ! (i - n)) else get d x)" for x
    by (auto simp: d'(3) d1(3,4) p Let_def nth_Cons' Suc_diff_le le_Suc_eq)
  then show ?case using p d1(1,2) d'(1,2) by auto
qed

lemma register_all_refused:
  assumes "\<exists>(qid, q) \<in> set qs. \<not> known d (qid_type qid) (qid_flags qid)"
  shows "register_all reg qs d = Inl INVALID_QP_QUERY"
  using assms
proof (induction qs arbitrary: d)
  case Nil
  then show ?case by simp
next
  case (Cons p qs)
  obtain qid q where p: "p = (qid, q)" by fastforce
  show ?case
  proof (cases "known d (qid_type qid) (qid_flags qid)")
    case True
    then obtain d1 where "reg d qid q = Inr d1" "known d1 = known d" using reg_known [of d qid q] by blast
    then show ?thesis using Cons.IH [of d1] Cons.prems p True by auto
  next
    case False
    then show ?thesis using reg_unknown [of d qid q] p by simp
  qed
qed

end

definition pool_known :: "'q queue_pool \<Rightarrow> u8 \<Rightarrow> u8 \<Rightarrow> bool" where
  "pool_known pool t f \<longleftrightarrow> unat t < length (qpl_qps pool) \<and> unat f < length (qpl_qps pool ! unat t)"

definition pool_num :: "'q queue_pool \<Rightarrow> u8 \<Rightarrow> u8 \<Rightarrow> nat" where
  "pool_num pool t f = (if pool_known pool t f then length (qpl_qps pool ! unat t ! unat f) else 0)"

lemma cnt_offset: "unat (scast (ucast (c :: u16) :: i32) :: u64) = unat c"
proof -
  have "unat c < 2 ^ 16" using unsigned_less [of c, where ?'a = nat] by simp
  moreover from this have "unat (ucast c :: ptr) = unat c"
    by (simp add: unsigned_ucast_eq take_bit_nat_eq_self)
  ultimately have "scast (ucast (ucast c :: ptr) :: labstor_off_t) = (ucast c :: ptr)"
    by (intro scast_ucast_small) simp
  moreover have "(ucast (ucast c :: ptr) :: i32) = ucast c"
    by (intro bit_word_eqI) (auto simp: bit_ucast_iff)
  ultimately show ?thesis using \<open>unat (ucast c :: ptr) = unat c\<close> by simp
qed

lemma GetQueuePair_eq:
  "QueuePool_GetQueuePair pool qid =
     (if pool_known pool (qid_type qid) (qid_flags qid) \<and> unat (qid_cnt qid) < pool_num pool (qid_type qid) (qid_flags qid)
      then Inr (qpl_qps pool ! unat (qid_type qid) ! unat (qid_flags qid) ! unat (qid_cnt qid))
      else Inl INVALID_QP_QUERY)"
  by (simp add: QueuePool_GetQueuePair_def QueuePool_GetQueuePair_off_def pool_known_def pool_num_def
      Let_def cnt_offset not_le)

lemma RegisterQueuePair_known:
  fixes pool :: "'q queue_pool" and q :: 'q and a b :: u8
  assumes "pool_known pool (qid_type qid) (qid_flags qid)"
  defines "t \<equiv> unat (qid_type qid)" and "f \<equiv> unat (qid_flags qid)"
  defines "pool' \<equiv> pool\<lparr>qpl_qps := (qpl_qps pool)[t := (qpl_qps pool ! t)[f := qpl_qps pool ! t ! f @ [q]]]\<rparr>"
  shows "QueuePool_RegisterQueuePair pool qid q = Inr pool'" "pool_known pool' = pool_known pool"
    "qpl_qps pool' ! unat a ! unat b = (if a = qid_type qid \<and> b = qid_flags qid
       then qpl_qps pool ! t ! f @ [q] else qpl_qps pool ! unat a ! unat b)"
proof -
  have k: "t < length (qpl_qps pool)" "f < length (qpl_qps pool ! t)"
    using assms(1) by (simp_all add: pool_known_def t_def f_def)
  then show "QueuePool_RegisterQueuePair pool qid q = Inr pool'"
    by (simp add: QueuePool_RegisterQueuePair_def pool'_def t_def f_def Let_def)
  show "pool_known pool' = pool_known pool"
    using k by (intro ext) (auto simp: pool_known_def pool'_def nth_list_update)
  show "qpl_qps pool' ! unat a ! unat b = (if a = qid_type qid \<and> b = qid_flags qid
       then qpl_qps pool ! t ! f @ [q] else qpl_qps pool ! unat a ! unat b)"
    using k by (auto simp: pool'_def t_def f_def nth_list_update word_unat_eq_iff)
qed

interpretation pool_dir: queue_directory pool_known pool_num QueuePool_RegisterQueuePair QueuePool_GetQueuePair
proof
  fix d :: "'q queue_pool" and qid :: labstor_qid_t and q x
  show "QueuePool_RegisterQueuePair d qid q = Inl INVALID_QP_QUERY" if "\<not> pool_known d (qid_type qid) (qid_flags qid)"
    using that by (auto simp: QueuePool_RegisterQueuePair_def pool_known_def Let_def not_less)
  show "(\<exists>q. QueuePool_GetQueuePair d x = Inr q) \<longleftrightarrow>
      pool_known d (qid_type x) (qid_flags x) \<and> unat (qid_cnt x) < pool_num d (qid_type x) (qid_flags x)"
    by (simp add: GetQueuePair_eq)
  let ?t = "qid_type qid" and ?f = "qid_flags qid"
  assume k: "pool_known d ?t ?f"
  note R = RegisterQueuePair_known [OF k, of q]
  define d' where "d' = d\<lparr>qpl_qps := (qpl_qps d)[unat ?t := (qpl_qps d ! unat ?t)
      [unat ?f := qpl_qps d ! unat ?t ! unat ?f @ [q]]]\<rparr>"
  note R = R [folded d'_def]
  have n: "pool_num d' = (pool_num d)(?t := (pool_num d ?t)(?f := Suc (pool_num d ?t ?f)))"
    using k by (intro ext) (auto simp: pool_num_def R(2,3))
  have "QueuePool_GetQueuePair d' y =
      (if qid_type y = ?t \<and> qid_flags y = ?f \<and> unat (qid_cnt y) = pool_num d ?t ?f then Inr q
       else QueuePool_GetQueuePair d y)" for y
    using k by (auto simp: GetQueuePair_eq R(2,3) n pool_num_def nth_append)
  then show "\<exists>d'. QueuePool_RegisterQueuePair d qid q = Inr d' \<and> pool_known d' = pool_known d \<and>
      pool_num d' = (pool_num d)(?t := (pool_num d ?t)(?f := Suc (pool_num d ?t ?f))) \<and>
      (\<forall>x. QueuePool_GetQueuePair d' x =
         (if qid_type x = ?t \<and> qid_flags x = ?f \<and> unat (qid_cnt x) = pool_num d ?t ?f then Inr q
          else QueuePool_GetQueuePair d x))"
    using R(1,2) n by blast
qed

lemma QueuePool_new_known: "pool_known QueuePool_new t f \<longleftrightarrow> t = 0 \<and> unat f < 32" "pool_num QueuePool_new t f = 0"
proof -
  have r: "qpl_qps QueuePool_new = [replicate 32 []]"
    by (simp add: QueuePool_new_def QueuePool_RegisterQueuePairType_def qp_flag_defs)
  show k: "pool_known QueuePool_new t f \<longleftrightarrow> t = 0 \<and> unat f < 32"
    by (auto simp: pool_known_def r unat_eq_zero)
  show "pool_num QueuePool_new t f = 0"
    by (auto simp: pool_num_def k r)
qed

section \<open>Properties\<close>

text \<open>
  C32. A fresh pool finds what was registered in it. Registering queue pairs succeeds exactly when all
  of them have the type \<open>0\<close> and one of the 32 flag combinations, in whatever order these are mixed.
  Then an identifier finds the queue pair at its counter among those with its type and flags, in
  the order of their registration, and is refused when there are not so many; its process is not
  compared. When every queue pair was registered with the next counter of its type and flags, each
  finds itself.
\<close>

theorem queue_pool_finds_registered:
  "if \<forall>(qid, q) \<in> set qs. qid_type qid = 0 \<and> unat (qid_flags qid) < 32
   then \<exists>pool. register_all QueuePool_RegisterQueuePair qs QueuePool_new = Inr pool \<and>
     (\<forall>x. QueuePool_GetQueuePair pool x =
        (if unat (qid_cnt x) < length (registered_row qs x)
         then Inr (registered_row qs x ! unat (qid_cnt x)) else Inl INVALID_QP_QUERY)) \<and>
     ((\<forall>k < length qs. unat (qid_cnt (fst (qs ! k))) = length (registered_row (take k qs) (fst (qs ! k)))) \<longrightarrow>
      (\<forall>k < length qs. QueuePool_GetQueuePair pool (fst (qs ! k)) = Inr (snd (qs ! k))))
   else register_all QueuePool_RegisterQueuePair qs QueuePool_new = Inl INVALID_QP_QUERY"
proof (cases "\<forall>(qid, q) \<in> set qs. qid_type qid = 0 \<and> unat (qid_flags qid) < 32")
  case True
  then have "\<forall>(qid, q) \<in> set qs. pool_known (QueuePool_new :: 'a queue_pool) (qid_type qid) (qid_flags qid)"
    by (simp add: QueuePool_new_known)
  then obtain pool where pool: "register_all QueuePool_RegisterQueuePair qs QueuePool_new = Inr pool"
      "\<And>x. QueuePool_GetQueuePair pool x = (if unat (qid_cnt x) < length (registered_row qs x)
         then Inr (registered_row qs x ! unat (qid_cnt x)) else QueuePool_GetQueuePair QueuePool_new x)"
    using pool_dir.register_all_get [of qs QueuePool_new] by (auto simp: QueuePool_new_known Let_def)
  have "QueuePool_GetQueuePair (QueuePool_new :: 'a queue_pool) x = Inl INVALID_QP_QUERY" for x
    by (simp add: GetQueuePair_eq QueuePool_new_known)
  then have g: "QueuePool_GetQueuePair pool x = (if unat (qid_cnt x) < length (registered_row qs x)
         then Inr (registered_row qs x ! unat (qid_cnt x)) else Inl INVALID_QP_QUERY)" for x
    using pool(2) [of x] by simp
  then have "QueuePool_GetQueuePair pool (fst (qs ! k)) = Inr (snd (qs ! k))"
    if "k < length qs" "unat (qid_cnt (fst (qs ! k))) = length (registered_row (take k qs) (fst (qs ! k)))" for k
    using registered_row_nth [OF that(1)] that(2) by simp
  with pool(1) g show ?thesis unfolding if_P [OF True] by blast
next
  case False
  then have "\<exists>(qid, q) \<in> set qs. \<not> pool_known (QueuePool_new :: 'a queue_pool) (qid_type qid) (qid_flags qid)"
    by (simp add: QueuePool_new_known split_beta)
  then show ?thesis unfolding if_not_P [OF False] by (rule pool_dir.register_all_refused)
qed

theorem queue_pool_finds_registered_witness:
  "\<exists>pool. register_all QueuePool_RegisterQueuePair
     [(\<lparr>qid_flags = 16, qid_type = 0, qid_cnt = 0, qid_pid = 7\<rparr>, ''first''),
      (\<lparr>qid_flags = 2, qid_type = 0, qid_cnt = 0, qid_pid = 7\<rparr>, ''other''),
      (\<lparr>qid_flags = 16, qid_type = 0, qid_cnt = 1, qid_pid = 7\<rparr>, ''second'')] QueuePool_new = Inr pool \<and>
   QueuePool_GetQueuePair pool \<lparr>qid_flags = 16, qid_type = 0, qid_cnt = 1, qid_pid = 8\<rparr> = Inr ''second'' \<and>
   QueuePool_GetQueuePair pool \<lparr>qid_flags = 2, qid_type = 0, qid_cnt = 1, qid_pid = 7\<rparr> = Inl INVALID_QP_QUERY"
proof -
  let ?qs = "[(\<lparr>qid_flags = 16, qid_type = 0, qid_cnt = 0, qid_pid = 7\<rparr>, ''first''),
      (\<lparr>qid_flags = 2, qid_type = 0, qid_cnt = 0, qid_pid = 7\<rparr>, ''other''),
      (\<lparr>qid_flags = 16, qid_type = 0, qid_cnt = 1, qid_pid = 7\<rparr>, ''second'')] :: (labstor_qid_t \<times> string) list"
  have k: "\<forall>(qid, q) \<in> set ?qs. qid_type qid = 0 \<and> unat (qid_flags qid) < 32" by simp
  obtain pool where
      "register_all QueuePool_RegisterQueuePair ?qs QueuePool_new = Inr pool"
      "\<forall>x. QueuePool_GetQueuePair pool x =
        (if unat (qid_cnt x) < length (registered_row ?qs x)
         then Inr (registered_row ?qs x ! unat (qid_cnt x)) else Inl INVALID_QP_QUERY)"
    using queue_pool_finds_registered [of ?qs] unfolding if_P [OF k] by blast
  then show ?thesis by (intro exI [of _ pool]) simp
qed

end
