(* ===== verification/Client_Ipc.thy ===== *)
theory Client_Ipc
  imports Queue_Pair Queue_Pool
begin

text \<open>
  The connection of a client, \<^verbatim>\<open>src/userspace/client/ipc_manager.cpp\<close> and
  \<^verbatim>\<open>include/labstor/userspace/client/ipc_manager.h\<close>, with the messages of
  \<^verbatim>\<open>include/labstor/userspace/types/messages.h\<close>. Queue pairs are objects of the process; a reference
  is their index in \<open>cl_qps\<close>. Sockets, mapping and \<^verbatim>\<open>malloc\<close> are outside: what they return is an
  argument, and what is sent to the server is a result.
\<close>

section \<open>Messages\<close>

text \<open>The code that the reply inherits from \<^verbatim>\<open>admin_reply\<close> is neither set nor read and is left out.\<close>

record setup_reply =
  sr_region_id :: u32
  sr_region_size :: u32
  sr_request_region_size :: u32
  sr_request_unit :: u32
  sr_queue_region_size :: u32
  sr_queue_depth :: u32
  sr_num_queues :: u32
  sr_namespace_region_id :: u32
  sr_namespace_region_size :: u32
  sr_namespace_max_entries :: u32

record register_qp_request =
  rqr_op :: i32
  rqr_count :: i32

definition register_qp_request_new :: "i32 \<Rightarrow> register_qp_request" where
  "register_qp_request_new count = \<lparr>rqr_op = 0, rqr_count = count\<rparr>"

definition register_qp_request_GetQueueArrayLength :: "register_qp_request \<Rightarrow> u32" where
  "register_qp_request_GetQueueArrayLength r = rqr_count r * 12"

section \<open>The client\<close>

record client_ipc =
  cl_pid :: i32
  cl_n_cpu :: i32
  cl_is_connected :: bool
  cl_pool :: "nat queue_pool"
  cl_mm :: memory_manager
  cl_qps :: "labstor_queue_pair list"

definition Client_IPCManager_new :: "i32 \<Rightarrow> client_ipc" where
  "Client_IPCManager_new nprocs =
     \<lparr>cl_pid = 0, cl_n_cpu = nprocs, cl_is_connected = False, cl_pool = QueuePool_new,
      cl_mm = \<lparr>mm_private_alloc = None, mm_shmem_alloc = None, mm_qp_alloc = None\<rparr>, cl_qps = []\<rparr>"

text \<open>
  \<^verbatim>\<open>labstor_queue_pair::Init\<close> without a depth, throwing as the userspace build does: the queue is
  initialised first, with what is left of its region behind the header, and then the map.
\<close>

definition queue_pair_Init_throw ::
  "labstor_queue_pair \<Rightarrow> labstor_qid_t \<Rightarrow> ptr \<Rightarrow> ptr \<Rightarrow> u32 \<Rightarrow> ptr \<Rightarrow> u32 \<Rightarrow> labstor_queue_pair result"
where
  "queue_pair_Init_throw raw qid base_region sq_region sq_size cq_region cq_size =
     (if \<not> fst (labstor_request_queue_Init (qp_sq raw) base_region sq_region sq_size 0 qid)
      then Inl (INVALID_RING_BUFFER_SIZE (sq_size - 12) 0)
      else if \<not> fst (labstor_request_map_Init (qp_cq raw) base_region cq_region cq_size 0)
      then Inl (INVALID_UNORDERED_MAP_SIZE cq_size 0)
      else Inr (snd (labstor_queue_pair_Init raw qid base_region 0 sq_region sq_size cq_region cq_size)))"

text \<open>Creating a \<^verbatim>\<open>shmem_queue_pair\<close> and storing the pointer in the pool.\<close>

definition client_RegisterQueuePair :: "client_ipc \<Rightarrow> labstor_queue_pair \<Rightarrow> client_ipc result" where
  "client_RegisterQueuePair cl qp =
     result_bind (QueuePool_RegisterQueuePair (cl_pool cl) (labstor_queue_pair_GetQID qp) (length (cl_qps cl)))
       (\<lambda>pool. Inr (cl\<lparr>cl_pool := pool, cl_qps := cl_qps cl @ [qp]\<rparr>))"

abbreviation (input) client_shmem_flags :: u8 where "client_shmem_flags \<equiv> 0"
abbreviation (input) client_private_flags :: u8 where "client_private_flags \<equiv> LABSTOR_QP_PRIVATE"

text \<open>
  The loop of \<^verbatim>\<open>CreateQueuesSHMEM\<close>: \<open>n\<close> iterations are left and \<open>i\<close> is its counter; \<open>raw i\<close> is
  what the memory of queue \<open>i\<close> held before.
\<close>

fun create_shmem_queues ::
  "(nat \<Rightarrow> labstor_queue_pair) \<Rightarrow> u32 \<Rightarrow> u32 \<Rightarrow> u32 \<Rightarrow> nat \<Rightarrow> nat \<Rightarrow> client_ipc \<Rightarrow>
   (labstor_queue_pair_ptr list \<times> client_ipc) result"
where
  "create_shmem_queues raw num_queues sq_size cq_size 0 i cl = Inr ([], cl)"
| "create_shmem_queues raw num_queues sq_size cq_size (Suc n) i cl =
     result_bind (queue_pair_GetQID 0 client_shmem_flags (of_nat i) num_queues (cl_pid cl)) (\<lambda>qid.
     result_bind (MemoryManager_AllocShmemQueue (cl_mm cl) sq_size) (\<lambda>(sq_region, mm).
     result_bind (MemoryManager_AllocShmemQueue mm cq_size) (\<lambda>(cq_region, mm).
     result_bind (MemoryManager_GetRegion mm client_shmem_flags) (\<lambda>base.
     result_bind (queue_pair_Init_throw (raw i) qid base sq_region sq_size cq_region cq_size) (\<lambda>qp.
     result_bind (client_RegisterQueuePair (cl\<lparr>cl_mm := mm\<rparr>) qp) (\<lambda>cl.
     result_bind (create_shmem_queues raw num_queues sq_size cq_size n (Suc i) cl) (\<lambda>(ptrs, cl).
     Inr (labstor_queue_pair_GetPointer qp base # ptrs, cl))))))))"

definition Client_IPCManager_CreateQueuesSHMEM ::
  "(nat \<Rightarrow> labstor_queue_pair) \<Rightarrow> client_ipc \<Rightarrow> i32 \<Rightarrow> i32 \<Rightarrow>
   (register_qp_request \<times> labstor_queue_pair_ptr list \<times> client_ipc) result"
where
  "Client_IPCManager_CreateQueuesSHMEM raw cl num_queues depth =
     (let request_queue_size = labstor_request_queue_GetSize_global depth;
          request_map_size = labstor_request_map_GetSize_global depth in
      result_bind (QueuePool_ReserveQueues (cl_pool cl) 0 0 num_queues) (\<lambda>_.
      result_bind (create_shmem_queues raw num_queues request_queue_size request_map_size
                     (nat (sint num_queues)) 0 cl) (\<lambda>(ptrs, cl).
      Inr (register_qp_request_new num_queues, ptrs, cl))))"

text \<open>
  The private queues; \<open>tid\<close> is the thread that allocates. The caller passes the depth where the
  size of the regions is expected. A failed allocation is written to.
\<close>

fun create_private_queues ::
  "(nat \<Rightarrow> labstor_queue_pair) \<Rightarrow> u32 \<Rightarrow> u32 \<Rightarrow> u32 \<Rightarrow> nat \<Rightarrow> nat \<Rightarrow> client_ipc \<Rightarrow> client_ipc result option"
where
  "create_private_queues raw num_queues queue_size tid 0 i cl = Some (Inr cl)"
| "create_private_queues raw num_queues queue_size tid (Suc n) i cl =
     run_bind (Some (queue_pair_GetQID 0 client_private_flags (of_nat i) num_queues (cl_pid cl))) (\<lambda>qid.
     run_bind (MemoryManager_AllocPrivateQueue (cl_mm cl) queue_size tid) (\<lambda>(sq_region, mm).
     run_bind (MemoryManager_AllocPrivateQueue mm queue_size tid) (\<lambda>(cq_region, mm).
     run_bind (Some (MemoryManager_GetRegion mm client_private_flags)) (\<lambda>base.
     case (sq_region, cq_region) of
       (Some sq, Some cq) \<Rightarrow>
         run_bind (Some (queue_pair_Init_throw (raw i) qid base sq queue_size cq queue_size)) (\<lambda>qp.
         run_bind (Some (client_RegisterQueuePair (cl\<lparr>cl_mm := mm\<rparr>) qp)) (\<lambda>cl.
         create_private_queues raw num_queues queue_size tid n (Suc i) cl))
     | _ \<Rightarrow> Some (Inl NULL_DEREFERENCE)))))"

definition Client_IPCManager_CreatePrivateQueues ::
  "(nat \<Rightarrow> labstor_queue_pair) \<Rightarrow> u32 \<Rightarrow> client_ipc \<Rightarrow> i32 \<Rightarrow> i32 \<Rightarrow> client_ipc result option"
where
  "Client_IPCManager_CreatePrivateQueues raw tid cl num_queues queue_size =
     create_private_queues raw num_queues queue_size tid (nat (sint num_queues)) 0 cl"

text \<open>
  \<^verbatim>\<open>Connect\<close> from the reply of the server on: \<open>region\<close> is where the client mapped the shared region
  and \<open>heap_region\<close> what \<^verbatim>\<open>malloc\<close> returned. The result holds the message for the server.
\<close>

definition Client_IPCManager_Connect ::
  "(nat \<Rightarrow> labstor_queue_pair) \<Rightarrow> labstor_shmem_allocator \<Rightarrow> u32 \<Rightarrow> i32 \<Rightarrow> setup_reply \<Rightarrow> ptr \<Rightarrow> ptr \<Rightarrow>
   client_ipc \<Rightarrow> ((register_qp_request \<times> labstor_queue_pair_ptr list) option \<times> client_ipc) result option"
where
  "Client_IPCManager_Connect raw alloc0 tid pid reply region heap_region cl =
     (if cl_is_connected cl then Some (Inr (None, cl))
      else
        run_bind (Some (labstor_shmem_allocator_Init (cl_n_cpu cl) alloc0 region region
                          (sr_request_region_size reply) (sr_request_unit reply) (cl_n_cpu cl))) (\<lambda>shmem_alloc.
        let mm = MemoryManager_SetShmemAlloc (cl_mm cl) shmem_alloc;
            mm = MemoryManager_SetQueueAlloc mm
                   (labstor_segment_allocator_Attach
                      (LABSTOR_REGION_ADD_u32 (sr_request_region_size reply) region)
                      (sr_queue_region_size reply)) in
        run_bind (Some (labstor_shmem_allocator_Init (cl_n_cpu cl) alloc0 heap_region heap_region
                          (sr_region_size reply) (sr_request_unit reply) (cl_n_cpu cl))) (\<lambda>private_alloc.
        let mm = MemoryManager_SetPrivateAlloc mm private_alloc;
            cl = cl\<lparr>cl_pid := pid, cl_mm := mm\<rparr> in
        run_bind (Some (Client_IPCManager_CreateQueuesSHMEM raw cl (sr_num_queues reply) (sr_queue_depth reply)))
          (\<lambda>(request, ptrs, cl).
        run_bind (Client_IPCManager_CreatePrivateQueues (\<lambda>i. raw (i + nat (sint (sr_num_queues reply)))) tid cl
                    (cl_n_cpu cl) (sr_queue_depth reply)) (\<lambda>cl.
        Some (Inr (Some (request, ptrs), cl\<lparr>cl_is_connected := True\<rparr>)))))))"

section \<open>Finding a queue and waiting\<close>

definition client_GetQueuePair_type :: "u32 \<Rightarrow> client_ipc \<Rightarrow> u8 \<Rightarrow> u8 \<Rightarrow> nat result" where
  "client_GetQueuePair_type tid cl type flags =
     result_bind (QueuePool_GetNumQueuePairsFast (cl_pool cl) type flags) (\<lambda>n.
     result_bind (queue_pair_GetQIDOff type flags tid n (cl_pid cl)) (\<lambda>off.
     QueuePool_GetQueuePair_off (cl_pool cl) type flags off))"

definition client_GetQueuePair :: "u32 \<Rightarrow> client_ipc \<Rightarrow> u8 \<Rightarrow> nat result" where
  "client_GetQueuePair tid cl flags = client_GetQueuePair_type tid cl 0 flags"

definition client_GetQueuePairByName :: "client_ipc \<Rightarrow> u8 \<Rightarrow> u8 list \<Rightarrow> u32 \<Rightarrow> nat result" where
  "client_GetQueuePairByName cl flags str ns_id =
     result_bind (QueuePool_GetNumQueuePairsFast (cl_pool cl) 0 flags) (\<lambda>n.
     result_bind (queue_pair_GetQID_str 0 flags str ns_id n (cl_pid cl)) (\<lambda>qid.
     QueuePool_GetQueuePair_off (cl_pool cl) 0 flags (ucast (qid_cnt qid))))"

definition client_Wait ::
  "nat \<Rightarrow> (nat \<Rightarrow> labstor_queue_pair \<Rightarrow> labstor_queue_pair) \<Rightarrow> client_ipc \<Rightarrow> labstor_qtok_t \<Rightarrow>
   (ptr \<times> client_ipc) result option"
where
  "client_Wait fuel env cl qtok =
     run_bind (Some (QueuePool_GetQueuePair_qtok (cl_pool cl) qtok)) (\<lambda>r.
     map_option (\<lambda>(rq, qp). Inr (rq, cl\<lparr>cl_qps := (cl_qps cl)[r := qp]\<rparr>))
       (labstor_queue_pair_Wait fuel env (cl_qps cl ! r) (qtok_req_id qtok)))"

definition client_WaitFree ::
  "nat \<Rightarrow> (nat \<Rightarrow> labstor_queue_pair \<Rightarrow> labstor_queue_pair) \<Rightarrow>
   (nat \<Rightarrow> nat \<times> labstor_shmem_allocator \<Rightarrow> nat \<times> labstor_shmem_allocator) \<Rightarrow>
   request_heap \<Rightarrow> client_ipc \<Rightarrow> labstor_qtok_t \<Rightarrow> (u32 \<times> client_ipc) result option"
where
  "client_WaitFree fuel env aenv heap cl qtok =
     run_bind (client_Wait fuel env cl qtok) (\<lambda>(rq, cl).
     let ret = rq_code (heap rq) in
     run_bind (MemoryManager_FreeRequest fuel aenv (cl_mm cl) (qid_flags (qtok_qid qtok)) rq) (\<lambda>mm.
     Some (Inr (ret, cl\<lparr>cl_mm := mm\<rparr>))))"

fun client_Wait_all ::
  "nat \<Rightarrow> (nat \<Rightarrow> labstor_queue_pair \<Rightarrow> labstor_queue_pair) \<Rightarrow> client_ipc \<Rightarrow> labstor_qtok_t list \<Rightarrow>
   client_ipc result option"
where
  "client_Wait_all fuel env cl [] = Some (Inr cl)"
| "client_Wait_all fuel env cl (qtok # qtoks) =
     run_bind (client_Wait fuel env cl qtok) (\<lambda>(rq, cl). client_Wait_all fuel env cl qtoks)"

fun client_WaitFree_all ::
  "nat \<Rightarrow> (nat \<Rightarrow> labstor_queue_pair \<Rightarrow> labstor_queue_pair) \<Rightarrow>
   (nat \<Rightarrow> nat \<times> labstor_shmem_allocator \<Rightarrow> nat \<times> labstor_shmem_allocator) \<Rightarrow>
   client_ipc \<Rightarrow> labstor_qtok_t list \<Rightarrow> client_ipc result option"
where
  "client_WaitFree_all fuel env aenv cl [] = Some (Inr cl)"
| "client_WaitFree_all fuel env aenv cl (qtok # qtoks) =
     run_bind (client_Wait fuel env cl qtok) (\<lambda>(rq, cl).
     run_bind (MemoryManager_FreeRequest fuel aenv (cl_mm cl) (qid_flags (qtok_qid qtok)) rq) (\<lambda>mm.
     client_WaitFree_all fuel env aenv (cl\<lparr>cl_mm := mm\<rparr>) qtoks))"

section \<open>Fresh queue pairs\<close>

definition fresh_queue_pair ::
  "labstor_qid_t \<Rightarrow> ptr \<Rightarrow> ptr \<Rightarrow> ptr \<Rightarrow> u32 \<Rightarrow> labstor_queue_pair \<Rightarrow> bool"
where
  "fresh_queue_pair qid base sq cq d qp \<longleftrightarrow>
     labstor_queue_pair_GetQID qp = qid \<and> lrq_base_region (qp_sq qp) = base \<and> rm_base_region (qp_cq qp) = base \<and>
     labstor_request_queue_GetRegion (qp_sq qp) = sq \<and> labstor_request_map_GetRegion (qp_cq qp) = cq \<and>
     rr_inv (lrq_queue (qp_sq qp)) \<and> rr_contents (lrq_queue (qp_sq qp)) = [] \<and>
     rr_max_depth (lrq_queue (qp_sq qp)) = d \<and> rm_num_buckets (qp_cq qp) = d \<and>
     (\<forall>b < d. rm_cells (qp_cq qp) b = - 1)"

lemma queue_sizes:
  assumes "unat d < 2 ^ 28"
  shows "unat (labstor_request_queue_GetSize_global d) = 24 + 4 * unat d"
    "unat (labstor_request_map_GetSize_global d) = 4 + 4 * unat d"
    "unat (labstor_queue_pair_GetSize_global d) = 108 + 8 * unat d"
proof -
  have g: "unat (labstor_request_ring_buffer_GetSize_global d) = 12 + 4 * unat d"
    using assms by (intro unat_GetSize_global) simp
  then show q: "unat (labstor_request_queue_GetSize_global d) = 24 + 4 * unat d"
    using assms by (simp add: labstor_request_queue_GetSize_global_def unat_word_ariths)
  show m: "unat (labstor_request_map_GetSize_global d) = 4 + 4 * unat d"
    using assms by (simp add: labstor_request_map_GetSize_global_def unat_word_ariths)
  show "unat (labstor_queue_pair_GetSize_global d) = 108 + 8 * unat d"
    using assms q m by (simp add: labstor_queue_pair_GetSize_global_def unat_word_ariths)
qed

lemma queue_pair_Init_throw_fresh:
  assumes "0 < unat d" "unat d < 2 ^ 28"
  shows "\<exists>qp. queue_pair_Init_throw raw qid base sq (labstor_request_queue_GetSize_global d)
      cq (labstor_request_map_GetSize_global d) = Inr qp \<and> fresh_queue_pair qid base sq cq d qp"
proof -
  let ?S = "labstor_request_queue_GetSize_global d" and ?C = "labstor_request_map_GetSize_global d"
  have d: "d \<noteq> 0" using assms(1) by auto
  have g0: "labstor_request_ring_buffer_GetSize_global 0 = 12"
    by (simp add: labstor_request_ring_buffer_GetSize_global_def)
  have s: "?S - 12 = labstor_request_ring_buffer_GetSize_global d"
    by (simp add: labstor_request_queue_GetSize_global_def)
  have u: "unat (labstor_request_ring_buffer_GetSize_global d) = 12 + 4 * unat d"
    using assms(2) by (intro unat_GetSize_global) simp
  have dv: "(?S - 12 - 12) div 4 = d" "(?C - 4) div 4 = d"
    using assms(2) by (simp_all add: s labstor_request_ring_buffer_GetSize_global_def
        labstor_request_map_GetSize_global_def word_unat_eq_iff unat_div unat_word_ariths)
  have nl: "\<not> ?S - 12 < labstor_request_ring_buffer_GetSize_global 0"
    "\<not> ?C < labstor_request_map_GetSize_global 0"
    unfolding s using u queue_sizes(2) [OF assms(2)]
    by (simp_all add: g0 word_less_nat_alt labstor_request_map_GetSize_global_def)
  obtain sqr where sqr: "labstor_request_queue_Init (qp_sq raw) base sq ?S 0 qid = (True, sqr)"
      "lrq_base_region sqr = base" "lrq_header sqr = sq" "lrq_qid sqr = qid" "rr_inv (lrq_queue sqr)"
      "rr_contents (lrq_queue sqr) = []" "rr_max_depth (lrq_queue sqr) = d"
  proof -
    obtain r where r: "labstor_request_ring_buffer_Init (lrq_queue (qp_sq raw)) (sq + 12) (?S - 12) 0 = (True, r)"
      using nl(1) dv(1) d by (simp add: labstor_request_ring_buffer_Init_def Let_def)
    then show ?thesis
      using that rr_Init_ok(1,2,7) [OF r] dv(1) by (simp add: labstor_request_queue_Init_def)
  qed
  obtain cqr where cqr: "labstor_request_map_Init (qp_cq raw) base cq ?C 0 = (True, cqr)"
      "rm_base_region cqr = base" "rm_header cqr = cq" "rm_num_buckets cqr = d" "\<forall>b < d. rm_cells cqr b = - 1"
    using nl(2) dv(2) d that by (simp add: labstor_request_map_Init_def Let_def)
  show ?thesis
    using sqr cqr
    by (simp add: queue_pair_Init_throw_def labstor_queue_pair_Init_def fresh_queue_pair_def
        labstor_queue_pair_GetQID_def labstor_request_queue_GetQID_def labstor_request_queue_GetRegion_def
        labstor_request_map_GetRegion_def)
qed

section \<open>Creating the queues\<close>

text \<open>
  The queue pair \<open>j\<close> of a client: its identifier, and where its two parts lie when the segment
  allocator started at \<open>start\<close>.
\<close>

abbreviation client_qid :: "i32 \<Rightarrow> nat \<Rightarrow> labstor_qid_t" where
  "client_qid pid j \<equiv> \<lparr>qid_flags = 0, qid_type = 0, qid_cnt = of_nat j, qid_pid = pid\<rparr>"

abbreviation queue_stride :: "u32 \<Rightarrow> nat" where
  "queue_stride d \<equiv> 28 + 8 * unat d"

definition client_queue_at :: "i32 \<Rightarrow> ptr \<Rightarrow> ptr \<Rightarrow> u32 \<Rightarrow> nat \<Rightarrow> labstor_queue_pair \<Rightarrow> bool" where
  "client_queue_at pid base start d j qp =
     fresh_queue_pair (client_qid pid j) base (start + of_nat (j * queue_stride d))
       (start + of_nat (j * queue_stride d + (24 + 4 * unat d))) d qp"

lemma GetQID_small:
  assumes "i < unat num_queues" "unat num_queues \<le> 2 ^ 16"
  shows "queue_pair_GetQID 0 0 (of_nat i) num_queues pid = Inr (client_qid pid i)"
proof -
  have i: "unat (of_nat i :: u32) = i" using assms by (simp add: unat_of_nat)
  then have "of_nat i mod num_queues = of_nat i"
    using assms(1) by (simp add: word_unat_eq_iff unat_mod)
  moreover have "(ucast (of_nat i :: u32) :: u16) = of_nat i"
    using i assms by (simp add: word_unat_eq_iff unsigned_ucast_eq unat_of_nat take_bit_nat_eq_self)
  ultimately show ?thesis using assms(1) by (auto simp: queue_pair_GetQID_def)
qed

lemma GetRegion_queue_alloc [simp]:
  "MemoryManager_GetRegion (mm\<lparr>mm_qp_alloc := a\<rparr>) flags = MemoryManager_GetRegion mm flags"
  by (simp add: MemoryManager_GetRegion_def)

lemma AllocShmemQueue_at:
  assumes "mm_qp_alloc mm = Some sa" "unat (seg_offset sa) = off" "off + unat sz < 2 ^ 32"
  obtains sa' where "MemoryManager_AllocShmemQueue mm sz = Inr (seg_region sa + of_nat off, mm\<lparr>mm_qp_alloc := Some sa'\<rparr>)"
    "unat (seg_offset sa') = off + unat sz" "seg_region sa' = seg_region sa"
proof -
  have "(ucast (seg_offset sa) :: ptr) = of_nat off" using assms(2) unat32_less [of "seg_offset sa"] by (auto simp: word_unat_eq_iff unat_of_nat)
  then have e: "LABSTOR_REGION_ADD_u32 (seg_offset sa) (seg_region sa) = seg_region sa + of_nat off"
    by (simp add: LABSTOR_REGION_ADD_u32_def)
  have o: "unat (seg_offset sa + sz) = off + unat sz"
    using assms(2,3) by (simp add: unat_word_ariths)
  show ?thesis
    by (rule that [where sa' = "sa\<lparr>seg_offset := seg_offset sa + sz\<rparr>"])
      (simp_all add: MemoryManager_AllocShmemQueue_def labstor_segment_allocator_Alloc_def assms(1) e o)
qed

lemma create_shmem_queues_step:
  assumes d: "0 < unat d" "unat d < 2 ^ 28" and num: "i < unat num_queues" "unat num_queues \<le> 2 ^ 16"
    and mm: "mm_qp_alloc (cl_mm cl) = Some sa" "seg_region sa = start" "unat (seg_offset sa) = i * queue_stride d"
      "Suc i * queue_stride d < 2 ^ 32" "MemoryManager_GetRegion (cl_mm cl) 0 = Inr base"
    and pool: "pool_known (cl_pool cl) 0 0" "pool_num (cl_pool cl) 0 0 = i" "length (cl_qps cl) = i"
  obtains qp sa' pool' where "client_queue_at (cl_pid cl) base start d i qp"
    "create_shmem_queues raw num_queues (labstor_request_queue_GetSize_global d) (labstor_request_map_GetSize_global d)
       (Suc n) i cl =
     result_bind (create_shmem_queues raw num_queues (labstor_request_queue_GetSize_global d)
        (labstor_request_map_GetSize_global d) n (Suc i)
        (cl\<lparr>cl_mm := (cl_mm cl)\<lparr>mm_qp_alloc := Some sa'\<rparr>, cl_pool := pool', cl_qps := cl_qps cl @ [qp]\<rparr>))
       (\<lambda>(ptrs, cl). Inr (labstor_queue_pair_GetPointer qp base # ptrs, cl))"
    "seg_region sa' = start" "unat (seg_offset sa') = Suc i * queue_stride d"
    "pool_known pool' = pool_known (cl_pool cl)" "pool_num pool' 0 0 = Suc i"
    "\<forall>x. QueuePool_GetQueuePair pool' x =
       (if qid_type x = 0 \<and> qid_flags x = 0 \<and> unat (qid_cnt x) = i then Inr i else QueuePool_GetQueuePair (cl_pool cl) x)"
proof -
  let ?S = "labstor_request_queue_GetSize_global d" and ?C = "labstor_request_map_GetSize_global d"
  note sz = queue_sizes(1,2) [OF d(2)]
  have o: "i * queue_stride d + unat ?S < 2 ^ 32" "i * queue_stride d + unat ?S + unat ?C < 2 ^ 32"
    using mm(4) sz by simp_all
  obtain sa1 where a1: "MemoryManager_AllocShmemQueue (cl_mm cl) ?S =
        Inr (start + of_nat (i * queue_stride d), (cl_mm cl)\<lparr>mm_qp_alloc := Some sa1\<rparr>)"
      "unat (seg_offset sa1) = i * queue_stride d + unat ?S" "seg_region sa1 = start"
    using AllocShmemQueue_at [OF mm(1,3) o(1)] mm(2) by auto
  have s1: "mm_qp_alloc ((cl_mm cl)\<lparr>mm_qp_alloc := Some sa1\<rparr>) = Some sa1" by simp
  obtain sa' where a2: "MemoryManager_AllocShmemQueue ((cl_mm cl)\<lparr>mm_qp_alloc := Some sa1\<rparr>) ?C =
        Inr (start + of_nat (i * queue_stride d + unat ?S), (cl_mm cl)\<lparr>mm_qp_alloc := Some sa'\<rparr>)"
      "unat (seg_offset sa') = i * queue_stride d + unat ?S + unat ?C" "seg_region sa' = start"
    using AllocShmemQueue_at [OF s1 a1(2) o(2)] a1(3) by auto
  have g: "MemoryManager_GetRegion ((cl_mm cl)\<lparr>mm_qp_alloc := Some sa'\<rparr>) 0 = Inr base"
    using mm(5) by simp
  obtain qp where qp: "queue_pair_Init_throw (raw i) (client_qid (cl_pid cl) i) base (start + of_nat (i * queue_stride d)) ?S
        (start + of_nat (i * queue_stride d + unat ?S)) ?C = Inr qp"
      "client_queue_at (cl_pid cl) base start d i qp"
    using queue_pair_Init_throw_fresh [OF d, of "raw i" "client_qid (cl_pid cl) i" base
        "start + of_nat (i * queue_stride d)" "start + of_nat (i * queue_stride d + unat ?S)"] sz(1)
    unfolding client_queue_at_def by auto
  have q: "labstor_queue_pair_GetQID qp = client_qid (cl_pid cl) i"
    using qp(2) by (simp add: client_queue_at_def fresh_queue_pair_def)
  have c: "unat (of_nat i :: u16) = i" using num by (simp add: unat_of_nat)
  obtain pool' where p: "QueuePool_RegisterQueuePair (cl_pool cl) (client_qid (cl_pid cl) i) i = Inr pool'"
      "pool_known pool' = pool_known (cl_pool cl)" "pool_num pool' 0 0 = Suc i"
      "\<forall>x. QueuePool_GetQueuePair pool' x =
         (if qid_type x = 0 \<and> qid_flags x = 0 \<and> unat (qid_cnt x) = i then Inr i else QueuePool_GetQueuePair (cl_pool cl) x)"
    using pool_dir.reg_known [of "cl_pool cl" "client_qid (cl_pid cl) i" i] pool by auto
  show ?thesis
    by (rule that [where qp = qp and sa' = sa' and pool' = pool'])
      (use qp a1 a2 g p q GetQID_small [OF num] sz pool(3) in
        \<open>simp_all add: client_RegisterQueuePair_def\<close>)
qed

lemma create_shmem_queues_all:
  assumes "0 < unat d" "unat d < 2 ^ 28" "i + n = unat num_queues" "unat num_queues \<le> 2 ^ 16"
    and "mm_qp_alloc (cl_mm cl) = Some sa" "seg_region sa = start" "unat (seg_offset sa) = i * queue_stride d"
    and "unat num_queues * queue_stride d < 2 ^ 32" "MemoryManager_GetRegion (cl_mm cl) 0 = Inr base"
    and "pool_known (cl_pool cl) 0 0" "pool_num (cl_pool cl) 0 0 = i" "length (cl_qps cl) = i"
  shows "\<exists>new cl'. create_shmem_queues raw num_queues (labstor_request_queue_GetSize_global d)
        (labstor_request_map_GetSize_global d) n i cl =
      Inr (map (\<lambda>qp. labstor_queue_pair_GetPointer qp base) new, cl') \<and>
    length new = n \<and> cl_qps cl' = cl_qps cl @ new \<and> cl_pid cl' = cl_pid cl \<and>
    (\<forall>k < n. client_queue_at (cl_pid cl) base start d (i + k) (new ! k)) \<and>
    pool_known (cl_pool cl') = pool_known (cl_pool cl) \<and> pool_num (cl_pool cl') 0 0 = i + n \<and>
    (\<forall>x. QueuePool_GetQueuePair (cl_pool cl') x =
       (if qid_type x = 0 \<and> qid_flags x = 0 \<and> i \<le> unat (qid_cnt x) \<and> unat (qid_cnt x) < i + n
        then Inr (unat (qid_cnt x)) else QueuePool_GetQueuePair (cl_pool cl) x))"
  using assms(3,5-)
proof (induction n arbitrary: i cl sa)
  case 0
  then show ?case by auto
next
  case (Suc n)
  let ?S = "labstor_request_queue_GetSize_global d" and ?C = "labstor_request_map_GetSize_global d"
  have lt: "i < unat num_queues" using Suc.prems(1) by simp
  then have "Suc i * queue_stride d \<le> unat num_queues * queue_stride d" by (intro mult_le_mono1) simp
  then have b: "Suc i * queue_stride d < 2 ^ 32" using Suc.prems(5) by linarith
  obtain qp sa' pool' where st: "client_queue_at (cl_pid cl) base start d i qp"
    "create_shmem_queues raw num_queues ?S ?C (Suc n) i cl =
     result_bind (create_shmem_queues raw num_queues ?S ?C n (Suc i)
        (cl\<lparr>cl_mm := (cl_mm cl)\<lparr>mm_qp_alloc := Some sa'\<rparr>, cl_pool := pool', cl_qps := cl_qps cl @ [qp]\<rparr>))
       (\<lambda>(ptrs, cl). Inr (labstor_queue_pair_GetPointer qp base # ptrs, cl))"
    "seg_region sa' = start" "unat (seg_offset sa') = Suc i * queue_stride d"
    "pool_known pool' = pool_known (cl_pool cl)" "pool_num pool' 0 0 = Suc i"
    "\<forall>x. QueuePool_GetQueuePair pool' x =
       (if qid_type x = 0 \<and> qid_flags x = 0 \<and> unat (qid_cnt x) = i then Inr i else QueuePool_GetQueuePair (cl_pool cl) x)"
    by (rule create_shmem_queues_step [OF assms(1,2) lt assms(4) Suc.prems(2,3,4) b Suc.prems(6-9), where n = n and raw = raw])
  let ?cl = "cl\<lparr>cl_mm := (cl_mm cl)\<lparr>mm_qp_alloc := Some sa'\<rparr>, cl_pool := pool', cl_qps := cl_qps cl @ [qp]\<rparr>"
  have g: "MemoryManager_GetRegion (cl_mm ?cl) 0 = Inr base"
    using Suc.prems(6) by simp
  obtain new cl' where r: "create_shmem_queues raw num_queues ?S ?C n (Suc i) ?cl =
        Inr (map (\<lambda>qp. labstor_queue_pair_GetPointer qp base) new, cl')"
      "length new = n" "cl_qps cl' = cl_qps cl @ qp # new" "cl_pid cl' = cl_pid cl"
      "\<forall>k < n. client_queue_at (cl_pid cl) base start d (Suc i + k) (new ! k)"
      "pool_known (cl_pool cl') = pool_known (cl_pool cl)" "pool_num (cl_pool cl') 0 0 = Suc i + n"
      "\<forall>x. QueuePool_GetQueuePair (cl_pool cl') x =
       (if qid_type x = 0 \<and> qid_flags x = 0 \<and> Suc i \<le> unat (qid_cnt x) \<and> unat (qid_cnt x) < Suc i + n
        then Inr (unat (qid_cnt x)) else QueuePool_GetQueuePair pool' x)"
  proof -
    have "\<exists>new cl'. create_shmem_queues raw num_queues ?S ?C n (Suc i) ?cl =
        Inr (map (\<lambda>qp. labstor_queue_pair_GetPointer qp base) new, cl') \<and>
      length new = n \<and> cl_qps cl' = cl_qps ?cl @ new \<and> cl_pid cl' = cl_pid ?cl \<and>
      (\<forall>k < n. client_queue_at (cl_pid ?cl) base start d (Suc i + k) (new ! k)) \<and>
      pool_known (cl_pool cl') = pool_known (cl_pool ?cl) \<and> pool_num (cl_pool cl') 0 0 = Suc i + n \<and>
      (\<forall>x. QueuePool_GetQueuePair (cl_pool cl') x =
         (if qid_type x = 0 \<and> qid_flags x = 0 \<and> Suc i \<le> unat (qid_cnt x) \<and> unat (qid_cnt x) < Suc i + n
          then Inr (unat (qid_cnt x)) else QueuePool_GetQueuePair (cl_pool ?cl) x))"
      by (rule Suc.IH [where sa = sa']) (use Suc.prems(1,5,7,9) st(3-6) g in simp_all)
    then show ?thesis using that st(5) by (elim exE conjE) simp
  qed
  have "client_queue_at (cl_pid cl) base start d (i + k) ((qp # new) ! k)" if "k < Suc n" for k
    using that st(1) r(5) by (cases k) auto
  moreover have "QueuePool_GetQueuePair (cl_pool cl') x =
       (if qid_type x = 0 \<and> qid_flags x = 0 \<and> i \<le> unat (qid_cnt x) \<and> unat (qid_cnt x) < i + Suc n
        then Inr (unat (qid_cnt x)) else QueuePool_GetQueuePair (cl_pool cl) x)" for x
    using r(8) st(7) by auto
  ultimately show ?case
    using st(2) r by (intro exI [of _ "qp # new"] exI [of _ cl']) simp
qed

section \<open>Properties\<close>

text \<open>
  C10. A client that connects gets the queues it asked for. With a fresh pool and a segment
  allocator at \<open>start\<close>, \<^verbatim>\<open>CreateQueuesSHMEM\<close> succeeds; the \<open>i\<close>-th queue pair is empty, has depth
  \<open>depth\<close>, carries counter \<open>i\<close> and is found under its identifier; the submission queue and the
  completion map of all queues lie one behind the other without gaps or overlaps; and the offsets
  sent to the server lead back to them.
\<close>

theorem client_queues_created:
  assumes "0 < unat depth" "unat depth < 2 ^ 28" "0 < sint num_queues" "unat num_queues \<le> 2 ^ 16"
    and "unat num_queues * (28 + 8 * unat depth) < 2 ^ 31"
    and "cl_pool cl = QueuePool_new" "cl_qps cl = []"
    and "mm_qp_alloc (cl_mm cl) = Some (labstor_segment_allocator_Attach start queue_region_size)"
    and "MemoryManager_GetRegion (cl_mm cl) 0 = Inr base"
    and "unat (start - base) + unat num_queues * (28 + 8 * unat depth) < 2 ^ 31"
  shows "\<exists>ptrs cl'. Client_IPCManager_CreateQueuesSHMEM raw cl num_queues depth =
       Inr (register_qp_request_new num_queues, ptrs, cl') \<and>
     length ptrs = unat num_queues \<and> length (cl_qps cl') = unat num_queues \<and>
     (\<forall>i < unat num_queues. client_queue_at (cl_pid cl) base start depth i (cl_qps cl' ! i) \<and>
        QueuePool_GetQueuePair (cl_pool cl') (labstor_queue_pair_GetQID (cl_qps cl' ! i)) = Inr i \<and>
        LABSTOR_REGION_ADD (qpp_sq_off (ptrs ! i)) base = start + of_nat (i * (28 + 8 * unat depth)) \<and>
        LABSTOR_REGION_ADD (qpp_cq_off (ptrs ! i)) base =
          start + of_nat (i * (28 + 8 * unat depth) + (24 + 4 * unat depth)))"
proof -
  have n: "nat (sint num_queues) = unat num_queues" using sint_pos_unat(1) [OF assms(3)] .
  have k: "pool_known (cl_pool cl) 0 0" "pool_num (cl_pool cl) 0 0 = 0"
    by (simp_all add: assms(6) QueuePool_new_known)
  have b: "unat num_queues * queue_stride depth < 2 ^ 32" by (rule order.strict_trans [OF assms(5)]) simp
  let ?sa = "labstor_segment_allocator_Attach start queue_region_size"
  have sa: "seg_region ?sa = start" "unat (seg_offset ?sa) = 0 * queue_stride depth"
    by (simp_all add: labstor_segment_allocator_Attach_def labstor_segment_allocator_Init_def)
  obtain new cl' where c: "create_shmem_queues raw num_queues (labstor_request_queue_GetSize_global depth)
        (labstor_request_map_GetSize_global depth) (unat num_queues) 0 cl =
        Inr (map (\<lambda>qp. labstor_queue_pair_GetPointer qp base) new, cl')"
      "length new = unat num_queues" "cl_qps cl' = new"
      "\<forall>k < unat num_queues. client_queue_at (cl_pid cl) base start depth k (new ! k)"
      "\<forall>x. QueuePool_GetQueuePair (cl_pool cl') x =
       (if qid_type x = 0 \<and> qid_flags x = 0 \<and> unat (qid_cnt x) < unat num_queues
        then Inr (unat (qid_cnt x)) else QueuePool_GetQueuePair (cl_pool cl) x)"
    using create_shmem_queues_all [OF assms(1,2) _ assms(4,8) sa b assms(9) k, of "unat num_queues" raw] assms(7) by auto
  have r: "QueuePool_ReserveQueues (cl_pool cl) 0 0 num_queues = Inr ()"
    using k(1) assms(3) by (simp add: QueuePool_ReserveQueues_def pool_known_def)
  have "client_queue_at (cl_pid cl) base start depth i (new ! i) \<and>
        QueuePool_GetQueuePair (cl_pool cl') (labstor_queue_pair_GetQID (new ! i)) = Inr i \<and>
        LABSTOR_REGION_ADD (qpp_sq_off (labstor_queue_pair_GetPointer (new ! i) base)) base =
          start + of_nat (i * (28 + 8 * unat depth)) \<and>
        LABSTOR_REGION_ADD (qpp_cq_off (labstor_queue_pair_GetPointer (new ! i) base)) base =
          start + of_nat (i * (28 + 8 * unat depth) + (24 + 4 * unat depth))" if i: "i < unat num_queues" for i
  proof -
    have q: "client_queue_at (cl_pid cl) base start depth i (new ! i)" using c(4) i by simp
    have o: "unat (start + of_nat m - base) < 2 ^ 31" if "m < Suc i * queue_stride depth" for m
    proof -
      have "Suc i * queue_stride depth \<le> unat num_queues * queue_stride depth"
        using i by (intro mult_le_mono1) simp
      then have l: "unat (start - base) + m < 2 ^ 31" using that assms(10) by linarith
      have "start + of_nat m - base = of_nat (unat (start - base) + m)" by simp
      then show ?thesis using l by (simp only: unat_of_nat) simp
    qed
    have c16: "unat (of_nat i :: u16) = i" using i assms(4) by (simp add: unat_of_nat)
    show ?thesis
      using q c(5) i c16 o [of "i * queue_stride depth"] o [of "i * queue_stride depth + (24 + 4 * unat depth)"]
      by (simp add: client_queue_at_def fresh_queue_pair_def labstor_queue_pair_GetPointer_def
          labstor_queue_pair_ptr_Init_def region_sub_add)
  qed
  then show ?thesis
    using c(1,2,3) r n by (simp add: Client_IPCManager_CreateQueuesSHMEM_def Let_def)
qed

text \<open>A client of process 77 whose shared region is mapped at 1 MiB; 16 queues of depth 512.\<close>

definition sample_client :: client_ipc where
  "sample_client = (Client_IPCManager_new 8)\<lparr>cl_pid := 77,
     cl_mm := \<lparr>mm_private_alloc = None, mm_shmem_alloc = Some (sa_blank\<lparr>sa_header := 1048576\<rparr>),
       mm_qp_alloc = Some (labstor_segment_allocator_Attach 2029888 67264)\<rparr>\<rparr>"

theorem client_queues_created_witness:
  "\<exists>ptrs cl'. Client_IPCManager_CreateQueuesSHMEM (\<lambda>_. idle_qp) sample_client 16 512 =
       Inr (register_qp_request_new 16, ptrs, cl') \<and> length ptrs = 16 \<and>
     LABSTOR_REGION_ADD (qpp_sq_off (ptrs ! 2)) 1048576 = 2038136"
proof -
  have p: "cl_pool sample_client = QueuePool_new" "cl_qps sample_client = []"
    "mm_qp_alloc (cl_mm sample_client) = Some (labstor_segment_allocator_Attach 2029888 67264)"
    by (simp_all add: sample_client_def Client_IPCManager_new_def)
  have r: "MemoryManager_GetRegion (cl_mm sample_client) 0 = Inr 1048576"
    by (simp add: sample_client_def MemoryManager_GetRegion_def qp_flag_defs
        labstor_shmem_allocator_GetRegion_def)
  from client_queues_created [OF _ _ _ _ _ p r, of 512 16 "\<lambda>_. idle_qp"]
  obtain ptrs cl' where c: "Client_IPCManager_CreateQueuesSHMEM (\<lambda>_. idle_qp) sample_client 16 512 =
       Inr (register_qp_request_new 16, ptrs, cl')" "length ptrs = 16"
     "\<forall>i < 16. LABSTOR_REGION_ADD (qpp_sq_off (ptrs ! i)) 1048576 = 2029888 + of_nat (i * 4124)" by auto
  from c(3) [rule_format, of 2] c(1,2) show ?thesis by auto
qed

end
