(* ===== verification/Module_Id.thy ===== *)
theory Module_Id
  imports Labstor_Prelude
begin

text \<open>
  Module identifiers and credentials, \<^verbatim>\<open>include/labstor/types/basics.h\<close>. A \<open>cchar\<close> is a C
  \<^verbatim>\<open>char\<close>, signed where it is promoted; the array \<^verbatim>\<open>key_\<close> of an identifier is a list of 32 of
  them, and a \<^verbatim>\<open>std::string\<close> a list of any length. Writing past the array is an error value.
\<close>

type_synonym cchar = "8 word"
type_synonym cstring = "cchar list"

section \<open>C strings\<close>

definition c_str :: "cstring \<Rightarrow> cstring" where
  "c_str s = takeWhile (\<lambda>c. c \<noteq> 0) s"

definition strnlen :: "cstring \<Rightarrow> nat \<Rightarrow> nat" where
  "strnlen s n = length (c_str (take n s))"

definition strncmp_eq :: "cstring \<Rightarrow> cstring \<Rightarrow> nat \<Rightarrow> bool" where
  "strncmp_eq s t n \<longleftrightarrow> c_str (take n s) = c_str (take n t)"

section \<open>Identifiers\<close>

abbreviation MODULE_KEY_SIZE :: nat where "MODULE_KEY_SIZE \<equiv> 32"

record labstor_credentials =
  cr_pid :: i32
  cr_uid :: i32
  cr_gid :: i32
  cr_priority :: i32

record labstor_id =
  id_key :: cstring

definition labstor_id_new :: "labstor_id \<Rightarrow> cstring \<Rightarrow> labstor_id result" where
  "labstor_id_new raw key_str =
     (let s = c_str key_str in
      if MODULE_KEY_SIZE \<le> length s then Inl OUT_OF_BOUNDS
      else Inr \<lparr>id_key = s @ 0 # drop (Suc (length s)) (id_key raw)\<rparr>)"

definition labstor_id_eq :: "labstor_id \<Rightarrow> labstor_id \<Rightarrow> bool" where
  "labstor_id_eq a b = strncmp_eq (id_key a) (id_key b) MODULE_KEY_SIZE"

definition labstor_id_copy :: "labstor_id \<Rightarrow> cstring \<Rightarrow> labstor_id result" where
  "labstor_id_copy a str =
     (if MODULE_KEY_SIZE \<le> length str then Inl OUT_OF_BOUNDS
      else Inr \<lparr>id_key = str @ 0 # drop (Suc (length str)) (id_key a)\<rparr>)"

fun id_hash_from :: "nat \<Rightarrow> cstring \<Rightarrow> u64 \<Rightarrow> u64" where
  "id_hash_from i [] h = h"
| "id_hash_from i (c # cs) h =
     (if c = 0 then h
      else id_hash_from (Suc i) cs (h + scast (push_bit (i mod 8) (scast c :: i32))))"

definition labstor_id_hash :: "labstor_id \<Rightarrow> u64" where
  "labstor_id_hash a =
     id_hash_from 0 (take (strnlen (id_key a) MODULE_KEY_SIZE) (id_key a)) 0"

section \<open>What an identifier denotes\<close>

definition id_name :: "labstor_id \<Rightarrow> cstring" where
  "id_name a = c_str (take MODULE_KEY_SIZE (id_key a))"

lemma c_str_no_nul: "0 \<notin> set (c_str s)"
  by (auto simp: c_str_def dest: set_takeWhileD)

lemma c_str_id: "0 \<notin> set s \<Longrightarrow> c_str s = s"
  by (auto simp: c_str_def takeWhile_eq_all_conv)

lemma c_str_append_nul: "0 \<notin> set s \<Longrightarrow> c_str (s @ 0 # t) = s"
  by (induction s) (auto simp: c_str_def)

lemma id_name_nul:
  assumes "0 \<notin> set s" "length s < MODULE_KEY_SIZE"
  shows "id_name \<lparr>id_key = s @ 0 # t\<rparr> = s"
proof -
  obtain k where k: "MODULE_KEY_SIZE - length s = Suc k" using assms(2) by (metis Suc_diff_Suc)
  then show ?thesis
    using assms by (simp add: id_name_def take_Cons' c_str_append_nul)
qed

lemma labstor_id_eq_name: "labstor_id_eq a b \<longleftrightarrow> id_name a = id_name b"
  by (simp add: labstor_id_eq_def strncmp_eq_def id_name_def)

lemma take_strnlen: "take (strnlen s n) s = c_str (take n s)"
proof -
  have "take (length (c_str (take n s))) (take n s) = c_str (take n s)"
    by (metis c_str_def takeWhile_eq_take)
  moreover have "length (c_str (take n s)) \<le> n"
    by (metis c_str_def length_take length_takeWhile_le min.boundedE)
  ultimately show ?thesis by (simp add: strnlen_def min_absorb1)
qed

lemma labstor_id_hash_name: "labstor_id_hash a = id_hash_from 0 (id_name a) 0"
  by (simp add: labstor_id_hash_def take_strnlen id_name_def)

lemma labstor_id_new_name:
  "labstor_id_new raw s = Inr a \<Longrightarrow> id_name a = c_str s \<and> length (c_str s) < MODULE_KEY_SIZE"
  using id_name_nul [OF c_str_no_nul, of s]
  by (auto simp: labstor_id_new_def Let_def split: if_splits)

lemma labstor_id_copy_name:
  "labstor_id_copy raw s = Inr a \<Longrightarrow> id_name a = c_str s"
proof -
  assume "labstor_id_copy raw s = Inr a"
  then have a: "a = \<lparr>id_key = s @ 0 # drop (Suc (length s)) (id_key raw)\<rparr>" "length s < MODULE_KEY_SIZE"
    by (auto simp: labstor_id_copy_def split: if_splits)
  obtain k where k: "MODULE_KEY_SIZE - length s = Suc k" using a(2) by (metis Suc_diff_Suc)
  show ?thesis
    using k a(2) by (cases "0 \<in> set s")
      (simp_all add: a(1) id_name_def c_str_id c_str_append_nul, simp add: c_str_def takeWhile_append1)
qed

text \<open>
  C35. Identifiers work as keys of a hash table: two identifiers made from strings, whatever was
  in their memory before, are equal exactly when the strings agree up to their first null
  character, and equal identifiers have the same hash. The constructor writes behind the
  array exactly when the string has 32 characters or more.
\<close>

theorem labstor_id_hash_table_key:
  "(case labstor_id_new raw s of
      Inl err \<Rightarrow> err = OUT_OF_BOUNDS \<and> MODULE_KEY_SIZE \<le> length (c_str s)
    | Inr a \<Rightarrow> length (c_str s) < MODULE_KEY_SIZE \<and>
        (case labstor_id_new raw' t of
           Inl err \<Rightarrow> True
         | Inr b \<Rightarrow> labstor_id_eq a b = (c_str s = c_str t) \<and>
                   (labstor_id_eq a b = labstor_id_eq b a) \<and>
                   (if labstor_id_eq a b then labstor_id_hash a = labstor_id_hash b else True)))"
proof (cases "labstor_id_new raw s")
  case (Inl err)
  then show ?thesis by (auto simp: labstor_id_new_def Let_def split: if_splits)
next
  case (Inr a)
  note a = labstor_id_new_name [OF Inr]
  show ?thesis
    using Inr a labstor_id_new_name [of raw' t]
    by (auto simp: labstor_id_eq_name labstor_id_hash_name split: sum.splits)
qed

end
