(* ===== verification/Server_Ipc.thy ===== *)
theory Server_Ipc
  imports Client_Ipc Work_Queues Module_Id
begin

text \<open>
  The tables of the trusted server: \<^verbatim>\<open>src/userspace/server/ipc_manager.cpp\<close>,
  \<^verbatim>\<open>src/userspace/server/work_orchestrator.cpp\<close> and their headers, with
  \<^verbatim>\<open>per_process_ipc.h\<close> and the worker's queue of \<^verbatim>\<open>worker.h\<close>. The server's objects are lists
  and a pointer to one is its index; addresses stored in a work queue are these indices. What the
  kernel, the sockets and \<^verbatim>\<open>malloc\<close> return is an argument.
\<close>

section \<open>Memory configuration\<close>

text \<open>The section of the configuration file for a kind of process.\<close>

record memory_section =
  ms_max_region_size_kb :: u32
  ms_request_unit_bytes :: u32
  ms_min_request_region_kb :: u32
  ms_queue_depth :: u32
  ms_num_queues :: u32

record memory_config =
  mc_region_size :: u32
  mc_request_unit :: u32
  mc_min_request_region :: u32
  mc_queue_depth :: u32
  mc_num_queues :: u32
  mc_queue_region_size :: u32
  mc_request_region_size :: u32
  mc_request_queue_size :: u32
  mc_request_map_size :: u32

definition IPCManager_LoadMemoryConfig :: "memory_section \<Rightarrow> memory_config result" where
  "IPCManager_LoadMemoryConfig conf =
     (let region_size = ms_max_region_size_kb conf * 1024;
          min_request_region = ms_min_request_region_kb conf * 1024;
          queue_region_size = ms_num_queues conf * labstor_queue_pair_GetSize_global (ms_queue_depth conf);
          request_region_size = region_size - queue_region_size in
      if queue_region_size \<ge> region_size then Inl NOT_ENOUGH_REQUEST_MEMORY
      else if request_region_size < min_request_region then Inl NOT_ENOUGH_REQUEST_MEMORY
      else Inr \<lparr>mc_region_size = region_size, mc_request_unit = ms_request_unit_bytes conf,
        mc_min_request_region = min_request_region, mc_queue_depth = ms_queue_depth conf,
        mc_num_queues = ms_num_queues conf, mc_queue_region_size = queue_region_size,
        mc_request_region_size = request_region_size,
        mc_request_queue_size = labstor_request_queue_GetSize_global (ms_queue_depth conf),
        mc_request_map_size = labstor_request_map_GetSize_global (ms_queue_depth conf)\<rparr>)"

section \<open>State\<close>

record per_process_ipc =
  pp_pool :: "nat queue_pool"
  pp_mm :: memory_manager
  pp_creds :: labstor_credentials
  pp_region_id :: i32

record server_worker =
  wk_id :: u32
  wk_queue :: "(ptr \<times> ptr) labstor_work_queue"

text \<open>
  The index operator of \<^verbatim>\<open>std::unordered_map\<close> inserts a null pointer for an unknown process, so
  the map has optional objects. The worker vectors hold null pointers until they are filled.
\<close>

record server_state =
  sv_pid :: i32
  sv_kern_base_region :: ptr
  sv_private_alloc :: "labstor_shmem_allocator option"
  sv_pid_to_ipc :: "u32 \<rightharpoonup> nat option"
  sv_ipcs :: "per_process_ipc list"
  sv_qps :: "labstor_queue_pair list"
  sv_workers :: "server_worker option list"
  sv_kernel_workers :: "i32 option list"

abbreviation (input) KERNEL_PID :: i32 where "KERNEL_PID \<equiv> 0"

definition IPCManager_new :: "i32 \<Rightarrow> server_state" where
  "IPCManager_new pid = \<lparr>sv_pid = pid, sv_kern_base_region = 0, sv_private_alloc = None,
     sv_pid_to_ipc = Map.empty, sv_ipcs = [], sv_qps = [], sv_workers = [], sv_kernel_workers = []\<rparr>"

definition PerProcessIPC_new :: "labstor_credentials \<Rightarrow> i32 \<Rightarrow> per_process_ipc" where
  "PerProcessIPC_new creds region_id =
     \<lparr>pp_pool = QueuePool_new, pp_mm = \<lparr>mm_private_alloc = None, mm_shmem_alloc = None, mm_qp_alloc = None\<rparr>,
      pp_creds = creds, pp_region_id = region_id\<rparr>"

definition PerProcessIPC_GetRegion :: "per_process_ipc \<Rightarrow> ptr result" where
  "PerProcessIPC_GetRegion ipc = MemoryManager_GetRegion (pp_mm ipc) 0"

text \<open>\<open>server_ipc\<close> is a dereferenced \<^verbatim>\<open>pid_to_ipc_[pid]\<close>.\<close>

definition server_ipc :: "server_state \<Rightarrow> u32 \<Rightarrow> nat result" where
  "server_ipc sv pid = (case sv_pid_to_ipc sv pid of Some (Some k) \<Rightarrow> Inr k | _ \<Rightarrow> Inl NULL_DEREFERENCE)"

abbreviation update_ipc :: "nat \<Rightarrow> (per_process_ipc \<Rightarrow> per_process_ipc) \<Rightarrow> server_state \<Rightarrow> server_state" where
  "update_ipc k f sv \<equiv> sv\<lparr>sv_ipcs := (sv_ipcs sv)[k := f (sv_ipcs sv ! k)]\<rparr>"

section \<open>Registration\<close>

text \<open>
  The new object is returned also when \<^verbatim>\<open>emplace\<close> keeps an older one of the same process. The
  first variant leaves all credentials but the process identifier as they were in memory.
\<close>

definition IPCManager_RegisterIPC :: "server_state \<Rightarrow> labstor_credentials \<Rightarrow> i32 \<Rightarrow> nat \<times> server_state" where
  "IPCManager_RegisterIPC sv creds region_id =
     (let k = length (sv_ipcs sv); pid = cr_pid creds in
      (k, sv\<lparr>sv_ipcs := sv_ipcs sv @ [PerProcessIPC_new creds region_id],
             sv_pid_to_ipc := (case sv_pid_to_ipc sv pid of
                                 None \<Rightarrow> (sv_pid_to_ipc sv)(pid \<mapsto> Some k)
                               | Some _ \<Rightarrow> sv_pid_to_ipc sv)\<rparr>))"

definition IPCManager_RegisterIPC_pid ::
  "server_state \<Rightarrow> labstor_credentials \<Rightarrow> i32 \<Rightarrow> i32 \<Rightarrow> nat \<times> server_state"
where
  "IPCManager_RegisterIPC_pid sv creds0 region_id pid =
     IPCManager_RegisterIPC sv (creds0\<lparr>cr_pid := pid\<rparr>) region_id"

definition IPCManager_RegisterQueuePair :: "server_state \<Rightarrow> nat \<Rightarrow> server_state result" where
  "IPCManager_RegisterQueuePair sv qp =
     (let qid = labstor_queue_pair_GetQID (sv_qps sv ! qp) in
      result_bind (server_ipc sv (qid_pid qid)) (\<lambda>k.
      result_bind (QueuePool_RegisterQueuePair (pp_pool (sv_ipcs sv ! k)) qid qp) (\<lambda>pool.
      Inr (update_ipc k (\<lambda>ipc. ipc\<lparr>pp_pool := pool\<rparr>) sv))))"

definition IPCManager_UnregisterQueuePair :: "server_state \<Rightarrow> nat \<Rightarrow> bool" where
  "IPCManager_UnregisterQueuePair sv qp = False"

text \<open>The credentials are a pointer into the object of the process, hence its index.\<close>

definition IPCManager_GetRegion_creds :: "server_state \<Rightarrow> nat \<Rightarrow> (ptr \<times> nat) result" where
  "IPCManager_GetRegion_creds sv qp =
     result_bind (server_ipc sv (labstor_queue_pair_GetPID (sv_qps sv ! qp))) (\<lambda>k.
     result_bind (PerProcessIPC_GetRegion (sv_ipcs sv ! k)) (\<lambda>region. Inr (region, k)))"

definition IPCManager_GetRegion :: "server_state \<Rightarrow> nat \<Rightarrow> ptr result" where
  "IPCManager_GetRegion sv qp =
     result_bind (server_ipc sv (qid_pid (labstor_queue_pair_GetQID (sv_qps sv ! qp)))) (\<lambda>k.
     PerProcessIPC_GetRegion (sv_ipcs sv ! k))"

section \<open>Finding queues\<close>

definition IPCManager_GetQueuePair :: "server_state \<Rightarrow> labstor_qid_t \<Rightarrow> nat result" where
  "IPCManager_GetQueuePair sv qid =
     result_bind (server_ipc sv (qid_pid qid)) (\<lambda>k. QueuePool_GetQueuePair (pp_pool (sv_ipcs sv ! k)) qid)"

definition IPCManager_GetQueuePair_qtok :: "server_state \<Rightarrow> labstor_qtok_t \<Rightarrow> nat result" where
  "IPCManager_GetQueuePair_qtok sv qtok = IPCManager_GetQueuePair sv (qtok_qid qtok)"

text \<open>The number of queues is that of type 0, whatever type is asked for, and the count is not used.\<close>

definition IPCManager_GetQueuePair_type :: "u32 \<Rightarrow> server_state \<Rightarrow> u8 \<Rightarrow> u8 \<Rightarrow> i32 \<Rightarrow> nat result" where
  "IPCManager_GetQueuePair_type tid sv type flags cnt =
     result_bind (server_ipc sv (sv_pid sv)) (\<lambda>k.
     result_bind (QueuePool_GetNumQueuePairsFast (pp_pool (sv_ipcs sv ! k)) 0 flags) (\<lambda>n.
     result_bind (queue_pair_GetQID type flags tid n (sv_pid sv)) (\<lambda>qid.
     IPCManager_GetQueuePair sv qid)))"

definition IPCManager_GetQueuePair_flags :: "u32 \<Rightarrow> server_state \<Rightarrow> u8 \<Rightarrow> nat result" where
  "IPCManager_GetQueuePair_flags tid sv flags =
     result_bind (server_ipc sv (sv_pid sv)) (\<lambda>k.
     result_bind (QueuePool_GetNumQueuePairsFast (pp_pool (sv_ipcs sv ! k)) 0 flags) (\<lambda>n.
     result_bind (queue_pair_GetQID 0 flags tid n (sv_pid sv)) (\<lambda>qid.
     IPCManager_GetQueuePair sv qid)))"

definition IPCManager_GetQueuePairByName :: "server_state \<Rightarrow> u8 \<Rightarrow> u8 list \<Rightarrow> u32 \<Rightarrow> nat result" where
  "IPCManager_GetQueuePairByName sv flags str ns_id =
     result_bind (server_ipc sv (sv_pid sv)) (\<lambda>k.
     result_bind (QueuePool_GetNumQueuePairsFast (pp_pool (sv_ipcs sv ! k)) 0 flags) (\<lambda>n.
     result_bind (queue_pair_GetQID_str 0 flags str ns_id n (sv_pid sv)) (\<lambda>qid.
     QueuePool_GetQueuePair (pp_pool (sv_ipcs sv ! k)) qid)))"

definition IPCManager_GetQueuePairByPidHash :: "server_state \<Rightarrow> u8 \<Rightarrow> i32 \<Rightarrow> i32 \<Rightarrow> nat result" where
  "IPCManager_GetQueuePairByPidHash sv flags pid hash =
     result_bind (server_ipc sv pid) (\<lambda>k.
     result_bind (QueuePool_GetNumQueuePairsFast (pp_pool (sv_ipcs sv ! k)) 0 flags) (\<lambda>n.
     result_bind (queue_pair_GetQID 0 flags hash n pid) (\<lambda>qid.
     QueuePool_GetQueuePair (pp_pool (sv_ipcs sv ! k)) qid)))"

definition IPCManager_GetQueuePairByHash :: "server_state \<Rightarrow> u8 \<Rightarrow> i32 \<Rightarrow> nat result" where
  "IPCManager_GetQueuePairByHash sv flags hash = IPCManager_GetQueuePairByPidHash sv flags (sv_pid sv) hash"

definition IPCManager_GetQueuePairByPid :: "u32 \<Rightarrow> server_state \<Rightarrow> u8 \<Rightarrow> i32 \<Rightarrow> nat result" where
  "IPCManager_GetQueuePairByPid tid sv flags pid = IPCManager_GetQueuePairByPidHash sv flags pid tid"

definition IPCManager_GetNextQueuePair :: "u32 \<Rightarrow> server_state \<Rightarrow> u8 \<Rightarrow> nat result" where
  "IPCManager_GetNextQueuePair tid sv flags = IPCManager_GetQueuePairByPidHash sv flags (sv_pid sv) (tid + 1)"

text \<open>\<^verbatim>\<open>GetIPC\<close> inserts a null pointer for an unknown process and returns it.\<close>

definition IPCManager_GetIPC :: "server_state \<Rightarrow> i32 \<Rightarrow> nat option \<times> server_state" where
  "IPCManager_GetIPC sv pid =
     (case sv_pid_to_ipc sv pid of
        Some r \<Rightarrow> (r, sv)
      | None \<Rightarrow> (None, sv\<lparr>sv_pid_to_ipc := (sv_pid_to_ipc sv)(pid \<mapsto> None)\<rparr>))"

section \<open>Requests\<close>

definition IPCManager_AllocRequest ::
  "server_state \<Rightarrow> labstor_qid_t \<Rightarrow> u32 \<Rightarrow> u32 \<Rightarrow> (ptr option \<times> server_state) result option"
where
  "IPCManager_AllocRequest sv qid sz tid =
     run_bind (Some (server_ipc sv (qid_pid qid))) (\<lambda>k.
     run_bind (MemoryManager_AllocRequest (pp_mm (sv_ipcs sv ! k)) (qid_flags qid) sz tid) (\<lambda>(p, mm).
     Some (Inr (p, update_ipc k (\<lambda>ipc. ipc\<lparr>pp_mm := mm\<rparr>) sv))))"

definition IPCManager_AllocRequest_qp ::
  "server_state \<Rightarrow> nat \<Rightarrow> u32 \<Rightarrow> u32 \<Rightarrow> (ptr option \<times> server_state) result option"
where
  "IPCManager_AllocRequest_qp sv qp sz tid =
     IPCManager_AllocRequest sv (labstor_queue_pair_GetQID (sv_qps sv ! qp)) sz tid"

definition IPCManager_FreeRequest ::
  "nat \<Rightarrow> (nat \<Rightarrow> nat \<times> labstor_shmem_allocator \<Rightarrow> nat \<times> labstor_shmem_allocator) \<Rightarrow>
   server_state \<Rightarrow> labstor_qid_t \<Rightarrow> ptr \<Rightarrow> server_state result option"
where
  "IPCManager_FreeRequest fuel aenv sv qid rq =
     run_bind (Some (server_ipc sv (qid_pid qid))) (\<lambda>k.
     run_bind (MemoryManager_FreeRequest fuel aenv (pp_mm (sv_ipcs sv ! k)) (qid_flags qid) rq) (\<lambda>mm.
     Some (Inr (update_ipc k (\<lambda>ipc. ipc\<lparr>pp_mm := mm\<rparr>) sv))))"

definition IPCManager_FreeRequest_qtok ::
  "nat \<Rightarrow> (nat \<Rightarrow> nat \<times> labstor_shmem_allocator \<Rightarrow> nat \<times> labstor_shmem_allocator) \<Rightarrow>
   server_state \<Rightarrow> labstor_qtok_t \<Rightarrow> ptr \<Rightarrow> server_state result option"
where
  "IPCManager_FreeRequest_qtok fuel aenv sv qtok rq = IPCManager_FreeRequest fuel aenv sv (qtok_qid qtok) rq"

definition IPCManager_FreeRequest_qp ::
  "nat \<Rightarrow> (nat \<Rightarrow> nat \<times> labstor_shmem_allocator \<Rightarrow> nat \<times> labstor_shmem_allocator) \<Rightarrow>
   server_state \<Rightarrow> nat \<Rightarrow> ptr \<Rightarrow> server_state result option"
where
  "IPCManager_FreeRequest_qp fuel aenv sv qp rq =
     IPCManager_FreeRequest fuel aenv sv (labstor_queue_pair_GetQID (sv_qps sv ! qp)) rq"

definition IPCManager_Wait ::
  "nat \<Rightarrow> (nat \<Rightarrow> labstor_queue_pair \<Rightarrow> labstor_queue_pair) \<Rightarrow> server_state \<Rightarrow> labstor_qtok_t \<Rightarrow>
   (ptr \<times> server_state) result option"
where
  "IPCManager_Wait fuel env sv qtok =
     run_bind (Some (IPCManager_GetQueuePair_qtok sv qtok)) (\<lambda>r.
     map_option (\<lambda>(rq, qp). Inr (rq, sv\<lparr>sv_qps := (sv_qps sv)[r := qp]\<rparr>))
       (labstor_queue_pair_Wait fuel env (sv_qps sv ! r) (qtok_req_id qtok)))"


section \<open>Workers\<close>

definition Worker_new ::
  "(ptr \<times> ptr) labstor_work_queue \<Rightarrow> ptr \<Rightarrow> u32 \<Rightarrow> u32 \<Rightarrow> server_worker result"
where
  "Worker_new raw region depth worker_id =
     (let region_size = labstor_work_queue_secure_GetSize_global depth in
      case labstor_work_queue_secure_Init raw region region_size depth of
        (ok, q) \<Rightarrow> if ok then Inr \<lparr>wk_id = worker_id, wk_queue = q\<rparr>
                   else Inl (INVALID_RING_BUFFER_SIZE region_size depth))"

definition Worker_AssignQP :: "server_worker \<Rightarrow> ptr \<Rightarrow> ptr \<Rightarrow> u32 \<Rightarrow> server_worker result" where
  "Worker_AssignQP worker qp creds pid =
     (case labstor_work_queue_secure_Enqueue (wk_queue worker) qp creds of
        (ok, q) \<Rightarrow> if ok then Inr (worker\<lparr>wk_queue := q\<rparr>) else Inl (FAILED_TO_ASSIGN_QUEUE pid (wk_id worker)))"

definition Worker_GetQueueDepth :: "server_worker \<Rightarrow> u32" where
  "Worker_GetQueueDepth worker = labstor_work_queue_GetDepth (wk_queue worker)"

text \<open>
  Workers are configured by an identifier and a processor; the identifier indexes the vector of
  workers unchecked. \<open>raw\<close> and \<open>region\<close> are the memory of a worker's queue before \<^verbatim>\<open>Init\<close>.
\<close>

abbreviation resize :: "nat \<Rightarrow> 'a option list \<Rightarrow> 'a option list" where
  "resize n xs \<equiv> take n xs @ replicate (n - length xs) None"

fun create_server_workers ::
  "(i32 \<Rightarrow> (ptr \<times> ptr) labstor_work_queue) \<Rightarrow> (i32 \<Rightarrow> ptr) \<Rightarrow> u32 \<Rightarrow> (i32 \<times> i32) list \<Rightarrow>
   server_worker option list \<Rightarrow> server_worker option list result"
where
  "create_server_workers raw region depth [] workers = Inr workers"
| "create_server_workers raw region depth ((worker_id, cpu_id) # confs) workers =
     result_bind (Worker_new (raw worker_id) (region worker_id) depth worker_id) (\<lambda>worker.
     if nat (uint worker_id) \<ge> length workers then Inl OUT_OF_BOUNDS
     else create_server_workers raw region depth confs (workers[nat (uint worker_id) := Some worker]))"

fun create_kernel_workers :: "(i32 \<times> i32) list \<Rightarrow> i32 option list \<Rightarrow> i32 option list result" where
  "create_kernel_workers [] workers = Inr workers"
| "create_kernel_workers ((worker_id, cpu_id) # confs) workers =
     (if nat (uint worker_id) \<ge> length workers then Inl OUT_OF_BOUNDS
      else create_kernel_workers confs (workers[nat (uint worker_id) := Some worker_id]))"

text \<open>
  \<open>create\<close> and \<open>mmap\<close> are the shared-memory calls of the kernel. The second component of the
  result is the message that tells the kernel to create its workers.
\<close>

definition WorkOrchestrator_CreateWorkers ::
  "(i32 \<Rightarrow> (ptr \<times> ptr) labstor_work_queue) \<Rightarrow> (i32 \<Rightarrow> ptr) \<Rightarrow> (u32 \<Rightarrow> i32) \<Rightarrow> (i32 \<Rightarrow> u32 \<Rightarrow> ptr) \<Rightarrow>
   u32 \<Rightarrow> (i32 \<times> i32) list \<Rightarrow> (i32 \<times> i32) list \<Rightarrow> server_state \<Rightarrow>
   (server_state \<times> (i32 \<times> i32 \<times> u32 \<times> u32)) result"
where
  "WorkOrchestrator_CreateWorkers raw worker_region create mmap queue_depth server_confs kernel_confs sv =
     (let nworkers = length server_confs in
      if nworkers = 0 then Inl WORK_ORCHESTRATOR_HAS_NO_WORKERS
      else
        result_bind (create_server_workers raw worker_region queue_depth server_confs
                       (resize nworkers (sv_workers sv))) (\<lambda>server_workers.
        let sv = sv\<lparr>sv_workers := server_workers\<rparr>; nworkers = length kernel_confs in
        if nworkers = 0 then Inl WORK_ORCHESTRATOR_HAS_NO_WORKERS
        else
          let region_size = of_nat nworkers * labstor_work_queue_GetSize_global queue_depth;
              region_id = create region_size in
          if sint region_id < 0 then Inl WORK_ORCHESTRATOR_WORK_QUEUE_ALLOC_FAILED
          else if mmap region_id region_size = 0 then Inl WORK_ORCHESTRATOR_WORK_QUEUE_MMAP_FAILED
          else
            result_bind (create_kernel_workers kernel_confs (resize nworkers (sv_kernel_workers sv)))
              (\<lambda>kernel_workers.
            Inr (sv\<lparr>sv_kernel_workers := kernel_workers\<rparr>, (of_nat nworkers, region_id, region_size, 0)))))"

definition WorkOrchestrator_AssignQueuePair :: "server_state \<Rightarrow> nat \<Rightarrow> i32 \<Rightarrow> server_state result" where
  "WorkOrchestrator_AssignQueuePair sv qp worker_id =
     result_bind (IPCManager_GetRegion_creds sv qp) (\<lambda>(_, creds).
     if sint worker_id < 0 then Inl NOT_YET_IMPLEMENTED
     else if sv_workers sv = [] then Inl DIVISION_BY_ZERO
     else
       let w = nat (sint worker_id) mod length (sv_workers sv) in
       case sv_workers sv ! w of
         None \<Rightarrow> Inl NULL_DEREFERENCE
       | Some worker \<Rightarrow>
           result_bind (Worker_AssignQP worker (of_nat qp) (of_nat creds)
                          (qid_pid (labstor_queue_pair_GetQID (sv_qps sv ! qp)))) (\<lambda>worker.
           Inr (sv\<lparr>sv_workers := (sv_workers sv)[w := Some worker]\<rparr>)))"

section \<open>The kernel's queues\<close>

text \<open>\<open>create\<close>, \<open>mmap\<close> and \<open>register\<close> are calls to the kernel.\<close>

definition IPCManager_InitializeKernelIPCManager ::
  "memory_section \<Rightarrow> labstor_credentials \<Rightarrow> i32 \<Rightarrow> (u32 \<Rightarrow> i32) \<Rightarrow> (i32 \<Rightarrow> u32 \<Rightarrow> ptr) \<Rightarrow> (i32 \<Rightarrow> ptr) \<Rightarrow>
   i32 \<Rightarrow> labstor_shmem_allocator \<Rightarrow> server_state \<Rightarrow> server_state result"
where
  "IPCManager_InitializeKernelIPCManager conf creds0 region_id0 create mmap register nprocs alloc0 sv =
     result_bind (IPCManager_LoadMemoryConfig conf) (\<lambda>memconf.
     let (k, sv) = IPCManager_RegisterIPC_pid sv creds0 region_id0 KERNEL_PID;
         region_id = create (mc_region_size memconf) in
     if sint region_id < 0 then Inl WORK_ORCHESTRATOR_WORK_QUEUE_ALLOC_FAILED
     else
       let region = mmap region_id (mc_region_size memconf) in
       if region = 0 then Inl WORK_ORCHESTRATOR_WORK_QUEUE_MMAP_FAILED
       else
         result_bind (labstor_shmem_allocator_Init nprocs alloc0 region region
                        (mc_request_region_size memconf) (mc_request_unit memconf) 0) (\<lambda>kernel_alloc.
         let sv = update_ipc k (\<lambda>ipc. ipc\<lparr>pp_mm := MemoryManager_SetShmemAlloc (pp_mm ipc) kernel_alloc\<rparr>) sv;
             sv = sv\<lparr>sv_kern_base_region := register region_id\<rparr> in
         result_bind (PerProcessIPC_GetRegion (sv_ipcs sv ! k)) (\<lambda>base.
         let qp_alloc = labstor_segment_allocator_Init
               (LABSTOR_REGION_ADD_u32 (mc_request_region_size memconf) base) (mc_queue_region_size memconf) in
         Inr (update_ipc k (\<lambda>ipc. ipc\<lparr>pp_mm := MemoryManager_SetQueueAlloc (pp_mm ipc) qp_alloc\<rparr>) sv))))"

text \<open>
  Each queue pair of the kernel has its handle in front of its two parts in the shared region;
  the server attaches a handle of its own. \<open>kernel_queue_flags\<close> are the flags of the code.
\<close>

abbreviation kernel_queue_flags :: u8 where "kernel_queue_flags \<equiv> LABSTOR_QP_INTERMEDIATE"
abbreviation private_queue_flags :: u8 where
  "private_queue_flags \<equiv> LABSTOR_QP_PRIVATE OR LABSTOR_QP_INTERMEDIATE"

fun create_kernel_queues ::
  "(nat \<Rightarrow> labstor_queue_pair) \<Rightarrow> memory_config \<Rightarrow> nat \<Rightarrow> nat \<Rightarrow> nat \<Rightarrow> server_state \<Rightarrow>
   ((nat \<times> labstor_queue_pair_ptr) list \<times> server_state) result"
where
  "create_kernel_queues raw memconf k 0 i sv = Inr ([], sv)"
| "create_kernel_queues raw memconf k (Suc n) i sv =
     result_bind (MemoryManager_AllocShmemQueue (pp_mm (sv_ipcs sv ! k)) sizeof_queue_pair_user) (\<lambda>(_, mm).
     result_bind (queue_pair_GetQID 0 kernel_queue_flags (of_nat i) (mc_num_queues memconf) KERNEL_PID) (\<lambda>qid.
     result_bind (MemoryManager_AllocShmemQueue mm (mc_request_queue_size memconf)) (\<lambda>(sq_region, mm).
     result_bind (MemoryManager_AllocShmemQueue mm (mc_request_map_size memconf)) (\<lambda>(cq_region, mm).
     result_bind (MemoryManager_GetRegion mm 0) (\<lambda>base.
     result_bind (queue_pair_Init_throw (raw i) qid base sq_region (mc_request_queue_size memconf)
                    cq_region (mc_request_map_size memconf)) (\<lambda>remote_qp.
     let p = labstor_queue_pair_GetPointer remote_qp base;
         qp = length (sv_qps sv);
         sv = update_ipc k (\<lambda>ipc. ipc\<lparr>pp_mm := mm\<rparr>) sv in
     result_bind (IPCManager_RegisterQueuePair
                    (sv\<lparr>sv_qps := sv_qps sv @ [labstor_queue_pair_Attach remote_qp p base]\<rparr>) qp) (\<lambda>sv.
     result_bind (create_kernel_queues raw memconf k n (Suc i) sv) (\<lambda>(assigned, sv).
     Inr ((qp, p) # assigned, sv)))))))))"

definition IPCManager_CreateKernelQueues ::
  "memory_section \<Rightarrow> (nat \<Rightarrow> labstor_queue_pair) \<Rightarrow> server_state \<Rightarrow>
   ((nat \<times> labstor_queue_pair_ptr) list \<times> server_state) result"
where
  "IPCManager_CreateKernelQueues conf raw sv =
     result_bind (IPCManager_LoadMemoryConfig conf) (\<lambda>memconf.
     result_bind (server_ipc sv KERNEL_PID) (\<lambda>k.
     result_bind (QueuePool_ReserveQueues (pp_pool (sv_ipcs sv ! k)) 0 kernel_queue_flags (mc_num_queues memconf)) (\<lambda>_.
     create_kernel_queues raw memconf k (unat (mc_num_queues memconf)) 0 sv)))"

section \<open>The private queues\<close>

fun create_server_private_queues ::
  "(nat \<Rightarrow> labstor_queue_pair) \<Rightarrow> memory_config \<Rightarrow> nat \<Rightarrow> nat \<Rightarrow> nat \<Rightarrow> server_state \<Rightarrow> server_state result"
where
  "create_server_private_queues raw memconf k 0 i sv = Inr sv"
| "create_server_private_queues raw memconf k (Suc n) i sv =
     result_bind (queue_pair_GetQID 0 private_queue_flags (of_nat i) (mc_num_queues memconf) (sv_pid sv)) (\<lambda>qid.
     result_bind (MemoryManager_AllocShmemQueue (pp_mm (sv_ipcs sv ! k)) (mc_request_queue_size memconf)) (\<lambda>(sq_region, mm).
     result_bind (MemoryManager_AllocShmemQueue mm (mc_request_map_size memconf)) (\<lambda>(cq_region, mm).
     case sv_private_alloc sv of
       None \<Rightarrow> Inl NULL_DEREFERENCE
     | Some private_alloc \<Rightarrow>
         result_bind (queue_pair_Init_throw (raw i) qid (labstor_shmem_allocator_GetRegion private_alloc)
                        sq_region (mc_request_queue_size memconf) cq_region (mc_request_map_size memconf)) (\<lambda>qp.
         let r = length (sv_qps sv);
             sv = update_ipc k (\<lambda>ipc. ipc\<lparr>pp_mm := mm\<rparr>) sv in
         result_bind (IPCManager_RegisterQueuePair (sv\<lparr>sv_qps := sv_qps sv @ [qp]\<rparr>) r) (\<lambda>sv.
         result_bind (WorkOrchestrator_AssignQueuePair sv r (of_nat i)) (\<lambda>sv.
         create_server_private_queues raw memconf k n (Suc i) sv))))))"

definition IPCManager_CreatePrivateQueues ::
  "memory_section \<Rightarrow> labstor_credentials \<Rightarrow> i32 \<Rightarrow> ptr \<Rightarrow> i32 \<Rightarrow> labstor_shmem_allocator \<Rightarrow>
   (nat \<Rightarrow> labstor_queue_pair) \<Rightarrow> server_state \<Rightarrow> server_state result"
where
  "IPCManager_CreatePrivateQueues conf creds0 region_id0 private_mem nprocs alloc0 raw sv =
     result_bind (IPCManager_LoadMemoryConfig conf) (\<lambda>memconf.
     let (k, sv) = IPCManager_RegisterIPC_pid sv creds0 region_id0 (sv_pid sv) in
     result_bind (labstor_shmem_allocator_Init nprocs alloc0 private_mem private_mem
                    (mc_request_region_size memconf) (mc_request_unit memconf) 0) (\<lambda>private_alloc.
     let sv = update_ipc k (\<lambda>ipc. ipc\<lparr>pp_mm := MemoryManager_SetPrivateAlloc
                (MemoryManager_SetShmemAlloc (pp_mm ipc) private_alloc) private_alloc\<rparr>) sv;
         sv = sv\<lparr>sv_private_alloc := Some private_alloc\<rparr> in
     result_bind (PerProcessIPC_GetRegion (sv_ipcs sv ! k)) (\<lambda>base.
     let qp_alloc = labstor_segment_allocator_Init
           (LABSTOR_REGION_ADD_u32 (mc_request_region_size memconf) base) (mc_queue_region_size memconf);
         sv = update_ipc k (\<lambda>ipc. ipc\<lparr>pp_mm := MemoryManager_SetQueueAlloc (pp_mm ipc) qp_alloc\<rparr>) sv in
     result_bind (QueuePool_ReserveQueues (pp_pool (sv_ipcs sv ! k)) 0 private_queue_flags (mc_num_queues memconf)) (\<lambda>_.
     create_server_private_queues raw memconf k (unat (mc_num_queues memconf)) 0 sv))))"

section \<open>Clients\<close>

text \<open>
  The server attaches to the queues a client has created: \<open>shm i\<close> is what the shared memory of
  the \<open>i\<close>-th queue pair holds, \<open>shm_alloc\<close> the allocator that lies in the region.
\<close>

fun register_client_queues ::
  "(nat \<Rightarrow> labstor_queue_pair) \<Rightarrow> i32 \<Rightarrow> nat \<Rightarrow> nat \<Rightarrow> labstor_queue_pair_ptr list \<Rightarrow> server_state \<Rightarrow>
   server_state result"
where
  "register_client_queues shm count k i [] sv = Inr sv"
| "register_client_queues shm count k i (p # ptrs) sv =
     result_bind (PerProcessIPC_GetRegion (sv_ipcs sv ! k)) (\<lambda>base.
     let qp = labstor_queue_pair_Attach (shm i) p base; r = length (sv_qps sv);
         sv = sv\<lparr>sv_qps := sv_qps sv @ [qp]\<rparr> in
     result_bind (if i = 0 then QueuePool_ReserveQueues (pp_pool (sv_ipcs sv ! k)) 0
                                  (qid_flags (labstor_queue_pair_GetQID qp)) count
                  else Inr ()) (\<lambda>_.
     result_bind (IPCManager_RegisterQueuePair sv r) (\<lambda>sv.
     result_bind (WorkOrchestrator_AssignQueuePair sv r (of_nat i)) (\<lambda>sv.
     register_client_queues shm count k (Suc i) ptrs sv))))"

definition IPCManager_RegisterClientQP ::
  "(nat \<Rightarrow> labstor_queue_pair) \<Rightarrow> labstor_shmem_allocator \<Rightarrow> register_qp_request \<Rightarrow>
   labstor_queue_pair_ptr list \<Rightarrow> nat \<Rightarrow> ptr \<Rightarrow> server_state \<Rightarrow> server_state result"
where
  "IPCManager_RegisterClientQP shm shm_alloc request ptrs k region sv =
     result_bind (labstor_shmem_allocator_Attach shm_alloc region region) (\<lambda>alloc.
     let sv = update_ipc k (\<lambda>ipc. ipc\<lparr>pp_mm := MemoryManager_SetShmemAlloc (pp_mm ipc) alloc\<rparr>) sv in
     register_client_queues shm (rqr_count request) k 0 (take (nat (sint (rqr_count request))) ptrs) sv)"

text \<open>
  \<open>peer\<close> is what the client answers to the reply, and the state of the shared memory at that
  time. The first result lists the grants of shared memory: to the server, to the client, and of
  the namespace to the client.
\<close>

definition IPCManager_RegisterClient ::
  "memory_section \<Rightarrow> labstor_credentials \<Rightarrow> i32 \<Rightarrow> (u32 \<Rightarrow> i32) \<Rightarrow> (i32 \<Rightarrow> u32 \<Rightarrow> ptr) \<Rightarrow> (u32 \<times> u32 \<times> u32) \<Rightarrow>
   (setup_reply \<Rightarrow> register_qp_request \<times> labstor_queue_pair_ptr list \<times> (nat \<Rightarrow> labstor_queue_pair) \<times> labstor_shmem_allocator) \<Rightarrow>
   server_state \<Rightarrow> ((i32 \<times> i32) list \<times> server_state) result"
where
  "IPCManager_RegisterClient conf creds region_id0 create mmap ns_region peer sv =
     result_bind (IPCManager_LoadMemoryConfig conf) (\<lambda>memconf.
     let (k, sv) = IPCManager_RegisterIPC sv creds region_id0;
         region_id = create (mc_region_size memconf);
         sv = update_ipc k (\<lambda>ipc. ipc\<lparr>pp_region_id := region_id\<rparr>) sv in
     if sint region_id < 0 then Inl SHMEM_CREATE_FAILED
     else
       let region = mmap region_id (mc_region_size memconf) in
       if region = 0 then Inl MMAP_FAILED
       else
         let (ns_id, ns_size, ns_max) = ns_region;
             reply = \<lparr>sr_region_id = region_id, sr_region_size = mc_region_size memconf,
               sr_request_region_size = mc_request_region_size memconf, sr_request_unit = mc_request_unit memconf,
               sr_queue_region_size = mc_queue_region_size memconf, sr_queue_depth = mc_queue_depth memconf,
               sr_num_queues = mc_num_queues memconf, sr_namespace_region_id = ns_id,
               sr_namespace_region_size = ns_size, sr_namespace_max_entries = ns_max\<rparr>;
             (request, ptrs, shm, shm_alloc) = peer reply in
         result_bind (IPCManager_RegisterClientQP shm shm_alloc request ptrs k region sv) (\<lambda>sv.
         Inr ([(sv_pid sv, region_id), (cr_pid creds, region_id), (cr_pid creds, ns_id)], sv)))"


section \<open>Assigning queues to workers\<close>

definition worker_log :: "server_worker option list \<Rightarrow> nat \<Rightarrow> (ptr \<times> ptr) list" where
  "worker_log workers w = (case workers ! w of None \<Rightarrow> [] | Some worker \<Rightarrow> wq_entries (wk_queue worker))"

definition workers_ready :: "nat \<Rightarrow> server_worker option list \<Rightarrow> bool" where
  "workers_ready room workers \<longleftrightarrow> workers \<noteq> [] \<and>
     list_all (\<lambda>wo. case wo of None \<Rightarrow> False | Some worker \<Rightarrow>
        wq_inv (wk_queue worker) \<and> length (wq_entries (wk_queue worker)) + room \<le> wq_cap (wk_queue worker)) workers"

lemma workers_readyD:
  assumes "workers_ready room workers" "w < length workers"
  obtains worker where "workers ! w = Some worker" "wq_inv (wk_queue worker)"
    "length (wq_entries (wk_queue worker)) + room \<le> wq_cap (wk_queue worker)"
  using assms by (auto simp: workers_ready_def list_all_length split: option.splits)

lemma Worker_AssignQP_room:
  assumes "length (wq_entries (wk_queue worker)) < wq_cap (wk_queue worker)"
  shows "Worker_AssignQP worker qp creds pid = Inr (worker\<lparr>wk_queue := wq_append (qp, creds) (wk_queue worker)\<rparr>)"
  using assms wq_secure_Enqueue_append [of "wk_queue worker" "(qp, creds)"]
  by (simp add: Worker_AssignQP_def wq_cap_def word_less_nat_alt not_le)

lemma AssignQueuePair_ready:
  assumes "server_ipc sv (labstor_queue_pair_GetPID (sv_qps sv ! qp)) = Inr k"
    and "PerProcessIPC_GetRegion (sv_ipcs sv ! k) = Inr base"
    and "workers_ready (Suc room) (sv_workers sv)" "i < 2 ^ 31"
  obtains ws where "WorkOrchestrator_AssignQueuePair sv qp (of_nat i) = Inr (sv\<lparr>sv_workers := ws\<rparr>)"
    "workers_ready room ws" "length ws = length (sv_workers sv)"
    "\<forall>w < length ws. worker_log ws w = worker_log (sv_workers sv) w @
       (if i mod length (sv_workers sv) = w then [(of_nat qp, of_nat k)] else [])"
proof -
  let ?W = "sv_workers sv" and ?w = "i mod length (sv_workers sv)"
  have ne: "?W \<noteq> []" using assms(3) by (simp add: workers_ready_def)
  then have w: "?w < length ?W" by simp
  obtain worker where k: "?W ! ?w = Some worker" "wq_inv (wk_queue worker)"
      "length (wq_entries (wk_queue worker)) + Suc room \<le> wq_cap (wk_queue worker)"
    using workers_readyD [OF assms(3) w] .
  define worker' where "worker' = worker\<lparr>wk_queue := wq_append (of_nat qp, of_nat k) (wk_queue worker)\<rparr>"
  have lt: "wq_enqueued (wk_queue worker) < wq_max_depth (wk_queue worker)"
    using k(3) by (simp add: wq_cap_def word_less_nat_alt)
  note ap = wq_append_law [OF lt]
  have si: "sint (of_nat i :: i32) = int i" using assms(4) by (simp add: signed_of_nat signed_take_bit_int_eq_self)
  have "WorkOrchestrator_AssignQueuePair sv qp (of_nat i) = Inr (sv\<lparr>sv_workers := ?W[?w := Some worker']\<rparr>)"
    using assms(1,2) ne k si Worker_AssignQP_room [of worker]
    by (simp add: WorkOrchestrator_AssignQueuePair_def IPCManager_GetRegion_creds_def Let_def worker'_def)
  moreover have "workers_ready room (?W[?w := Some worker'])"
    using assms(3) ne k(3) ap [of "(of_nat qp, of_nat k)"]
    by (auto simp: workers_ready_def list_all_length nth_list_update worker'_def simp del: wq_entries_length
        split: option.splits)
  moreover have "\<forall>u < length ?W. worker_log (?W[?w := Some worker']) u = worker_log ?W u @
       (if ?w = u then [(of_nat qp, of_nat k)] else [])"
    using k(1) ap(2) by (simp add: worker_log_def nth_list_update worker'_def)
  ultimately show ?thesis using that by simp
qed

section \<open>Attaching to the queues of a client\<close>

lemma Attach_client_queue:
  assumes "client_queue_at pid bc start d i qp"
    and "unat (start - bc) + Suc i * queue_stride d < 2 ^ 31"
  shows "client_queue_at pid bs (bs + (start - bc)) d i
      (labstor_queue_pair_Attach qp (labstor_queue_pair_GetPointer qp bc) bs)"
proof -
  have o: "unat (start + of_nat m - bc) < 2 ^ 31" if "m < Suc i * queue_stride d" for m
  proof -
    have l: "unat (start - bc) + m < 2 ^ 31" using that assms(2) by linarith
    have "start + of_nat m - bc = of_nat (unat (start - bc) + m)" by simp
    then show ?thesis using l by (simp only: unat_of_nat) simp
  qed
  note t = region_translate [OF o, where bs = bs]
  show ?thesis
    using assms(1) t(1) [of "i * queue_stride d"] t(1) [of "i * queue_stride d + (24 + 4 * unat d)"]
    by (clarsimp simp: client_queue_at_def fresh_queue_pair_def labstor_queue_pair_Attach_def
        labstor_queue_pair_GetPointer_def labstor_queue_pair_ptr_Init_def labstor_request_queue_Attach_def
        labstor_request_map_Attach_def labstor_request_queue_GetRegion_def labstor_request_map_GetRegion_def
        labstor_queue_pair_GetQID_def labstor_request_queue_GetQID_def labstor_request_ring_buffer_Attach_def
        rr_inv_def rr_contents_def rr_depth_def rr_capacity_def)
qed

text \<open>What a step of the registration loop leaves behind, for a client with object \<open>k\<close>.\<close>

lemma register_client_step:
  assumes "server_ipc sv pid = Inr k" "k < length (sv_ipcs sv)"
    and "PerProcessIPC_GetRegion (sv_ipcs sv ! k) = Inr bs"
    and "pool_known (pp_pool (sv_ipcs sv ! k)) 0 0" "pool_num (pp_pool (sv_ipcs sv ! k)) 0 0 = i"
    and "workers_ready (Suc room) (sv_workers sv)" "0 < sint count" "i < 2 ^ 16"
    and "client_queue_at pid bs s d i (labstor_queue_pair_Attach (shm i) p bs)"
  obtains pool' ws where
    "register_client_queues shm count k i (p # ptrs) sv =
       register_client_queues shm count k (Suc i) ptrs
         (update_ipc k (\<lambda>ipc. ipc\<lparr>pp_pool := pool'\<rparr>) sv
            \<lparr>sv_qps := sv_qps sv @ [labstor_queue_pair_Attach (shm i) p bs], sv_workers := ws\<rparr>)"
    "pool_known pool' = pool_known (pp_pool (sv_ipcs sv ! k))" "pool_num pool' 0 0 = Suc i"
    "\<forall>x. QueuePool_GetQueuePair pool' x =
       (if qid_type x = 0 \<and> qid_flags x = 0 \<and> unat (qid_cnt x) = i then Inr (length (sv_qps sv))
        else QueuePool_GetQueuePair (pp_pool (sv_ipcs sv ! k)) x)"
    "workers_ready room ws" "length ws = length (sv_workers sv)"
    "\<forall>w < length ws. worker_log ws w = worker_log (sv_workers sv) w @
       (if i mod length (sv_workers sv) = w then [(of_nat (length (sv_qps sv)), of_nat k)] else [])"
proof -
  let ?qp = "labstor_queue_pair_Attach (shm i) p bs" and ?r = "length (sv_qps sv)"
  have q: "labstor_queue_pair_GetQID ?qp = client_qid pid i"
    using assms(9) by (simp add: client_queue_at_def fresh_queue_pair_def)
  obtain pool' where p: "QueuePool_RegisterQueuePair (pp_pool (sv_ipcs sv ! k)) (client_qid pid i) ?r = Inr pool'"
      "pool_known pool' = pool_known (pp_pool (sv_ipcs sv ! k))" "pool_num pool' 0 0 = Suc i"
      "\<forall>x. QueuePool_GetQueuePair pool' x =
       (if qid_type x = 0 \<and> qid_flags x = 0 \<and> unat (qid_cnt x) = i then Inr ?r
        else QueuePool_GetQueuePair (pp_pool (sv_ipcs sv ! k)) x)"
    using pool_dir.reg_known [of "pp_pool (sv_ipcs sv ! k)" "client_qid pid i" ?r] assms(4,5) by auto
  define sv1 where "sv1 = update_ipc k (\<lambda>ipc. ipc\<lparr>pp_pool := pool'\<rparr>) sv\<lparr>sv_qps := sv_qps sv @ [?qp]\<rparr>"
  have reg: "IPCManager_RegisterQueuePair (sv\<lparr>sv_qps := sv_qps sv @ [?qp]\<rparr>) ?r = Inr sv1"
    using q p(1) assms(1) by (simp add: IPCManager_RegisterQueuePair_def server_ipc_def Let_def sv1_def)
  have res: "QueuePool_ReserveQueues (pp_pool (sv_ipcs sv ! k)) 0 0 count = Inr ()"
    using assms(4,7) by (simp add: QueuePool_ReserveQueues_def pool_known_def)
  have g: "server_ipc sv1 (labstor_queue_pair_GetPID (sv_qps sv1 ! ?r)) = Inr k"
    using q assms(1) by (simp add: sv1_def server_ipc_def labstor_queue_pair_GetPID_def)
  have b: "PerProcessIPC_GetRegion (sv_ipcs sv1 ! k) = Inr bs"
    using assms(2,3) by (simp add: sv1_def PerProcessIPC_GetRegion_def)
  have w: "workers_ready (Suc room) (sv_workers sv1)" using assms(6) by (simp add: sv1_def)
  have "i < 2 ^ 31" using assms(8) by simp
  then obtain ws where ws: "WorkOrchestrator_AssignQueuePair sv1 ?r (of_nat i) = Inr (sv1\<lparr>sv_workers := ws\<rparr>)"
    "workers_ready room ws" "length ws = length (sv_workers sv1)"
    "\<forall>w < length ws. worker_log ws w = worker_log (sv_workers sv1) w @
       (if i mod length (sv_workers sv1) = w then [(of_nat ?r, of_nat k)] else [])"
    by (rule AssignQueuePair_ready [OF g b w])
  have c: "(if i = 0 then QueuePool_ReserveQueues (pp_pool (sv_ipcs (sv\<lparr>sv_qps := sv_qps sv @ [?qp]\<rparr>) ! k)) 0
      (qid_flags (labstor_queue_pair_GetQID ?qp)) count else Inr ()) = Inr ()"
    unfolding q using res by simp
  have st: "register_client_queues shm count k i (p # ptrs) sv =
      register_client_queues shm count k (Suc i) ptrs (sv1\<lparr>sv_workers := ws\<rparr>)"
    using reg ws(1) assms(3) by (simp add: Let_def c split del: if_split)
  show ?thesis
    by (rule that [where pool' = pool' and ws = ws])
      (use st ws p in \<open>simp_all add: sv1_def\<close>)
qed


lemma register_client_all:
  assumes "\<forall>j < i + n. i \<le> j \<longrightarrow> client_queue_at pid bs s d j (labstor_queue_pair_Attach (shm j) (p j) bs)"
    and "server_ipc sv pid = Inr k" "k < length (sv_ipcs sv)"
    and "PerProcessIPC_GetRegion (sv_ipcs sv ! k) = Inr bs"
    and "pool_known (pp_pool (sv_ipcs sv ! k)) 0 0" "pool_num (pp_pool (sv_ipcs sv ! k)) 0 0 = i"
    and "workers_ready n (sv_workers sv)" "0 < sint count" "i + n \<le> 2 ^ 16" "length (sv_qps sv) = n0 + i"
  shows "\<exists>sv'. register_client_queues shm count k i (map p [i..<i + n]) sv = Inr sv' \<and>
    sv_qps sv' = sv_qps sv @ map (\<lambda>j. labstor_queue_pair_Attach (shm j) (p j) bs) [i..<i + n] \<and>
    sv_pid_to_ipc sv' = sv_pid_to_ipc sv \<and>
    (\<forall>k'. k' \<noteq> k \<longrightarrow> sv_ipcs sv' ! k' = sv_ipcs sv ! k') \<and>
    (\<forall>x. QueuePool_GetQueuePair (pp_pool (sv_ipcs sv' ! k)) x =
       (if qid_type x = 0 \<and> qid_flags x = 0 \<and> i \<le> unat (qid_cnt x) \<and> unat (qid_cnt x) < i + n
        then Inr (n0 + unat (qid_cnt x)) else QueuePool_GetQueuePair (pp_pool (sv_ipcs sv ! k)) x)) \<and>
    length (sv_workers sv') = length (sv_workers sv) \<and>
    (\<forall>w < length (sv_workers sv). worker_log (sv_workers sv') w = worker_log (sv_workers sv) w @
       map (\<lambda>j. (of_nat (n0 + j), of_nat k)) (filter (\<lambda>j. j mod length (sv_workers sv) = w) [i..<i + n]))"
  using assms
proof (induction n arbitrary: i sv)
  case 0
  then show ?case by auto
next
  case (Suc n)
  have a: "client_queue_at pid bs s d i (labstor_queue_pair_Attach (shm i) (p i) bs)"
    using Suc.prems(1) by simp
  have i: "i < 2 ^ 16" using Suc.prems(9) by simp
  obtain pool' ws where st: "register_client_queues shm count k i (p i # map p [Suc i..<Suc i + n]) sv =
       register_client_queues shm count k (Suc i) (map p [Suc i..<Suc i + n])
         (update_ipc k (\<lambda>ipc. ipc\<lparr>pp_pool := pool'\<rparr>) sv
            \<lparr>sv_qps := sv_qps sv @ [labstor_queue_pair_Attach (shm i) (p i) bs], sv_workers := ws\<rparr>)"
    "pool_known pool' = pool_known (pp_pool (sv_ipcs sv ! k))" "pool_num pool' 0 0 = Suc i"
    "\<forall>x. QueuePool_GetQueuePair pool' x =
       (if qid_type x = 0 \<and> qid_flags x = 0 \<and> unat (qid_cnt x) = i then Inr (length (sv_qps sv))
        else QueuePool_GetQueuePair (pp_pool (sv_ipcs sv ! k)) x)"
    "workers_ready n ws" "length ws = length (sv_workers sv)"
    "\<forall>w < length ws. worker_log ws w = worker_log (sv_workers sv) w @
       (if i mod length (sv_workers sv) = w then [(of_nat (length (sv_qps sv)), of_nat k)] else [])"
    by (rule register_client_step [OF Suc.prems(2-8) i, where shm = shm and p = "p i" and s = s and d = d
          and ptrs = "map p [Suc i..<Suc i + n]", OF a])
  let ?sv = "update_ipc k (\<lambda>ipc. ipc\<lparr>pp_pool := pool'\<rparr>) sv
            \<lparr>sv_qps := sv_qps sv @ [labstor_queue_pair_Attach (shm i) (p i) bs], sv_workers := ws\<rparr>"
  have pk: "pp_pool (sv_ipcs ?sv ! k) = pool'" using Suc.prems(3) by simp
  have "\<exists>sv'. register_client_queues shm count k (Suc i) (map p [Suc i..<Suc i + n]) ?sv = Inr sv' \<and>
    sv_qps sv' = sv_qps ?sv @ map (\<lambda>j. labstor_queue_pair_Attach (shm j) (p j) bs) [Suc i..<Suc i + n] \<and>
    sv_pid_to_ipc sv' = sv_pid_to_ipc ?sv \<and>
    (\<forall>k'. k' \<noteq> k \<longrightarrow> sv_ipcs sv' ! k' = sv_ipcs ?sv ! k') \<and>
    (\<forall>x. QueuePool_GetQueuePair (pp_pool (sv_ipcs sv' ! k)) x =
       (if qid_type x = 0 \<and> qid_flags x = 0 \<and> Suc i \<le> unat (qid_cnt x) \<and> unat (qid_cnt x) < Suc i + n
        then Inr (n0 + unat (qid_cnt x)) else QueuePool_GetQueuePair (pp_pool (sv_ipcs ?sv ! k)) x)) \<and>
    length (sv_workers sv') = length (sv_workers ?sv) \<and>
    (\<forall>w < length (sv_workers ?sv). worker_log (sv_workers sv') w = worker_log (sv_workers ?sv) w @
       map (\<lambda>j. (of_nat (n0 + j), of_nat k)) (filter (\<lambda>j. j mod length (sv_workers ?sv) = w) [Suc i..<Suc i + n]))"
    by (rule Suc.IH)
      (use Suc.prems st(2,3,5) in \<open>simp_all add: server_ipc_def PerProcessIPC_GetRegion_def\<close>)
  then obtain sv' where r: "register_client_queues shm count k (Suc i) (map p [Suc i..<Suc i + n]) ?sv = Inr sv'"
    "sv_qps sv' = sv_qps ?sv @ map (\<lambda>j. labstor_queue_pair_Attach (shm j) (p j) bs) [Suc i..<Suc i + n]"
    "sv_pid_to_ipc sv' = sv_pid_to_ipc ?sv" "\<forall>k'. k' \<noteq> k \<longrightarrow> sv_ipcs sv' ! k' = sv_ipcs ?sv ! k'"
    "\<forall>x. QueuePool_GetQueuePair (pp_pool (sv_ipcs sv' ! k)) x =
       (if qid_type x = 0 \<and> qid_flags x = 0 \<and> Suc i \<le> unat (qid_cnt x) \<and> unat (qid_cnt x) < Suc i + n
        then Inr (n0 + unat (qid_cnt x)) else QueuePool_GetQueuePair pool' x)"
    "length (sv_workers sv') = length ws"
    "\<forall>w < length ws. worker_log (sv_workers sv') w = worker_log ws w @
       map (\<lambda>j. (of_nat (n0 + j), of_nat k)) (filter (\<lambda>j. j mod length ws = w) [Suc i..<Suc i + n])"
    unfolding pk by auto
  have l: "map p [i..<i + Suc n] = p i # map p [Suc i..<Suc i + n]" "[i..<i + Suc n] = i # [Suc i..<Suc i + n]"
    by (simp_all add: upt_rec)
  have q: "QueuePool_GetQueuePair (pp_pool (sv_ipcs sv' ! k)) x =
       (if qid_type x = 0 \<and> qid_flags x = 0 \<and> i \<le> unat (qid_cnt x) \<and> unat (qid_cnt x) < i + Suc n
        then Inr (n0 + unat (qid_cnt x)) else QueuePool_GetQueuePair (pp_pool (sv_ipcs sv ! k)) x)" for x
    using r(5) st(4) Suc.prems(10) by auto
  have w: "worker_log (sv_workers sv') w = worker_log (sv_workers sv) w @
       map (\<lambda>j. (of_nat (n0 + j), of_nat k)) (filter (\<lambda>j. j mod length (sv_workers sv) = w) [i..<i + Suc n])"
    if "w < length (sv_workers sv)" for w
    unfolding l(2) using that r(7) st(6,7) Suc.prems(10) by simp
  have s: "sv_qps sv' = sv_qps sv @ map (\<lambda>j. labstor_queue_pair_Attach (shm j) (p j) bs) [i..<i + Suc n]"
    unfolding l(2) r(2) by simp
  have o: "sv_pid_to_ipc sv' = sv_pid_to_ipc sv" "\<forall>k'. k' \<noteq> k \<longrightarrow> sv_ipcs sv' ! k' = sv_ipcs sv ! k'"
    "length (sv_workers sv') = length (sv_workers sv)"
    using r(3,4,6) st(6) by simp_all
  have e: "register_client_queues shm count k i (map p [i..<i + Suc n]) sv = Inr sv'"
    unfolding l(1) st(1) by (rule r(1))
  show ?case
    by (rule exI [of _ sv'], intro conjI allI impI) (fact e s o q | erule w | use o(2) in blast)+
qed

section \<open>Properties\<close>

text \<open>
  C13. The memory of a process is divided soundly: the configuration is accepted exactly when the
  queues, with a handle each, leave at least the minimum for requests, and then the two regions
  add up to the whole. Otherwise it is refused.
\<close>

theorem memory_config_layout:
  assumes "unat (ms_queue_depth conf) < 2 ^ 28"
    and "unat (ms_num_queues conf) * (108 + 8 * unat (ms_queue_depth conf)) < 2 ^ 32"
    and "unat (ms_max_region_size_kb conf) < 2 ^ 22" "unat (ms_min_request_region_kb conf) < 2 ^ 22"
  shows "let queues = unat (ms_num_queues conf) * (108 + 8 * unat (ms_queue_depth conf));
      region = unat (ms_max_region_size_kb conf) * 1024; least = unat (ms_min_request_region_kb conf) * 1024 in
    case IPCManager_LoadMemoryConfig conf of
      Inr mc \<Rightarrow> queues < region \<and> queues + least \<le> region \<and> unat (mc_region_size mc) = region \<and>
        unat (mc_queue_region_size mc) = queues \<and> unat (mc_request_region_size mc) = region - queues \<and>
        unat (mc_request_queue_size mc) + unat (mc_request_map_size mc) = 28 + 8 * unat (mc_queue_depth mc)
    | Inl err \<Rightarrow> err = NOT_ENOUGH_REQUEST_MEMORY \<and> region < queues + max 1 least"
proof -
  let ?n = "ms_num_queues conf" and ?d = "ms_queue_depth conf"
  note qs = queue_sizes [OF assms(1)]
  have q: "unat (?n * labstor_queue_pair_GetSize_global ?d) = unat ?n * (108 + 8 * unat ?d)"
    using assms(2) qs(3) by (simp add: unat_word_ariths)
  have r: "unat (ms_max_region_size_kb conf * 1024) = unat (ms_max_region_size_kb conf) * 1024"
    "unat (ms_min_request_region_kb conf * 1024) = unat (ms_min_request_region_kb conf) * 1024"
    using assms(3,4) by (simp_all add: unat_word_ariths)
  have s: "unat (ms_max_region_size_kb conf * 1024 - ?n * labstor_queue_pair_GetSize_global ?d) =
      unat (ms_max_region_size_kb conf) * 1024 - unat ?n * (108 + 8 * unat ?d)"
    if "unat ?n * (108 + 8 * unat ?d) < unat (ms_max_region_size_kb conf) * 1024"
    using that q r(1) by (simp add: unat_sub word_le_nat_alt)
  show ?thesis
    using s qs(1,2)
    by (auto simp: IPCManager_LoadMemoryConfig_def Let_def word_le_nat_alt word_less_nat_alt q r)
qed

theorem memory_config_layout_witness:
  "case IPCManager_LoadMemoryConfig \<lparr>ms_max_region_size_kb = 1024, ms_request_unit_bytes = 256,
       ms_min_request_region_kb = 512, ms_queue_depth = 512, ms_num_queues = 16\<rparr> of
     Inr mc \<Rightarrow> unat (mc_queue_region_size mc) = 67264 \<and> unat (mc_request_region_size mc) = 981312
   | Inl err \<Rightarrow> False"
  using memory_config_layout [of "\<lparr>ms_max_region_size_kb = 1024, ms_request_unit_bytes = 256,
       ms_min_request_region_kb = 512, ms_queue_depth = 512, ms_num_queues = 16\<rparr>"]
  by (simp add: Let_def split: sum.splits)


text \<open>
  C11. The queues of a client reach the server. When a client with shared memory at \<open>bc\<close> has created
  its queues and sent their offsets, and the server maps the memory at \<open>bs\<close>, registration succeeds:
  every queue is attached at the corresponding server address, is found under its identifier, and
  is assigned to the worker given by its number modulo the number of workers, together with the
  credentials of the client; the tables of all other processes are untouched.
\<close>

theorem server_registers_client_queues:
  assumes "\<forall>i < unat count. client_queue_at pid bc start d i (qps ! i)"
    and "ptrs = map (\<lambda>i. labstor_queue_pair_GetPointer (qps ! i) bc) [0..<unat count]"
    and "unat (start - bc) + unat count * (28 + 8 * unat d) < 2 ^ 31"
    and "0 < sint count" "unat count \<le> 2 ^ 16"
    and "server_ipc sv pid = Inr k" "k < length (sv_ipcs sv)" "pp_pool (sv_ipcs sv ! k) = QueuePool_new"
    and "labstor_shmem_allocator_Attach shm_alloc bs bs = Inr alloc"
    and "workers_ready (unat count) (sv_workers sv)"
  shows "\<exists>sv'. IPCManager_RegisterClientQP (\<lambda>i. qps ! i) shm_alloc (register_qp_request_new count) ptrs k bs sv = Inr sv' \<and>
    (\<forall>i < unat count.
       IPCManager_GetQueuePair sv' (client_qid pid i) = Inr (length (sv_qps sv) + i) \<and>
       client_queue_at pid bs (bs + (start - bc)) d i (sv_qps sv' ! (length (sv_qps sv) + i))) \<and>
    (\<forall>w < length (sv_workers sv). worker_log (sv_workers sv') w = worker_log (sv_workers sv) w @
       map (\<lambda>i. (of_nat (length (sv_qps sv) + i), of_nat k))
         (filter (\<lambda>i. i mod length (sv_workers sv) = w) [0..<unat count])) \<and>
    (\<forall>k'. k' \<noteq> k \<longrightarrow> sv_ipcs sv' ! k' = sv_ipcs sv ! k')"
proof -
  let ?n = "unat count" and ?p = "\<lambda>i. labstor_queue_pair_GetPointer (qps ! i) bc"
  let ?sv = "update_ipc k (\<lambda>ipc. ipc\<lparr>pp_mm := MemoryManager_SetShmemAlloc (pp_mm ipc) alloc\<rparr>) sv"
  have n: "nat (sint count) = ?n" using sint_pos_unat(1) [OF assms(4)] .
  have a: "\<forall>j < 0 + ?n. 0 \<le> j \<longrightarrow>
      client_queue_at pid bs (bs + (start - bc)) d j (labstor_queue_pair_Attach (qps ! j) (?p j) bs)"
  proof (intro allI impI)
    fix j
    assume j: "j < 0 + ?n"
    then have "Suc j * queue_stride d \<le> ?n * queue_stride d" by (intro mult_le_mono1) simp
    then have "unat (start - bc) + Suc j * queue_stride d < 2 ^ 31" using assms(3) by linarith
    then show "client_queue_at pid bs (bs + (start - bc)) d j (labstor_queue_pair_Attach (qps ! j) (?p j) bs)"
      using assms(1) j by (intro Attach_client_queue) simp
  qed
  have h: "sa_header alloc = bs"
    using assms(9) by (auto simp: labstor_shmem_allocator_Attach_def Let_def split: if_splits)
  have s: "server_ipc ?sv pid = Inr k" "k < length (sv_ipcs ?sv)"
    "PerProcessIPC_GetRegion (sv_ipcs ?sv ! k) = Inr bs"
    "pool_known (pp_pool (sv_ipcs ?sv ! k)) 0 0" "pool_num (pp_pool (sv_ipcs ?sv ! k)) 0 0 = 0"
    "workers_ready ?n (sv_workers ?sv)" "length (sv_qps ?sv) = length (sv_qps sv) + 0"
    using assms(6,7,8,10) h
    by (simp_all add: server_ipc_def PerProcessIPC_GetRegion_def MemoryManager_GetRegion_def qp_flag_defs
        MemoryManager_SetShmemAlloc_def labstor_shmem_allocator_GetRegion_def QueuePool_new_known)
  have l: "0 + ?n \<le> 2 ^ 16" using assms(5) by simp
  obtain sv' where r: "register_client_queues ((!) qps) count k 0 (map ?p [0..<?n]) ?sv = Inr sv'"
      "sv_qps sv' = sv_qps sv @ map (\<lambda>j. labstor_queue_pair_Attach (qps ! j) (?p j) bs) [0..<?n]"
      "sv_pid_to_ipc sv' = sv_pid_to_ipc sv" "\<forall>k'. k' \<noteq> k \<longrightarrow> sv_ipcs sv' ! k' = sv_ipcs sv ! k'"
      "\<forall>x. qid_type x = 0 \<and> qid_flags x = 0 \<and> unat (qid_cnt x) < ?n \<longrightarrow>
         QueuePool_GetQueuePair (pp_pool (sv_ipcs sv' ! k)) x = Inr (length (sv_qps sv) + unat (qid_cnt x))"
      "\<forall>w < length (sv_workers sv). worker_log (sv_workers sv') w = worker_log (sv_workers sv) w @
         map (\<lambda>j. (of_nat (length (sv_qps sv) + j), of_nat k)) (filter (\<lambda>j. j mod length (sv_workers sv) = w) [0..<?n])"
    using register_client_all [OF a s(1-6) assms(4) l s(7)] by auto
  have c: "IPCManager_RegisterClientQP ((!) qps) shm_alloc (register_qp_request_new count) ptrs k bs sv = Inr sv'"
    using r(1) assms(2,9) n by (simp add: IPCManager_RegisterClientQP_def register_qp_request_new_def Let_def)
  have "IPCManager_GetQueuePair sv' (client_qid pid i) = Inr (length (sv_qps sv) + i)" if "i < ?n" for i
    using that r(3,5) s(1) assms(5)
    by (simp add: IPCManager_GetQueuePair_def server_ipc_def unat_of_nat)
  moreover have "client_queue_at pid bs (bs + (start - bc)) d i (sv_qps sv' ! (length (sv_qps sv) + i))" if "i < ?n" for i
    using that a r(2) by (simp add: nth_append)
  ultimately show ?thesis using c r(4,6) by (intro exI [of _ sv']) simp
qed


text \<open>A server that knows process 77 and has one worker.\<close>

definition sample_server :: server_state where
  "sample_server = (IPCManager_new 1)\<lparr>sv_pid_to_ipc := [77 \<mapsto> Some 0],
     sv_ipcs := [PerProcessIPC_new \<lparr>cr_pid = 77, cr_uid = 1000, cr_gid = 1000, cr_priority = 0\<rparr> 5],
     sv_workers := [Some \<lparr>wk_id = 0, wk_queue = (wq_blank (0, 0))\<lparr>wq_enqueued := 0, wq_max_depth := 8\<rparr>\<rparr>]\<rparr>"

theorem server_registers_client_queues_witness:
  "\<exists>qp alloc sv'. IPCManager_RegisterClientQP (\<lambda>i. [qp] ! i) alloc (register_qp_request_new 1)
      [labstor_queue_pair_GetPointer qp 4096] 0 65536 sample_server = Inr sv' \<and>
    IPCManager_GetQueuePair sv' (client_qid 77 0) = Inr 0 \<and>
    worker_log (sv_workers sv') 0 = [(0, 0)]"
proof -
  obtain qp where qp: "client_queue_at 77 4096 8192 4 0 qp"
    using queue_pair_Init_throw_fresh [of 4 idle_qp "client_qid 77 0" 4096 8192 8232]
    by (auto simp: client_queue_at_def)
  let ?a = "sa_blank\<lparr>sa_hdr_concurrency := 1\<rparr>"
  obtain alloc where al: "labstor_shmem_allocator_Attach ?a 65536 65536 = Inr alloc"
    by (simp add: labstor_shmem_allocator_Attach_def Let_def)
  have sv: "server_ipc sample_server 77 = Inr 0" "0 < length (sv_ipcs sample_server)"
    "pp_pool (sv_ipcs sample_server ! 0) = QueuePool_new" "workers_ready (unat (1 :: i32)) (sv_workers sample_server)"
    "sv_qps sample_server = []" "length (sv_workers sample_server) = 1" "worker_log (sv_workers sample_server) 0 = []"
    by (simp_all add: sample_server_def IPCManager_new_def server_ipc_def PerProcessIPC_new_def workers_ready_def
        wq_inv_def wq_cap_def wq_entries_def worker_log_def)
  have q: "\<forall>i < unat (1 :: i32). client_queue_at 77 4096 8192 4 i ([qp] ! i)" using qp by simp
  from server_registers_client_queues [OF q refl _ _ _ sv(1,2,3) al sv(4)]
  obtain sv' where "IPCManager_RegisterClientQP (\<lambda>i. [qp] ! i) ?a (register_qp_request_new 1)
      [labstor_queue_pair_GetPointer qp 4096] 0 65536 sample_server = Inr sv'"
    "IPCManager_GetQueuePair sv' (client_qid 77 0) = Inr 0" "worker_log (sv_workers sv') 0 = [(0, 0)]"
    using sv(5,6,7) by auto
  then show ?thesis by blast
qed

text \<open>
  C15. A process identifier that comes back finds stale queues: registering another object for a known
  process leaves the table pointing to the old object, and a queue pair registered under an
  identifier that is in use does not replace the one that is found under it.
\<close>

theorem reconnect_keeps_stale_queues:
  assumes "server_ipc sv (cr_pid creds) = Inr k0" "k0 < length (sv_ipcs sv)"
    and "IPCManager_RegisterIPC sv creds region_id = (k, sv1)"
    and "labstor_queue_pair_GetQID (sv_qps sv1 ! r) = qid" "qid_pid qid = cr_pid creds"
    and "IPCManager_GetQueuePair sv qid = Inr q"
  shows "k \<noteq> k0 \<and> server_ipc sv1 (cr_pid creds) = Inr k0 \<and>
    (\<exists>sv2. IPCManager_RegisterQueuePair sv1 r = Inr sv2 \<and> IPCManager_GetQueuePair sv2 qid = Inr q)"
proof -
  have sv1: "k = length (sv_ipcs sv)" "sv_ipcs sv1 = sv_ipcs sv @ [PerProcessIPC_new creds region_id]"
    "server_ipc sv1 (cr_pid creds) = Inr k0"
    using assms(1,3) by (auto simp: IPCManager_RegisterIPC_def Let_def server_ipc_def split: option.splits)
  let ?pool = "pp_pool (sv_ipcs sv ! k0)"
  have g: "QueuePool_GetQueuePair ?pool qid = Inr q"
    using assms(1,5,6) by (simp add: IPCManager_GetQueuePair_def)
  then have kn: "pool_known ?pool (qid_type qid) (qid_flags qid)"
    "unat (qid_cnt qid) < pool_num ?pool (qid_type qid) (qid_flags qid)"
    using pool_dir.get_range [of ?pool qid] by auto
  obtain pool' where p: "QueuePool_RegisterQueuePair ?pool qid r = Inr pool'" "QueuePool_GetQueuePair pool' qid = Inr q"
    using pool_dir.reg_known [OF kn(1), of r] kn(2) g by auto
  have "IPCManager_RegisterQueuePair sv1 r = Inr (update_ipc k0 (\<lambda>ipc. ipc\<lparr>pp_pool := pool'\<rparr>) sv1)"
    using sv1(2,3) assms(2,4,5) p(1) by (simp add: IPCManager_RegisterQueuePair_def nth_append)
  moreover have "IPCManager_GetQueuePair (update_ipc k0 (\<lambda>ipc. ipc\<lparr>pp_pool := pool'\<rparr>) sv1) qid = Inr q"
    using sv1(2,3) assms(2,5) p(2) by (simp add: IPCManager_GetQueuePair_def server_ipc_def)
  ultimately show ?thesis using sv1(1,3) assms(2) by auto
qed

theorem reconnect_keeps_stale_queues_witness:
  "\<exists>sv creds k sv1 sv2. IPCManager_RegisterIPC sv creds 6 = (k, sv1) \<and> k = 1 \<and>
     server_ipc sv1 77 = Inr 0 \<and> IPCManager_RegisterQueuePair sv1 1 = Inr sv2 \<and>
     IPCManager_GetQueuePair sv2 (client_qid 77 0) = Inr 0"
proof -
  obtain qp where "client_queue_at 77 4096 8192 4 0 qp"
    using queue_pair_Init_throw_fresh [of 4 idle_qp "client_qid 77 0" 4096 8192 8232]
    by (auto simp: client_queue_at_def)
  then have qp: "labstor_queue_pair_GetQID qp = client_qid 77 0"
    by (simp add: client_queue_at_def fresh_queue_pair_def)
  obtain pool :: "nat queue_pool" where "QueuePool_RegisterQueuePair QueuePool_new (client_qid 77 0) 0 = Inr pool"
      "QueuePool_GetQueuePair pool (client_qid 77 0) = Inr 0"
    using pool_dir.reg_known [of QueuePool_new "client_qid 77 0" "0 :: nat"] by (auto simp: QueuePool_new_known)
  note pool = this
  let ?creds = "\<lparr>cr_pid = 77, cr_uid = 1000, cr_gid = 1000, cr_priority = 0\<rparr>"
  let ?sv = "(update_ipc 0 (\<lambda>ipc. ipc\<lparr>pp_pool := pool\<rparr>) sample_server)\<lparr>sv_qps := [qp, qp]\<rparr>"
  obtain k sv1 where r: "IPCManager_RegisterIPC ?sv ?creds 6 = (k, sv1)" "k = 1" "sv_qps sv1 = [qp, qp]"
    by (simp add: IPCManager_RegisterIPC_def Let_def sample_server_def)
  have "server_ipc ?sv (cr_pid ?creds) = Inr 0" "0 < length (sv_ipcs ?sv)" "labstor_queue_pair_GetQID (sv_qps sv1 ! 1) = client_qid 77 0"
    "qid_pid (client_qid 77 0) = cr_pid ?creds" "IPCManager_GetQueuePair ?sv (client_qid 77 0) = Inr 0"
    using pool(2) qp r(3) by (simp_all add: sample_server_def server_ipc_def IPCManager_GetQueuePair_def)
  note f = this
  from reconnect_keeps_stale_queues [OF f(1,2) r(1) f(3,4,5)] show ?thesis using r(1,2) by auto
qed

end
