(* ===== verification/Server_Worker.thy ===== *)
theory Server_Worker
  imports Server_Ipc
begin

text \<open>
  The work loop of the server's workers, \<^verbatim>\<open>src/userspace/server/worker.cpp\<close>. The modules are
  found in the namespace by \<open>get_module\<close> and process a request by \<open>process\<close>; both are arguments, as
  the loop calls them through virtual functions. The state is the server's tables together with
  the requests in memory. A thrown error is caught by the loop: it is returned with the state in
  which it was thrown.
\<close>

section \<open>The loop\<close>

type_synonym worker_world = "server_state \<times> request_heap"

type_synonym 'm module_code =
  "'m \<Rightarrow> nat \<Rightarrow> ptr \<Rightarrow> ptr \<Rightarrow> worker_world \<Rightarrow> ((labstor_error + bool) \<times> worker_world) option"

abbreviation set_qp :: "nat \<Rightarrow> labstor_queue_pair \<Rightarrow> server_state \<Rightarrow> server_state" where
  "set_qp r qp sv \<equiv> sv\<lparr>sv_qps := (sv_qps sv)[r := qp]\<rparr>"

text \<open>
  The requests of one queue pair: at most as many as there were when the loop began. A request
  whose module is unknown is completed with code -1 and stays in the submission queue.
\<close>

fun worker_drain ::
  "nat \<Rightarrow> (nat \<Rightarrow> qp_state \<Rightarrow> qp_state) \<Rightarrow> (u32 \<Rightarrow> 'm option) \<Rightarrow> 'm module_code \<Rightarrow> nat \<Rightarrow> ptr \<Rightarrow> nat \<Rightarrow>
   worker_world \<Rightarrow> (labstor_error option \<times> worker_world) option"
where
  "worker_drain fuel env get_module process qp creds 0 st = Some (None, st)"
| "worker_drain fuel env get_module process qp creds (Suc n) (sv, heap) =
     (case labstor_queue_pair_Peek (sv_qps sv ! qp) 0 of
        None \<Rightarrow> Some (None, (sv, heap))
      | Some rq \<Rightarrow>
          (case get_module (rq_ns_id (heap rq)) of
             None \<Rightarrow>
               let heap = heap(rq := labstor_request_SetCode (heap rq) (- 1)) in
               (case shmem_queue_pair_Complete fuel env (heap, sv_qps sv ! qp) (rq_req_id (heap rq)) rq of
                  None \<Rightarrow> None
                | Some (_, heap, q) \<Rightarrow>
                    worker_drain fuel env get_module process qp creds n (set_qp qp q sv, heap))
           | Some module \<Rightarrow>
               (case process module qp rq creds (sv, heap) of
                  None \<Rightarrow> None
                | Some (Inl err, st) \<Rightarrow> Some (Some err, st)
                | Some (Inr is_complete, (sv, heap)) \<Rightarrow>
                    if is_complete
                    then worker_drain fuel env get_module process qp creds n
                           (set_qp qp (snd (labstor_queue_pair_Dequeue (sv_qps sv ! qp))) sv, heap)
                    else Some (None, (sv, heap)))))"

text \<open>The queue pairs of worker \<open>w\<close>, from index \<open>i\<close> on.\<close>

fun worker_scan ::
  "nat \<Rightarrow> (nat \<Rightarrow> qp_state \<Rightarrow> qp_state) \<Rightarrow> (u32 \<Rightarrow> 'm option) \<Rightarrow> 'm module_code \<Rightarrow> nat \<Rightarrow> nat \<Rightarrow> u32 \<Rightarrow>
   worker_world \<Rightarrow> (labstor_error option \<times> worker_world) option"
where
  "worker_scan fuel env get_module process w 0 i st = Some (None, st)"
| "worker_scan fuel env get_module process w (Suc n) i (sv, heap) =
     (case sv_workers sv ! w of
        None \<Rightarrow> Some (Some NULL_DEREFERENCE, (sv, heap))
      | Some worker \<Rightarrow>
          (case labstor_work_queue_secure_Peek (wk_queue worker) i of
             None \<Rightarrow> Some (None, (sv, heap))
           | Some (qp_struct, creds) \<Rightarrow>
               (case IPCManager_GetQueuePair sv (labstor_queue_pair_GetQID (sv_qps sv ! unat qp_struct)) of
                  Inl err \<Rightarrow> Some (Some err, (sv, heap))
                | Inr qp \<Rightarrow>
                    (case worker_drain fuel env get_module process qp creds
                            (unat (labstor_queue_pair_GetDepth (sv_qps sv ! qp))) (sv, heap) of
                       None \<Rightarrow> None
                     | Some (Some err, st) \<Rightarrow> Some (Some err, st)
                     | Some (None, st) \<Rightarrow> worker_scan fuel env get_module process w n (i + 1) st))))"

definition Worker_DoWork ::
  "nat \<Rightarrow> (nat \<Rightarrow> qp_state \<Rightarrow> qp_state) \<Rightarrow> (u32 \<Rightarrow> 'm option) \<Rightarrow> 'm module_code \<Rightarrow> nat \<Rightarrow>
   worker_world \<Rightarrow> (labstor_error option \<times> worker_world) option"
where
  "Worker_DoWork fuel env get_module process w st =
     (case sv_workers (fst st) ! w of
        None \<Rightarrow> Some (Some NULL_DEREFERENCE, st)
      | Some worker \<Rightarrow>
          worker_scan fuel env get_module process w (unat (Worker_GetQueueDepth worker)) 0 st)"

section \<open>Runs of a worker\<close>

text \<open>
  What serving a queue pair means, for the requests \<open>rqs\<close> that it has in the beginning: each is given
  to its module with the credentials of the queue pair, and is taken off the queue when the module
  has finished with it. The run ends after the last request, at the first one that is not finished
  yet, or with the error of a module. A module may do anything but change the tables by which the
  worker finds its queues, or take requests off this queue; clients may add some.
\<close>

definition registered :: "server_state \<Rightarrow> ptr \<times> ptr \<Rightarrow> bool" where
  "registered sv e \<longleftrightarrow> unat (fst e) < length (sv_qps sv) \<and>
     IPCManager_GetQueuePair sv (labstor_queue_pair_GetQID (sv_qps sv ! unat (fst e))) = Inr (unat (fst e))"

definition same_tables :: "server_state \<Rightarrow> server_state \<Rightarrow> bool" where
  "same_tables sv sv' \<longleftrightarrow> IPCManager_GetQueuePair sv' = IPCManager_GetQueuePair sv \<and> sv_workers sv' = sv_workers sv \<and>
     map labstor_queue_pair_GetQID (sv_qps sv') = map labstor_queue_pair_GetQID (sv_qps sv)"

inductive queue_run ::
  "(u32 \<Rightarrow> 'm option) \<Rightarrow> 'm module_code \<Rightarrow> nat \<Rightarrow> ptr \<Rightarrow> worker_world \<Rightarrow> ptr list \<Rightarrow>
   labstor_error option \<times> worker_world \<Rightarrow> bool"
  for get_module process qp creds
where
  all_done: "queue_run get_module process qp creds st [] (None, st)"
| finished: "get_module (rq_ns_id (heap rq)) = Some m \<Longrightarrow>
    process m qp rq creds (sv, heap) = Some (Inr True, (sv1, heap1)) \<Longrightarrow>
    same_tables sv sv1 \<Longrightarrow> qp_requests (sv_qps sv1 ! qp) = rq # rqs @ new \<Longrightarrow>
    queue_run get_module process qp creds
      (set_qp qp (snd (labstor_queue_pair_Dequeue (sv_qps sv1 ! qp))) sv1, heap1) rqs out \<Longrightarrow>
    queue_run get_module process qp creds (sv, heap) (rq # rqs) out"
| unfinished: "get_module (rq_ns_id (heap rq)) = Some m \<Longrightarrow>
    process m qp rq creds (sv, heap) = Some (Inr False, (sv1, heap1)) \<Longrightarrow> same_tables sv sv1 \<Longrightarrow>
    queue_run get_module process qp creds (sv, heap) (rq # rqs) (None, (sv1, heap1))"
| failed: "get_module (rq_ns_id (heap rq)) = Some m \<Longrightarrow>
    process m qp rq creds (sv, heap) = Some (Inl err, st1) \<Longrightarrow>
    queue_run get_module process qp creds (sv, heap) (rq # rqs) (Some err, st1)"

text \<open>The queue pairs follow one another; an error ends the pass.\<close>

inductive queues_run ::
  "(u32 \<Rightarrow> 'm option) \<Rightarrow> 'm module_code \<Rightarrow> worker_world \<Rightarrow> (ptr \<times> ptr) list \<Rightarrow>
   labstor_error option \<times> worker_world \<Rightarrow> bool"
  for get_module process
where
  no_queue: "queues_run get_module process st [] (None, st)"
| next_queue: "queue_run get_module process (unat qp) creds st (qp_requests (sv_qps (fst st) ! unat qp)) (None, st1) \<Longrightarrow>
    queues_run get_module process st1 es out \<Longrightarrow> queues_run get_module process st ((qp, creds) # es) out"
| failed_queue: "queue_run get_module process (unat qp) creds st (qp_requests (sv_qps (fst st) ! unat qp)) (Some err, st1) \<Longrightarrow>
    queues_run get_module process st ((qp, creds) # es) (Some err, st1)"

inductive_cases queues_run_ConsE: "queues_run get_module process st ((qp, creds) # es) out"
inductive_cases queues_run_NilE: "queues_run get_module process st [] out"

lemma same_tables_refl [simp]: "same_tables sv sv"
  by (simp add: same_tables_def)

lemma same_tables_trans: "same_tables a b \<Longrightarrow> same_tables b c \<Longrightarrow> same_tables a c"
  by (simp add: same_tables_def)

lemma same_tables_length: "same_tables sv sv' \<Longrightarrow> length (sv_qps sv') = length (sv_qps sv)"
  by (auto simp: same_tables_def dest: map_eq_imp_length_eq)

lemma same_tables_registered:
  assumes "same_tables sv sv'" "registered sv e"
  shows "registered sv' e"
proof -
  have l: "length (sv_qps sv') = length (sv_qps sv)" by (rule same_tables_length [OF assms(1)])
  have "map labstor_queue_pair_GetQID (sv_qps sv') ! unat (fst e) = map labstor_queue_pair_GetQID (sv_qps sv) ! unat (fst e)"
    using assms(1) by (simp add: same_tables_def)
  then have "labstor_queue_pair_GetQID (sv_qps sv' ! unat (fst e)) = labstor_queue_pair_GetQID (sv_qps sv ! unat (fst e))"
    using assms(2) l by (simp add: registered_def)
  then show ?thesis using assms l by (simp add: registered_def same_tables_def)
qed

lemma Dequeue_GetQID: "labstor_queue_pair_GetQID (snd (labstor_queue_pair_Dequeue qp)) = labstor_queue_pair_GetQID qp"
  by (auto simp: labstor_queue_pair_GetQID_def labstor_request_queue_GetQID_def labstor_queue_pair_Dequeue_def
      labstor_request_queue_Dequeue_def split: prod.splits option.splits)

lemma same_tables_set_qp:
  assumes "labstor_queue_pair_GetQID q = labstor_queue_pair_GetQID (sv_qps sv ! qp)"
  shows "same_tables sv (set_qp qp q sv)"
proof -
  have "IPCManager_GetQueuePair (set_qp qp q sv) = IPCManager_GetQueuePair sv"
    by (rule ext) (simp add: IPCManager_GetQueuePair_def server_ipc_def)
  then show ?thesis
    using assms by (cases "qp < length (sv_qps sv)") (simp_all add: same_tables_def map_update list_update_same_conv list_update_beyond)
qed

lemma worker_drain_run:
  assumes "queue_run get_module process qp creds st rqs out"
  shows "qp < length (sv_qps (fst st)) \<Longrightarrow> qp_requests (sv_qps (fst st) ! qp) = rqs @ new \<Longrightarrow>
    worker_drain fuel env get_module process qp creds (length rqs) st = Some out \<and>
    (fst out = None \<longrightarrow> same_tables (fst st) (fst (snd out)))"
  using assms
proof (induction arbitrary: new rule: queue_run.induct)
  case (all_done st)
  then show ?case by simp
next
  case (finished heap rq m sv sv1 heap1 rqs new1 out)
  let ?sv = "set_qp qp (snd (labstor_queue_pair_Dequeue (sv_qps sv1 ! qp))) sv1"
  have p: "labstor_queue_pair_Peek (sv_qps sv ! qp) 0 = Some rq" using qp_requests_Cons(1) finished.prems(2) by simp
  have l: "qp < length (sv_qps sv1)" using same_tables_length [OF finished.hyps(3)] finished.prems(1) by simp
  have t: "same_tables sv ?sv"
    by (rule same_tables_trans [OF finished.hyps(3)]) (simp add: same_tables_set_qp Dequeue_GetQID)
  have "qp_requests (sv_qps ?sv ! qp) = rqs @ new1" using l qp_requests_Cons(2) [OF finished.hyps(4)] by simp
  then have "worker_drain fuel env get_module process qp creds (length rqs) (?sv, heap1) = Some out"
      "fst out = None \<longrightarrow> same_tables ?sv (fst (snd out))"
    using finished.IH [of new1] l by simp_all
  then show ?case using p finished.hyps(1,2) same_tables_trans [OF t] by simp
next
  case (unfinished heap rq m sv sv1 heap1 rqs)
  have "labstor_queue_pair_Peek (sv_qps sv ! qp) 0 = Some rq" using qp_requests_Cons(1) unfinished.prems(2) by simp
  then show ?case using unfinished.hyps by simp
next
  case (failed heap rq m sv err st1 rqs)
  have "labstor_queue_pair_Peek (sv_qps sv ! qp) 0 = Some rq" using qp_requests_Cons(1) failed.prems(2) by simp
  then show ?case using failed.hyps by simp
qed

lemma worker_scan_run:
  assumes "sv_workers sv ! w = Some worker" "i + n = length (wq_entries (wk_queue worker))" "i + n < 2 ^ 31"
    and "list_all (registered sv) (wq_entries (wk_queue worker))"
    and "queues_run get_module process (sv, heap) (drop i (wq_entries (wk_queue worker))) out"
  shows "worker_scan fuel env get_module process w n (of_nat i) (sv, heap) = Some out"
  using assms
proof (induction n arbitrary: i sv heap)
  case 0
  then show ?case by (auto elim: queues_run_NilE)
next
  case (Suc n)
  let ?es = "wq_entries (wk_queue worker)"
  have i: "i < length ?es" "i < 2 ^ 31" using Suc.prems(2,3) by simp_all
  obtain q creds where e: "?es ! i = (q, creds)" by fastforce
  have d: "drop i ?es = (q, creds) # drop (Suc i) ?es" using i(1) e by (metis Cons_nth_drop_Suc)
  have pk: "labstor_work_queue_secure_Peek (wk_queue worker) (of_nat i) = Some (q, creds)"
    using wq_peek_law [OF i(2), of "wk_queue worker"] i(1) e by (simp only: labstor_work_queue_secure_Peek_def) simp
  have r: "registered sv (q, creds)" using Suc.prems(4) i(1) e by (metis list_all_length)
  let ?rqs = "qp_requests (sv_qps sv ! unat q)"
  note drain = worker_drain_run [where st = "(sv, heap)" and qp = "unat q" and rqs = ?rqs and new = "[]"]
  have st: "worker_scan fuel env get_module process w (Suc n) (of_nat i) (sv, heap) =
      (case worker_drain fuel env get_module process (unat q) creds (length ?rqs) (sv, heap) of
         None \<Rightarrow> None
       | Some (Some err, st) \<Rightarrow> Some (Some err, st)
       | Some (None, st) \<Rightarrow> worker_scan fuel env get_module process w n (of_nat i + 1) st)"
    using Suc.prems(1) pk r by (simp add: registered_def GetDepth_requests)
  consider st1 where "queue_run get_module process (unat q) creds (sv, heap) ?rqs (None, st1)"
      "queues_run get_module process st1 (drop (Suc i) ?es) out"
    | err st1 where "queue_run get_module process (unat q) creds (sv, heap) ?rqs (Some err, st1)" "out = (Some err, st1)"
    using Suc.prems(5) unfolding d by (auto elim: queues_run_ConsE)
  then show ?case
  proof cases
    case 1
    obtain sv1 heap1 where s1: "st1 = (sv1, heap1)" by fastforce
    have dr: "worker_drain fuel env get_module process (unat q) creds (length ?rqs) (sv, heap) = Some (None, (sv1, heap1))"
        "same_tables sv sv1"
      using drain [of get_module process creds "(None, st1)" fuel env] 1(1) r s1 by (simp_all add: registered_def)
    have "worker_scan fuel env get_module process w n (of_nat (Suc i)) (sv1, heap1) = Some out"
      by (rule Suc.IH)
        (use Suc.prems dr(2) 1(2) s1 in \<open>auto simp: same_tables_def list_all_iff intro: same_tables_registered [OF dr(2)]\<close>)
    then show ?thesis using st dr(1) by (simp add: add.commute)
  next
    case 2
    then show ?thesis using st drain [of get_module process creds "(Some err, st1)" fuel env] r by (simp add: registered_def)
  qed
qed

lemma Worker_DoWork_run:
  assumes "sv_workers sv ! w = Some worker" "length (wq_entries (wk_queue worker)) < 2 ^ 31"
    and "list_all (registered sv) (wq_entries (wk_queue worker))"
    and "queues_run get_module process (sv, heap) (wq_entries (wk_queue worker)) out"
  shows "Worker_DoWork fuel env get_module process w (sv, heap) = Some out"
proof -
  have "unat (Worker_GetQueueDepth worker) = length (wq_entries (wk_queue worker))"
    by (simp add: Worker_GetQueueDepth_def labstor_work_queue_GetDepth_def)
  then show ?thesis
    using worker_scan_run [OF assms(1), of 0 _ get_module process heap out fuel env] assms by (simp add: Worker_DoWork_def)
qed

section \<open>A request without a module\<close>

text \<open>
  What the rest of the system does while the worker waits to complete the request \<open>rq\<close> at the head
  of a queue: clients append requests and take completions, but nobody else takes requests off the
  queue, and the identifiers of \<open>rq\<close> and the shape of the map stay.
\<close>

definition head_bucket :: "ptr \<Rightarrow> qp_state \<Rightarrow> u32" where
  "head_bucket rq st = rq_req_id (fst st rq) mod rm_num_buckets (qp_cq (snd st))"

definition head_kept :: "ptr \<Rightarrow> qp_state \<Rightarrow> qp_state \<Rightarrow> bool" where
  "head_kept rq st st' \<longleftrightarrow> (\<exists>new. qp_requests (snd st') = qp_requests (snd st) @ new) \<and>
     rq_ns_id (fst st' rq) = rq_ns_id (fst st rq) \<and> head_bucket rq st' = head_bucket rq st \<and>
     rm_base_region (qp_cq (snd st')) = rm_base_region (qp_cq (snd st))"

definition env_keeps_head :: "ptr \<Rightarrow> (nat \<Rightarrow> qp_state \<Rightarrow> qp_state) \<Rightarrow> bool" where
  "env_keeps_head rq env \<longleftrightarrow> (\<forall>k st. head_kept rq st (env k st))"

text \<open>Nobody takes a completion out of the bucket of \<open>rq\<close>.\<close>

definition env_leaves_completion :: "ptr \<Rightarrow> (nat \<Rightarrow> qp_state \<Rightarrow> qp_state) \<Rightarrow> bool" where
  "env_leaves_completion rq env \<longleftrightarrow> (\<forall>k st. rm_cells (qp_cq (snd st)) (head_bucket rq st) \<noteq> - 1 \<longrightarrow>
     rm_cells (qp_cq (snd (env k st))) (head_bucket rq (env k st)) \<noteq> - 1)"

lemma head_kept_refl [simp]: "head_kept rq st st"
  by (simp add: head_kept_def)

lemma head_kept_trans: "head_kept rq a b \<Longrightarrow> head_kept rq b c \<Longrightarrow> head_kept rq a c"
  by (auto simp: head_kept_def)

lemma head_kept_attempt: "head_kept rq st (snd (complete_attempt rq st))"
proof -
  obtain heap q where st: "st = (heap, q)" by fastforce
  have "qp_requests (q\<lparr>qp_cq := c\<rparr>) = qp_requests q" for c by (rule qp_requests_sq) simp
  then show ?thesis
    by (simp add: st head_kept_def head_bucket_def complete_attempt_def labstor_request_map_Set_def Let_def)
qed

lemma inf_spinwait_last:
  assumes "\<And>k s. R s (snd (body k s))" "\<And>a. R a a" "\<And>a b c. R a b \<Longrightarrow> R b c \<Longrightarrow> R a c"
  shows "inf_spinwait fuel body k s = Some (r, s') \<Longrightarrow> \<exists>j t. R s t \<and> body j t = (Some r, s')"
proof (induction fuel arbitrary: k s)
  case 0
  then show ?case by simp
next
  case (Suc fuel)
  obtain x t where b: "body k s = (x, t)" by fastforce
  have t: "R s t" using assms(1) [of s k] b by simp
  show ?case
  proof (cases x)
    case None
    then have "\<exists>j u. R t u \<and> body j u = (Some r, s')" using Suc b by simp
    then show ?thesis using assms(3) [OF t] by blast
  next
    case (Some y)
    then show ?thesis using Suc.prems b assms(2) by auto
  qed
qed

lemma inf_spinwait_never:
  assumes "\<And>k s. I s \<Longrightarrow> fst (body k s) = None \<and> I (snd (body k s))" "I s"
  shows "inf_spinwait fuel body k s = None"
  using assms(2)
proof (induction fuel arbitrary: k s)
  case (Suc fuel)
  then show ?case using assms(1) [of s k] by (cases "body k s") auto
qed simp

text \<open>A completion that returns has kept the head of the queue and put the request into its bucket.\<close>

lemma Complete_head:
  assumes "env_keeps_head rq env" "labstor_queue_pair_CompleteInf fuel env st rq = Some (u, st')"
    and "rm_offset_ok (rm_base_region (qp_cq (snd st))) rq"
  shows "head_kept rq st st' \<and> rm_cells (qp_cq (snd st')) (head_bucket rq st') \<noteq> - 1"
proof -
  have R: "head_kept rq s (snd (interleave env (complete_attempt rq) k s))" for k s
    using assms(1) head_kept_trans [OF _ head_kept_attempt, of rq s "env k s"]
    by (simp only: interleave_def env_keeps_head_def)
  obtain j t where t: "head_kept rq st t" "interleave env (complete_attempt rq) j t = (Some u, st')"
    using inf_spinwait_last [where R = "head_kept rq", OF R _ _ assms(2) [unfolded labstor_queue_pair_CompleteInf_def]]
      head_kept_refl head_kept_trans by blast
  obtain heap q where e: "env j t = (heap, q)" by fastforce
  have "head_kept rq st (heap, q)"
    using head_kept_trans [OF t(1)] assms(1) e by (metis env_keeps_head_def)
  then have "LABSTOR_REGION_SUB rq (rm_base_region (qp_cq q)) \<noteq> - 1"
    using offset_not_empty [OF assms(3)] by (simp add: head_kept_def)
  moreover have "head_kept rq st st'" using head_kept_trans [OF t(1)] R [of t j] t(2) by simp
  ultimately show ?thesis
    using t(2) e by (auto simp: interleave_def complete_attempt_def labstor_request_map_Set_def head_bucket_def
        Let_def split: if_splits)
qed

lemma Complete_head_blocked:
  assumes "env_leaves_completion rq env" "rm_cells (qp_cq (snd st)) (head_bucket rq st) \<noteq> - 1"
  shows "labstor_queue_pair_CompleteInf fuel env st rq = None"
  unfolding labstor_queue_pair_CompleteInf_def
proof (rule inf_spinwait_never [where I = "\<lambda>st. rm_cells (qp_cq (snd st)) (head_bucket rq st) \<noteq> - 1"])
  fix k st
  assume "rm_cells (qp_cq (snd st)) (head_bucket rq st) \<noteq> - 1"
  then have "rm_cells (qp_cq (snd (env k st))) (head_bucket rq (env k st)) \<noteq> - 1"
    using assms(1) unfolding env_leaves_completion_def by blast
  then show "fst (interleave env (complete_attempt rq) k st) = None \<and>
      rm_cells (qp_cq (snd (snd (interleave env (complete_attempt rq) k st))))
        (head_bucket rq (snd (interleave env (complete_attempt rq) k st))) \<noteq> - 1"
    by (cases "env k st") (simp add: interleave_def complete_attempt_def labstor_request_map_Set_def head_bucket_def Let_def)
qed (rule assms(2))

text \<open>The loop over a queue with such a request at its head; \<open>failing\<close> is the request with the code -1.\<close>

abbreviation failing :: "ptr \<Rightarrow> request_heap \<Rightarrow> request_heap" where
  "failing rq heap \<equiv> heap(rq := labstor_request_SetCode (heap rq) (- 1))"

lemma head_kept_failing: "head_kept rq (heap, q) (failing rq heap, q)"
  by (simp add: head_kept_def head_bucket_def labstor_request_SetCode_def)

lemma worker_drain_head_step:
  assumes "qp_requests (sv_qps sv ! qp) = rq # rqs" "get_module (rq_ns_id (heap rq)) = None"
  shows "worker_drain fuel env get_module process qp creds (Suc n) (sv, heap) =
    (case labstor_queue_pair_CompleteInf fuel env (failing rq heap, sv_qps sv ! qp) rq of
       None \<Rightarrow> None
     | Some (_, heap, q) \<Rightarrow> worker_drain fuel env get_module process qp creds n (set_qp qp q sv, heap))"
  using qp_requests_Cons(1) [OF assms(1)] assms(2) by (simp add: Let_def shmem_queue_pair_Complete_def)

lemma worker_drain_head:
  assumes "env_keeps_head rq env"
  shows "qp < length (sv_qps sv) \<Longrightarrow> qp_requests (sv_qps sv ! qp) = rq # rqs \<Longrightarrow>
    get_module (rq_ns_id (heap rq)) = None \<Longrightarrow> rm_offset_ok (rm_base_region (qp_cq (sv_qps sv ! qp))) rq \<Longrightarrow>
    worker_drain fuel env get_module process qp creds n (sv, heap) = worker_drain fuel env get_module process' qp creds n (sv, heap) \<and>
    (\<forall>r sv' heap'. worker_drain fuel env get_module process qp creds n (sv, heap) = Some (r, sv', heap') \<longrightarrow>
       r = None \<and> (\<exists>new. qp_requests (sv_qps sv' ! qp) = rq # rqs @ new))"
proof (induction n arbitrary: sv heap rqs)
  case 0
  then show ?case by simp
next
  case (Suc n)
  note st = worker_drain_head_step [where get_module = get_module and heap = heap, OF Suc.prems(2,3)]
  show ?case
  proof (cases "labstor_queue_pair_CompleteInf fuel env (failing rq heap, sv_qps sv ! qp) rq")
    case None
    then show ?thesis unfolding st by simp
  next
    case (Some v)
    then obtain u heap1 q1 where c: "labstor_queue_pair_CompleteInf fuel env (failing rq heap, sv_qps sv ! qp) rq = Some (u, heap1, q1)"
      by (cases v) auto
    have k: "head_kept rq (heap, sv_qps sv ! qp) (heap1, q1)"
      using Complete_head [OF assms c] Suc.prems(4) head_kept_trans [OF head_kept_failing] by simp
    then obtain new where new: "qp_requests q1 = rq # rqs @ new" using Suc.prems(2) by (auto simp: head_kept_def)
    have "worker_drain fuel env get_module process qp creds n (set_qp qp q1 sv, heap1) =
        worker_drain fuel env get_module process' qp creds n (set_qp qp q1 sv, heap1) \<and>
      (\<forall>r sv' heap'. worker_drain fuel env get_module process qp creds n (set_qp qp q1 sv, heap1) = Some (r, sv', heap') \<longrightarrow>
         r = None \<and> (\<exists>new'. qp_requests (sv_qps sv' ! qp) = rq # (rqs @ new) @ new'))"
      by (rule Suc.IH) (use Suc.prems k new in \<open>auto simp: head_kept_def\<close>)
    then show ?thesis unfolding st c by auto
  qed
qed

lemma worker_drain_head_blocked:
  assumes "env_keeps_head rq env" "env_leaves_completion rq env"
    and "qp < length (sv_qps sv)" "qp_requests (sv_qps sv ! qp) = rq # rqs"
    and "get_module (rq_ns_id (heap rq)) = None" "rm_offset_ok (rm_base_region (qp_cq (sv_qps sv ! qp))) rq"
  shows "worker_drain fuel env get_module process qp creds (Suc (Suc n)) (sv, heap) = None"
proof (cases "labstor_queue_pair_CompleteInf fuel env (failing rq heap, sv_qps sv ! qp) rq")
  case None
  then show ?thesis by (simp only: worker_drain_head_step [where get_module = get_module and heap = heap, OF assms(4,5)]) simp
next
  case (Some v)
  then obtain u heap1 q1 where c: "labstor_queue_pair_CompleteInf fuel env (failing rq heap, sv_qps sv ! qp) rq = Some (u, heap1, q1)"
    by (cases v) auto
  note h = Complete_head [OF assms(1) c]
  have k: "head_kept rq (heap, sv_qps sv ! qp) (heap1, q1)" "rm_cells (qp_cq q1) (head_bucket rq (heap1, q1)) \<noteq> - 1"
    using h assms(6) head_kept_trans [OF head_kept_failing] by simp_all
  then obtain new where new: "qp_requests q1 = rq # rqs @ new" using assms(4) by (auto simp: head_kept_def)
  have "labstor_queue_pair_CompleteInf fuel env (failing rq heap1, q1) rq = None"
    by (rule Complete_head_blocked [OF assms(2)])
      (use k(2) in \<open>simp add: head_bucket_def labstor_request_SetCode_def\<close>)
  moreover have "get_module (rq_ns_id (heap1 rq)) = None" using k(1) assms(5) by (simp add: head_kept_def)
  ultimately show ?thesis
    using worker_drain_head_step [of "set_qp qp q1 sv" qp rq "rqs @ new" get_module heap1 fuel env process creds n] new assms(3) c
      worker_drain_head_step [where get_module = get_module and heap = heap, OF assms(4,5), of fuel env process creds "Suc n"]
    by (simp del: worker_drain.simps)
qed

section \<open>Properties\<close>


text \<open>A server with one worker, to which one queue pair with two requests is assigned.\<close>

definition busy_qp :: labstor_queue_pair where
  "busy_qp = \<lparr>qp_sq = \<lparr>lrq_base_region = 4096, lrq_header = 8192, lrq_qid = client_qid 77 0, lrq_update = (0, 0),
       lrq_queue = \<lparr>rr_header = 8204, rr_queue = 8216, rr_enqueued = 2, rr_dequeued = 0, rr_max_depth = 4,
         rr_cells = (\<lambda>i. if i = 0 then 64 else 128)\<rparr>\<rparr>,
     qp_cq = \<lparr>rm_header = 8232, rm_buckets = 8236, rm_base_region = 4096, rm_num_buckets = 4, rm_cells = (\<lambda>_. - 1)\<rparr>\<rparr>"

definition busy_server :: server_state where
  "busy_server = sample_server\<lparr>sv_qps := [busy_qp],
     sv_ipcs := [(sv_ipcs sample_server ! 0)\<lparr>pp_pool := \<lparr>qpl_type_ids = [], qpl_qps = [[[0]]]\<rparr>\<rparr>],
     sv_workers := [Some \<lparr>wk_id = 0, wk_queue = (wq_blank (0, 0))\<lparr>wq_enqueued := 1, wq_max_depth := 8\<rparr>\<rparr>]\<rparr>"

lemma busy_server_facts:
  "sv_workers busy_server ! 0 = Some \<lparr>wk_id = 0, wk_queue = (wq_blank (0, 0))\<lparr>wq_enqueued := 1, wq_max_depth := 8\<rparr>\<rparr>"
  "wq_entries ((wq_blank (0, 0))\<lparr>wq_enqueued := 1, wq_max_depth := 8\<rparr> :: (ptr \<times> ptr) labstor_work_queue) = [(0, 0)]"
  "registered busy_server (0, 0)" "sv_qps busy_server = [busy_qp]" "qp_requests busy_qp = [4160, 4224]"
proof -
  show "sv_workers busy_server ! 0 = Some \<lparr>wk_id = 0, wk_queue = (wq_blank (0, 0))\<lparr>wq_enqueued := 1, wq_max_depth := 8\<rparr>\<rparr>"
    by (simp add: busy_server_def)
  show "wq_entries ((wq_blank (0, 0))\<lparr>wq_enqueued := 1, wq_max_depth := 8\<rparr> :: (ptr \<times> ptr) labstor_work_queue) = [(0, 0)]"
    by (simp add: wq_entries_def wq_blank_def)
  show "sv_qps busy_server = [busy_qp]" by (simp add: busy_server_def)
  show "registered busy_server (0, 0)"
    by (simp add: registered_def busy_server_def sample_server_def IPCManager_GetQueuePair_def server_ipc_def
        busy_qp_def labstor_queue_pair_GetQID_def labstor_request_queue_GetQID_def QueuePool_GetQueuePair_def
        QueuePool_GetQueuePair_off_def Let_def)
  show "qp_requests busy_qp = [4160, 4224]"
    by (simp add: qp_requests_def busy_qp_def rr_contents_def rr_depth_def ring_contents_def ring_slot_def
        LABSTOR_REGION_ADD_def upt_rec word_mod_def)
qed


end
