(* ===== verification/Shmem_String.thy ===== *)
theory Shmem_String
  imports Module_Id Shmem_Allocator
begin

text \<open>
  Strings in shared memory, \<^verbatim>\<open>include/labstor/types/data_structures/shmem_string.h\<close>. A
  \<open>labstor_string\<close> is the process-local handle; the length word and the characters behind it are
  in the memory, which is split by type: \<open>sm_length\<close> holds the \<^verbatim>\<open>string_header\<close> at an address,
  \<open>sm_char\<close> the characters. A handle without header has the null pointer there.
\<close>

record string_mem =
  sm_length :: "ptr \<Rightarrow> u32"
  sm_char :: "ptr \<Rightarrow> cchar"

record labstor_string =
  str_header :: ptr
  str_data :: ptr
  str_length :: u32

section \<open>Operations\<close>

definition string_GetRegion :: "labstor_string \<Rightarrow> ptr" where
  "string_GetRegion s = str_header s"

definition string_null :: labstor_string where
  "string_null = \<lparr>str_header = 0, str_data = 0, str_length = 0\<rparr>"

text \<open>\<^verbatim>\<open>memcpy\<close> of a \<^verbatim>\<open>std::string\<close> to an address.\<close>

fun memcpy_chars :: "ptr \<Rightarrow> cstring \<Rightarrow> (ptr \<Rightarrow> cchar) \<Rightarrow> (ptr \<Rightarrow> cchar)" where
  "memcpy_chars p [] m = m"
| "memcpy_chars p (c # cs) m = memcpy_chars (p + 1) cs (m(p := c))"

fun read_chars :: "(ptr \<Rightarrow> cchar) \<Rightarrow> ptr \<Rightarrow> nat \<Rightarrow> cstring" where
  "read_chars m p 0 = []"
| "read_chars m p (Suc n) = m p # read_chars m (p + 1) n"

definition string_Init :: "string_mem \<Rightarrow> ptr \<Rightarrow> cstring \<Rightarrow> labstor_string \<times> string_mem" where
  "string_Init mem region str =
     (let data = region + 4; len = of_nat (length str) :: u32 in
      (\<lparr>str_header = region, str_data = data, str_length = len\<rparr>,
       mem\<lparr>sm_char := (memcpy_chars data str (sm_char mem))(data + ucast len := 0),
           sm_length := (sm_length mem)(region := len)\<rparr>))"

text \<open>
  The constructor that allocates asks for the number of characters only and then does the same
  writes; a failed allocation is dereferenced.
\<close>

definition string_new ::
  "string_mem \<Rightarrow> labstor_shmem_allocator \<Rightarrow> u32 \<Rightarrow> cstring \<Rightarrow>
   (labstor_string \<times> string_mem \<times> labstor_shmem_allocator) result option"
where
  "string_new mem alloc tid str =
     (case labstor_shmem_allocator_Alloc alloc (of_nat (length str)) tid of
        None \<Rightarrow> None
      | Some (None, alloc) \<Rightarrow> Some (Inl NULL_DEREFERENCE)
      | Some (Some region, alloc) \<Rightarrow>
          (case string_Init mem region str of (s, mem) \<Rightarrow> Some (Inr (s, mem, alloc))))"

definition string_of_buffer :: "labstor_string \<Rightarrow> ptr \<Rightarrow> i32 \<Rightarrow> labstor_string" where
  "string_of_buffer raw str len = raw\<lparr>str_data := str, str_length := len\<rparr>"

text \<open>\<open>str\<close> is the memory at the address, with a null character in it.\<close>

definition string_of_cstr :: "labstor_string \<Rightarrow> ptr \<Rightarrow> cstring \<Rightarrow> labstor_string" where
  "string_of_cstr raw addr str = raw\<lparr>str_data := addr, str_length := of_nat (length (c_str str))\<rparr>"

definition string_of_id :: "labstor_string \<Rightarrow> ptr \<Rightarrow> labstor_id \<Rightarrow> labstor_string" where
  "string_of_id raw addr idt = raw\<lparr>str_data := addr, str_length := of_nat (strnlen (id_key idt) MODULE_KEY_SIZE)\<rparr>"

text \<open>
  The constructor from a \<^verbatim>\<open>std::string\<close> copies it to \<open>buf\<close>, which \<^verbatim>\<open>malloc\<close> returned; \<^verbatim>\<open>strncpy\<close> stops
  at a null character and fills up with null characters. The header stays what it was.
\<close>

definition string_of_std :: "string_mem \<Rightarrow> ptr \<Rightarrow> labstor_string \<Rightarrow> cstring \<Rightarrow> labstor_string \<times> string_mem" where
  "string_of_std mem buf raw str =
     (raw\<lparr>str_data := buf, str_length := of_nat (length str)\<rparr>,
      mem\<lparr>sm_char := memcpy_chars buf (c_str str @ replicate (length str - length (c_str str)) 0) (sm_char mem)\<rparr>)"

definition string_copy :: "labstor_string \<Rightarrow> labstor_string" where
  "string_copy old_str =
     \<lparr>str_header = str_header old_str, str_data = str_data old_str, str_length = str_length old_str\<rparr>"

definition string_Attach :: "string_mem \<Rightarrow> ptr \<Rightarrow> labstor_string" where
  "string_Attach mem region =
     \<lparr>str_header = region, str_data = region + 4, str_length = sm_length mem region\<rparr>"

definition string_ToString :: "string_mem \<Rightarrow> labstor_string \<Rightarrow> cstring" where
  "string_ToString mem s = read_chars (sm_char mem) (str_data s) (unat (str_length s))"

definition string_at :: "string_mem \<Rightarrow> labstor_string \<Rightarrow> i32 \<Rightarrow> cchar" where
  "string_at mem s idx = sm_char mem (str_data s + scast idx)"

definition memcmp_eq :: "(ptr \<Rightarrow> cchar) \<Rightarrow> ptr \<Rightarrow> ptr \<Rightarrow> nat \<Rightarrow> bool" where
  "memcmp_eq m p q n \<longleftrightarrow> read_chars m p n = read_chars m q n"

definition string_eq :: "string_mem \<Rightarrow> labstor_string \<Rightarrow> labstor_string \<Rightarrow> bool" where
  "string_eq mem s str =
     (if str_length str \<noteq> str_length s then False
      else memcmp_eq (sm_char mem) (str_data s) (str_data str) (unat (str_length s)))"

definition string_eq_std :: "string_mem \<Rightarrow> labstor_string \<Rightarrow> cstring \<Rightarrow> bool" where
  "string_eq_std mem s str =
     (if length str \<noteq> unat (str_length s) then False
      else read_chars (sm_char mem) (str_data s) (unat (str_length s)) = str)"

definition string_is_null :: "labstor_string \<Rightarrow> bool" where
  "string_is_null s \<longleftrightarrow> str_length s = 0"

definition string_neq :: "string_mem \<Rightarrow> labstor_string \<Rightarrow> labstor_string \<Rightarrow> bool" where
  "string_neq mem s str =
     (if str_length str \<noteq> str_length s then False
      else \<not> memcmp_eq (sm_char mem) (str_data s) (str_data str) (unat (str_length s)))"

definition string_neq_std :: "string_mem \<Rightarrow> labstor_string \<Rightarrow> cstring \<Rightarrow> bool" where
  "string_neq_std mem s str =
     (if length str \<noteq> unat (str_length s) then False
      else read_chars (sm_char mem) (str_data s) (unat (str_length s)) \<noteq> str)"

fun string_hash_sum :: "nat \<Rightarrow> cstring \<Rightarrow> u32 \<Rightarrow> u32" where
  "string_hash_sum i [] h = h"
| "string_hash_sum i (c # cs) h = string_hash_sum (Suc i) cs (h + push_bit (4 * (i mod 4)) (scast c))"

definition string_hash :: "string_mem \<Rightarrow> ptr \<Rightarrow> u32 \<Rightarrow> u32" where
  "string_hash mem key len = string_hash_sum 0 (read_chars (sm_char mem) key (unat len)) 0"

definition string_Hash :: "string_mem \<Rightarrow> labstor_string \<Rightarrow> u32" where
  "string_Hash mem s = string_hash mem (str_data s) (str_length s)"

section \<open>Reading back\<close>

lemma read_chars_nth: "read_chars m p n = map (\<lambda>i. m (p + of_nat i)) [0..<n]"
proof (induction n arbitrary: p)
  case (Suc n)
  have "map (\<lambda>i. m (p + 1 + of_nat i)) [0..<n] = map (\<lambda>i. m (p + of_nat i)) [1..<Suc n]"
    by (simp add: map_Suc_upt [symmetric] algebra_simps del: upt_Suc map_Suc_upt)
  then show ?case using Suc by (simp add: upt_conv_Cons del: upt_Suc)
qed simp

lemma length_read_chars [simp]: "length (read_chars m p n) = n"
  by (simp add: read_chars_nth)

lemma offset_inj: "i < 2 ^ 64 \<Longrightarrow> j < 2 ^ 64 \<Longrightarrow> (p :: ptr) + of_nat i = p + of_nat j \<longleftrightarrow> i = j"
proof -
  assume "i < 2 ^ 64" "j < 2 ^ 64"
  then have "unat (of_nat i :: ptr) = i" "unat (of_nat j :: ptr) = j" by (simp_all add: unat_of_nat)
  then show ?thesis by (metis add_left_cancel)
qed

lemma memcpy_chars_outside:
  "(\<forall>i < length cs. q \<noteq> p + of_nat i) \<Longrightarrow> memcpy_chars p cs m q = m q"
proof (induction cs arbitrary: p m)
  case (Cons c cs)
  have "\<forall>i < length cs. q \<noteq> p + 1 + of_nat i"
    using Cons.prems by (auto simp: algebra_simps dest: spec [of _ "Suc _"])
  then show ?case using Cons.IH [of "p + 1"] Cons.prems [rule_format, of 0] by simp
qed simp

lemma memcpy_chars_nth:
  assumes "length cs < 2 ^ 64" "i < length cs"
  shows "memcpy_chars p cs m (p + of_nat i) = cs ! i"
  using assms
proof (induction cs arbitrary: p m i)
  case (Cons c cs)
  show ?case
  proof (cases i)
    case 0
    have "\<forall>j < length cs. p \<noteq> p + 1 + of_nat j"
      using offset_inj [of 0 "Suc _" p] Cons.prems(1) by (simp add: algebra_simps)
    then show ?thesis using 0 memcpy_chars_outside [of cs p "p + 1"] by simp
  next
    case (Suc k)
    moreover have "p + of_nat (Suc k) = p + 1 + of_nat k" by simp
    moreover have "memcpy_chars (p + 1) cs (m(p := c)) (p + 1 + of_nat k) = cs ! k"
      using Cons.prems Suc by (intro Cons.IH) simp_all
    ultimately show ?thesis by (simp only: memcpy_chars.simps nth_Cons_Suc)
  qed
qed simp

lemma string_Init_contents:
  assumes "length str < 2 ^ 32" "string_Init mem region str = (s, mem')"
  shows "string_ToString mem' s = str" "s = string_Attach mem' region"
    "sm_char mem' (str_data s + ucast (str_length s)) = 0"
proof -
  let ?m = "(memcpy_chars (region + 4) str (sm_char mem))(region + 4 + of_nat (length str) := 0)"
  have u: "unat (of_nat (length str) :: u32) = length str" using assms(1) by (simp add: unat_of_nat)
  then have l: "(ucast (of_nat (length str) :: u32) :: ptr) = of_nat (length str)"
    using assms(1) by (simp add: word_unat_eq_iff unat_of_nat)
  have s: "s = \<lparr>str_header = region, str_data = region + 4, str_length = of_nat (length str)\<rparr>"
    "sm_char mem' = ?m" "sm_length mem' = (sm_length mem)(region := of_nat (length str))"
    using assms(2) by (auto simp: string_Init_def Let_def l)
  have "?m (region + 4 + of_nat i) = str ! i" if "i < length str" for i
    using that assms(1) memcpy_chars_nth [of str i "region + 4"] offset_inj [of i "length str" "region + 4"] by simp
  then show "string_ToString mem' s = str"
    unfolding string_ToString_def s read_chars_nth
    by (intro nth_equalityI) (simp_all only: length_map length_upt nth_map nth_upt u minus_nat.diff_0 plus_nat.add_0
        labstor_string.select_convs)
  show "s = string_Attach mem' region" by (simp add: s string_Attach_def)
  show "sm_char mem' (str_data s + ucast (str_length s)) = 0" by (simp add: s l)
qed

lemma string_of_std_contents:
  assumes "length str < 2 ^ 32" "0 \<notin> set str" "string_of_std mem buf raw str = (s, mem')"
  shows "string_ToString mem' s = str"
proof -
  have u: "unat (of_nat (length str) :: u32) = length str" using assms(1) by (simp add: unat_of_nat)
  have "str_data s = buf" "str_length s = of_nat (length str)" "sm_char mem' = memcpy_chars buf str (sm_char mem)"
    using assms(2,3) by (auto simp: string_of_std_def c_str_id)
  then show ?thesis
    using memcpy_chars_nth [of str _ buf "sm_char mem"] assms(1)
    by (auto simp: string_ToString_def read_chars_nth u intro!: nth_equalityI)
qed

lemma string_eq_contents: "string_eq mem s t \<longleftrightarrow> string_ToString mem s = string_ToString mem t"
proof -
  have "str_length s = str_length t" if "string_ToString mem s = string_ToString mem t"
    using arg_cong [OF that, of length] by (simp add: string_ToString_def word_unat_eq_iff)
  then show ?thesis by (auto simp: string_eq_def memcmp_eq_def string_ToString_def)
qed

lemma string_Hash_contents: "string_Hash mem s = string_hash_sum 0 (string_ToString mem s) 0"
  by (simp add: string_Hash_def string_hash_def string_ToString_def)

section \<open>Properties\<close>

text \<open>
  C34. A string stored in shared memory is read back by every process that attaches to it, with
  a null character behind it; equality and the hash depend on the contents only. The bytes
  written are four more than the characters and the null character, while the allocating
  constructor asks for the characters alone.
\<close>

theorem string_round_trip:
  assumes "length str < 2 ^ 32" "string_Init mem region str = (s, mem')"
  shows "string_ToString mem' (string_Attach mem' region) = str \<and>
    sm_char mem' (region + 4 + of_nat (length str)) = 0 \<and>
    (\<forall>t. string_eq mem' s t = (string_ToString mem' t = str)) \<and>
    (\<forall>t. string_eq mem' s t \<longrightarrow> string_Hash mem' t = string_Hash mem' s) \<and>
    string_eq_std mem' s str"
proof -
  note c = string_Init_contents [OF assms]
  have d: "str_data s = region + 4" "(ucast (str_length s) :: ptr) = of_nat (length str)"
      "unat (str_length s) = length str"
    using assms by (auto simp: string_Init_def Let_def unat_of_nat word_unat_eq_iff)
  then have "string_eq_std mem' s str"
    using c(1) by (simp add: string_eq_std_def string_ToString_def)
  then show ?thesis
    using c d by (auto simp: string_eq_contents string_Hash_contents)
qed

theorem string_round_trip_witness:
  "let r = string_Init \<lparr>sm_length = (\<lambda>_. 0), sm_char = (\<lambda>_. 7)\<rparr> 4096 [102, 115] in
   string_ToString (snd r) (string_Attach (snd r) 4096) = [102, 115]"
  using string_round_trip [of "[102, 115]" "\<lparr>sm_length = (\<lambda>_. 0), sm_char = (\<lambda>_. 7)\<rparr>" 4096, OF _ surjective_pairing]
  by (simp add: Let_def)

text \<open>Strings of different lengths are neither equal nor different: both operators return false.\<close>

lemma string_neq_different_lengths:
  "str_length s \<noteq> str_length t \<Longrightarrow> \<not> string_eq mem s t \<and> \<not> string_neq mem s t"
  by (simp add: string_eq_def string_neq_def)

end
