(* ===== verification/Unordered_Map.thy ===== *)
theory Unordered_Map
  imports Bitmaps Shmem_String
begin

text \<open>
  The hash map in shared memory, \<^verbatim>\<open>include/labstor/types/data_structures/unordered_map/\<close>: an array
  of buckets with linear probing over at most \<^verbatim>\<open>max_collisions_ + 1\<close> buckets, the state of each
  bucket in a two-bit map. The template parameter \<^verbatim>\<open>BUCKET_T\<close> is the record of its methods; the
  three bucket types of the library are its instances.
\<close>

section \<open>The map\<close>

record ('b, 's, 't) bucket_class =
  bk_sizeof :: u32
  bk_GetKey :: "'b \<Rightarrow> ptr \<Rightarrow> 's"
  bk_GetValue :: "'b \<Rightarrow> ptr \<Rightarrow> 't"
  bk_KeyHash :: "'s \<Rightarrow> ptr \<Rightarrow> u32"
  bk_KeyCompare :: "'s \<Rightarrow> 's \<Rightarrow> bool"

record 'b unordered_map =
  um_header :: ptr
  um_base_region :: ptr
  um_num_buckets :: u32
  um_buckets :: ptr
  um_hdr_num_buckets :: u32
  um_max_collisions :: u32
  um_bitmap :: labstor_bit2map_t
  um_cells :: "u32 \<Rightarrow> 'b"

definition unordered_map_GetHeaderSize :: "u32 \<Rightarrow> u32" where
  "unordered_map_GetHeaderSize num_buckets = 8 + labstor_bit2map_GetSize num_buckets"

definition unordered_map_GetSize :: "('b, 's, 't) bucket_class \<Rightarrow> u32 \<Rightarrow> u32" where
  "unordered_map_GetSize bc num_buckets =
     unordered_map_GetHeaderSize num_buckets + bk_sizeof bc * num_buckets"

definition unordered_map_GetRegion :: "'b unordered_map \<Rightarrow> ptr" where
  "unordered_map_GetRegion m = um_header m"

definition unordered_map_GetBaseRegion :: "'b unordered_map \<Rightarrow> ptr" where
  "unordered_map_GetBaseRegion m = um_base_region m"

definition unordered_map_GetNumBuckets :: "'b unordered_map \<Rightarrow> u32" where
  "unordered_map_GetNumBuckets m = um_num_buckets m"

definition unordered_map_Init ::
  "('b, 's, 't) bucket_class \<Rightarrow> 'b unordered_map \<Rightarrow> ptr \<Rightarrow> ptr \<Rightarrow> u32 \<Rightarrow> u32 \<Rightarrow> u32 \<Rightarrow> 'b unordered_map result"
where
  "unordered_map_Init bc m base_region region region_size num_buckets max_collisions =
     (if region_size < unordered_map_GetSize bc num_buckets
      then Inl (INVALID_UNORDERED_MAP_SIZE region_size num_buckets)
      else
        let n = (if num_buckets = 0
                 then ucast (ucast ((region_size - 8) * 16) div (ucast (bk_sizeof bc) * 16 + 4 :: u64))
                 else num_buckets) in
        if n = 0 then Inl (INVALID_UNORDERED_MAP_SIZE region_size n)
        else
          Inr (m\<lparr>um_base_region := base_region, um_header := region, um_hdr_num_buckets := n,
                 um_max_collisions := max_collisions, um_num_buckets := n,
                 um_bitmap := labstor_bit2map_Init (um_bitmap m) n,
                 um_buckets := region + 8 + ucast (labstor_bit2map_GetSize n)\<rparr>))"

definition unordered_map_Attach :: "'b unordered_map \<Rightarrow> ptr \<Rightarrow> ptr \<Rightarrow> 'b unordered_map" where
  "unordered_map_Attach m base_region region =
     m\<lparr>um_base_region := base_region, um_header := region, um_num_buckets := um_hdr_num_buckets m,
       um_buckets := region + 8 + ucast (labstor_bit2map_GetSize (um_hdr_num_buckets m))\<rparr>"

text \<open>The loops count an \<^verbatim>\<open>int\<close> up to \<^verbatim>\<open>max_collisions_ + 1\<close>.\<close>

definition um_iters :: "'b unordered_map \<Rightarrow> nat" where
  "um_iters m = nat (sint (um_max_collisions m + 1))"

fun um_Set_loop :: "nat \<Rightarrow> u32 \<Rightarrow> 'b \<Rightarrow> 'b unordered_map \<Rightarrow> bool \<times> 'b unordered_map" where
  "um_Set_loop 0 b bucket m = (False, m)"
| "um_Set_loop (Suc n) b bucket m =
     (case labstor_bit2map_BeginModify (um_bitmap m) b of
        (True, bitmap) \<Rightarrow>
          (True, m\<lparr>um_cells := (um_cells m)(b := bucket), um_bitmap := labstor_bit2map_CommitModify bitmap b\<rparr>)
      | (False, bitmap) \<Rightarrow>
          um_Set_loop n ((b + 1) mod um_num_buckets m) bucket (m\<lparr>um_bitmap := bitmap\<rparr>))"

definition unordered_map_Set ::
  "('b, 's, 't) bucket_class \<Rightarrow> 'b unordered_map \<Rightarrow> 'b \<Rightarrow> bool \<times> 'b unordered_map"
where
  "unordered_map_Set bc m bucket =
     um_Set_loop (um_iters m)
       (bk_KeyHash bc (bk_GetKey bc bucket (um_base_region m)) (um_base_region m) mod um_num_buckets m)
       bucket m"

fun um_Find_loop ::
  "('b, 's, 't) bucket_class \<Rightarrow> nat \<Rightarrow> u32 \<Rightarrow> 's \<Rightarrow> 'b unordered_map \<Rightarrow> 't option"
where
  "um_Find_loop bc 0 b key m = None"
| "um_Find_loop bc (Suc n) b key m =
     (if labstor_bit2map_IsSet (um_bitmap m) b 1 \<and>
         bk_KeyCompare bc (bk_GetKey bc (um_cells m b) (um_base_region m)) key
      then Some (bk_GetValue bc (um_cells m b) (um_base_region m))
      else um_Find_loop bc n ((b + 1) mod um_num_buckets m) key m)"

definition unordered_map_Find :: "('b, 's, 't) bucket_class \<Rightarrow> 'b unordered_map \<Rightarrow> 's \<Rightarrow> 't option" where
  "unordered_map_Find bc m key =
     um_Find_loop bc (um_iters m) (bk_KeyHash bc key (um_base_region m) mod um_num_buckets m) key m"

text \<open>
  \<^verbatim>\<open>Remove\<close> has two loops: the inner one ends with the entry removed, with a valid entry of
  another key, or with no valid entry among the buckets tried; the outer one counts the second
  of these. \<open>None\<close> is an outer loop that is still running.
\<close>

datatype 'b remove_scan =
    Removed "'b unordered_map"
  | Mismatch u32 "'b unordered_map"
  | Exhausted u32 "'b unordered_map"

fun um_Remove_scan ::
  "('b, 's, 't) bucket_class \<Rightarrow> nat \<Rightarrow> u32 \<Rightarrow> 's \<Rightarrow> 'b unordered_map \<Rightarrow> 'b remove_scan"
where
  "um_Remove_scan bc 0 b key m = Exhausted b m"
| "um_Remove_scan bc (Suc n) b key m =
     (case labstor_bit2map_BeginRemove (um_bitmap m) b of
        (True, bitmap) \<Rightarrow>
          if bk_KeyCompare bc (bk_GetKey bc (um_cells m b) (um_base_region m)) key
          then Removed (m\<lparr>um_bitmap := labstor_bit2map_CommitRemove bitmap b\<rparr>)
          else Mismatch b (m\<lparr>um_bitmap := labstor_bit2map_IgnoreRemove bitmap b\<rparr>)
      | (False, bitmap) \<Rightarrow>
          um_Remove_scan bc n ((b + 1) mod um_num_buckets m) key (m\<lparr>um_bitmap := bitmap\<rparr>))"

fun um_Remove_loop ::
  "('b, 's, 't) bucket_class \<Rightarrow> nat \<Rightarrow> int \<Rightarrow> u32 \<Rightarrow> 's \<Rightarrow> 'b unordered_map \<Rightarrow> (bool \<times> 'b unordered_map) option"
where
  "um_Remove_loop bc 0 num_failed b key m =
     (if num_failed = sint (um_max_collisions m + 1) then Some (False, m) else None)"
| "um_Remove_loop bc (Suc fuel) num_failed b key m =
     (if num_failed = sint (um_max_collisions m + 1) then Some (False, m)
      else
        case um_Remove_scan bc (um_iters m) b key m of
          Removed m \<Rightarrow> Some (True, m)
        | Mismatch b m \<Rightarrow> um_Remove_loop bc fuel (num_failed + 1) b key m
        | Exhausted b m \<Rightarrow> um_Remove_loop bc fuel num_failed b key m)"

definition unordered_map_Remove ::
  "('b, 's, 't) bucket_class \<Rightarrow> nat \<Rightarrow> 'b unordered_map \<Rightarrow> 's \<Rightarrow> (bool \<times> 'b unordered_map) option"
where
  "unordered_map_Remove bc fuel m key =
     um_Remove_loop bc fuel 0 (bk_KeyHash bc key (um_base_region m) mod um_num_buckets m) key m"

definition unordered_map_at :: "('b, 's, 't) bucket_class \<Rightarrow> 'b unordered_map \<Rightarrow> 's \<Rightarrow> 't result" where
  "unordered_map_at bc m key =
     (case unordered_map_Find bc m key of Some v \<Rightarrow> Inr v | None \<Rightarrow> Inl INVALID_UNORDERED_MAP_KEY)"

section \<open>Bucket types\<close>

record int_map_bucket =
  ib_key :: u32
  ib_value :: u32

definition int_map_bucket_class :: "(int_map_bucket, u32, u32) bucket_class" where
  "int_map_bucket_class =
     \<lparr>bk_sizeof = 8, bk_GetKey = (\<lambda>b _. ib_key b), bk_GetValue = (\<lambda>b _. ib_value b),
      bk_KeyHash = (\<lambda>key _. key), bk_KeyCompare = (\<lambda>k1 k2. k1 = k2)\<rparr>"

definition int_map_Set :: "int_map_bucket unordered_map \<Rightarrow> u32 \<Rightarrow> u32 \<Rightarrow> bool \<times> int_map_bucket unordered_map" where
  "int_map_Set m key val = unordered_map_Set int_map_bucket_class m \<lparr>ib_key = key, ib_value = val\<rparr>"

record string_map_bucket =
  sb_off :: labstor_off_t
  sb_value :: u32

definition string_map_bucket_Init :: "labstor_string \<Rightarrow> u32 \<Rightarrow> ptr \<Rightarrow> string_map_bucket" where
  "string_map_bucket_Init key val region =
     \<lparr>sb_off = LABSTOR_REGION_SUB (string_GetRegion key) region, sb_value = val\<rparr>"

definition string_map_bucket_GetKey :: "string_mem \<Rightarrow> string_map_bucket \<Rightarrow> ptr \<Rightarrow> labstor_string" where
  "string_map_bucket_GetKey mem b region =
     (if sb_off b = 0 then string_null else string_Attach mem (LABSTOR_REGION_ADD (sb_off b) region))"

definition string_map_bucket_class :: "string_mem \<Rightarrow> (string_map_bucket, labstor_string, u32) bucket_class" where
  "string_map_bucket_class mem =
     \<lparr>bk_sizeof = 8, bk_GetKey = string_map_bucket_GetKey mem, bk_GetValue = (\<lambda>b _. sb_value b),
      bk_KeyHash = (\<lambda>key _. string_hash mem (str_data key) (str_length key)),
      bk_KeyCompare = string_eq mem\<rparr>"

definition string_map_Set ::
  "string_mem \<Rightarrow> string_map_bucket unordered_map \<Rightarrow> labstor_string \<Rightarrow> u32 \<Rightarrow>
   bool \<times> string_map_bucket unordered_map"
where
  "string_map_Set mem m key val =
     unordered_map_Set (string_map_bucket_class mem) m
       (string_map_bucket_Init key val (unordered_map_GetBaseRegion m))"

record inode_map_bucket =
  nb_parent :: u64
  nb_off :: labstor_off_t
  nb_value :: u32

text \<open>\<^verbatim>\<open>Init\<close> does not set the parent: it stays what the memory of the bucket held.\<close>

definition inode_map_bucket_Init :: "inode_map_bucket \<Rightarrow> u64 \<times> labstor_string \<Rightarrow> u32 \<Rightarrow> ptr \<Rightarrow> inode_map_bucket" where
  "inode_map_bucket_Init raw key val region =
     raw\<lparr>nb_off := LABSTOR_REGION_SUB (string_GetRegion (snd key)) region, nb_value := val\<rparr>"

definition inode_map_bucket_GetKey :: "string_mem \<Rightarrow> inode_map_bucket \<Rightarrow> ptr \<Rightarrow> u64 \<times> labstor_string" where
  "inode_map_bucket_GetKey mem b region =
     (if nb_off b = 0 then (0, string_null)
      else (nb_parent b, string_Attach mem (LABSTOR_REGION_ADD (nb_off b) region)))"

fun inode_hash_rounds :: "nat \<Rightarrow> u64 \<Rightarrow> u64 \<Rightarrow> u64" where
  "inode_hash_rounds 0 parent h = h"
| "inode_hash_rounds (Suc n) parent h =
     (let h = h + h * parent in inode_hash_rounds n parent (h + h * (parent + 1)))"

definition inode_map_KeyHash :: "string_mem \<Rightarrow> u64 \<times> labstor_string \<Rightarrow> ptr \<Rightarrow> u32" where
  "inode_map_KeyHash mem key region =
     ucast (inode_hash_rounds 5 (fst key)
       (ucast (string_hash mem (str_data (snd key)) (str_length (snd key)))))"

definition inode_map_bucket_class :: "string_mem \<Rightarrow> (inode_map_bucket, u64 \<times> labstor_string, u32) bucket_class" where
  "inode_map_bucket_class mem =
     \<lparr>bk_sizeof = 16, bk_GetKey = inode_map_bucket_GetKey mem, bk_GetValue = (\<lambda>b _. nb_value b),
      bk_KeyHash = inode_map_KeyHash mem,
      bk_KeyCompare = (\<lambda>k1 k2. fst k1 = fst k2 \<and> string_eq mem (snd k1) (snd k2))\<rparr>"

definition inode_map_Set ::
  "string_mem \<Rightarrow> inode_map_bucket \<Rightarrow> inode_map_bucket unordered_map \<Rightarrow> u64 \<times> labstor_string \<Rightarrow> u32 \<Rightarrow>
   bool \<times> inode_map_bucket unordered_map"
where
  "inode_map_Set mem raw m key val =
     unordered_map_Set (inode_map_bucket_class mem) m
       (inode_map_bucket_Init raw key val (unordered_map_GetBaseRegion m))"

section \<open>What the loops do to the buckets\<close>

lemma BeginModify_False: "labstor_bit2map_BeginModify bm i = (False, bm') \<Longrightarrow> bm' = bm"
  by (auto simp: labstor_bit2map_BeginModify_def split: prod.splits option.splits)

lemma BeginRemove_False: "labstor_bit2map_BeginRemove bm i = (False, bm') \<Longrightarrow> bm' = bm"
  by (auto simp: labstor_bit2map_BeginRemove_def split: prod.splits option.splits)

lemma IsSet_valid: "labstor_bit2map_IsSet bm i 1 \<longleftrightarrow> b2_entry bm i \<in> {Valid_Entry, Being_Removed}"
  using IsValid_entry [of bm i] by (simp add: labstor_bit2map_IsValid_def)

abbreviation um_entry :: "'b unordered_map \<Rightarrow> u32 \<Rightarrow> entry_state" where
  "um_entry m \<equiv> b2_entry (um_bitmap m)"

text \<open>Everything of a map but its buckets and their states.\<close>

definition um_same_shape :: "'b unordered_map \<Rightarrow> 'b unordered_map \<Rightarrow> bool" where
  "um_same_shape m m' \<longleftrightarrow> um_base_region m' = um_base_region m \<and> um_num_buckets m' = um_num_buckets m \<and>
     um_max_collisions m' = um_max_collisions m"

lemma um_Set_loop_True:
  assumes "um_Set_loop n b bucket m = (True, m')"
  shows "\<exists>b0. um_entry m b0 = Free_Entry \<and> um_cells m' = (um_cells m)(b0 := bucket) \<and>
     um_entry m' = (um_entry m)(b0 := Valid_Entry) \<and> um_same_shape m m'"
  using assms
proof (induction n arbitrary: b)
  case (Suc n)
  obtain ok bm where bm: "labstor_bit2map_BeginModify (um_bitmap m) b = (ok, bm)" by fastforce
  show ?case
  proof (cases ok)
    case True
    then show ?thesis
      using Suc.prems bm BeginModify_entry [OF bm] CommitModify_entry [of bm b]
      by (auto simp: um_same_shape_def intro!: exI [of _ b])
  next
    case False
    then show ?thesis using Suc.prems bm BeginModify_False [of "um_bitmap m" b bm] Suc.IH by simp
  qed
qed simp

lemma um_Set_loop_False: "um_Set_loop n b bucket m = (False, m') \<Longrightarrow> m' = m"
  by (induction n arbitrary: b) (auto dest: BeginModify_False split: prod.splits bool.splits)

lemma um_Remove_scan_result:
  "case um_Remove_scan bc n b key m of
     Removed m' \<Rightarrow> (\<exists>b0. um_entry m b0 = Valid_Entry \<and> um_entry m' = (um_entry m)(b0 := Free_Entry) \<and>
       bk_KeyCompare bc (bk_GetKey bc (um_cells m b0) (um_base_region m)) key) \<and>
       um_cells m' = um_cells m \<and> um_same_shape m m'
   | Mismatch b' m' \<Rightarrow> um_entry m' = um_entry m \<and> um_cells m' = um_cells m \<and> um_same_shape m m'
   | Exhausted b' m' \<Rightarrow> m' = m"
proof (induction n arbitrary: b)
  case (Suc n)
  obtain ok bm where bm: "labstor_bit2map_BeginRemove (um_bitmap m) b = (ok, bm)" by fastforce
  show ?case
  proof (cases ok)
    case True
    then show ?thesis
      using bm BeginRemove_entry [OF bm] CommitRemove_entry [of bm b] IgnoreRemove_entry [of bm b]
      by (auto simp: um_same_shape_def intro!: exI [of _ b])
  next
    case False
    then show ?thesis using bm BeginRemove_False [of "um_bitmap m" b bm] Suc.IH by simp
  qed
qed simp

lemma um_same_shape_trans: "um_same_shape m m1 \<Longrightarrow> um_same_shape m1 m2 \<Longrightarrow> um_same_shape m m2"
  by (simp add: um_same_shape_def)

lemma um_Remove_loop_result:
  "um_Remove_loop bc fuel k b key m = Some (ok, m') \<Longrightarrow>
     (if ok then \<exists>b0. um_entry m b0 = Valid_Entry \<and> um_entry m' = (um_entry m)(b0 := Free_Entry) \<and>
        bk_KeyCompare bc (bk_GetKey bc (um_cells m b0) (um_base_region m)) key
      else um_entry m' = um_entry m) \<and> um_cells m' = um_cells m \<and> um_same_shape m m'"
proof (induction fuel arbitrary: k b m)
  case 0
  then show ?case by (auto simp: um_same_shape_def split: if_splits)
next
  case (Suc fuel)
  note scan = um_Remove_scan_result [where bc = bc and n = "um_iters m" and b = b and key = key and m = m]
  show ?case
  proof (cases "um_Remove_scan bc (um_iters m) b key m")
    case (Removed m1)
    then show ?thesis
      using Suc.prems scan
      by (auto simp: um_same_shape_def split: if_splits)
  next
    case (Mismatch b1 m1)
    have m1: "um_entry m1 = um_entry m" "um_cells m1 = um_cells m" "um_same_shape m m1"
      using scan Mismatch by simp_all
    show ?thesis
    proof (cases "k = sint (um_max_collisions m + 1)")
      case True
      then show ?thesis using Suc.prems by (simp add: um_same_shape_def)
    next
      case False
      then have "um_Remove_loop bc fuel (k + 1) b1 key m1 = Some (ok, m')"
        using Suc.prems Mismatch by simp
      from Suc.IH [OF this] m1 show ?thesis
        using um_same_shape_trans by (auto simp: um_same_shape_def)
    qed
  next
    case (Exhausted b1 m1)
    then have "m1 = m" using scan by simp
    then show ?thesis
    proof (cases "k = sint (um_max_collisions m + 1)")
      case True
      then show ?thesis using Suc.prems by (simp add: um_same_shape_def)
    next
      case False
      then have "um_Remove_loop bc fuel k b1 key m = Some (ok, m')"
        using Suc.prems Exhausted \<open>m1 = m\<close> by simp
      then show ?thesis by (rule Suc.IH)
    qed
  qed
qed

section \<open>The interface of a bucket type\<close>

text \<open>
  What the map relies on: \<open>kc\<close> is what a key means, and comparison and hash depend on it alone.
  The map itself is then a partial map from meanings to values, read with \<^verbatim>\<open>Find\<close>.
\<close>

locale hash_bucket =
  fixes bc :: "('b, 's, 't) bucket_class" and kc :: "'s \<Rightarrow> 'k"
  assumes compare_law: "bk_KeyCompare bc a b \<longleftrightarrow> kc a = kc b"
    and hash_law: "kc a = kc b \<Longrightarrow> bk_KeyHash bc a r = bk_KeyHash bc b r"
begin

lemma Find_loop_cong:
  assumes "kc key = kc key'" "um_base_region m = um_base_region m'" "um_num_buckets m = um_num_buckets m'"
    and "\<forall>b. (um_entry m' b \<in> {Valid_Entry, Being_Removed} \<and>
              kc (bk_GetKey bc (um_cells m' b) (um_base_region m')) = kc key \<longleftrightarrow>
            um_entry m b \<in> {Valid_Entry, Being_Removed} \<and>
              kc (bk_GetKey bc (um_cells m b) (um_base_region m)) = kc key) \<and>
          (um_entry m b \<in> {Valid_Entry, Being_Removed} \<and>
              kc (bk_GetKey bc (um_cells m b) (um_base_region m)) = kc key \<longrightarrow> um_cells m' b = um_cells m b)"
  shows "um_Find_loop bc n b key' m' = um_Find_loop bc n b key m"
  using assms by (induction n arbitrary: b) (auto simp: IsSet_valid compare_law)

lemma Find_cong_key: "kc key = kc key' \<Longrightarrow> unordered_map_Find bc m key' = unordered_map_Find bc m key"
  using Find_loop_cong [of key key' m m] hash_law [of key' key]
  by (simp add: unordered_map_Find_def)

lemma Set_loop_Find_same:
  assumes "um_Set_loop n b bucket m = (True, m')" "um_Find_loop bc n b key m = None"
    and "kc (bk_GetKey bc bucket (um_base_region m)) = kc key"
  shows "um_Find_loop bc n b key m' = Some (bk_GetValue bc bucket (um_base_region m))"
  using assms(1,2)
proof (induction n arbitrary: b)
  case (Suc n)
  obtain ok bm where bm: "labstor_bit2map_BeginModify (um_bitmap m) b = (ok, bm)" by fastforce
  show ?case
  proof (cases ok)
    case True
    then show ?thesis
      using Suc.prems(1) bm CommitModify_entry [of bm b] assms(3) by (auto simp: IsSet_valid compare_law)
  next
    case False
    then have s: "um_Set_loop n ((b + 1) mod um_num_buckets m) bucket m = (True, m')"
      using Suc.prems(1) bm BeginModify_False [of "um_bitmap m" b bm] by simp
    obtain b0 where b0: "um_entry m b0 = Free_Entry" "um_cells m' = (um_cells m)(b0 := bucket)"
        "um_entry m' = (um_entry m)(b0 := Valid_Entry)" "um_same_shape m m'"
      using um_Set_loop_True [OF s] by blast
    have "b0 \<noteq> b" using b0(1) BeginModify_entry(1) [OF bm] False by auto
    then show ?thesis
      using Suc.IH [OF s] Suc.prems(2) b0 by (auto simp: IsSet_valid um_same_shape_def split: if_splits)
  qed
qed simp

lemma Set_Find:
  assumes "unordered_map_Set bc m bucket = (True, m')"
    and "unordered_map_Find bc m (bk_GetKey bc bucket (um_base_region m)) = None"
  shows "unordered_map_Find bc m' key =
    (if kc key = kc (bk_GetKey bc bucket (um_base_region m))
     then Some (bk_GetValue bc bucket (um_base_region m)) else unordered_map_Find bc m key)"
    "um_same_shape m m'"
proof -
  obtain b0 where b0: "um_entry m b0 = Free_Entry" "um_cells m' = (um_cells m)(b0 := bucket)"
      "um_entry m' = (um_entry m)(b0 := Valid_Entry)" "um_same_shape m m'"
    using um_Set_loop_True [OF assms(1) [unfolded unordered_map_Set_def]] by blast
  then have it: "um_iters m' = um_iters m" by (simp add: um_iters_def um_same_shape_def)
  show "um_same_shape m m'" by (rule b0(4))
  show "unordered_map_Find bc m' key =
    (if kc key = kc (bk_GetKey bc bucket (um_base_region m))
     then Some (bk_GetValue bc bucket (um_base_region m)) else unordered_map_Find bc m key)"
  proof (cases "kc key = kc (bk_GetKey bc bucket (um_base_region m))")
    case True
    then have "unordered_map_Find bc m' key = unordered_map_Find bc m' (bk_GetKey bc bucket (um_base_region m))"
      using Find_cong_key by metis
    also have "\<dots> = Some (bk_GetValue bc bucket (um_base_region m))"
      using Set_loop_Find_same [OF assms(1) [unfolded unordered_map_Set_def]
          assms(2) [unfolded unordered_map_Find_def] refl] b0(4) it
      by (simp add: um_same_shape_def unordered_map_Find_def)
    finally show ?thesis using True by simp
  next
    case False
    have "um_Find_loop bc n b key m' = um_Find_loop bc n b key m" for n b
      using b0 False by (intro Find_loop_cong) (auto simp: um_same_shape_def)
    then show ?thesis using False b0(4) it by (simp add: unordered_map_Find_def um_same_shape_def)
  qed
qed

lemma Set_fails: "unordered_map_Set bc m bucket = (False, m') \<Longrightarrow> m' = m"
  using um_Set_loop_False by (auto simp: unordered_map_Set_def)

lemma Remove_other:
  assumes "unordered_map_Remove bc fuel m key = Some (ok, m')" "kc key' \<noteq> kc key"
  shows "unordered_map_Find bc m' key' = unordered_map_Find bc m key'"
proof -
  note r = um_Remove_loop_result [OF assms(1) [unfolded unordered_map_Remove_def]]
  have "um_Find_loop bc n b key' m' = um_Find_loop bc n b key' m" for n b
    using r assms(2) by (intro Find_loop_cong) (auto simp: um_same_shape_def compare_law split: if_splits)
  moreover have "um_iters m' = um_iters m" using r by (simp add: um_iters_def um_same_shape_def)
  ultimately show ?thesis using r by (simp add: unordered_map_Find_def um_same_shape_def)
qed

lemma Find_empty:
  assumes "\<forall>b < um_num_buckets m. um_entry m b = Free_Entry" "um_num_buckets m \<noteq> 0"
  shows "unordered_map_Find bc m key = None"
proof -
  have "um_Find_loop bc n b key m = None" if "b < um_num_buckets m" for n b
    using that
  proof (induction n arbitrary: b)
    case (Suc n)
    have "(b + 1) mod um_num_buckets m < um_num_buckets m"
      using assms(2) by (simp add: word_less_nat_alt unat_mod unat_gt_0)
    then show ?case using Suc assms(1) by (auto simp: IsSet_valid)
  qed simp
  moreover have "h mod um_num_buckets m < um_num_buckets m" for h
    using assms(2) by (simp add: word_less_nat_alt unat_mod unat_gt_0)
  ultimately show ?thesis by (simp add: unordered_map_Find_def)
qed

end

interpretation int_bucket: hash_bucket int_map_bucket_class "\<lambda>k. k"
  by unfold_locales (simp_all add: int_map_bucket_class_def)

interpretation string_bucket: hash_bucket "string_map_bucket_class mem" "string_ToString mem" for mem
proof
  fix a b r
  show "bk_KeyCompare (string_map_bucket_class mem) a b \<longleftrightarrow> string_ToString mem a = string_ToString mem b"
    by (simp add: string_map_bucket_class_def string_eq_contents)
  show "bk_KeyHash (string_map_bucket_class mem) a r = bk_KeyHash (string_map_bucket_class mem) b r"
    if "string_ToString mem a = string_ToString mem b"
    using that by (simp add: string_map_bucket_class_def string_hash_def string_ToString_def)
qed

interpretation inode_bucket: hash_bucket "inode_map_bucket_class mem" "map_prod id (string_ToString mem)" for mem
proof
  fix a b :: "u64 \<times> labstor_string" and r
  show "bk_KeyCompare (inode_map_bucket_class mem) a b \<longleftrightarrow>
      map_prod id (string_ToString mem) a = map_prod id (string_ToString mem) b"
    by (cases a; cases b) (simp add: inode_map_bucket_class_def string_eq_contents)
  show "bk_KeyHash (inode_map_bucket_class mem) a r = bk_KeyHash (inode_map_bucket_class mem) b r"
    if "map_prod id (string_ToString mem) a = map_prod id (string_ToString mem) b"
    using that by (cases a; cases b)
      (simp add: inode_map_bucket_class_def inode_map_KeyHash_def string_hash_def string_ToString_def)
qed

lemma unordered_map_Init_empty:
  assumes "unordered_map_Init bc m0 base region region_size n c = Inr m" "unat (um_num_buckets m) < 2 ^ 31"
  shows "\<forall>b < um_num_buckets m. um_entry m b = Free_Entry" "um_num_buckets m \<noteq> 0" "um_base_region m = base"
    "um_max_collisions m = c"
  using assms bit2map_Init_free [of "um_num_buckets m"]
  by (auto simp: unordered_map_Init_def Let_def split: if_splits)

section \<open>Properties\<close>

text \<open>A sequence of insertions of names into a string map; every name is a string in the shared memory.\<close>

fun string_map_Set_all ::
  "string_mem \<Rightarrow> (labstor_string \<times> u32) list \<Rightarrow> string_map_bucket unordered_map \<Rightarrow>
   bool list \<times> string_map_bucket unordered_map"
where
  "string_map_Set_all mem [] m = ([], m)"
| "string_map_Set_all mem ((k, v) # kvs) m =
     (case string_map_Set mem m k v of (ok, m1) \<Rightarrow>
        case string_map_Set_all mem kvs m1 of (oks, m2) \<Rightarrow> (ok # oks, m2))"

definition shared_name :: "string_mem \<Rightarrow> ptr \<Rightarrow> labstor_string \<Rightarrow> bool" where
  "shared_name mem base k \<longleftrightarrow> k = string_Attach mem (str_header k) \<and> str_header k \<noteq> base \<and>
     unat (str_header k - base) < 2 ^ 31"

lemma string_bucket_key:
  assumes "shared_name mem base k"
  shows "bk_GetKey (string_map_bucket_class mem) (string_map_bucket_Init k v base) base = k"
proof -
  have a: "LABSTOR_REGION_ADD (LABSTOR_REGION_SUB (str_header k) base) base = str_header k"
    using assms region_sub_add by (simp add: shared_name_def)
  then have "LABSTOR_REGION_SUB (str_header k) base \<noteq> 0"
    using assms by (auto simp: shared_name_def LABSTOR_REGION_ADD_def)
  then show ?thesis
    using assms a by (simp add: string_map_bucket_class_def string_map_bucket_GetKey_def
        string_map_bucket_Init_def string_GetRegion_def shared_name_def)
qed

lemma string_map_Set_Find:
  assumes "string_map_Set mem m k v = (True, m')" "shared_name mem (um_base_region m) k"
    and "unordered_map_Find (string_map_bucket_class mem) m k = None"
  shows "unordered_map_Find (string_map_bucket_class mem) m' key =
      (if string_ToString mem key = string_ToString mem k then Some v
       else unordered_map_Find (string_map_bucket_class mem) m key)" "um_same_shape m m'"
  using string_bucket.Set_Find [OF assms(1) [unfolded string_map_Set_def unordered_map_GetBaseRegion_def]]
    string_bucket_key [OF assms(2)] assms(3)
  by (simp_all add: string_map_bucket_class_def string_map_bucket_Init_def)

lemma string_map_Set_all_Find:
  assumes "string_map_Set_all mem kvs m = (oks, m')" "False \<notin> set oks"
    and "\<forall>kv \<in> set kvs. shared_name mem (um_base_region m) (fst kv) \<and>
           unordered_map_Find (string_map_bucket_class mem) m (fst kv) = None"
    and "distinct (map (string_ToString mem \<circ> fst) kvs)"
  shows "unordered_map_Find (string_map_bucket_class mem) m' key =
    (case map_of (map (\<lambda>kv. (string_ToString mem (fst kv), snd kv)) kvs) (string_ToString mem key) of
       Some v \<Rightarrow> Some v | None \<Rightarrow> unordered_map_Find (string_map_bucket_class mem) m key)"
  using assms
proof (induction kvs arbitrary: m oks)
  case Nil
  then show ?case by simp
next
  case (Cons kv kvs)
  obtain k v where kv: "kv = (k, v)" by fastforce
  obtain ok m1 where m1: "string_map_Set mem m k v = (ok, m1)" by fastforce
  obtain oks' where r: "string_map_Set_all mem kvs m1 = (oks', m')" "oks = ok # oks'"
    using Cons.prems(1) m1 kv by (auto split: prod.splits)
  have ok: "ok" "False \<notin> set oks'" using Cons.prems(2) r(2) by (cases ok; simp)+
  note S = string_map_Set_Find [OF m1 [unfolded ok(1) eqTrueI [OF ok(1)]]]
  have k: "shared_name mem (um_base_region m) k" "unordered_map_Find (string_map_bucket_class mem) m k = None"
    using Cons.prems(3) kv by simp_all
  note F = S(1) [OF k] and b = S(2) [OF k]
  have "\<forall>kv \<in> set kvs. shared_name mem (um_base_region m1) (fst kv) \<and>
      unordered_map_Find (string_map_bucket_class mem) m1 (fst kv) = None"
    using Cons.prems(3,4) F b kv by (auto simp: um_same_shape_def rev_image_eqI)
  note I = Cons.IH [OF r(1) ok(2) this]
  have n: "map_of (map (\<lambda>kv. (string_ToString mem (fst kv), snd kv)) kvs) (string_ToString mem k) = None"
    using Cons.prems(4) kv by (auto simp: map_of_eq_None_iff rev_image_eqI)
  show ?case
    using I F n Cons.prems(4) by (cases "string_ToString mem key = string_ToString mem k")
      (simp_all add: kv split: option.splits)
qed

lemma string_map_Set_free:
  assumes "shared_name mem (um_base_region m) k" "0 < um_iters m"
    and "um_entry m (string_Hash mem k mod um_num_buckets m) = Free_Entry"
  shows "\<exists>m'. string_map_Set mem m k v = (True, m') \<and> um_same_shape m m' \<and>
    um_entry m' = (um_entry m)(string_Hash mem k mod um_num_buckets m := Valid_Entry)"
proof -
  let ?b = "string_Hash mem k mod um_num_buckets m"
  obtain j where j: "um_iters m = Suc j" using assms(2) by (cases "um_iters m") auto
  obtain bm where bm: "labstor_bit2map_BeginModify (um_bitmap m) ?b = (True, bm)"
    using BeginModify_entry(1) [of "um_bitmap m" ?b] assms(3) by (metis prod.collapse)
  have "bk_KeyHash (string_map_bucket_class mem) k r = string_Hash mem k" for r
    by (simp add: string_map_bucket_class_def string_Hash_def)
  then show ?thesis
    using bm BeginModify_entry(2) [OF bm] CommitModify_entry [of bm ?b] string_bucket_key [OF assms(1)] j
    by (simp add: string_map_Set_def unordered_map_Set_def unordered_map_GetBaseRegion_def um_same_shape_def)
qed

text \<open>
  C33. A map from names to numbers in shared memory behaves like one: after \<^verbatim>\<open>Init\<close> and any
  sequence of \<^verbatim>\<open>Set\<close> calls with different names that all succeed, \<^verbatim>\<open>Find\<close> returns for every name
  the value it was set to, and nothing for any other name; names are compared by their contents,
  wherever they are stored.
\<close>

theorem string_map_insert_lookup:
  assumes "unordered_map_Init (string_map_bucket_class mem) m0 base region region_size n c = Inr m"
    and "unat (um_num_buckets m) < 2 ^ 31"
    and "string_map_Set_all mem kvs m = (oks, m')" "False \<notin> set oks"
    and "\<forall>kv \<in> set kvs. shared_name mem base (fst kv)" "distinct (map (string_ToString mem \<circ> fst) kvs)"
  shows "unordered_map_Find (string_map_bucket_class mem) m' key =
    map_of (map (\<lambda>kv. (string_ToString mem (fst kv), snd kv)) kvs) (string_ToString mem key)"
proof -
  note I = unordered_map_Init_empty [OF assms(1,2)]
  have e: "unordered_map_Find (string_map_bucket_class mem) m k = None" for k
    by (rule string_bucket.Find_empty [OF I(1,2)])
  have "\<forall>kv \<in> set kvs. shared_name mem (um_base_region m) (fst kv) \<and>
      unordered_map_Find (string_map_bucket_class mem) m (fst kv) = None"
    using assms(5) e I(3) by simp
  from string_map_Set_all_Find [OF assms(3,4) this assms(6)] e show ?thesis
    by (simp split: option.splits)
qed

definition um_blank :: "'b \<Rightarrow> 'b unordered_map" where
  "um_blank x = \<lparr>um_header = 0, um_base_region = 0, um_num_buckets = 0, um_buckets = 0,
     um_hdr_num_buckets = 0, um_max_collisions = 0, um_bitmap = (\<lambda>_. 0), um_cells = (\<lambda>_. x)\<rparr>"

text \<open>Two names, \<^verbatim>\<open>"a"\<close> at 4196 and \<^verbatim>\<open>"b"\<close> at 4296.\<close>

definition two_names :: string_mem where
  "two_names = \<lparr>sm_length = (\<lambda>_. 1), sm_char = (\<lambda>p. if p = 4200 then 97 else 98)\<rparr>"

theorem string_map_insert_lookup_witness:
  "\<exists>m m'. unordered_map_Init (string_map_bucket_class two_names) (um_blank \<lparr>sb_off = 0, sb_value = 0\<rparr>)
       4096 8192 1000 4 1 = Inr m \<and>
     string_map_Set_all two_names [(string_Attach two_names 4196, 7), (string_Attach two_names 4296, 9)] m =
       ([True, True], m') \<and>
     unordered_map_Find (string_map_bucket_class two_names) m' (string_Attach two_names 4296) = Some 9"
proof -
  let ?a = "string_Attach two_names 4196" and ?b = "string_Attach two_names 4296"
  let ?kvs = "[(?a, 7), (?b, 9)] :: (labstor_string \<times> u32) list"
  obtain m where m: "unordered_map_Init (string_map_bucket_class two_names) (um_blank \<lparr>sb_off = 0, sb_value = 0\<rparr>)
       4096 8192 1000 4 1 = Inr m" and n: "um_num_buckets m = 4" "um_max_collisions m = 1"
    by (simp add: unordered_map_Init_def unordered_map_GetSize_def unordered_map_GetHeaderSize_def
        labstor_bit2map_GetSize_def string_map_bucket_class_def)
  have l: "unat (um_num_buckets m) < 2 ^ 31" by (simp add: n)
  note I = unordered_map_Init_empty [OF m l]
  have h: "string_Hash two_names ?a mod 4 = 1" "string_Hash two_names ?b mod 4 = 2"
    "string_ToString two_names ?a = [97]" "string_ToString two_names ?b = [98]" by code_simp+
  have s: "shared_name two_names 4096 ?a" "shared_name two_names 4096 ?b"
    by (simp_all add: shared_name_def string_Attach_def)
  obtain m1 where m1: "string_map_Set two_names m ?a 7 = (True, m1)" "um_same_shape m m1"
      "um_entry m1 = (um_entry m)(1 := Valid_Entry)"
    using string_map_Set_free [of two_names m ?a 7] I s n h by (auto simp: um_iters_def)
  obtain m' where m': "string_map_Set two_names m1 ?b 9 = (True, m')"
    using string_map_Set_free [of two_names m1 ?b 9] I s n h m1 by (auto simp: um_iters_def um_same_shape_def)
  have all: "string_map_Set_all two_names ?kvs m = ([True, True], m')" using m1(1) m' by simp
  from string_map_insert_lookup [OF m l all] s h m all show ?thesis by auto
qed

text \<open>The entries that \<^verbatim>\<open>Remove\<close> tries without finding a valid one leave the map as it is.\<close>

lemma um_Remove_scan_empty:
  "um_num_buckets m \<noteq> 0 \<Longrightarrow> \<forall>b < um_num_buckets m. um_entry m b = Free_Entry \<Longrightarrow> b < um_num_buckets m \<Longrightarrow>
     \<exists>b' < um_num_buckets m. um_Remove_scan bc n b key m = Exhausted b' m"
proof (induction n arbitrary: b)
  case (Suc n)
  obtain ok bm where bm: "labstor_bit2map_BeginRemove (um_bitmap m) b = (ok, bm)" by fastforce
  then have "\<not> ok" using Suc.prems BeginRemove_entry(1) by fastforce
  then have "um_Remove_scan bc (Suc n) b key m = um_Remove_scan bc n ((b + 1) mod um_num_buckets m) key m"
    using bm BeginRemove_False [of "um_bitmap m" b bm] by simp
  moreover have "(b + 1) mod um_num_buckets m < um_num_buckets m"
    using Suc.prems(1) by (simp add: word_less_nat_alt unat_mod unat_gt_0)
  ultimately show ?case using Suc.IH Suc.prems by simp
qed simp

text \<open>
  C36. \<^verbatim>\<open>Remove\<close> on a map without valid entries never returns: the outer loop counts only entries
  with another key, and there is none.
\<close>

theorem unordered_map_Remove_empty_never_returns:
  assumes "um_num_buckets m \<noteq> 0" "\<forall>b < um_num_buckets m. um_entry m b = Free_Entry" "0 < sint (um_max_collisions m + 1)"
  shows "unordered_map_Remove bc fuel m key = None"
proof -
  have "um_Remove_loop bc fuel 0 b key m = None" if "b < um_num_buckets m" for b
    using that
  proof (induction fuel arbitrary: b)
    case 0
    then show ?case using assms(3) by simp
  next
    case (Suc fuel)
    obtain b' where b': "b' < um_num_buckets m" "um_Remove_scan bc (um_iters m) b key m = Exhausted b' m"
      using um_Remove_scan_empty [OF assms(1,2) Suc.prems, where bc = bc and n = "um_iters m" and key = key] by auto
    have "um_Remove_loop bc (Suc fuel) 0 b key m = um_Remove_loop bc fuel 0 b' key m"
      using b'(2) assms(3) by simp
    then show ?case using Suc.IH [OF b'(1)] by simp
  qed
  then show ?thesis
    using assms(1) by (simp add: unordered_map_Remove_def word_less_nat_alt unat_mod unat_gt_0)
qed

theorem unordered_map_Remove_empty_never_returns_witness:
  "\<exists>m. unordered_map_Init int_map_bucket_class (um_blank \<lparr>ib_key = 0, ib_value = 0\<rparr>) 4096 8192 1000 4 1 = Inr m \<and>
     unordered_map_Remove int_map_bucket_class 1000 m 3 = None"
proof -
  obtain m where m: "unordered_map_Init int_map_bucket_class (um_blank \<lparr>ib_key = 0, ib_value = 0\<rparr>)
       4096 8192 1000 4 1 = Inr m" "um_num_buckets m = 4" "um_max_collisions m = 1"
    by (simp add: unordered_map_Init_def unordered_map_GetSize_def unordered_map_GetHeaderSize_def
        labstor_bit2map_GetSize_def int_map_bucket_class_def)
  then have "unat (um_num_buckets m) < 2 ^ 31" by simp
  note I = unordered_map_Init_empty [OF m(1) this]
  from unordered_map_Remove_empty_never_returns [OF I(2,1), of int_map_bucket_class 1000 3] m show ?thesis by auto
qed

lemma Find_same_buckets:
  assumes "um_entry m' = um_entry m" "um_cells m' = um_cells m" "um_same_shape m m'"
  shows "unordered_map_Find bc m' key = unordered_map_Find bc m key"
proof -
  have "um_Find_loop bc n b key m' = um_Find_loop bc n b key m" for n b
    using assms by (induction n arbitrary: b) (auto simp: IsSet_valid um_same_shape_def)
  then show ?thesis using assms(3) by (simp add: unordered_map_Find_def um_iters_def um_same_shape_def)
qed

text \<open>
  \<^verbatim>\<open>Remove\<close> misses a key that was displaced by a collision: when the first bucket of a key is
  valid and holds another key, it tries that same bucket again until it gives up, so it reports
  failure and the key is found as before.
\<close>

theorem unordered_map_Remove_misses_displaced_key:
  assumes "um_entry m (bk_KeyHash bc key (um_base_region m) mod um_num_buckets m) = Valid_Entry"
    and "\<not> bk_KeyCompare bc (bk_GetKey bc (um_cells m (bk_KeyHash bc key (um_base_region m) mod um_num_buckets m))
               (um_base_region m)) key"
    and "0 < sint (um_max_collisions m + 1)"
  shows "\<exists>m'. unordered_map_Remove bc (um_iters m) m key = Some (False, m') \<and>
     (\<forall>k. unordered_map_Find bc m' k = unordered_map_Find bc m k)"
proof -
  let ?b = "bk_KeyHash bc key (um_base_region m) mod um_num_buckets m"
  have "\<exists>m'. um_Remove_loop bc n (sint (um_max_collisions m1 + 1) - int n) ?b key m1 = Some (False, m')"
    if "um_entry m1 = um_entry m" "um_cells m1 = um_cells m" "um_same_shape m m1" for n m1
    using that
  proof (induction n arbitrary: m1)
    case (Suc n)
    obtain ok bm where bm: "labstor_bit2map_BeginRemove (um_bitmap m1) ?b = (ok, bm)" by fastforce
    have ok: ok using BeginRemove_entry(1) [OF bm] Suc.prems(1) assms(1) by simp
    have e: "b2_entry (labstor_bit2map_IgnoreRemove bm ?b) = um_entry m"
      using BeginRemove_entry(2) [OF bm] ok Suc.prems(1) assms(1) by (auto simp: IgnoreRemove_entry)
    obtain j where j: "um_iters m1 = Suc j"
      using assms(3) Suc.prems(3) by (metis gr0_implies_Suc um_iters_def um_same_shape_def zero_less_nat_eq)
    let ?m = "m1\<lparr>um_bitmap := labstor_bit2map_IgnoreRemove bm ?b\<rparr>"
    have "um_Remove_scan bc (um_iters m1) ?b key m1 = Mismatch ?b ?m"
      using bm ok assms(2) Suc.prems(2,3) by (simp add: j um_same_shape_def)
    moreover have "\<exists>m'. um_Remove_loop bc n (sint (um_max_collisions ?m + 1) - int n) ?b key ?m = Some (False, m')"
      using Suc.prems e by (intro Suc.IH) (simp_all add: um_same_shape_def)
    moreover have "sint (um_max_collisions m1 + 1) - int (Suc n) + 1 = sint (um_max_collisions m1 + 1) - int n"
      by simp
    ultimately show ?case by (simp add: add.commute)
  qed simp
  from this [of m "um_iters m"] obtain m' where m': "unordered_map_Remove bc (um_iters m) m key = Some (False, m')"
    using assms(3) by (auto simp: unordered_map_Remove_def um_same_shape_def um_iters_def)
  from um_Remove_loop_result [OF this [unfolded unordered_map_Remove_def]] have
    "um_entry m' = um_entry m" "um_cells m' = um_cells m" "um_same_shape m m'" by simp_all
  then have "\<forall>k. unordered_map_Find bc m' k = unordered_map_Find bc m k"
    using Find_same_buckets [of m' m bc] by simp
  then show ?thesis using m' by (intro exI [of _ m'] conjI)
qed

text \<open>Keys 0 and 4 in a map of four buckets; key 4 is in bucket 1.\<close>

definition collided_map :: "int_map_bucket unordered_map" where
  "collided_map = \<lparr>um_header = 8192, um_base_region = 4096, um_num_buckets = 4, um_buckets = 8204,
     um_hdr_num_buckets = 4, um_max_collisions = 1, um_bitmap = (\<lambda>_. 5),
     um_cells = (\<lambda>b. if b = 0 then \<lparr>ib_key = 0, ib_value = 10\<rparr> else \<lparr>ib_key = 4, ib_value = 11\<rparr>)\<rparr>"

theorem unordered_map_Remove_misses_displaced_key_witness:
  "unordered_map_Find int_map_bucket_class collided_map 4 = Some 11 \<and>
   (\<exists>m'. unordered_map_Remove int_map_bucket_class 2 collided_map 4 = Some (False, m') \<and>
     unordered_map_Find int_map_bucket_class m' 4 = Some 11)"
proof -
  have f: "unordered_map_Find int_map_bucket_class collided_map 4 = Some 11" by code_simp
  have b: "um_entry collided_map (bk_KeyHash int_map_bucket_class 4 (um_base_region collided_map) mod
      um_num_buckets collided_map) = Valid_Entry" by code_simp
  have c: "\<not> bk_KeyCompare int_map_bucket_class (bk_GetKey int_map_bucket_class (um_cells collided_map
      (bk_KeyHash int_map_bucket_class 4 (um_base_region collided_map) mod um_num_buckets collided_map))
      (um_base_region collided_map)) 4" by code_simp
  have i: "0 < sint (um_max_collisions collided_map + 1)" "um_iters collided_map = 2" by code_simp+
  from unordered_map_Remove_misses_displaced_key [OF b c i(1)] f i(2) show ?thesis by auto
qed

end
