(* ===== verification/Namespace.thy ===== *)
theory Namespace
  imports Unordered_Map Mpmc_Ring Server_Ipc
begin

text \<open>
  The namespace, which gives every mounted module an identifier and a name, and the tables of
  loadable modules: \<^verbatim>\<open>include/labstor/userspace/types/shared_namespace.h\<close>, its server and client
  classes, and the module tables of \<^verbatim>\<open>types/module.h\<close>, \<^verbatim>\<open>server/module_manager.cpp\<close> and
  \<^verbatim>\<open>client/module_manager.cpp\<close>. Module instances are objects; a pointer to one is its index in the
  list of objects, and a deleted object is marked. The dynamic linker is an argument.
\<close>

section \<open>The namespace\<close>

record module_object =
  mo_id :: labstor_id
  mo_ns_id :: u32
  mo_deleted :: bool

record module_namespace =
  nsp_region_id :: i32
  nsp_region_size :: u32
  nsp_region :: ptr
  nsp_max_entries :: u32
  nsp_alloc :: "labstor_shmem_allocator option"
  nsp_instances :: "cstring \<Rightarrow> nat list"
  nsp_ns_ids :: "u32 ring_buffer"
  nsp_keys :: "string_map_bucket unordered_map"
  nsp_private :: "nat option list"

definition Namespace_GetSharedRegion :: "module_namespace \<Rightarrow> u32 \<times> u32 \<times> u32" where
  "Namespace_GetSharedRegion ns = (nsp_region_id ns, nsp_region_size ns, nsp_max_entries ns)"

text \<open>The table is extended only for identifiers beyond its size, and then indexed.\<close>

definition Namespace_RegisterPrivateState :: "module_namespace \<Rightarrow> u32 \<Rightarrow> nat \<Rightarrow> module_namespace result" where
  "Namespace_RegisterPrivateState ns ns_id module =
     (let p = (if unat ns_id > length (nsp_private ns) then resize (unat (ns_id + 1)) (nsp_private ns)
               else nsp_private ns) in
      if unat ns_id \<ge> length p then Inl OUT_OF_BOUNDS
      else Inr (ns\<lparr>nsp_private := p[unat ns_id := Some module]\<rparr>))"

text \<open>A name that finds no place in the map is reported on the console only.\<close>

definition Namespace_AddKey ::
  "string_mem \<Rightarrow> module_object list \<Rightarrow> module_namespace \<Rightarrow> labstor_string \<Rightarrow> nat \<Rightarrow> (u32 \<times> module_namespace) result"
where
  "Namespace_AddKey mem objs ns key module =
     result_bind
       (case ring_buffer_Dequeue (nsp_ns_ids ns) of
          (Some ns_id, r) \<Rightarrow>
            if unat ns_id \<ge> length (nsp_private ns) then Inl OUT_OF_BOUNDS
            else Inr (ns_id, ns\<lparr>nsp_ns_ids := r, nsp_private := (nsp_private ns)[unat ns_id := Some module]\<rparr>)
        | (None, r) \<Rightarrow>
            Inr (of_nat (length (nsp_private ns)),
                 ns\<lparr>nsp_ns_ids := r, nsp_private := nsp_private ns @ [Some module]\<rparr>))
       (\<lambda>(ns_id, ns).
          let (_, keys) = string_map_Set mem (nsp_keys ns) key ns_id;
              name = id_name (mo_id (objs ! module)) in
          Inr (ns_id, ns\<lparr>nsp_keys := keys,
                         nsp_instances := (nsp_instances ns)(name := nsp_instances ns name @ [module])\<rparr>))"

text \<open>The two variants that first copy the name into the shared memory; \<open>tid\<close> is the calling thread.\<close>

definition Namespace_AddKey_std ::
  "string_mem \<Rightarrow> module_object list \<Rightarrow> module_namespace \<Rightarrow> u32 \<Rightarrow> cstring \<Rightarrow> nat \<Rightarrow>
   (u32 \<times> string_mem \<times> module_namespace) result option"
where
  "Namespace_AddKey_std mem objs ns tid key module =
     (case nsp_alloc ns of
        None \<Rightarrow> Some (Inl NULL_DEREFERENCE)
      | Some alloc \<Rightarrow>
          run_bind (string_new mem alloc tid key) (\<lambda>(s, mem, alloc).
          run_bind (Some (Namespace_AddKey mem objs (ns\<lparr>nsp_alloc := Some alloc\<rparr>) s module)) (\<lambda>(ns_id, ns).
          Some (Inr (ns_id, mem, ns)))))"

definition Namespace_AddKey_id ::
  "string_mem \<Rightarrow> module_object list \<Rightarrow> module_namespace \<Rightarrow> u32 \<Rightarrow> labstor_id \<Rightarrow> nat \<Rightarrow>
   (u32 \<times> string_mem \<times> module_namespace) result option"
where
  "Namespace_AddKey_id mem objs ns tid key module =
     Namespace_AddKey_std mem objs ns tid (c_str (id_key key)) module"

text \<open>\<^verbatim>\<open>RemoveKey\<close> always returns the null pointer, so deleting and renaming have no effect.\<close>

definition Namespace_RemoveKey :: "module_namespace \<Rightarrow> labstor_string \<Rightarrow> nat option" where
  "Namespace_RemoveKey ns key = None"

definition Namespace_DeleteKey :: "module_namespace \<Rightarrow> labstor_string \<Rightarrow> module_namespace" where
  "Namespace_DeleteKey ns key = (case Namespace_RemoveKey ns key of None \<Rightarrow> ns | Some _ \<Rightarrow> ns)"

definition Namespace_RenameKey ::
  "string_mem \<Rightarrow> module_object list \<Rightarrow> module_namespace \<Rightarrow> labstor_string \<Rightarrow> labstor_string \<Rightarrow> module_namespace result"
where
  "Namespace_RenameKey mem objs ns old_key new_key =
     (case Namespace_RemoveKey ns old_key of
        None \<Rightarrow> Inr ns
      | Some module \<Rightarrow> result_bind (Namespace_AddKey mem objs ns new_key module) (\<lambda>(_, ns). Inr ns))"

definition Namespace_GetNamespaceID_opt :: "string_mem \<Rightarrow> module_namespace \<Rightarrow> labstor_string \<Rightarrow> u32 option" where
  "Namespace_GetNamespaceID_opt mem ns key = unordered_map_Find (string_map_bucket_class mem) (nsp_keys ns) key"

definition Namespace_GetNamespaceID :: "string_mem \<Rightarrow> module_namespace \<Rightarrow> labstor_string \<Rightarrow> u32" where
  "Namespace_GetNamespaceID mem ns key =
     (case unordered_map_Find (string_map_bucket_class mem) (nsp_keys ns) key of Some ns_id \<Rightarrow> ns_id | None \<Rightarrow> - 1)"

text \<open>
  The variant for a \<^verbatim>\<open>std::string\<close> makes a string on the heap, at \<open>buf\<close>, for the search, which does
  not read the header of the string.
\<close>

definition Namespace_GetNamespaceID_std :: "string_mem \<Rightarrow> ptr \<Rightarrow> module_namespace \<Rightarrow> cstring \<Rightarrow> u32" where
  "Namespace_GetNamespaceID_std mem buf ns key =
     (case string_of_std mem buf string_null key of (s, mem) \<Rightarrow> Namespace_GetNamespaceID mem ns s)"

definition Namespace_GetModule :: "module_namespace \<Rightarrow> u32 \<Rightarrow> nat option" where
  "Namespace_GetModule ns ns_id = (if unat ns_id < length (nsp_private ns) then nsp_private ns ! unat ns_id else None)"

definition Namespace_AllModuleInstances :: "module_namespace \<Rightarrow> labstor_id \<Rightarrow> nat list" where
  "Namespace_AllModuleInstances ns module_id = nsp_instances ns (id_name module_id)"

section \<open>Server and client\<close>

text \<open>
  The server creates the shared region and lays out in it the free identifiers, the map of names
  and an allocator. \<open>create\<close> and \<open>mmap\<close> are the kernel's; \<open>mem\<close> only carries the bucket class.
\<close>

abbreviation ring_size :: "u32 ring_buffer \<Rightarrow> u32" where
  "ring_size r \<equiv> ring_buffer_GetSize 4 (rb_max_depth r)"

abbreviation keys_size :: "string_mem \<Rightarrow> string_map_bucket unordered_map \<Rightarrow> u32" where
  "keys_size mem m \<equiv> unordered_map_GetSize (string_map_bucket_class mem) (um_num_buckets m)"

definition keys_next_section :: "string_mem \<Rightarrow> string_map_bucket unordered_map \<Rightarrow> ptr" where
  "keys_next_section mem m = um_header m + ucast (keys_size mem m)"

definition Server_Namespace_new ::
  "string_mem \<Rightarrow> (u32 \<Rightarrow> i32) \<Rightarrow> (i32 \<Rightarrow> u32 \<Rightarrow> ptr) \<Rightarrow> i32 \<Rightarrow> labstor_shmem_allocator \<Rightarrow> u32 \<Rightarrow> u32 \<Rightarrow> u32 \<Rightarrow>
   module_namespace \<Rightarrow> module_namespace result"
where
  "Server_Namespace_new mem create mmap nprocs alloc0 max_entries unit_bytes shmem_kb ns =
     (let shmem_size = shmem_kb * 1024; region_id = create shmem_size in
      if sint region_id < 0 then Inl SHMEM_CREATE_FAILED
      else
        let region = mmap region_id shmem_size in
        if region = 0 then Inl MMAP_FAILED
        else
          result_bind (ring_buffer_Init 4 (nsp_ns_ids ns) region (ring_buffer_GetSize 4 max_entries) 0) (\<lambda>ns_ids.
          let remainder = shmem_size - ring_size ns_ids; section = ring_buffer_GetNextSection 4 ns_ids in
          result_bind (unordered_map_Init (string_map_bucket_class mem) (nsp_keys ns) region section
                         (unordered_map_GetSize (string_map_bucket_class mem) max_entries) 0 16) (\<lambda>keys.
          let remainder = remainder - keys_size mem keys; section = keys_next_section mem keys in
          result_bind (labstor_shmem_allocator_Init nprocs alloc0 region section remainder unit_bytes 0) (\<lambda>alloc.
          Inr (ns\<lparr>nsp_region_id := region_id, nsp_region_size := shmem_size, nsp_region := region,
                  nsp_max_entries := max_entries, nsp_alloc := Some alloc, nsp_ns_ids := ns_ids,
                  nsp_keys := keys\<rparr>)))))"

text \<open>\<open>Init\<close> mounts the registrar, object \<open>registrar\<close>.\<close>

definition Server_Namespace_Init ::
  "string_mem \<Rightarrow> module_object list \<Rightarrow> module_namespace \<Rightarrow> u32 \<Rightarrow> nat \<Rightarrow>
   (u32 \<times> string_mem \<times> module_namespace) result option"
where
  "Server_Namespace_Init mem objs ns tid registrar =
     Namespace_AddKey_std mem objs ns tid [82, 101, 103, 105, 115, 116, 114, 97, 114] registrar"

text \<open>
  The client attaches to what the server has laid out; \<open>ns\<close> holds the contents of the shared
  region. The third section is computed from the first structure instead of the second one.
\<close>

definition Client_Namespace_Attach ::
  "labstor_shmem_allocator \<Rightarrow> i32 \<Rightarrow> ptr \<Rightarrow> module_namespace \<Rightarrow> module_namespace result"
where
  "Client_Namespace_Attach shm_alloc region_id region ns =
     (let ns_ids = ring_buffer_Attach (nsp_ns_ids ns) region;
          section = ring_buffer_GetNextSection 4 ns_ids;
          keys = unordered_map_Attach (nsp_keys ns) region section;
          section = ring_buffer_GetNextSection 4 ns_ids in
      result_bind (labstor_shmem_allocator_Attach shm_alloc region section) (\<lambda>alloc.
      Inr (ns\<lparr>nsp_region_id := region_id, nsp_region := region, nsp_ns_ids := ns_ids, nsp_keys := keys,
              nsp_alloc := Some alloc\<rparr>)))"

section \<open>Module tables\<close>

text \<open>
  A library is a number; \<open>mt_refs\<close> is the reference count of the dynamic linker. The pool maps the
  name of a module to the library its constructor comes from.
\<close>

record module_table =
  mt_pool :: "cstring \<rightharpoonup> nat"
  mt_refs :: "nat \<Rightarrow> nat"
  mt_upgrades :: "ptr list"

definition ModuleTable_PushUpgrade :: "module_table \<Rightarrow> ptr \<Rightarrow> module_table" where
  "ModuleTable_PushUpgrade mt req = mt\<lparr>mt_upgrades := mt_upgrades mt @ [req]\<rparr>"

text \<open>\<open>dl path\<close> is the library of a path with the identifier its module reports, if it has both symbols.\<close>

definition ModuleTable_OpenModule ::
  "(cstring \<Rightarrow> (nat \<times> labstor_id option) option) \<Rightarrow> module_table \<Rightarrow> cstring \<Rightarrow>
   (labstor_id \<times> nat \<times> module_table) result"
where
  "ModuleTable_OpenModule dl mt path =
     (case dl path of
        None \<Rightarrow> Inl DLSYM_MODULE_NOT_FOUND
      | Some (lib, None) \<Rightarrow> Inl DLSYM_MODULE_NO_CONSTRUCTOR
      | Some (lib, Some module_id) \<Rightarrow>
          Inr (module_id, lib, mt\<lparr>mt_refs := (mt_refs mt)(lib := Suc (mt_refs mt lib))\<rparr>))"

text \<open>\<^verbatim>\<open>emplace\<close> does not replace the entry whose library was just closed.\<close>

definition ModuleTable_SetModuleConstructor :: "module_table \<Rightarrow> labstor_id \<Rightarrow> nat \<Rightarrow> module_table" where
  "ModuleTable_SetModuleConstructor mt module_id lib =
     (case mt_pool mt (id_name module_id) of
        Some old \<Rightarrow> mt\<lparr>mt_refs := (mt_refs mt)(old := mt_refs mt old - 1)\<rparr>
      | None \<Rightarrow> mt\<lparr>mt_pool := (mt_pool mt)(id_name module_id \<mapsto> lib)\<rparr>)"

definition ModuleTable_GetModuleConstructor :: "module_table \<Rightarrow> labstor_id \<Rightarrow> nat result" where
  "ModuleTable_GetModuleConstructor mt module_id =
     (case mt_pool mt (id_name module_id) of None \<Rightarrow> Inl INVALID_MODULE_ID | Some lib \<Rightarrow> Inr lib)"

definition ModuleTable_HasModule :: "module_table \<Rightarrow> labstor_id \<Rightarrow> bool" where
  "ModuleTable_HasModule mt module_id \<longleftrightarrow> mt_pool mt (id_name module_id) \<noteq> None"

text \<open>Calling the constructor of a library that is not loaded is undefined.\<close>

definition construct_module :: "(nat \<Rightarrow> labstor_id) \<Rightarrow> module_table \<Rightarrow> nat \<Rightarrow> module_object result" where
  "construct_module lib_id mt lib =
     (if mt_refs mt lib = 0 then Inl USE_AFTER_FREE
      else Inr \<lparr>mo_id = lib_id lib, mo_ns_id = 0, mo_deleted = False\<rparr>)"

section \<open>The server's modules\<close>

record module_path =
  mp_client :: cstring
  mp_server :: cstring

record server_modules =
  sm_table :: module_table
  sm_paths :: "cstring \<rightharpoonup> module_path"

definition ModuleManager_AddModulePaths :: "server_modules \<Rightarrow> labstor_id \<Rightarrow> module_path \<Rightarrow> server_modules" where
  "ModuleManager_AddModulePaths sm module_id paths =
     sm\<lparr>sm_paths := (sm_paths sm)(id_name module_id \<mapsto> paths)\<rparr>"

text \<open>The index operator makes empty paths for an unknown module.\<close>

definition ModuleManager_GetModulePath :: "server_modules \<Rightarrow> labstor_id \<Rightarrow> bool \<Rightarrow> cstring" where
  "ModuleManager_GetModulePath sm module_id client =
     (case sm_paths sm (id_name module_id) of
        None \<Rightarrow> []
      | Some paths \<Rightarrow> if client then mp_client paths else mp_server paths)"

text \<open>
  \<^verbatim>\<open>LoadRepos\<close>: a repository is its path with the names of the modules in it, or with none when
  the directory does not exist. The paths are kept from one module of a repository to the next.
\<close>

abbreviation lib_path :: "cstring \<Rightarrow> cstring \<Rightarrow> bool \<Rightarrow> cstring" where
  "lib_path repo uuid client \<equiv> repo @ [47, 108, 105, 98, 47, 108, 105, 98] @ uuid @
     (if client then [95, 99, 108, 105, 101, 110, 116, 46, 115, 111] else [95, 115, 101, 114, 118, 101, 114, 46, 115, 111])"

fun load_repo_modules ::
  "(cstring \<Rightarrow> (nat \<times> labstor_id option) option) \<Rightarrow> (cstring \<Rightarrow> bool) \<Rightarrow> labstor_id \<Rightarrow> cstring \<Rightarrow> cstring list \<Rightarrow>
   module_path \<Rightarrow> server_modules \<Rightarrow> server_modules result"
where
  "load_repo_modules dl exists raw repo [] paths sm = Inr sm"
| "load_repo_modules dl exists raw repo (uuid # uuids) paths sm =
     result_bind (labstor_id_new raw uuid) (\<lambda>labmod_uuid.
     if ModuleTable_HasModule (sm_table sm) labmod_uuid
     then load_repo_modules dl exists raw repo uuids paths sm
     else
       let paths = (if exists (lib_path repo uuid True) then paths\<lparr>mp_client := lib_path repo uuid True\<rparr> else paths) in
       result_bind
         (if exists (lib_path repo uuid False)
          then result_bind (ModuleTable_OpenModule dl (sm_table sm) (lib_path repo uuid False)) (\<lambda>(module_id, lib, mt).
               Inr (module_id, paths\<lparr>mp_server := lib_path repo uuid False\<rparr>,
                    sm\<lparr>sm_table := ModuleTable_SetModuleConstructor mt module_id lib\<rparr>))
          else Inr (labmod_uuid, paths, sm))
         (\<lambda>(labmod_uuid, paths, sm).
            load_repo_modules dl exists raw repo uuids paths (ModuleManager_AddModulePaths sm labmod_uuid paths)))"

fun ModuleManager_LoadRepos ::
  "(cstring \<Rightarrow> (nat \<times> labstor_id option) option) \<Rightarrow> (cstring \<Rightarrow> bool) \<Rightarrow> labstor_id \<Rightarrow>
   (cstring \<times> cstring list option) list \<Rightarrow> server_modules \<Rightarrow> (bool \<times> server_modules) result"
where
  "ModuleManager_LoadRepos dl exists raw [] sm = Inr (True, sm)"
| "ModuleManager_LoadRepos dl exists raw ((repo, None) # repos) sm = Inr (False, sm)"
| "ModuleManager_LoadRepos dl exists raw ((repo, Some uuids) # repos) sm =
     result_bind (load_repo_modules dl exists raw repo uuids \<lparr>mp_client = [], mp_server = []\<rparr> sm) (\<lambda>sm.
     ModuleManager_LoadRepos dl exists raw repos sm)"

text \<open>
  The upgrade of a module: every instance in the queue is replaced by a new one and deleted. The
  state transfer of the modules themselves is \<open>update new old\<close>. An error resumes the queues, which
  is an empty operation, and is thrown on.
\<close>

fun upgrade_instances ::
  "(module_object \<Rightarrow> module_object \<Rightarrow> module_object) \<Rightarrow> (nat \<Rightarrow> labstor_id) \<Rightarrow> module_table \<Rightarrow> nat \<Rightarrow> nat list \<Rightarrow>
   module_object list \<Rightarrow> (nat list \<times> module_object list) result"
where
  "upgrade_instances update lib_id mt lib [] objs = Inr ([], objs)"
| "upgrade_instances update lib_id mt lib (old # olds) objs =
     result_bind (construct_module lib_id mt lib) (\<lambda>new.
     let new_ref = length objs;
         objs = objs @ [update new (objs ! old)];
         objs = objs[old := (objs ! old)\<lparr>mo_deleted := True\<rparr>] in
     result_bind (upgrade_instances update lib_id mt lib olds objs) (\<lambda>(news, objs).
     Inr (new_ref # news, objs)))"

definition ModuleManager_CentralizedUpdateModule ::
  "(cstring \<Rightarrow> (nat \<times> labstor_id option) option) \<Rightarrow> (module_object \<Rightarrow> module_object \<Rightarrow> module_object) \<Rightarrow>
   (nat \<Rightarrow> labstor_id) \<Rightarrow> cstring \<Rightarrow> server_modules \<times> module_namespace \<times> module_object list \<Rightarrow>
   (server_modules \<times> module_namespace \<times> module_object list) result"
where
  "ModuleManager_CentralizedUpdateModule dl update lib_id path st =
     (case st of (sm, ns, objs) \<Rightarrow>
        result_bind (ModuleTable_OpenModule dl (sm_table sm) path) (\<lambda>(module_id, lib, mt).
        result_bind (upgrade_instances update lib_id mt lib (Namespace_AllModuleInstances ns module_id) objs)
          (\<lambda>(news, objs).
        Inr (sm\<lparr>sm_table := ModuleTable_SetModuleConstructor mt module_id lib\<rparr>,
             ns\<lparr>nsp_instances := (nsp_instances ns)(id_name module_id := news)\<rparr>, objs))))"

section \<open>The client's modules\<close>

definition Client_ModuleManager_UpdateModule ::
  "(cstring \<Rightarrow> (nat \<times> labstor_id option) option) \<Rightarrow> module_table \<Rightarrow> cstring \<Rightarrow> (labstor_id \<times> module_table) result"
where
  "Client_ModuleManager_UpdateModule dl mt path =
     result_bind (ModuleTable_OpenModule dl mt path) (\<lambda>(module_id, lib, mt).
     Inr (module_id, ModuleTable_SetModuleConstructor mt module_id lib))"

text \<open>
  \<open>path\<close> is what the registrar answers for the identifier. The instance's own \<^verbatim>\<open>Initialize\<close> is a
  virtual function that does not touch these tables.
\<close>

definition Client_Namespace_LoadClientModule ::
  "(cstring \<Rightarrow> (nat \<times> labstor_id option) option) \<Rightarrow> (nat \<Rightarrow> labstor_id) \<Rightarrow> cstring \<Rightarrow> u32 \<Rightarrow>
   module_table \<times> module_namespace \<times> module_object list \<Rightarrow>
   (nat \<times> module_table \<times> module_namespace \<times> module_object list) result"
where
  "Client_Namespace_LoadClientModule dl lib_id path ns_id st =
     (case st of (mt, ns, objs) \<Rightarrow>
        result_bind (Client_ModuleManager_UpdateModule dl mt path) (\<lambda>(module_id, mt).
        result_bind (ModuleTable_GetModuleConstructor mt module_id) (\<lambda>lib.
        result_bind (construct_module lib_id mt lib) (\<lambda>module.
        let r = length objs; objs = objs @ [module\<lparr>mo_ns_id := ns_id\<rparr>] in
        result_bind (Namespace_RegisterPrivateState ns ns_id r) (\<lambda>ns. Inr (r, mt, ns, objs))))))"

text \<open>Loading by name asks the registrar for the identifier first.\<close>

definition Client_Namespace_LoadClientModule_key ::
  "(cstring \<Rightarrow> (nat \<times> labstor_id option) option) \<Rightarrow> (nat \<Rightarrow> labstor_id) \<Rightarrow> (u32 \<Rightarrow> cstring) \<Rightarrow> u32 \<Rightarrow>
   module_table \<times> module_namespace \<times> module_object list \<Rightarrow>
   (nat option \<times> module_table \<times> module_namespace \<times> module_object list) result"
where
  "Client_Namespace_LoadClientModule_key dl lib_id get_path ns_id st =
     (if ns_id = - 1 then Inr (None, st)
      else result_bind (Client_Namespace_LoadClientModule dl lib_id (get_path ns_id) ns_id st)
             (\<lambda>(r, st). Inr (Some r, st)))"


section \<open>Properties\<close>

text \<open>
  C16. A module that is added to the namespace is found: with no identifier to reuse and room in the
  map of names, \<^verbatim>\<open>AddKey\<close> gives a new name the next identifier; the name leads to the identifier and
  the identifier to the module, also in the queue of instances of its type. All other names and
  identifiers keep their meaning.
\<close>

theorem namespace_finds_added_module:
  assumes "rb_enqueued (nsp_ns_ids ns) = rb_dequeued (nsp_ns_ids ns)" "rb_d_lock (nsp_ns_ids ns) = 0"
    and "shared_name mem (um_base_region (nsp_keys ns)) key" "length (nsp_private ns) < 2 ^ 32"
    and "Namespace_GetNamespaceID_opt mem ns key = None"
    and "fst (string_map_Set mem (nsp_keys ns) key (of_nat (length (nsp_private ns))))"
  shows "\<exists>ns'. Namespace_AddKey mem objs ns key module = Inr (of_nat (length (nsp_private ns)), ns') \<and>
    Namespace_GetNamespaceID mem ns' key = of_nat (length (nsp_private ns)) \<and>
    Namespace_GetModule ns' (of_nat (length (nsp_private ns))) = Some module \<and>
    module \<in> set (Namespace_AllModuleInstances ns' (mo_id (objs ! module))) \<and>
    (\<forall>k. string_ToString mem k \<noteq> string_ToString mem key \<longrightarrow>
       Namespace_GetNamespaceID mem ns' k = Namespace_GetNamespaceID mem ns k) \<and>
    (\<forall>i. unat i < length (nsp_private ns) \<longrightarrow> Namespace_GetModule ns' i = Namespace_GetModule ns i)"
proof -
  let ?n = "of_nat (length (nsp_private ns)) :: u32"
  obtain keys where keys: "string_map_Set mem (nsp_keys ns) key ?n = (True, keys)"
    using assms(6) by (metis prod.collapse)
  have f: "unordered_map_Find (string_map_bucket_class mem) keys k =
      (if string_ToString mem k = string_ToString mem key then Some ?n
       else unordered_map_Find (string_map_bucket_class mem) (nsp_keys ns) k)" for k
    using string_map_Set_Find(1) [OF keys assms(3)] assms(5) by (simp add: Namespace_GetNamespaceID_opt_def)
  have d: "\<exists>r. ring_buffer_Dequeue (nsp_ns_ids ns) = (None, r)"
    using assms(1,2) by (simp add: ring_buffer_Dequeue_def LABSTOR_INF_LOCK_TRYLOCK_def compare_exchange_def Let_def)
  then obtain r where r: "ring_buffer_Dequeue (nsp_ns_ids ns) = (None, r)" by blast
  have n: "unat ?n = length (nsp_private ns)" using assms(4) by (simp add: unat_of_nat)
  define name where "name = id_name (mo_id (objs ! module))"
  define ns' where "ns' = ns\<lparr>nsp_ns_ids := r, nsp_private := nsp_private ns @ [Some module], nsp_keys := keys,
      nsp_instances := (nsp_instances ns)(name := nsp_instances ns name @ [module])\<rparr>"
  have "Namespace_AddKey mem objs ns key module = Inr (?n, ns')"
    using r keys by (simp add: Namespace_AddKey_def ns'_def name_def Let_def)
  moreover have "Namespace_GetNamespaceID mem ns' key = ?n"
    "\<forall>k. string_ToString mem k \<noteq> string_ToString mem key \<longrightarrow>
       Namespace_GetNamespaceID mem ns' k = Namespace_GetNamespaceID mem ns k"
    using f by (simp_all add: Namespace_GetNamespaceID_def ns'_def)
  moreover have "Namespace_GetModule ns' ?n = Some module"
    "\<forall>i. unat i < length (nsp_private ns) \<longrightarrow> Namespace_GetModule ns' i = Namespace_GetModule ns i"
    using n by (simp_all add: Namespace_GetModule_def ns'_def nth_append)
  moreover have "module \<in> set (Namespace_AllModuleInstances ns' (mo_id (objs ! module)))"
    by (simp add: Namespace_AllModuleInstances_def ns'_def name_def)
  ultimately show ?thesis by (intro exI [of _ ns']) simp
qed

text \<open>An empty namespace over the map \<open>keys\<close>.\<close>

definition empty_namespace :: "string_map_bucket unordered_map \<Rightarrow> module_namespace" where
  "empty_namespace keys = \<lparr>nsp_region_id = 3, nsp_region_size = 65536, nsp_region = 4096, nsp_max_entries = 4,
     nsp_alloc = None, nsp_instances = (\<lambda>_. []),
     nsp_ns_ids = \<lparr>rb_header = 4096, rb_queue = 4112, rb_enqueued = 0, rb_dequeued = 0, rb_e_lock = 0,
       rb_d_lock = 0, rb_max_depth = 4, rb_cells = (\<lambda>_. 0)\<rparr>,
     nsp_keys = keys, nsp_private = []\<rparr>"

theorem namespace_finds_added_module_witness:
  "\<exists>keys ns'. Namespace_AddKey two_names [\<lparr>mo_id = \<lparr>id_key = [97, 0]\<rparr>, mo_ns_id = 0, mo_deleted = False\<rparr>]
      (empty_namespace keys) (string_Attach two_names 4196) 0 = Inr (0, ns') \<and>
    Namespace_GetNamespaceID two_names ns' (string_Attach two_names 4196) = 0 \<and>
    Namespace_GetModule ns' 0 = Some 0"
proof -
  let ?a = "string_Attach two_names 4196"
  obtain m where m: "unordered_map_Init (string_map_bucket_class two_names) (um_blank \<lparr>sb_off = 0, sb_value = 0\<rparr>)
       4096 8192 1000 4 1 = Inr m" and n: "um_num_buckets m = 4" "um_max_collisions m = 1"
    by (simp add: unordered_map_Init_def unordered_map_GetSize_def unordered_map_GetHeaderSize_def
        labstor_bit2map_GetSize_def string_map_bucket_class_def)
  have l: "unat (um_num_buckets m) < 2 ^ 31" by (simp add: n)
  note I = unordered_map_Init_empty [OF m l]
  have h: "string_Hash two_names ?a mod 4 = 1" by code_simp
  have s: "shared_name two_names 4096 ?a" by (simp add: shared_name_def string_Attach_def)
  let ?ns = "empty_namespace m"
  have e: "Namespace_GetNamespaceID_opt two_names ?ns ?a = None"
    using string_bucket.Find_empty [OF I(1,2)] by (simp add: Namespace_GetNamespaceID_opt_def empty_namespace_def)
  have f: "fst (string_map_Set two_names (nsp_keys ?ns) ?a (of_nat (length (nsp_private ?ns))))"
    using string_map_Set_free [of two_names m ?a 0] I s n h by (auto simp: um_iters_def empty_namespace_def)
  have r: "rb_enqueued (nsp_ns_ids ?ns) = rb_dequeued (nsp_ns_ids ?ns)" "rb_d_lock (nsp_ns_ids ?ns) = 0"
    "shared_name two_names (um_base_region (nsp_keys ?ns)) ?a" "length (nsp_private ?ns) < 2 ^ 32" "length (nsp_private ?ns) = 0"
    using I(3) s by (simp_all add: empty_namespace_def)
  from namespace_finds_added_module [OF r(1-4) e f, of "[\<lparr>mo_id = \<lparr>id_key = [97, 0]\<rparr>, mo_ns_id = 0, mo_deleted = False\<rparr>]" 0]
  show ?thesis using r(5) by (intro exI [of _ m]) auto
qed

lemma upgrade_instances_deleted:
  "upgrade_instances update lib_id mt lib olds objs = Inr (news, objs') \<Longrightarrow>
     \<forall>m \<in> set olds. m < length objs \<Longrightarrow>
     length objs \<le> length objs' \<and> length objs' = length objs + length olds \<and>
     news = [length objs..<length objs + length olds] \<and>
     (\<forall>m < length objs. mo_deleted (objs' ! m) \<longleftrightarrow> mo_deleted (objs ! m) \<or> m \<in> set olds)"
proof (induction olds arbitrary: objs news)
  case Nil
  then show ?case by simp
next
  case (Cons old olds)
  obtain new where new: "construct_module lib_id mt lib = Inr new"
    using Cons.prems(1) by (cases "construct_module lib_id mt lib") simp_all
  define objs1 where "objs1 = objs @ [update new (objs ! old)]"
  define objs2 where "objs2 = objs1[old := (objs1 ! old)\<lparr>mo_deleted := True\<rparr>]"
  obtain news' where r: "upgrade_instances update lib_id mt lib olds objs2 = Inr (news', objs')" "news = length objs # news'"
    using Cons.prems(1) new
    by (cases "upgrade_instances update lib_id mt lib olds objs2") (auto simp: Let_def objs1_def objs2_def)
  have l: "length objs2 = Suc (length objs)" by (simp add: objs2_def objs1_def)
  have old: "old < length objs" using Cons.prems(2) by simp
  have h: "\<forall>m < length objs2. mo_deleted (objs' ! m) \<longleftrightarrow> mo_deleted (objs2 ! m) \<or> m \<in> set olds"
    "length objs' = length objs2 + length olds" "news' = [length objs2..<length objs2 + length olds]"
  proof -
    have "\<forall>m \<in> set olds. m < length objs2" using Cons.prems(2) l by (simp add: less_SucI)
    from Cons.IH [OF r(1) this] show
      "\<forall>m < length objs2. mo_deleted (objs' ! m) \<longleftrightarrow> mo_deleted (objs2 ! m) \<or> m \<in> set olds"
      "length objs' = length objs2 + length olds" "news' = [length objs2..<length objs2 + length olds]"
      by blast+
  qed
  have "mo_deleted (objs2 ! m) \<longleftrightarrow> mo_deleted (objs ! m) \<or> m = old" if "m < length objs" for m
    using that old by (auto simp: objs2_def objs1_def nth_list_update nth_append)
  moreover have "[length objs..<length objs + length (old # olds)] = length objs # [length objs2..<length objs2 + length olds]"
    using l by (simp add: upt_rec)
  ultimately show ?case using h l r(2) by auto
qed

text \<open>
  C19. After the upgrade of a module the namespace still leads to the old instances, which are deleted:
  the new instances are only put in the queue of instances.
\<close>

theorem upgrade_leaves_deleted_modules_mounted:
  assumes "ModuleManager_CentralizedUpdateModule dl update lib_id path (sm, ns, objs) = Inr (sm', ns', objs')"
    and "dl path = Some (lib, Some module_id)"
    and "Namespace_GetModule ns ns_id = Some m" "m \<in> set (Namespace_AllModuleInstances ns module_id)"
    and "\<forall>m \<in> set (Namespace_AllModuleInstances ns module_id). m < length objs"
  shows "Namespace_GetModule ns' ns_id = Some m \<and> mo_deleted (objs' ! m) \<and>
    m \<notin> set (Namespace_AllModuleInstances ns' module_id)"
proof -
  define mt where "mt = (sm_table sm)\<lparr>mt_refs := (mt_refs (sm_table sm))(lib := Suc (mt_refs (sm_table sm) lib))\<rparr>"
  have o: "ModuleTable_OpenModule dl (sm_table sm) path = Inr (module_id, lib, mt)"
    using assms(2) by (simp add: ModuleTable_OpenModule_def mt_def)
  obtain news where u: "upgrade_instances update lib_id mt lib (Namespace_AllModuleInstances ns module_id) objs = Inr (news, objs')"
    "ns' = ns\<lparr>nsp_instances := (nsp_instances ns)(id_name module_id := news)\<rparr>"
    using assms(1) o
    by (cases "upgrade_instances update lib_id mt lib (Namespace_AllModuleInstances ns module_id) objs")
      (auto simp: ModuleManager_CentralizedUpdateModule_def)
  note d = upgrade_instances_deleted [OF u(1) assms(5)]
  have m: "m < length objs" using assms(4,5) by simp
  then have "mo_deleted (objs' ! m)" "m \<notin> set news" using d assms(4) by simp_all
  then show ?thesis
    using assms(3) u(2) by (simp add: Namespace_GetModule_def Namespace_AllModuleInstances_def split: if_splits)
qed

theorem upgrade_leaves_deleted_modules_mounted_witness:
  "\<exists>keys sm' ns' objs'. ModuleManager_CentralizedUpdateModule (\<lambda>_. Some (2, Some \<lparr>id_key = [97, 0]\<rparr>)) (\<lambda>new old. new)
      (\<lambda>_. \<lparr>id_key = [97, 0]\<rparr>) [120]
      (\<lparr>sm_table = \<lparr>mt_pool = Map.empty, mt_refs = (\<lambda>_. 0), mt_upgrades = []\<rparr>, sm_paths = Map.empty\<rparr>,
       (empty_namespace keys)\<lparr>nsp_private := [Some 0], nsp_instances := (\<lambda>_. [0])\<rparr>,
       [\<lparr>mo_id = \<lparr>id_key = [97, 0]\<rparr>, mo_ns_id = 0, mo_deleted = False\<rparr>]) = Inr (sm', ns', objs') \<and>
    Namespace_GetModule ns' 0 = Some 0 \<and> mo_deleted (objs' ! 0)"
proof -
  let ?ns = "(empty_namespace (um_blank \<lparr>sb_off = 0, sb_value = 0\<rparr>))\<lparr>nsp_private := [Some 0], nsp_instances := (\<lambda>_. [0])\<rparr>"
  let ?sm = "\<lparr>sm_table = \<lparr>mt_pool = Map.empty, mt_refs = (\<lambda>_. 0), mt_upgrades = []\<rparr>, sm_paths = Map.empty\<rparr>"
  let ?objs = "[\<lparr>mo_id = \<lparr>id_key = [97, 0]\<rparr>, mo_ns_id = 0, mo_deleted = False\<rparr>]"
  let ?dl = "\<lambda>_ :: cstring. Some (2 :: nat, Some \<lparr>id_key = [97, 0]\<rparr>)"
  obtain sm' ns' objs' where u: "ModuleManager_CentralizedUpdateModule ?dl (\<lambda>new old. new) (\<lambda>_. \<lparr>id_key = [97, 0]\<rparr>) [120]
      (?sm, ?ns, ?objs) = Inr (sm', ns', objs')"
    by (simp add: ModuleManager_CentralizedUpdateModule_def ModuleTable_OpenModule_def Namespace_AllModuleInstances_def
        construct_module_def Let_def)
  have g: "Namespace_GetModule ?ns 0 = Some 0" "0 \<in> set (Namespace_AllModuleInstances ?ns \<lparr>id_key = [97, 0]\<rparr>)"
    "\<forall>m \<in> set (Namespace_AllModuleInstances ?ns \<lparr>id_key = [97, 0]\<rparr>). m < length ?objs"
    by (simp_all add: Namespace_GetModule_def Namespace_AllModuleInstances_def)
  from upgrade_leaves_deleted_modules_mounted [OF u refl g] u show ?thesis
    by (intro exI [of _ "um_blank \<lparr>sb_off = 0, sb_value = 0\<rparr>"] exI [of _ sm'] exI [of _ ns'] exI [of _ objs']) blast
qed

text \<open>A constructor from a library that was closed is handed out after the second upgrade of a module.\<close>

theorem module_table_keeps_closed_library:
  assumes "mt_pool mt (id_name module_id) = Some old" "mt_refs mt old = 1" "old \<noteq> lib"
  shows "let mt' = ModuleTable_SetModuleConstructor mt module_id lib in
    ModuleTable_GetModuleConstructor mt' module_id = Inr old \<and>
    construct_module lib_id mt' old = Inl USE_AFTER_FREE"
  using assms
  by (simp add: Let_def ModuleTable_SetModuleConstructor_def ModuleTable_GetModuleConstructor_def construct_module_def)

text \<open>The first module of a client cannot be registered: the table is extended one entry too late.\<close>

theorem RegisterPrivateState_off_by_one:
  "Namespace_RegisterPrivateState ns ns_id module = Inl OUT_OF_BOUNDS" if "unat ns_id = length (nsp_private ns)"
  using that by (simp add: Namespace_RegisterPrivateState_def)

text \<open>
  The client's allocator for names is attached to the wrong place: the server puts it behind the
  map of names, the client looks for it at the beginning of that map.
\<close>

theorem client_namespace_attaches_wrong_section:
  assumes "Server_Namespace_new mem create mmap nprocs alloc0 max_entries unit_bytes shmem_kb ns0 = Inr ns"
    and "Client_Namespace_Attach shm_alloc region_id region ns = Inr nsc"
    and "nsp_alloc ns = Some alloc_s" "nsp_alloc nsc = Some alloc_c"
  shows "sa_header alloc_s - nsp_region ns =
      (sa_header alloc_c - nsp_region nsc) + ucast (keys_size mem (nsp_keys ns)) \<and>
    sa_header alloc_c = um_header (nsp_keys nsc)"
proof -
  have s: "sa_header alloc_s = keys_next_section mem (nsp_keys ns)" "um_header (nsp_keys ns) = ring_buffer_GetNextSection 4 (nsp_ns_ids ns)"
    "rb_header (nsp_ns_ids ns) = nsp_region ns"
    using assms(1,3)
    by (auto simp: Server_Namespace_new_def Let_def ring_buffer_Init_def unordered_map_Init_def
        labstor_shmem_allocator_Init_def result_bind_def split: if_splits sum.splits)
  have c: "sa_header alloc_c = ring_buffer_GetNextSection 4 (ring_buffer_Attach (nsp_ns_ids ns) region)"
    "nsp_region nsc = region" "um_header (nsp_keys nsc) = ring_buffer_GetNextSection 4 (ring_buffer_Attach (nsp_ns_ids ns) region)"
    using assms(2,4)
    by (auto simp: Client_Namespace_Attach_def Let_def labstor_shmem_allocator_Attach_def result_bind_def
        unordered_map_Attach_def split: if_splits sum.splits)
  show ?thesis
    by (simp add: s c keys_next_section_def ring_buffer_GetNextSection_def ring_buffer_Attach_def)
qed

end
