(* ===== verification/Server_Daemons.thy ===== *)
theory Server_Daemons
  imports Namespace
begin

text \<open>
  The socket of the server, \<^verbatim>\<open>server_init\<close> in \<^verbatim>\<open>src/userspace/server/server.cpp\<close>, and the background thread
  that looks for clients that have gone, \<^verbatim>\<open>include/labstor/userspace/server/wreaper_thread.h\<close>. The sockets are an argument: \<open>peek k pid\<close> is
  the outcome of the \<open>k\<close>-th attempt to look for a message of process \<open>pid\<close>.
\<close>

section \<open>The socket of the server\<close>

text \<open>
  The results of the system calls are arguments. The descriptor is stored before it is looked at;
  the result is the descriptor that is stored and the error that is thrown.
\<close>

definition server_init :: "i32 \<Rightarrow> i32 \<Rightarrow> i32 \<Rightarrow> i32 \<Rightarrow> i32 \<times> labstor_error option" where
  "server_init socket_ret setsockopt_ret bind_ret listen_ret =
     (let server_fd = socket_ret in
      (server_fd,
       if sint server_fd < 0 then Some UNIX_SOCKET_FAILED
       else if sint setsockopt_ret < 0 then Some UNIX_SETSOCKOPT_FAILED
       else if sint bind_ret < 0 then Some UNIX_BIND_FAILED
       else if sint listen_ret < 0 then Some UNIX_LISTEN_FAILED
       else None))"

section \<open>Lost clients\<close>

datatype peek_outcome = Message | No_Message | Socket_Error

text \<open>
  One pass over the table of processes. \<open>rest\<close> are the entries from the iterator on, in the order
  of the table, each with its object; a null object is dereferenced. The iterator advances only
  when a message has arrived; an entry whose socket fails is deleted and erased.
\<close>

fun wreaper_scan ::
  "nat \<Rightarrow> (nat \<Rightarrow> i32 \<Rightarrow> peek_outcome) \<Rightarrow> nat \<Rightarrow> (u32 \<times> nat option) list \<Rightarrow> server_state \<times> nat list \<Rightarrow>
   (server_state \<times> nat list) result option"
where
  "wreaper_scan fuel peek k [] st = Some (Inr st)"
| "wreaper_scan 0 peek k (e # rest) st = None"
| "wreaper_scan (Suc fuel) peek k ((key, None) # rest) st = Some (Inl NULL_DEREFERENCE)"
| "wreaper_scan (Suc fuel) peek k ((key, Some ipc) # rest) (sv, deleted) =
     (let pid = cr_pid (pp_creds (sv_ipcs sv ! ipc)) in
      if pid = sv_pid sv then wreaper_scan fuel peek (Suc k) ((key, Some ipc) # rest) (sv, deleted)
      else if pid = 0 then wreaper_scan fuel peek (Suc k) ((key, Some ipc) # rest) (sv, deleted)
      else
        (case peek k pid of
           No_Message \<Rightarrow> wreaper_scan fuel peek (Suc k) ((key, Some ipc) # rest) (sv, deleted)
         | Message \<Rightarrow> wreaper_scan fuel peek (Suc k) rest (sv, deleted)
         | Socket_Error \<Rightarrow>
             wreaper_scan fuel peek (Suc k) rest
               (sv\<lparr>sv_pid_to_ipc := (sv_pid_to_ipc sv)(key := None)\<rparr>, deleted @ [ipc])))"

definition WreaperWorker_DoWork ::
  "nat \<Rightarrow> (nat \<Rightarrow> i32 \<Rightarrow> peek_outcome) \<Rightarrow> (u32 \<times> nat option) list \<Rightarrow> server_state \<Rightarrow>
   (server_state \<times> nat list) result option"
where
  "WreaperWorker_DoWork fuel peek entries sv = wreaper_scan fuel peek 0 entries (sv, [])"

lemma wreaper_scan_stuck:
  assumes "(key, Some ipc) \<in> set rest" "\<forall>e \<in> set rest. snd e \<noteq> None"
    and "cr_pid (pp_creds (sv_ipcs sv ! ipc)) \<in> {sv_pid sv, 0}"
  shows "wreaper_scan fuel peek k rest (sv, deleted) = None"
  using assms
proof (induction fuel arbitrary: k rest sv deleted)
  case 0
  then show ?case by (cases rest) auto
next
  case (Suc fuel)
  obtain key' ipc' rest' where r: "rest = (key', Some ipc') # rest'"
    using Suc.prems(1,2) by (cases rest) auto
  let ?pid = "cr_pid (pp_creds (sv_ipcs sv ! ipc'))"
  show ?case
  proof (cases "?pid \<in> {sv_pid sv, 0}")
    case True
    then show ?thesis using Suc.IH [OF Suc.prems] r by (auto simp: Let_def)
  next
    case False
    then have "(key, Some ipc) \<in> set rest'" using Suc.prems(1,3) r by auto
    note stuck = Suc.IH [OF this]
    have a: "\<forall>e \<in> set rest'. snd e \<noteq> None" using Suc.prems(2) r by simp
    show ?thesis
      using False Suc.IH [OF Suc.prems] stuck [OF a Suc.prems(3)]
        stuck [OF a, of "sv\<lparr>sv_pid_to_ipc := (sv_pid_to_ipc sv)(key' := None)\<rparr>"] Suc.prems(3) r
      by (cases "peek k ?pid") (auto simp: Let_def)
  qed
qed

section \<open>Properties\<close>

text \<open>
  The search for lost clients does not end: the table holds the server itself and the kernel, and
  at either entry the loop continues without advancing, whatever the sockets of the clients do.
\<close>

theorem wreaper_never_returns:
  assumes "(key, Some ipc) \<in> set entries" "\<forall>e \<in> set entries. snd e \<noteq> None"
    and "cr_pid (pp_creds (sv_ipcs sv ! ipc)) = sv_pid sv \<or> cr_pid (pp_creds (sv_ipcs sv ! ipc)) = KERNEL_PID"
  shows "WreaperWorker_DoWork fuel peek entries sv = None"
  using wreaper_scan_stuck [OF assms(1,2)] assms(3) by (simp add: WreaperWorker_DoWork_def)

theorem wreaper_never_returns_witness:
  "WreaperWorker_DoWork 1000 (\<lambda>_ _. Message) [(77, Some 0)]
     (sample_server\<lparr>sv_pid := 77\<rparr>) = None"
proof -
  have m: "(77, Some 0) \<in> set [(77 :: u32, Some (0 :: nat))]" "\<forall>e \<in> set [(77 :: u32, Some (0 :: nat))]. snd e \<noteq> None"
    by simp_all
  show ?thesis
    by (rule wreaper_never_returns [OF m]) (simp add: sample_server_def PerProcessIPC_new_def)
qed

end
