(* ===== verification/Client_Call.thy ===== *)
theory Client_Call
  imports Client_Ipc
begin

text \<open>
  The pattern every client module uses to call its server module: choose a queue pair of the
  process, allocate a request on it, fill it, submit it, wait for it, read the answer and free the
  request. The payload \<open>'p\<close> of a request stands at the same address as its header. \<open>server\<close> is
  what the server does to the request while the client waits.
\<close>

record 'p client_world =
  cw_ipc :: client_ipc
  cw_heap :: request_heap
  cw_payload :: "ptr \<Rightarrow> 'p"

type_synonym 'p client_request = "labstor_request \<times> 'p"

definition client_submit ::
  "nat \<Rightarrow> u32 \<Rightarrow> u8 \<Rightarrow> u32 \<Rightarrow> ('p client_request \<Rightarrow> 'p client_request result) \<Rightarrow> 'p client_world \<Rightarrow>
   (labstor_qtok_t \<times> ptr \<times> 'p client_world) result option"
where
  "client_submit fuel tid flags sz start w =
     run_bind (Some (client_GetQueuePair tid (cw_ipc w) flags)) (\<lambda>r.
     run_bind (MemoryManager_AllocRequest (cl_mm (cw_ipc w))
                 (qid_flags (labstor_queue_pair_GetQID (cl_qps (cw_ipc w) ! r))) sz tid) (\<lambda>(p, mm).
     case p of
       None \<Rightarrow> Some (Inl NULL_DEREFERENCE)
     | Some rq \<Rightarrow>
         run_bind (Some (start (cw_heap w rq, cw_payload w rq))) (\<lambda>(hd, pl).
         case labstor_queue_pair_Enqueue fuel no_env ((cw_heap w)(rq := hd), cl_qps (cw_ipc w) ! r) rq of
           None \<Rightarrow> None
         | Some (qtok, heap, qp) \<Rightarrow>
             Some (Inr (qtok, rq,
               \<lparr>cw_ipc = (cw_ipc w)\<lparr>cl_mm := mm, cl_qps := (cl_qps (cw_ipc w))[r := qp]\<rparr>,
                cw_heap = heap, cw_payload = (cw_payload w)(rq := pl)\<rparr>)))))"

definition client_finish ::
  "nat \<Rightarrow> (nat \<Rightarrow> labstor_queue_pair \<Rightarrow> labstor_queue_pair) \<Rightarrow> labstor_qtok_t \<Rightarrow> ('p client_request \<Rightarrow> 'a) \<Rightarrow>
   'p client_world \<Rightarrow> ('a \<times> 'p client_world) result option"
where
  "client_finish fuel env qtok answer w =
     run_bind (client_Wait fuel env (cw_ipc w) qtok) (\<lambda>(rq, cl).
     let a = answer (cw_heap w rq, cw_payload w rq) in
     run_bind (MemoryManager_FreeRequest fuel no_env (cl_mm cl) (qid_flags (qtok_qid qtok)) rq) (\<lambda>mm.
     Some (Inr (a, w\<lparr>cw_ipc := cl\<lparr>cl_mm := mm\<rparr>\<rparr>))))"

definition client_call ::
  "nat \<Rightarrow> (nat \<Rightarrow> labstor_queue_pair \<Rightarrow> labstor_queue_pair) \<Rightarrow> (ptr \<Rightarrow> 'p client_world \<Rightarrow> 'p client_world) \<Rightarrow>
   u32 \<Rightarrow> u8 \<Rightarrow> u32 \<Rightarrow> ('p client_request \<Rightarrow> 'p client_request result) \<Rightarrow> ('p client_request \<Rightarrow> 'a) \<Rightarrow>
   'p client_world \<Rightarrow> ('a \<times> 'p client_world) result option"
where
  "client_call fuel env server tid flags sz start answer w =
     run_bind (client_submit fuel tid flags sz start w) (\<lambda>(qtok, rq, w).
     client_finish fuel env qtok answer (server rq w))"

text \<open>\<open>n\<close> requests of the same kind, and the tokens for them in order.\<close>

fun client_submit_many ::
  "nat \<Rightarrow> u32 \<Rightarrow> u8 \<Rightarrow> u32 \<Rightarrow> ('p client_request \<Rightarrow> 'p client_request result) \<Rightarrow> nat \<Rightarrow> 'p client_world \<Rightarrow>
   (labstor_qtok_t list \<times> 'p client_world) result option"
where
  "client_submit_many fuel tid flags sz start 0 w = Some (Inr ([], w))"
| "client_submit_many fuel tid flags sz start (Suc n) w =
     run_bind (client_submit fuel tid flags sz start w) (\<lambda>(qtok, rq, w).
     run_bind (client_submit_many fuel tid flags sz start n w) (\<lambda>(qtoks, w). Some (Inr (qtok # qtoks, w))))"

end
