(* ===== verification/Registrar.thy ===== *)
theory Registrar
  imports Namespace Client_Call
begin

text \<open>
  The registrar, the module through which clients mount and find modules:
  \<^verbatim>\<open>labmods/registrar/registrar.h\<close>, \<^verbatim>\<open>server/registrar_server.cpp\<close> and \<^verbatim>\<open>client/registrar_client.cpp\<close>.
  A request is its common header, in the heap of requests, and a payload at the same address.
\<close>

section \<open>Requests\<close>

record registrar_payload =
  rp_module_id :: labstor_id
  rp_key :: labstor_id
  rp_module_ns_id :: i32
  rp_text :: cstring

type_synonym registrar_request = "labstor_request \<times> registrar_payload"


datatype registrar_op = kInit | kGetModulePath | kGetNamespaceId | kPushUpgrade | kTerminate

definition registrar_op_of :: "u16 \<Rightarrow> registrar_op option" where
  "registrar_op_of v =
     (if v = 0 then Some kInit else if v = 1 then Some kGetModulePath else if v = 2 then Some kGetNamespaceId
      else if v = 3 then Some kPushUpgrade else if v = 4 then Some kTerminate else None)"

definition register_request_ConstructModuleStart ::
  "registrar_request \<Rightarrow> cstring \<Rightarrow> cstring \<Rightarrow> registrar_request result"
where
  "register_request_ConstructModuleStart r module_id key =
     result_bind (labstor_id_copy (rp_module_id (snd r)) module_id) (\<lambda>mid.
     result_bind (labstor_id_copy (rp_key (snd r)) key) (\<lambda>k.
     Inr ((fst r)\<lparr>rq_ns_id := 0, rq_op := 0\<rparr>, (snd r)\<lparr>rp_module_id := mid, rp_key := k\<rparr>)))"

definition register_request_ConstructModuleEnd :: "labstor_request \<Rightarrow> u32 \<Rightarrow> labstor_request" where
  "register_request_ConstructModuleEnd r ns_id = r\<lparr>rq_ns_id := ns_id\<rparr>"

definition namespace_id_request_GetNamespaceIDStart :: "registrar_request \<Rightarrow> cstring \<Rightarrow> registrar_request result" where
  "namespace_id_request_GetNamespaceIDStart r key =
     result_bind (labstor_id_copy (rp_key (snd r)) key) (\<lambda>k.
     Inr ((fst r)\<lparr>rq_ns_id := 0, rq_op := 2\<rparr>, (snd r)\<lparr>rp_key := k\<rparr>))"

definition namespace_id_request_GetNamespaceIDEnd :: "labstor_request \<Rightarrow> u32 \<Rightarrow> u32 \<Rightarrow> labstor_request" where
  "namespace_id_request_GetNamespaceIDEnd r ns_id code = r\<lparr>rq_code := code, rq_ns_id := ns_id\<rparr>"

definition module_path_request_GetModulePathStart :: "registrar_request \<Rightarrow> i32 \<Rightarrow> registrar_request" where
  "module_path_request_GetModulePathStart r ns_id =
     ((fst r)\<lparr>rq_ns_id := 0, rq_op := 1\<rparr>, (snd r)\<lparr>rp_module_ns_id := ns_id\<rparr>)"

text \<open>
  \<^verbatim>\<open>strcpy\<close> copies up to and with the null character. The text is an array of no declared length behind
  the request, and nothing bounds the copy: \<open>rp_text\<close> is as long as what was written to it, whatever
  belongs to the memory there.
\<close>

definition module_path_request_GetModulePathEnd :: "registrar_request \<Rightarrow> cstring \<Rightarrow> u32 \<Rightarrow> registrar_request" where
  "module_path_request_GetModulePathEnd r path code =
     ((fst r)\<lparr>rq_code := code\<rparr>,
      (snd r)\<lparr>rp_text := c_str path @ 0 # drop (Suc (length (c_str path))) (rp_text (snd r))\<rparr>)"

definition module_path_request_GetModulePath :: "registrar_payload \<Rightarrow> cstring" where
  "module_path_request_GetModulePath p = c_str (rp_text p)"

text \<open>The characters are copied without a null character behind them.\<close>

definition upgrade_request_PushUpgradeStart :: "registrar_request \<Rightarrow> cstring \<Rightarrow> registrar_request" where
  "upgrade_request_PushUpgradeStart r yaml_path =
     ((fst r)\<lparr>rq_ns_id := 0, rq_op := 3\<rparr>,
      (snd r)\<lparr>rp_text := yaml_path @ drop (length yaml_path) (rp_text (snd r))\<rparr>)"

definition terminate_request_TerminateStart :: "registrar_request \<Rightarrow> registrar_request" where
  "terminate_request_TerminateStart r = ((fst r)\<lparr>rq_ns_id := 0, rq_op := 4\<rparr>, snd r)"

section \<open>The server\<close>

record registrar_world =
  rw_modules :: server_modules
  rw_ns :: module_namespace
  rw_objs :: "module_object list"
  rw_mem :: string_mem
  rw_heap :: request_heap
  rw_payload :: "ptr \<Rightarrow> registrar_payload"
  rw_qp :: labstor_queue_pair

text \<open>A call ends with a result, throws, or ends the process.\<close>

datatype registrar_outcome = Returned bool | Thrown labstor_error | Exited nat

definition registrar_complete ::
  "nat \<Rightarrow> (nat \<Rightarrow> qp_state \<Rightarrow> qp_state) \<Rightarrow> ptr \<Rightarrow> registrar_outcome \<Rightarrow> registrar_world \<Rightarrow>
   (registrar_outcome \<times> registrar_world) option"
where
  "registrar_complete fuel env rq outcome w =
     map_option (\<lambda>(_, heap, qp). (outcome, w\<lparr>rw_heap := heap, rw_qp := qp\<rparr>))
       (shmem_queue_pair_Complete fuel env (rw_heap w, rw_qp w) (rq_req_id (rw_heap w rq)) rq)"

text \<open>The library's constructor always returns an object here; the check for null is dead code.\<close>

definition Registrar_Initialize ::
  "nat \<Rightarrow> (nat \<Rightarrow> qp_state \<Rightarrow> qp_state) \<Rightarrow> (nat \<Rightarrow> labstor_id) \<Rightarrow> u32 \<Rightarrow> ptr \<Rightarrow> registrar_world \<Rightarrow>
   (registrar_outcome \<times> registrar_world) option"
where
  "Registrar_Initialize fuel env lib_id tid rq w =
     (case ModuleTable_GetModuleConstructor (sm_table (rw_modules w)) (rp_module_id (rw_payload w rq)) of
        Inl err \<Rightarrow> Some (Thrown err, w)
      | Inr lib \<Rightarrow>
          (case construct_module lib_id (sm_table (rw_modules w)) lib of
             Inl err \<Rightarrow> Some (Thrown err, w)
           | Inr module \<Rightarrow>
               let r = length (rw_objs w); w = w\<lparr>rw_objs := rw_objs w @ [module]\<rparr> in
               (case Namespace_AddKey_id (rw_mem w) (rw_objs w) (rw_ns w) tid (rp_key (rw_payload w rq)) r of
                  None \<Rightarrow> None
                | Some (Inl err) \<Rightarrow> Some (Thrown err, w)
                | Some (Inr (ns_id, mem, ns)) \<Rightarrow>
                    registrar_complete fuel env rq (Returned True)
                      (w\<lparr>rw_mem := mem, rw_ns := ns,
                         rw_heap := (rw_heap w)(rq := register_request_ConstructModuleEnd (rw_heap w rq) ns_id)\<rparr>))))"

definition Registrar_GetNamespaceId ::
  "nat \<Rightarrow> (nat \<Rightarrow> qp_state \<Rightarrow> qp_state) \<Rightarrow> ptr \<Rightarrow> ptr \<Rightarrow> registrar_world \<Rightarrow> (registrar_outcome \<times> registrar_world) option"
where
  "Registrar_GetNamespaceId fuel env buf rq w =
     (let ns_id = Namespace_GetNamespaceID_std (rw_mem w) buf (rw_ns w) (c_str (id_key (rp_key (rw_payload w rq))));
          code = (if ns_id = - 1 then LABSTOR_REQUEST_FAILED else LABSTOR_REQUEST_SUCCESS) in
      registrar_complete fuel env rq (Returned True)
        (w\<lparr>rw_heap := (rw_heap w)(rq := namespace_id_request_GetNamespaceIDEnd (rw_heap w rq) ns_id code)\<rparr>))"

definition Registrar_GetModulePath ::
  "nat \<Rightarrow> (nat \<Rightarrow> qp_state \<Rightarrow> qp_state) \<Rightarrow> ptr \<Rightarrow> registrar_world \<Rightarrow> (registrar_outcome \<times> registrar_world) option"
where
  "Registrar_GetModulePath fuel env rq w =
     (case Namespace_GetModule (rw_ns w) (rp_module_ns_id (rw_payload w rq)) of
        None \<Rightarrow> Some (Thrown NULL_DEREFERENCE, w)
      | Some m \<Rightarrow>
          if mo_deleted (rw_objs w ! m) then Some (Thrown USE_AFTER_FREE, w)
          else
            let path = ModuleManager_GetModulePath (rw_modules w) (mo_id (rw_objs w ! m)) True;
                (r, p) = module_path_request_GetModulePathEnd (rw_heap w rq, rw_payload w rq) path
                           LABSTOR_REQUEST_SUCCESS in
            registrar_complete fuel env rq (Returned True)
              (w\<lparr>rw_heap := (rw_heap w)(rq := r), rw_payload := (rw_payload w)(rq := p)\<rparr>))"

text \<open>An upgrade is queued and the request is not completed; termination completes and exits.\<close>

definition Registrar_ProcessRequest ::
  "nat \<Rightarrow> (nat \<Rightarrow> qp_state \<Rightarrow> qp_state) \<Rightarrow> (nat \<Rightarrow> labstor_id) \<Rightarrow> u32 \<Rightarrow> ptr \<Rightarrow> ptr \<Rightarrow> registrar_world \<Rightarrow>
   (registrar_outcome \<times> registrar_world) option"
where
  "Registrar_ProcessRequest fuel env lib_id tid buf rq w =
     (case registrar_op_of (rq_op (rw_heap w rq)) of
        Some kInit \<Rightarrow> Registrar_Initialize fuel env lib_id tid rq w
      | Some kGetNamespaceId \<Rightarrow> Registrar_GetNamespaceId fuel env buf rq w
      | Some kGetModulePath \<Rightarrow> Registrar_GetModulePath fuel env rq w
      | Some kPushUpgrade \<Rightarrow>
          Some (Returned True,
                w\<lparr>rw_modules := (rw_modules w)\<lparr>sm_table := ModuleTable_PushUpgrade (sm_table (rw_modules w)) rq\<rparr>\<rparr>)
      | Some kTerminate \<Rightarrow> registrar_complete fuel env rq (Exited 0) w
      | None \<Rightarrow> Some (Returned True, w))"

section \<open>The client\<close>

text \<open>
  Every call of the client is a call in the sense of the theory \<open>Client_Call\<close> on the queue pair of
  the current thread.
\<close>

type_synonym registrar_client_world = "registrar_payload client_world"

type_synonym registrar_server = "ptr \<Rightarrow> registrar_client_world \<Rightarrow> registrar_client_world"

definition registrar_call ::
  "nat \<Rightarrow> (nat \<Rightarrow> labstor_queue_pair \<Rightarrow> labstor_queue_pair) \<Rightarrow> registrar_server \<Rightarrow> u32 \<Rightarrow> u32 \<Rightarrow>
   (registrar_request \<Rightarrow> registrar_request result) \<Rightarrow> (registrar_request \<Rightarrow> 'a) \<Rightarrow> registrar_client_world \<Rightarrow>
   ('a \<times> registrar_client_world) result option"
where
  "registrar_call fuel env server tid sz start answer w = client_call fuel env server tid 0 sz start answer w"

definition Registrar_Client_RegisterInstance ::
  "nat \<Rightarrow> (nat \<Rightarrow> labstor_queue_pair \<Rightarrow> labstor_queue_pair) \<Rightarrow> registrar_server \<Rightarrow> u32 \<Rightarrow> cstring \<Rightarrow> cstring \<Rightarrow>
   registrar_client_world \<Rightarrow> (u32 \<times> registrar_client_world) result option"
where
  "Registrar_Client_RegisterInstance fuel env server tid module_id key =
     registrar_call fuel env server tid 80 (\<lambda>r. register_request_ConstructModuleStart r module_id key) (rq_ns_id \<circ> fst)"

definition Registrar_Client_GetNamespaceID ::
  "nat \<Rightarrow> (nat \<Rightarrow> labstor_queue_pair \<Rightarrow> labstor_queue_pair) \<Rightarrow> registrar_server \<Rightarrow> u32 \<Rightarrow> cstring \<Rightarrow>
   registrar_client_world \<Rightarrow> (u32 \<times> registrar_client_world) result option"
where
  "Registrar_Client_GetNamespaceID fuel env server tid key =
     registrar_call fuel env server tid 48 (\<lambda>r. namespace_id_request_GetNamespaceIDStart r key) (rq_ns_id \<circ> fst)"

definition Registrar_Client_PushUpgrade ::
  "nat \<Rightarrow> (nat \<Rightarrow> labstor_queue_pair \<Rightarrow> labstor_queue_pair) \<Rightarrow> registrar_server \<Rightarrow> u32 \<Rightarrow> cstring \<Rightarrow>
   registrar_client_world \<Rightarrow> (u32 \<times> registrar_client_world) result option"
where
  "Registrar_Client_PushUpgrade fuel env server tid yaml_path =
     registrar_call fuel env server tid 16 (\<lambda>r. Inr (upgrade_request_PushUpgradeStart r yaml_path)) (rq_code \<circ> fst)"

definition Registrar_Client_GetModulePath ::
  "nat \<Rightarrow> (nat \<Rightarrow> labstor_queue_pair \<Rightarrow> labstor_queue_pair) \<Rightarrow> registrar_server \<Rightarrow> u32 \<Rightarrow> i32 \<Rightarrow>
   registrar_client_world \<Rightarrow> (cstring \<times> registrar_client_world) result option"
where
  "Registrar_Client_GetModulePath fuel env server tid ns_id =
     registrar_call fuel env server tid 20 (\<lambda>r. Inr (module_path_request_GetModulePathStart r ns_id))
       (module_path_request_GetModulePath \<circ> snd)"

definition Registrar_Client_TerminateServer ::
  "nat \<Rightarrow> (nat \<Rightarrow> labstor_queue_pair \<Rightarrow> labstor_queue_pair) \<Rightarrow> registrar_server \<Rightarrow> u32 \<Rightarrow>
   registrar_client_world \<Rightarrow> (unit \<times> registrar_client_world) result option"
where
  "Registrar_Client_TerminateServer fuel env server tid =
     registrar_call fuel env server tid 16 (\<lambda>r. Inr (terminate_request_TerminateStart r)) (\<lambda>_. ())"

definition Registrar_Client_MountLabStack :: "cstring \<Rightarrow> cstring \<Rightarrow> i32" where
  "Registrar_Client_MountLabStack key yaml_path = 0"

definition Registrar_Client_UnmountLabStack :: "cstring \<Rightarrow> cstring \<Rightarrow> i32" where
  "Registrar_Client_UnmountLabStack key yaml_path = 0"


section \<open>Properties\<close>

abbreviation can_complete :: "registrar_world \<Rightarrow> ptr \<Rightarrow> bool" where
  "can_complete w rq \<equiv> completable (rw_heap w) (rw_qp w) rq"

lemma registrar_complete_free:
  assumes "can_complete w rq"
  shows "\<exists>qp. registrar_complete (Suc fuel) no_env rq outcome w = Some (outcome, w\<lparr>rw_qp := qp\<rparr>) \<and>
    completed_as qp (rq_req_id (rw_heap w rq)) rq"
  using CompleteInf_completes [OF assms, of fuel]
  by (auto simp: registrar_complete_def shmem_queue_pair_Complete_def)

text \<open>
  C17. Lookups are answered: a request for a name is completed with the identifier of the name and
  success, or with the invalid identifier and failure; a request for the path of a mounted module
  is completed with the client library of the module. The waiting client finds the request.
\<close>

theorem registrar_answers_lookups:
  assumes "can_complete w rq"
  shows "(rq_op (rw_heap w rq) = 2 \<longrightarrow>
      (let ns_id = Namespace_GetNamespaceID_std (rw_mem w) buf (rw_ns w) (c_str (id_key (rp_key (rw_payload w rq)))) in
       \<exists>w'. Registrar_ProcessRequest (Suc fuel) no_env lib_id tid buf rq w = Some (Returned True, w') \<and>
         rq_ns_id (rw_heap w' rq) = ns_id \<and>
         rq_code (rw_heap w' rq) = (if ns_id = - 1 then LABSTOR_REQUEST_FAILED else LABSTOR_REQUEST_SUCCESS) \<and>
         completed_as (rw_qp w') (rq_req_id (rw_heap w rq)) rq)) \<and>
    (\<forall>m. rq_op (rw_heap w rq) = 1 \<and> Namespace_GetModule (rw_ns w) (rp_module_ns_id (rw_payload w rq)) = Some m \<and>
        \<not> mo_deleted (rw_objs w ! m) \<longrightarrow>
      (\<exists>w'. Registrar_ProcessRequest (Suc fuel) no_env lib_id tid buf rq w = Some (Returned True, w') \<and>
         module_path_request_GetModulePath (rw_payload w' rq) =
           c_str (ModuleManager_GetModulePath (rw_modules w) (mo_id (rw_objs w ! m)) True) \<and>
         completed_as (rw_qp w') (rq_req_id (rw_heap w rq)) rq))"
proof (intro conjI allI impI)
  assume op: "rq_op (rw_heap w rq) = 2"
  let ?id = "Namespace_GetNamespaceID_std (rw_mem w) buf (rw_ns w) (c_str (id_key (rp_key (rw_payload w rq))))"
  define w1 where "w1 = w\<lparr>rw_heap := (rw_heap w)(rq := namespace_id_request_GetNamespaceIDEnd (rw_heap w rq) ?id
    (if ?id = - 1 then LABSTOR_REQUEST_FAILED else LABSTOR_REQUEST_SUCCESS))\<rparr>"
  have "can_complete w1 rq"
    using assms by (simp add: completable_def w1_def namespace_id_request_GetNamespaceIDEnd_def)
  from registrar_complete_free [OF this, of fuel "Returned True"]
  obtain qp where "registrar_complete (Suc fuel) no_env rq (Returned True) w1 = Some (Returned True, w1\<lparr>rw_qp := qp\<rparr>)"
      "completed_as qp (rq_req_id (rw_heap w1 rq)) rq" by blast
  then show "let ns_id = ?id in
       \<exists>w'. Registrar_ProcessRequest (Suc fuel) no_env lib_id tid buf rq w = Some (Returned True, w') \<and>
         rq_ns_id (rw_heap w' rq) = ns_id \<and>
         rq_code (rw_heap w' rq) = (if ns_id = - 1 then LABSTOR_REQUEST_FAILED else LABSTOR_REQUEST_SUCCESS) \<and>
         completed_as (rw_qp w') (rq_req_id (rw_heap w rq)) rq"
    unfolding Let_def
    by (intro exI [of _ "w1\<lparr>rw_qp := qp\<rparr>"])
      (simp add: op Registrar_ProcessRequest_def registrar_op_of_def Registrar_GetNamespaceId_def Let_def w1_def
        namespace_id_request_GetNamespaceIDEnd_def)
next
  fix m
  assume m: "rq_op (rw_heap w rq) = 1 \<and> Namespace_GetModule (rw_ns w) (rp_module_ns_id (rw_payload w rq)) = Some m \<and>
    \<not> mo_deleted (rw_objs w ! m)"
  let ?path = "ModuleManager_GetModulePath (rw_modules w) (mo_id (rw_objs w ! m)) True"
  obtain r p where rp: "module_path_request_GetModulePathEnd (rw_heap w rq, rw_payload w rq) ?path LABSTOR_REQUEST_SUCCESS = (r, p)"
    by fastforce
  have t: "c_str (rp_text p) = c_str ?path" "rq_req_id r = rq_req_id (rw_heap w rq)"
    using rp by (auto simp: module_path_request_GetModulePathEnd_def c_str_def takeWhile_tail)
  define w1 where "w1 = w\<lparr>rw_heap := (rw_heap w)(rq := r), rw_payload := (rw_payload w)(rq := p)\<rparr>"
  have "can_complete w1 rq" using assms t(2) by (simp add: completable_def w1_def)
  from registrar_complete_free [OF this, of fuel "Returned True"]
  obtain qp where "registrar_complete (Suc fuel) no_env rq (Returned True) w1 = Some (Returned True, w1\<lparr>rw_qp := qp\<rparr>)"
      "completed_as qp (rq_req_id (rw_heap w1 rq)) rq" by blast
  then show "\<exists>w'. Registrar_ProcessRequest (Suc fuel) no_env lib_id tid buf rq w = Some (Returned True, w') \<and>
         module_path_request_GetModulePath (rw_payload w' rq) = c_str ?path \<and>
         completed_as (rw_qp w') (rq_req_id (rw_heap w rq)) rq"
    by (intro exI [of _ "w1\<lparr>rw_qp := qp\<rparr>"])
      (simp add: m Registrar_ProcessRequest_def registrar_op_of_def Registrar_GetModulePath_def rp t Let_def w1_def
        module_path_request_GetModulePath_def)
qed

text \<open>A registrar with one mounted module, and a request at 5000 with operation \<open>opc\<close>.\<close>

definition sample_registrar :: "u16 \<Rightarrow> registrar_world" where
  "sample_registrar opc =
     \<lparr>rw_modules = \<lparr>sm_table = \<lparr>mt_pool = Map.empty, mt_refs = (\<lambda>_. 0), mt_upgrades = []\<rparr>,
        sm_paths = [[97] \<mapsto> \<lparr>mp_client = [47, 99], mp_server = [47, 115]\<rparr>]\<rparr>,
      rw_ns = (empty_namespace (um_blank \<lparr>sb_off = 0, sb_value = 0\<rparr>))\<lparr>nsp_private := [Some 0]\<rparr>,
      rw_objs = [\<lparr>mo_id = \<lparr>id_key = [97, 0]\<rparr>, mo_ns_id = 0, mo_deleted = False\<rparr>],
      rw_mem = two_names,
      rw_heap = (\<lambda>_. \<lparr>rq_req_id = 5, rq_ns_id = 0, rq_code = 0, rq_op = opc\<rparr>),
      rw_payload = (\<lambda>_. \<lparr>rp_module_id = \<lparr>id_key = []\<rparr>, rp_key = \<lparr>id_key = []\<rparr>, rp_module_ns_id = 0, rp_text = []\<rparr>),
      rw_qp = idle_qp\<rparr>"

lemma sample_registrar_can_complete: "can_complete (sample_registrar opc) 5000"
  by (simp add: completable_def sample_registrar_def idle_qp_def)

theorem registrar_answers_lookups_witness:
  "\<exists>w'. Registrar_ProcessRequest 1 no_env (\<lambda>_. \<lparr>id_key = []\<rparr>) 0 9000 5000 (sample_registrar 1) = Some (Returned True, w') \<and>
     module_path_request_GetModulePath (rw_payload w' 5000) = [47, 99] \<and> completed_as (rw_qp w') 5 5000"
proof -
  have m: "Namespace_GetModule (rw_ns (sample_registrar 1)) (rp_module_ns_id (rw_payload (sample_registrar 1) 5000)) = Some 0"
    "\<not> mo_deleted (rw_objs (sample_registrar 1) ! 0)" "rq_op (rw_heap (sample_registrar 1) 5000) = 1"
    "rq_req_id (rw_heap (sample_registrar 1) 5000) = 5"
    "c_str (ModuleManager_GetModulePath (rw_modules (sample_registrar 1)) (mo_id (rw_objs (sample_registrar 1) ! 0)) True) = [47, 99]"
    by (simp_all add: sample_registrar_def Namespace_GetModule_def ModuleManager_GetModulePath_def id_name_def c_str_def)
  from registrar_answers_lookups [OF sample_registrar_can_complete, of 1 9000 0 "\<lambda>_. \<lparr>id_key = []\<rparr>" 0] m
  show ?thesis by auto
qed

end
