(* ===== verification/Upgrade_Daemon.thy ===== *)
theory Upgrade_Daemon
  imports Registrar
begin

text \<open>
  The background thread that carries out upgrades, \<^verbatim>\<open>include/labstor/userspace/server/upgrade_thread.h\<close>, beside the
  registrar, which queues the requests for them. The thread works on the tables of the server and
  reads the requests in memory. Configuration files are an argument.
\<close>

section \<open>The thread\<close>

text \<open>
  A configuration file as the calls on it see it: whether the key \<^verbatim>\<open>code_update\<close> exists, its value
  as a string, the value of \<^verbatim>\<open>labmod_uuid\<close> as a string, whether the value of \<^verbatim>\<open>code_update\<close> has the keys
  \<^verbatim>\<open>centralized\<close> and \<^verbatim>\<open>decentralized\<close>, and the path that the module manager reads from it, which is under
  the key \<^verbatim>\<open>code_upgrade\<close>. A call that throws is a value on the left.
\<close>

record yaml_doc =
  yd_code_update :: bool
  yd_code_update_string :: "cstring result"
  yd_labmod_uuid :: "cstring result"
  yd_centralized :: "bool result"
  yd_decentralized :: "bool result"
  yd_upgrade_path :: "cstring result"

definition upgrade_from ::
  "(cstring \<Rightarrow> registrar_world \<Rightarrow> registrar_world result) \<Rightarrow> yaml_doc \<Rightarrow> registrar_world \<Rightarrow> registrar_world result"
where
  "upgrade_from update_module config w =
     (if yd_code_update config then
        result_bind (yd_code_update_string config) (\<lambda>_.
        result_bind (yd_labmod_uuid config) (\<lambda>_.
        result_bind (yd_centralized config) (\<lambda>centralized.
        result_bind (if centralized then result_bind (yd_upgrade_path config) (\<lambda>path. update_module path w) else Inr w) (\<lambda>w.
        result_bind (yd_decentralized config) (\<lambda>_. Inr w)))))
      else Inr w)"

text \<open>The file is named by the text in the request, up to its first null character.\<close>

fun upgrade_all ::
  "(cstring \<Rightarrow> yaml_doc result) \<Rightarrow> (cstring \<Rightarrow> registrar_world \<Rightarrow> registrar_world result) \<Rightarrow> ptr list \<Rightarrow>
   registrar_world \<Rightarrow> registrar_world result"
where
  "upgrade_all load_file update_module [] w = Inr w"
| "upgrade_all load_file update_module (u # us) w =
     result_bind (load_file (c_str (rp_text (rw_payload w u)))) (\<lambda>config.
     result_bind (upgrade_from update_module config w) (\<lambda>w. upgrade_all load_file update_module us w))"

definition update_world ::
  "(cstring \<Rightarrow> (nat \<times> labstor_id option) option) \<Rightarrow> (module_object \<Rightarrow> module_object \<Rightarrow> module_object) \<Rightarrow>
   (nat \<Rightarrow> labstor_id) \<Rightarrow> cstring \<Rightarrow> registrar_world \<Rightarrow> registrar_world result"
where
  "update_world dl update lib_id path w =
     result_bind (ModuleManager_CentralizedUpdateModule dl update lib_id path (rw_modules w, rw_ns w, rw_objs w))
       (\<lambda>(modules, ns, objs). Inr (w\<lparr>rw_modules := modules, rw_ns := ns, rw_objs := objs\<rparr>))"

text \<open>The clock is read on entry, \<open>now\<close>, and at the end, \<open>now'\<close>. The list of upgrades stays what it is.\<close>

definition UpgradeWorker_DoWork ::
  "(cstring \<Rightarrow> (nat \<times> labstor_id option) option) \<Rightarrow> (module_object \<Rightarrow> module_object \<Rightarrow> module_object) \<Rightarrow>
   (nat \<Rightarrow> labstor_id) \<Rightarrow> (cstring \<Rightarrow> yaml_doc result) \<Rightarrow> nat \<Rightarrow> nat \<Rightarrow> labstor_timer \<times> registrar_world \<Rightarrow>
   (labstor_timer \<times> registrar_world) result"
where
  "UpgradeWorker_DoWork dl update lib_id load_file now now' tw =
     (case tw of (t, w) \<Rightarrow>
      let t = Timer_Pause now t in
      if 5 * 10 ^ 9 \<le> tm_time_ns t then
        result_bind (upgrade_all load_file (update_world dl update lib_id) (mt_upgrades (sm_table (rw_modules w))) w) (\<lambda>w.
        Inr (Timer_Resume now' (Timer_Reset t), w))
      else Inr (Timer_Resume now' t, w))"

section \<open>The server around a request for an upgrade\<close>

text \<open>
  What happens while the client of the request \<open>rq\<close> waits: the registrar serves other requests, other
  modules complete theirs, the upgrade thread makes its passes, clients write requests of their
  own, change the submission queue and look for completions, and the worker takes requests off the
  queue. Requests other than \<open>rq\<close> have identifiers with other buckets of the completion map, as the
  map demands of requests that are under way at the same time.
\<close>

definition bucket_of :: "registrar_world \<Rightarrow> ptr \<Rightarrow> u32" where
  "bucket_of w rq = rq_req_id (rw_heap w rq) mod rm_num_buckets (qp_cq (rw_qp w))"

inductive server_step :: "ptr \<Rightarrow> registrar_world \<Rightarrow> registrar_world \<Rightarrow> bool" for rq where
  registrar: "rq' \<noteq> rq \<Longrightarrow> bucket_of w rq' \<noteq> bucket_of w rq \<Longrightarrow>
    Registrar_ProcessRequest fuel no_env lib_id tid buf rq' w = Some (outcome, w') \<Longrightarrow> server_step rq w w'"
| module_completes: "rq' \<noteq> rq \<Longrightarrow> bucket_of w rq' \<noteq> bucket_of w rq \<Longrightarrow>
    registrar_complete fuel no_env rq' outcome w = Some (outcome', w') \<Longrightarrow> server_step rq w w'"
| upgrade_pass: "UpgradeWorker_DoWork dl update lib_id load_file now now' (t, w) = Inr (t', w') \<Longrightarrow> server_step rq w w'"
| client_writes: "p \<noteq> rq \<Longrightarrow>
    server_step rq w (w\<lparr>rw_heap := (rw_heap w)(p := r), rw_payload := (rw_payload w)(p := pl)\<rparr>)"
| queue_changes: "server_step rq w (w\<lparr>rw_qp := (rw_qp w)\<lparr>qp_sq := sq\<rparr>\<rparr>)"
| client_polls: "server_step rq w (w\<lparr>rw_qp := snd (labstor_queue_pair_IsComplete (rw_qp w) i)\<rparr>)"

text \<open>The request is queued and not completed.\<close>

definition upgrade_pending :: "ptr \<Rightarrow> u32 \<Rightarrow> u32 \<Rightarrow> registrar_world \<Rightarrow> bool" where
  "upgrade_pending rq i n w \<longleftrightarrow> rq \<in> set (mt_upgrades (sm_table (rw_modules w))) \<and> rq_req_id (rw_heap w rq) = i \<and>
     rm_num_buckets (qp_cq (rw_qp w)) = n \<and> rm_cells (qp_cq (rw_qp w)) (i mod n) = - 1"

lemma CentralizedUpdateModule_upgrades:
  "ModuleManager_CentralizedUpdateModule dl update lib_id path (sm, ns, objs) = Inr (sm', ns', objs') \<Longrightarrow>
     mt_upgrades (sm_table sm') = mt_upgrades (sm_table sm)"
  by (auto simp: ModuleManager_CentralizedUpdateModule_def ModuleTable_OpenModule_def ModuleTable_SetModuleConstructor_def
      result_bind_Inr split: option.splits)

text \<open>A pass of the upgrade thread changes neither the requests, nor the queue pair, nor the list.\<close>

definition same_requests :: "registrar_world \<Rightarrow> registrar_world \<Rightarrow> bool" where
  "same_requests w w' \<longleftrightarrow> mt_upgrades (sm_table (rw_modules w')) = mt_upgrades (sm_table (rw_modules w)) \<and>
     rw_heap w' = rw_heap w \<and> rw_qp w' = rw_qp w"

lemma update_world_same: "update_world dl update lib_id path w = Inr w' \<Longrightarrow> same_requests w w'"
  by (auto simp: update_world_def result_bind_Inr same_requests_def dest: CentralizedUpdateModule_upgrades)

lemma upgrade_from_same:
  assumes "\<And>path w w'. m path w = Inr w' \<Longrightarrow> same_requests w w'"
  shows "upgrade_from m config w = Inr w' \<Longrightarrow> same_requests w w'"
  using assms by (auto simp: upgrade_from_def result_bind_Inr same_requests_def split: if_splits)

lemma upgrade_all_same:
  assumes "\<And>path w w'. m path w = Inr w' \<Longrightarrow> same_requests w w'"
  shows "upgrade_all load_file m us w = Inr w' \<Longrightarrow> same_requests w w'"
proof (induction us arbitrary: w)
  case Nil
  then show ?case by (simp add: same_requests_def)
next
  case (Cons u us)
  then obtain config w1 where "upgrade_from m config w = Inr w1" "upgrade_all load_file m us w1 = Inr w'"
    by (auto simp: result_bind_Inr)
  then show ?case using upgrade_from_same [OF assms] Cons.IH by (fastforce simp: same_requests_def)
qed

lemma UpgradeWorker_same:
  assumes "UpgradeWorker_DoWork dl update lib_id load_file now now' (t, w) = Inr (t', w')"
  shows "same_requests w w'"
  using assms upgrade_all_same [OF update_world_same]
  by (auto simp: UpgradeWorker_DoWork_def Let_def result_bind_Inr same_requests_def split: if_splits)

text \<open>Completing and serving another request.\<close>

lemma registrar_complete_pending:
  assumes "registrar_complete fuel no_env rq' outcome w = Some (outcome', w')" "upgrade_pending rq i n w"
    and "bucket_of w rq' \<noteq> bucket_of w rq"
  shows "upgrade_pending rq i n w'"
proof -
  obtain u heap qp where c: "labstor_queue_pair_CompleteInf fuel no_env (rw_heap w, rw_qp w) rq' = Some (u, heap, qp)"
      "w' = w\<lparr>rw_heap := heap, rw_qp := qp\<rparr>"
    using assms(1) by (auto simp: registrar_complete_def shmem_queue_pair_Complete_def)
  show ?thesis using CompleteInf_effect [OF c(1)] c(2) assms(2,3) by (auto simp: upgrade_pending_def bucket_of_def)
qed

text \<open>What a call does to the tables and to its own request before it completes it.\<close>

lemma pending_before_complete:
  assumes "upgrade_pending rq i n w" "rq' \<noteq> rq" "rq_req_id r = rq_req_id (rw_heap w rq')"
    and "rw_modules w1 = rw_modules w" "rw_heap w1 = (rw_heap w)(rq' := r)" "rw_qp w1 = rw_qp w"
  shows "upgrade_pending rq i n w1" "bucket_of w1 rq' = bucket_of w rq'" "bucket_of w1 rq = bucket_of w rq"
  using assms by (simp_all add: upgrade_pending_def bucket_of_def)

lemma Registrar_Initialize_pending:
  assumes "upgrade_pending rq i n w" "rq' \<noteq> rq" "bucket_of w rq' \<noteq> bucket_of w rq"
    and "Registrar_Initialize fuel no_env lib_id tid rq' w = Some (outcome, w')"
  shows "upgrade_pending rq i n w'"
proof -
  let ?c = "\<lambda>objs mem ns ns_id. w\<lparr>rw_objs := objs, rw_mem := mem, rw_ns := ns,
      rw_heap := (rw_heap w)(rq' := register_request_ConstructModuleEnd (rw_heap w rq') ns_id)\<rparr>"
  consider objs where "w' = w\<lparr>rw_objs := objs\<rparr>" | "w' = w"
    | objs mem ns ns_id where "registrar_complete fuel no_env rq' (Returned True) (?c objs mem ns ns_id) = Some (outcome, w')"
    using assms(4) by (fastforce simp: Registrar_Initialize_def Let_def split: sum.splits option.splits prod.splits)
  then show ?thesis
  proof cases
    case (3 objs mem ns ns_id)
    note p = pending_before_complete [OF assms(1,2), of "register_request_ConstructModuleEnd (rw_heap w rq') ns_id" "?c objs mem ns ns_id"]
    show ?thesis
      by (rule registrar_complete_pending [OF 3]) (use p assms(3) in \<open>simp_all add: register_request_ConstructModuleEnd_def\<close>)
  qed (use assms(1) in \<open>simp_all add: upgrade_pending_def\<close>)
qed

lemma Registrar_GetNamespaceId_pending:
  assumes "upgrade_pending rq i n w" "rq' \<noteq> rq" "bucket_of w rq' \<noteq> bucket_of w rq"
    and "Registrar_GetNamespaceId fuel no_env buf rq' w = Some (outcome, w')"
  shows "upgrade_pending rq i n w'"
proof -
  let ?c = "\<lambda>r. w\<lparr>rw_heap := (rw_heap w)(rq' := r)\<rparr>"
  obtain ns_id code where c: "registrar_complete fuel no_env rq' (Returned True)
      (?c (namespace_id_request_GetNamespaceIDEnd (rw_heap w rq') ns_id code)) = Some (outcome, w')"
    using assms(4) by (auto simp: Registrar_GetNamespaceId_def Let_def)
  let ?r = "namespace_id_request_GetNamespaceIDEnd (rw_heap w rq') ns_id code"
  note p = pending_before_complete [OF assms(1,2), of ?r "?c ?r"]
  show ?thesis
    by (rule registrar_complete_pending [OF c]) (use p assms(3) in \<open>simp_all add: namespace_id_request_GetNamespaceIDEnd_def\<close>)
qed

lemma Registrar_GetModulePath_pending:
  assumes "upgrade_pending rq i n w" "rq' \<noteq> rq" "bucket_of w rq' \<noteq> bucket_of w rq"
    and "Registrar_GetModulePath fuel no_env rq' w = Some (outcome, w')"
  shows "upgrade_pending rq i n w'"
proof (cases "Namespace_GetModule (rw_ns w) (rp_module_ns_id (rw_payload w rq'))")
  case None
  then show ?thesis using assms(1,4) by (simp add: Registrar_GetModulePath_def)
next
  case (Some m)
  show ?thesis
  proof (cases "mo_deleted (rw_objs w ! m)")
    case True
    then show ?thesis using Some assms(1,4) by (simp add: Registrar_GetModulePath_def)
  next
    case False
    obtain r p where rp: "module_path_request_GetModulePathEnd (rw_heap w rq', rw_payload w rq')
        (ModuleManager_GetModulePath (rw_modules w) (mo_id (rw_objs w ! m)) True) LABSTOR_REQUEST_SUCCESS = (r, p)"
      by fastforce
    let ?w = "w\<lparr>rw_heap := (rw_heap w)(rq' := r), rw_payload := (rw_payload w)(rq' := p)\<rparr>"
    have c: "registrar_complete fuel no_env rq' (Returned True) ?w = Some (outcome, w')"
      using assms(4) Some False rp by (simp add: Registrar_GetModulePath_def Let_def)
    have "rq_req_id r = rq_req_id (rw_heap w rq')" using rp by (auto simp: module_path_request_GetModulePathEnd_def)
    note q = pending_before_complete [OF assms(1,2) this, of ?w]
    show ?thesis by (rule registrar_complete_pending [OF c]) (use q assms(3) in simp_all)
  qed
qed

lemma Registrar_ProcessRequest_pending:
  assumes "upgrade_pending rq i n w" "rq' \<noteq> rq" "bucket_of w rq' \<noteq> bucket_of w rq"
    and "Registrar_ProcessRequest fuel no_env lib_id tid buf rq' w = Some (outcome, w')"
  shows "upgrade_pending rq i n w'"
proof (cases "registrar_op_of (rq_op (rw_heap w rq'))")
  case None
  then show ?thesis using assms(1,4) by (auto simp: Registrar_ProcessRequest_def)
next
  case (Some opc)
  note s = Registrar_Initialize_pending [OF assms(1-3)] Registrar_GetNamespaceId_pending [OF assms(1-3)]
    Registrar_GetModulePath_pending [OF assms(1-3)] registrar_complete_pending [OF _ assms(1,3)]
  show ?thesis
    using assms(1,4) Some s
    by (cases opc) (auto simp: Registrar_ProcessRequest_def ModuleTable_PushUpgrade_def upgrade_pending_def)
qed

lemma IsComplete_cells:
  "qp_cq (snd (labstor_queue_pair_IsComplete qp i)) = qp_cq qp \<or>
   (\<exists>b. qp_cq (snd (labstor_queue_pair_IsComplete qp i)) = (qp_cq qp)\<lparr>rm_cells := (rm_cells (qp_cq qp))(b := - 1)\<rparr>)"
  by (auto simp: labstor_queue_pair_IsComplete_def labstor_request_map_FindAndRemove_def Let_def)

lemma server_step_pending: "server_step rq w w' \<Longrightarrow> upgrade_pending rq i n w \<Longrightarrow> upgrade_pending rq i n w'"
proof (induction rule: server_step.induct)
  case (registrar rq' w fuel lib_id tid buf outcome w')
  then show ?case using Registrar_ProcessRequest_pending by blast
next
  case (module_completes rq' w fuel outcome outcome' w')
  then show ?case using registrar_complete_pending by blast
next
  case (upgrade_pass dl update lib_id load_file now now' t w t' w')
  then show ?case using UpgradeWorker_same by (fastforce simp: upgrade_pending_def same_requests_def)
next
  case (client_polls w j)
  then show ?case using IsComplete_cells [of "rw_qp w" j] by (auto simp: upgrade_pending_def)
qed (simp_all add: upgrade_pending_def)

lemma server_steps_pending: "(server_step rq)\<^sup>*\<^sup>* w w' \<Longrightarrow> upgrade_pending rq i n w \<Longrightarrow> upgrade_pending rq i n w'"
  by (induction rule: rtranclp_induct) (auto intro: server_step_pending)

lemma pending_not_complete: "upgrade_pending rq i n w \<Longrightarrow> labstor_queue_pair_IsComplete (rw_qp w) i = (None, rw_qp w)"
  by (simp add: upgrade_pending_def labstor_queue_pair_IsComplete_def labstor_request_map_FindAndRemove_def)

section \<open>Properties\<close>

text \<open>
  C20. A client that asks for an upgrade waits for ever: the registrar queues the request without
  completing it, and whatever the registrar, the other modules, the upgrade thread and the clients
  do from then on, the request stays in the list of upgrades and is never found completed, so that the wait
  of the client does not end, however long it runs.
\<close>

theorem upgrade_request_never_completes:
  assumes "rq_op (rw_heap w rq) = 3" "can_complete w rq"
  shows "\<exists>w1. Registrar_ProcessRequest fuel env lib_id tid buf rq w = Some (Returned True, w1) \<and>
    (\<forall>w'. (server_step rq)\<^sup>*\<^sup>* w1 w' \<longrightarrow> rq \<in> set (mt_upgrades (sm_table (rw_modules w'))) \<and>
       fst (labstor_queue_pair_IsComplete (rw_qp w') (rq_req_id (rw_heap w rq))) = None) \<and>
    (\<forall>s env'. s 0 = w1 \<and> (\<forall>k. (server_step rq)\<^sup>*\<^sup>* (s k) (s (Suc k)) \<and> env' k (rw_qp (s k)) = rw_qp (s (Suc k))) \<longrightarrow>
       labstor_queue_pair_Wait m env' (rw_qp w1) (rq_req_id (rw_heap w rq)) = None)"
proof -
  let ?i = "rq_req_id (rw_heap w rq)" and ?n = "rm_num_buckets (qp_cq (rw_qp w))"
  define w1 where "w1 = w\<lparr>rw_modules := (rw_modules w)\<lparr>sm_table := ModuleTable_PushUpgrade (sm_table (rw_modules w)) rq\<rparr>\<rparr>"
  have r: "Registrar_ProcessRequest fuel env lib_id tid buf rq w = Some (Returned True, w1)"
    using assms(1) by (simp add: Registrar_ProcessRequest_def registrar_op_of_def w1_def)
  have p: "upgrade_pending rq ?i ?n w1"
    using assms(2) by (simp add: upgrade_pending_def w1_def ModuleTable_PushUpgrade_def completable_def)
  have "labstor_queue_pair_Wait m env' (rw_qp w1) ?i = None"
    if "s 0 = w1" "\<forall>k. (server_step rq)\<^sup>*\<^sup>* (s k) (s (Suc k)) \<and> env' k (rw_qp (s k)) = rw_qp (s (Suc k))" for s env'
  proof -
    have q: "upgrade_pending rq ?i ?n (s k)" for k
    proof (induction k)
      case 0
      then show ?case using p that(1) by simp
    next
      case (Suc k)
      then show ?case using that(2) server_steps_pending by blast
    qed
    have "inf_spinwait f (interleave env' (\<lambda>qp. labstor_queue_pair_IsComplete qp ?i)) k (rw_qp (s k)) = None" for f k
      using that(2) pending_not_complete [OF q] by (induction f arbitrary: k) (simp_all add: interleave_def)
    from this [of m 0] show ?thesis using that(1) by (simp add: labstor_queue_pair_Wait_def)
  qed
  moreover have "rq \<in> set (mt_upgrades (sm_table (rw_modules w'))) \<and> fst (labstor_queue_pair_IsComplete (rw_qp w') ?i) = None"
    if "(server_step rq)\<^sup>*\<^sup>* w1 w'" for w'
    using server_steps_pending [OF that p] pending_not_complete [OF server_steps_pending [OF that p]]
    by (simp add: upgrade_pending_def)
  ultimately show ?thesis using r by blast
qed

text \<open>In the sample the worker takes the request off the queue while the client waits.\<close>

theorem upgrade_request_never_completes_witness:
  "\<exists>w1. Registrar_ProcessRequest 1 no_env (\<lambda>_. \<lparr>id_key = []\<rparr>) 0 9000 5000 (sample_registrar 3) = Some (Returned True, w1) \<and>
     labstor_queue_pair_Wait 1000 (\<lambda>k qp. if k = 0 then snd (labstor_queue_pair_Dequeue qp) else qp) (rw_qp w1) 5 = None"
proof -
  let ?env = "\<lambda>k qp. if k = 0 then snd (labstor_queue_pair_Dequeue qp) else qp"
  have o: "rq_op (rw_heap (sample_registrar 3) 5000) = 3" "rq_req_id (rw_heap (sample_registrar 3) 5000) = 5"
    by (simp_all add: sample_registrar_def)
  obtain w1 where w1: "Registrar_ProcessRequest 1 no_env (\<lambda>_. \<lparr>id_key = []\<rparr>) 0 9000 5000 (sample_registrar 3) = Some (Returned True, w1)"
      "\<forall>s env'. s 0 = w1 \<and> (\<forall>k. (server_step 5000)\<^sup>*\<^sup>* (s k) (s (Suc k)) \<and> env' k (rw_qp (s k)) = rw_qp (s (Suc k))) \<longrightarrow>
         labstor_queue_pair_Wait 1000 env' (rw_qp w1) 5 = None"
    using upgrade_request_never_completes [OF o(1) sample_registrar_can_complete, of 1 no_env "\<lambda>_. \<lparr>id_key = []\<rparr>" 0 9000 1000] o(2)
    by auto
  define s where "s k = (if k = 0 then w1 else w1\<lparr>rw_qp := snd (labstor_queue_pair_Dequeue (rw_qp w1))\<rparr>)" for k :: nat
  have "snd (labstor_queue_pair_Dequeue (rw_qp w1)) = (rw_qp w1)\<lparr>qp_sq := snd (labstor_request_queue_Dequeue (qp_sq (rw_qp w1)))\<rparr>"
    by (simp add: labstor_queue_pair_Dequeue_def split_beta)
  then have "server_step 5000 (s 0) (s 1)" by (simp add: s_def server_step.queue_changes)
  then have "\<forall>k. (server_step 5000)\<^sup>*\<^sup>* (s k) (s (Suc k)) \<and> ?env k (rw_qp (s k)) = rw_qp (s (Suc k))"
    by (auto simp: s_def)
  then have "labstor_queue_pair_Wait 1000 ?env (rw_qp w1) 5 = None"
    by (intro w1(2) [THEN spec [of _ s], THEN spec, THEN mp] conjI) (simp_all add: s_def)
  then show ?thesis using w1(1) by blast
qed

text \<open>
  No upgrade is ever carried out. The value of \<^verbatim>\<open>code_update\<close> is read as a string and then as a map:
  a map cannot be read as a string, and the subscript of a string throws, so that the only value that passes
  both is one without keys. The thread ends with an exception, or nothing has changed.
\<close>

theorem upgrade_worker_changes_nothing:
  assumes "\<And>path config s. load_file path = Inr config \<Longrightarrow> yd_code_update_string config = Inr s \<Longrightarrow> yd_centralized config \<noteq> Inr True"
    and "UpgradeWorker_DoWork dl update lib_id load_file now now' (t, w) = Inr (t', w')"
  shows "w' = w"
proof -
  have f: "upgrade_from m config w1 = Inr w2 \<Longrightarrow> w2 = w1" if "load_file path = Inr config" for m path config w1 w2
    using assms(1) [OF that] by (auto simp: upgrade_from_def result_bind_Inr split: if_splits)
  have "upgrade_all load_file m us w1 = Inr w2 \<Longrightarrow> w2 = w1" for m us w1 w2
    by (induction us arbitrary: w1) (auto simp: result_bind_Inr dest: f)
  then show ?thesis
    using assms(2) by (auto simp: UpgradeWorker_DoWork_def Let_def result_bind_Inr split: if_splits)
qed

end
