(* ===== verification/Kernel_Server.thy ===== *)
theory Kernel_Server
  imports Requests
begin

text \<open>
  The table of kernel modules and the dispatch of netlink messages to them:
  \<^verbatim>\<open>src/kernel/server/module_manager.c\<close> and \<^verbatim>\<open>server_loop\<close> of \<^verbatim>\<open>kernel_server.c\<close>. A module is
  described by its runtime identifier and the two entry points it may have.
\<close>

section \<open>Modules\<close>

abbreviation MAX_LABSTOR_MODULES :: nat where "MAX_LABSTOR_MODULES \<equiv> 64"

text \<open>
  \<open>km_process\<close> serves a request of a queue pair and does not return when it waits forever;
  \<open>km_netlink\<close> is the handler of messages from processes. Both work on the state \<open>'s\<close>; messages
  are of type \<open>'m\<close>. The name of the module is only printed.
\<close>

record ('s, 'm) labstor_module =
  km_runtime_id :: i32
  km_process :: "(ptr \<Rightarrow> ptr \<Rightarrow> 's \<Rightarrow> 's option) option"
  km_netlink :: "(i32 \<Rightarrow> 'm \<Rightarrow> 's \<Rightarrow> (i32 \<times> 's) result) option"

type_synonym ('s, 'm) module_array = "('s, 'm) labstor_module option list"

definition init_labstor_module_manager :: "('s, 'm) module_array" where
  "init_labstor_module_manager = replicate MAX_LABSTOR_MODULES None"

definition register_labstor_module :: "('s, 'm) module_array \<Rightarrow> ('s, 'm) labstor_module \<Rightarrow> ('s, 'm) module_array" where
  "register_labstor_module modules pkg =
     (if 0 \<le> sint (km_runtime_id pkg) \<and> sint (km_runtime_id pkg) < int MAX_LABSTOR_MODULES
      then modules[nat (sint (km_runtime_id pkg)) := Some pkg] else modules)"

text \<open>Unregistering does not check the index.\<close>

definition unregister_labstor_module ::
  "('s, 'm) module_array \<Rightarrow> ('s, 'm) labstor_module \<Rightarrow> ('s, 'm) module_array result"
where
  "unregister_labstor_module modules pkg =
     (if 0 \<le> sint (km_runtime_id pkg) \<and> sint (km_runtime_id pkg) < int MAX_LABSTOR_MODULES
      then Inr (modules[nat (sint (km_runtime_id pkg)) := None]) else Inl OUT_OF_BOUNDS)"

definition get_labstor_module_by_runtime_id :: "('s, 'm) module_array \<Rightarrow> i32 \<Rightarrow> ('s, 'm) labstor_module option" where
  "get_labstor_module_by_runtime_id modules runtime_id =
     (if 0 \<le> sint runtime_id \<and> sint runtime_id < int MAX_LABSTOR_MODULES
      then modules ! nat (sint runtime_id) else None)"

section \<open>Dispatch\<close>

text \<open>
  A message carries the identifier of its module, the sender and the rest of the request; the
  result is the code sent back. The sender is not checked.
\<close>

definition server_loop :: "('s, 'm) module_array \<Rightarrow> i32 \<Rightarrow> u32 \<Rightarrow> 'm \<Rightarrow> 's \<Rightarrow> (i32 \<times> 's) result" where
  "server_loop modules pid ns_id rq s =
     (case get_labstor_module_by_runtime_id modules ns_id of
        None \<Rightarrow> Inr (- 1, s)
      | Some pkg \<Rightarrow> (case km_netlink pkg of None \<Rightarrow> Inr (- 2, s) | Some f \<Rightarrow> f pid rq s))"

section \<open>Laws\<close>

lemma word_sint_inj: "sint (a :: i32) = sint b \<longleftrightarrow> a = b"
  using signed_word_eqI [of a b] by auto

lemma get_register:
  assumes "length modules = MAX_LABSTOR_MODULES"
  shows "get_labstor_module_by_runtime_id (register_labstor_module modules pkg) i =
    (if i = km_runtime_id pkg \<and> 0 \<le> sint i \<and> sint i < 64 then Some pkg
     else get_labstor_module_by_runtime_id modules i)"
  using assms
  by (auto simp: get_labstor_module_by_runtime_id_def register_labstor_module_def nth_list_update
      nat_eq_iff word_sint_inj)

lemma length_register [simp]: "length (register_labstor_module modules pkg) = length modules"
  by (simp add: register_labstor_module_def)

lemma length_init_modules [simp]: "length init_labstor_module_manager = MAX_LABSTOR_MODULES"
  by (simp add: init_labstor_module_manager_def)

text \<open>
  C24. Messages reach the module they name: after registering modules with different identifiers in
  any order, a message for one of them runs its handler, a message for a module without a handler
  is answered with -2 and one for any other identifier with -1, and neither changes the state.
\<close>

theorem netlink_dispatch:
  assumes "\<forall>p \<in> set pkgs. 0 \<le> sint (km_runtime_id p) \<and> sint (km_runtime_id p) < 64"
    and "distinct (map km_runtime_id pkgs)"
  defines "modules \<equiv> foldl register_labstor_module init_labstor_module_manager pkgs"
  shows "server_loop modules pid ns_id rq s =
    (case find (\<lambda>p. km_runtime_id p = ns_id) pkgs of
       None \<Rightarrow> Inr (- 1, s)
     | Some p \<Rightarrow> (case km_netlink p of None \<Rightarrow> Inr (- 2, s) | Some f \<Rightarrow> f pid rq s))"
proof -
  have g: "get_labstor_module_by_runtime_id (foldl register_labstor_module ms pkgs) i =
      (case find (\<lambda>p. km_runtime_id p = i) pkgs of Some p \<Rightarrow> Some p | None \<Rightarrow> get_labstor_module_by_runtime_id ms i)"
    if "length ms = MAX_LABSTOR_MODULES" "\<forall>p \<in> set pkgs. 0 \<le> sint (km_runtime_id p) \<and> sint (km_runtime_id p) < 64"
      "distinct (map km_runtime_id pkgs)"
    for ms :: "('a, 'b) module_array" and pkgs i
    using that
  proof (induction pkgs arbitrary: ms)
    case Nil
    then show ?case by simp
  next
    case (Cons p pkgs)
    have n: "find (\<lambda>q. km_runtime_id q = km_runtime_id p) pkgs = None"
      using Cons.prems(3) unfolding find_None_iff by (auto simp: image_iff)
    show ?case
      using Cons.IH [of "register_labstor_module ms p"] Cons.prems n get_register [of ms p i]
      by (auto split: option.splits)
  qed
  have e: "get_labstor_module_by_runtime_id init_labstor_module_manager ns_id = (None :: ('a, 'b) labstor_module option)"
    by (auto simp: get_labstor_module_by_runtime_id_def init_labstor_module_manager_def intro!: nth_replicate)
  show ?thesis
    using g [OF length_init_modules assms(1,2), of ns_id] e
    by (simp add: server_loop_def modules_def split: option.splits)
qed

theorem netlink_dispatch_witness:
  "server_loop (foldl register_labstor_module init_labstor_module_manager
     [\<lparr>km_runtime_id = 1, km_process = None, km_netlink = Some (\<lambda>pid rq s. Inr (7, s + rq))\<rparr>, \<lparr>km_runtime_id = 2, km_process = None, km_netlink = None\<rparr>])
     100 1 (5 :: nat) 10 = Inr (7, 15)"
  using netlink_dispatch [of "[\<lparr>km_runtime_id = 1, km_process = None, km_netlink = Some (\<lambda>pid rq s. Inr (7, s + rq))\<rparr>,
     \<lparr>km_runtime_id = 2, km_process = None, km_netlink = None\<rparr>]" 100 1 "5 :: nat" 10] by simp

end
