(* ===== verification/Kernel_Shmem.thy ===== *)
theory Kernel_Shmem
  imports Kernel_Server
begin

text \<open>
  The kernel module for shared memory, \<^verbatim>\<open>labmods/secure_shmem/kernel/secure_shmem_kernel.c\<close>, its
  messages and its client, \<^verbatim>\<open>netlink_client/secure_shmem_client_netlink.cpp\<close>. Region descriptors are
  objects; a pointer to one is its index, and a freed one is marked. The kernel's allocators are
  arguments of the operations that call them. Every operation runs under the module's mutex.
\<close>

section \<open>State\<close>

abbreviation PAGE_SIZE :: u64 where "PAGE_SIZE \<equiv> 4096"

record shmem_region_info =
  shr_region_id :: i32
  shr_size :: u64
  shr_vmalloc_ptr :: ptr
  shr_user_owned :: bool
  shr_freed :: bool

record shmem_pid_region =
  spr_pid :: i32
  spr_region :: nat
  spr_is_mapped :: bool

text \<open>\<open>sk_region_map\<close> and \<open>sk_pid_regions\<close> are the kernel's lists, head first.\<close>

record shmem_kernel =
  sk_cur_region_id :: i32
  sk_objs :: "shmem_region_info list"
  sk_region_map :: "nat list"
  sk_pid_regions :: "shmem_pid_region list"

definition init_secure_shmem :: shmem_kernel where
  "init_secure_shmem = \<lparr>sk_cur_region_id = 0, sk_objs = [], sk_region_map = [], sk_pid_regions = []\<rparr>"

abbreviation region_at :: "shmem_kernel \<Rightarrow> nat \<Rightarrow> shmem_region_info" where
  "region_at sk r \<equiv> sk_objs sk ! r"

section \<open>Operations\<close>

definition find_shmem_region_nolock :: "shmem_kernel \<Rightarrow> i32 \<Rightarrow> nat option" where
  "find_shmem_region_nolock sk region_id = find (\<lambda>r. shr_region_id (region_at sk r) = region_id) (sk_region_map sk)"

text \<open>The region of an entry is looked at only when the process matches; a freed one is undefined.\<close>

fun find_pid_region_loop ::
  "shmem_kernel \<Rightarrow> i32 \<Rightarrow> i32 \<Rightarrow> shmem_pid_region list \<Rightarrow> shmem_pid_region option result"
where
  "find_pid_region_loop sk pid region_id [] = Inr None"
| "find_pid_region_loop sk pid region_id (pos # rest) =
     (if spr_pid pos \<noteq> pid then find_pid_region_loop sk pid region_id rest
      else if shr_freed (region_at sk (spr_region pos)) then Inl USE_AFTER_FREE
      else if shr_region_id (region_at sk (spr_region pos)) = region_id then Inr (Some pos)
      else find_pid_region_loop sk pid region_id rest)"

definition find_pid_region_nolock :: "shmem_kernel \<Rightarrow> i32 \<Rightarrow> i32 \<Rightarrow> shmem_pid_region option result" where
  "find_pid_region_nolock sk pid region_id = find_pid_region_loop sk pid region_id (sk_pid_regions sk)"

text \<open>\<open>kvmalloc\<close> tells whether the descriptor can be allocated; \<open>vmalloc\<close> is the memory, 0 on failure.\<close>

definition page_align :: "u64 \<Rightarrow> u64" where
  "page_align sz = (if sz mod PAGE_SIZE \<noteq> 0 then sz + PAGE_SIZE - sz mod PAGE_SIZE else sz)"

definition reserve_shmem_nolock ::
  "bool \<Rightarrow> (u64 \<Rightarrow> ptr) \<Rightarrow> u64 \<Rightarrow> bool \<Rightarrow> shmem_kernel \<Rightarrow> (ptr \<times> i32) option \<times> shmem_kernel"
where
  "reserve_shmem_nolock kvmalloc vmalloc sz user_owned sk =
     (let sz = page_align sz in
      if \<not> kvmalloc then (None, sk)
      else
        let region_id = sk_cur_region_id sk + 1; sk = sk\<lparr>sk_cur_region_id := region_id\<rparr>; p = vmalloc sz in
        if p = 0 then (None, sk)
        else
          let info = \<lparr>shr_region_id = region_id, shr_size = sz, shr_vmalloc_ptr = p, shr_user_owned = user_owned,
                shr_freed = False\<rparr> in
          (Some (p, region_id),
           sk\<lparr>sk_objs := sk_objs sk @ [info], sk_region_map := length (sk_objs sk) # sk_region_map sk\<rparr>))"

definition grant_pid_shmem_nolock :: "bool \<Rightarrow> i32 \<Rightarrow> i32 \<Rightarrow> shmem_kernel \<Rightarrow> bool \<times> shmem_kernel" where
  "grant_pid_shmem_nolock kvmalloc region_id pid sk =
     (if \<not> kvmalloc then (False, sk)
      else
        (case find_shmem_region_nolock sk region_id of
           None \<Rightarrow> (False, sk)
         | Some r \<Rightarrow>
             (True, sk\<lparr>sk_pid_regions := \<lparr>spr_pid = pid, spr_region = r, spr_is_mapped = False\<rparr> # sk_pid_regions sk\<rparr>)))"

text \<open>
  The loop that removes the permissions looks at the region of every entry, after the region was
  freed.
\<close>

fun drop_pid_regions ::
  "shmem_kernel \<Rightarrow> i32 \<Rightarrow> shmem_pid_region list \<Rightarrow> shmem_pid_region list result"
where
  "drop_pid_regions sk region_id [] = Inr []"
| "drop_pid_regions sk region_id (pos # rest) =
     (if shr_freed (region_at sk (spr_region pos)) then Inl USE_AFTER_FREE
      else
        result_bind (drop_pid_regions sk region_id rest) (\<lambda>kept.
        Inr (if shr_region_id (region_at sk (spr_region pos)) = region_id then kept else pos # kept)))"

definition free_shmem_region_by_id_nolock :: "i32 \<Rightarrow> shmem_kernel \<Rightarrow> shmem_kernel result" where
  "free_shmem_region_by_id_nolock region_id sk =
     (case find_shmem_region_nolock sk region_id of
        None \<Rightarrow> Inr sk
      | Some r \<Rightarrow>
          let sk = sk\<lparr>sk_region_map := remove1 r (sk_region_map sk),
                      sk_objs := (sk_objs sk)[r := (region_at sk r)\<lparr>shr_freed := True\<rparr>]\<rparr> in
          result_bind (drop_pid_regions sk region_id (sk_pid_regions sk)) (\<lambda>kept.
          Inr (sk\<lparr>sk_pid_regions := kept\<rparr>)))"

definition free_all_regions_nolock :: "shmem_kernel \<Rightarrow> shmem_kernel" where
  "free_all_regions_nolock sk =
     sk\<lparr>sk_objs := foldl (\<lambda>objs r. objs[r := (objs ! r)\<lparr>shr_freed := True\<rparr>]) (sk_objs sk) (sk_region_map sk),
        sk_region_map := [], sk_pid_regions := []\<rparr>"

text \<open>
  \<^verbatim>\<open>mmap\<close> maps page by page, as many as the process asks for. \<open>remap\<close> is the outcome of
  \<^verbatim>\<open>remap_pfn_range\<close> for a page. The result has the code and the kernel pages mapped.
\<close>

fun remap_pages :: "(ptr \<Rightarrow> bool) \<Rightarrow> ptr \<Rightarrow> nat \<Rightarrow> ptr list \<times> bool" where
  "remap_pages remap p 0 = ([], True)"
| "remap_pages remap p (Suc n) =
     (if remap p then (case remap_pages remap (p + PAGE_SIZE) n of (ps, ok) \<Rightarrow> (p # ps, ok)) else ([], False))"

definition labstor_mmap_nolock ::
  "(ptr \<Rightarrow> bool) \<Rightarrow> i32 \<Rightarrow> i32 \<Rightarrow> u64 \<Rightarrow> shmem_kernel \<Rightarrow> (i32 \<times> ptr list) result"
where
  "labstor_mmap_nolock remap pid region_id sz sk =
     result_bind (find_pid_region_nolock sk pid region_id) (\<lambda>pr.
     case pr of
       None \<Rightarrow> Inr (- 1, [])
     | Some pos \<Rightarrow>
         (case remap_pages remap (shr_vmalloc_ptr (region_at sk (spr_region pos))) (nat ((uint sz + 4095) div 4096)) of
            (ps, ok) \<Rightarrow> Inr (if ok then 0 else - 1, ps)))"

definition labstor_find_shmem_region_info :: "shmem_kernel \<Rightarrow> i32 \<Rightarrow> nat option" where
  "labstor_find_shmem_region_info sk region_id = find_shmem_region_nolock sk region_id"

definition labstor_find_shmem_region :: "shmem_kernel \<Rightarrow> i32 \<Rightarrow> ptr" where
  "labstor_find_shmem_region sk region_id =
     (case find_shmem_region_nolock sk region_id of None \<Rightarrow> 0 | Some r \<Rightarrow> shr_vmalloc_ptr (region_at sk r))"

text \<open>The variants that take the mutex around one operation.\<close>

definition find_pid_region :: "shmem_kernel \<Rightarrow> i32 \<Rightarrow> i32 \<Rightarrow> shmem_pid_region option result" where
  "find_pid_region sk pid region_id = find_pid_region_nolock sk pid region_id"

definition reserve_shmem ::
  "bool \<Rightarrow> (u64 \<Rightarrow> ptr) \<Rightarrow> u64 \<Rightarrow> bool \<Rightarrow> shmem_kernel \<Rightarrow> (ptr \<times> i32) option \<times> shmem_kernel"
where
  "reserve_shmem kvmalloc vmalloc sz user_owned sk = reserve_shmem_nolock kvmalloc vmalloc sz user_owned sk"

definition grant_pid_shmem :: "bool \<Rightarrow> i32 \<Rightarrow> i32 \<Rightarrow> shmem_kernel \<Rightarrow> bool \<times> shmem_kernel" where
  "grant_pid_shmem kvmalloc region_id pid sk = grant_pid_shmem_nolock kvmalloc region_id pid sk"

definition free_shmem_region_by_id :: "i32 \<Rightarrow> shmem_kernel \<Rightarrow> shmem_kernel result" where
  "free_shmem_region_by_id region_id sk = free_shmem_region_by_id_nolock region_id sk"

definition free_all_regions :: "shmem_kernel \<Rightarrow> shmem_kernel" where
  "free_all_regions sk = free_all_regions_nolock sk"

definition labstor_mmap :: "(ptr \<Rightarrow> bool) \<Rightarrow> i32 \<Rightarrow> i32 \<Rightarrow> u64 \<Rightarrow> shmem_kernel \<Rightarrow> (i32 \<times> ptr list) result" where
  "labstor_mmap remap pid region_id sz sk = labstor_mmap_nolock remap pid region_id sz sk"

lemmas shmem_locked_defs =
  find_pid_region_def reserve_shmem_def grant_pid_shmem_def free_shmem_region_by_id_def free_all_regions_def
  labstor_mmap_def labstor_find_shmem_region_info_def

text \<open>The file offset that a process seeks to becomes the region of its file.\<close>

definition labstor_lseek :: "u64 \<Rightarrow> i32" where
  "labstor_lseek offset = ucast offset"

section \<open>Messages\<close>

datatype secure_shmem_request =
    RESERVE_SHMEM u64 bool
  | GRANT_PID_SHMEM i32 i32
  | FREE_SHMEM i32
  | Invalid_Op u16

text \<open>
  The handler; the allocators' answers come with the message. A use of freed memory ends the
  kernel, which is \<open>Inl\<close>; otherwise the code is sent back.
\<close>

definition shmem_process_request_fn_netlink ::
  "bool \<Rightarrow> (u64 \<Rightarrow> ptr) \<Rightarrow> i32 \<Rightarrow> secure_shmem_request \<Rightarrow> shmem_kernel \<Rightarrow> (i32 \<times> shmem_kernel) result"
where
  "shmem_process_request_fn_netlink kvmalloc vmalloc pid rq sk =
     (case rq of
        RESERVE_SHMEM sz user_owned \<Rightarrow>
          (case reserve_shmem kvmalloc vmalloc sz user_owned sk of
             (Some (p, region_id), sk) \<Rightarrow> Inr (region_id, sk)
           | (None, sk) \<Rightarrow> Inr (- 1, sk))
      | GRANT_PID_SHMEM gpid region_id \<Rightarrow>
          (case grant_pid_shmem kvmalloc region_id gpid sk of (ok, sk) \<Rightarrow> Inr (if ok then 0 else - 1, sk))
      | FREE_SHMEM region_id \<Rightarrow>
          result_bind (free_shmem_region_by_id region_id sk) (\<lambda>sk. Inr (0, sk))
      | Invalid_Op _ \<Rightarrow> Inr (- 1, sk))"

definition ShmemClient_CreateShmem ::
  "bool \<Rightarrow> (u64 \<Rightarrow> ptr) \<Rightarrow> i32 \<Rightarrow> u64 \<Rightarrow> bool \<Rightarrow> shmem_kernel \<Rightarrow> (i32 \<times> shmem_kernel) result"
where
  "ShmemClient_CreateShmem kvmalloc vmalloc sender region_size user_owned sk =
     shmem_process_request_fn_netlink kvmalloc vmalloc sender (RESERVE_SHMEM region_size user_owned) sk"

definition ShmemClient_GrantPidShmem ::
  "bool \<Rightarrow> i32 \<Rightarrow> i32 \<Rightarrow> i32 \<Rightarrow> shmem_kernel \<Rightarrow> (i32 \<times> shmem_kernel) result"
where
  "ShmemClient_GrantPidShmem kvmalloc sender pid region_id sk =
     shmem_process_request_fn_netlink kvmalloc (\<lambda>_. 0) sender (GRANT_PID_SHMEM pid region_id) sk"

definition ShmemClient_FreeShmem :: "i32 \<Rightarrow> i32 \<Rightarrow> shmem_kernel \<Rightarrow> (i32 \<times> shmem_kernel) result" where
  "ShmemClient_FreeShmem sender region_id sk =
     shmem_process_request_fn_netlink True (\<lambda>_. 0) sender (FREE_SHMEM region_id) sk"

text \<open>\<open>fd\<close> is the result of opening the device, \<open>user\<close> where the kernel puts the mapping.\<close>

definition ShmemClient_MapShmem ::
  "(ptr \<Rightarrow> bool) \<Rightarrow> i32 \<Rightarrow> ptr \<Rightarrow> i32 \<Rightarrow> i32 \<Rightarrow> u64 \<Rightarrow> shmem_kernel \<Rightarrow> (ptr \<times> ptr list) result"
where
  "ShmemClient_MapShmem remap fd user pid region_id region_size sk =
     (if sint fd < 0 then Inr (0, [])
      else
        result_bind (labstor_mmap remap pid (labstor_lseek (scast region_id)) region_size sk) (\<lambda>(code, ps).
        Inr (if code = 0 then user else 0, ps)))"


section \<open>Runs of the module\<close>

text \<open>A message with the answers of the allocators at that time.\<close>

type_synonym shmem_event = "bool \<times> (u64 \<Rightarrow> ptr) \<times> i32 \<times> secure_shmem_request"

fun shmem_run :: "shmem_event list \<Rightarrow> shmem_kernel \<Rightarrow> shmem_kernel result" where
  "shmem_run [] sk = Inr sk"
| "shmem_run ((kvmalloc, vmalloc, sender, rq) # evs) sk =
     result_bind (shmem_process_request_fn_netlink kvmalloc vmalloc sender rq sk) (\<lambda>(_, sk). shmem_run evs sk)"

abbreviation event_request :: "shmem_event \<Rightarrow> secure_shmem_request" where
  "event_request ev \<equiv> snd (snd (snd ev))"

definition grants_ok :: "secure_shmem_request set \<Rightarrow> shmem_kernel \<Rightarrow> bool" where
  "grants_ok G sk \<longleftrightarrow> (\<forall>r \<in> set (sk_region_map sk). r < length (sk_objs sk)) \<and>
     (\<forall>pos \<in> set (sk_pid_regions sk). spr_region pos < length (sk_objs sk) \<and>
        GRANT_PID_SHMEM (spr_pid pos) (shr_region_id (region_at sk (spr_region pos))) \<in> G)"

lemma find_region_Some:
  "find_shmem_region_nolock sk region_id = Some r \<Longrightarrow>
     r \<in> set (sk_region_map sk) \<and> shr_region_id (region_at sk r) = region_id"
  by (auto simp: find_shmem_region_nolock_def find_Some_iff)

lemma drop_pid_regions_subset: "drop_pid_regions sk region_id prs = Inr kept \<Longrightarrow> set kept \<subseteq> set prs"
proof (induction prs arbitrary: kept)
  case Nil
  then show ?case by simp
next
  case (Cons pos prs)
  then show ?case
    by (cases "drop_pid_regions sk region_id prs") (auto split: if_splits)
qed

lemma grants_ok_mono: "grants_ok G sk \<Longrightarrow> G \<subseteq> G' \<Longrightarrow> grants_ok G' sk"
  by (auto simp: grants_ok_def)

lemma grants_ok_reserve:
  assumes "grants_ok G sk" "reserve_shmem_nolock kvmalloc vmalloc sz user_owned sk = (r, sk')"
  shows "grants_ok G sk'"
  using assms
  by (auto simp: reserve_shmem_nolock_def grants_ok_def Let_def nth_append less_Suc_eq split: if_splits)

lemma grants_ok_grant:
  assumes "grants_ok G sk" "GRANT_PID_SHMEM pid region_id \<in> G"
    and "grant_pid_shmem_nolock kvmalloc region_id pid sk = (ok, sk')"
  shows "grants_ok G sk'"
  using assms find_region_Some [of sk region_id]
  by (auto simp: grant_pid_shmem_nolock_def grants_ok_def split: if_splits option.splits)

lemma grants_ok_free:
  assumes "grants_ok G sk" "free_shmem_region_by_id_nolock region_id sk = Inr sk'"
  shows "grants_ok G sk'"
proof (cases "find_shmem_region_nolock sk region_id")
  case None
  then show ?thesis using assms by (simp add: free_shmem_region_by_id_nolock_def)
next
  case (Some r)
  define sk1 where "sk1 = sk\<lparr>sk_region_map := remove1 r (sk_region_map sk),
    sk_objs := (sk_objs sk)[r := (region_at sk r)\<lparr>shr_freed := True\<rparr>]\<rparr>"
  obtain kept where k: "drop_pid_regions sk1 region_id (sk_pid_regions sk) = Inr kept" "sk' = sk1\<lparr>sk_pid_regions := kept\<rparr>"
    using assms(2) Some
    by (cases "drop_pid_regions sk1 region_id (sk_pid_regions sk)")
      (auto simp: free_shmem_region_by_id_nolock_def Let_def sk1_def)
  have i: "shr_region_id (sk_objs sk1 ! j) = shr_region_id (sk_objs sk ! j)" if "j < length (sk_objs sk)" for j
    using that by (cases "j = r") (simp_all add: sk1_def)
  have l: "length (sk_objs sk1) = length (sk_objs sk)" by (simp add: sk1_def)
  show ?thesis
    using assms(1) drop_pid_regions_subset [OF k(1)] notin_set_remove1 [of _ "sk_region_map sk" r] i l
    unfolding k(2) grants_ok_def by (auto simp: sk1_def)
qed

lemma grants_ok_step:
  assumes "grants_ok G sk" "shmem_process_request_fn_netlink kvmalloc vmalloc sender rq sk = Inr (code, sk')"
  shows "grants_ok (insert rq G) sk'"
proof (cases rq)
  case (RESERVE_SHMEM sz user_owned)
  then show ?thesis
    using assms grants_ok_reserve [OF grants_ok_mono [OF assms(1)], of "insert rq G" kvmalloc vmalloc sz user_owned]
    by (auto simp: shmem_process_request_fn_netlink_def shmem_locked_defs split: prod.splits option.splits)
next
  case (GRANT_PID_SHMEM pid region_id)
  then show ?thesis
    using assms grants_ok_grant [OF grants_ok_mono [OF assms(1)], of "insert rq G" pid region_id kvmalloc]
    by (auto simp: shmem_process_request_fn_netlink_def shmem_locked_defs split: prod.splits)
next
  case (FREE_SHMEM region_id)
  then show ?thesis
    using assms grants_ok_free [OF grants_ok_mono [OF assms(1)], of "insert rq G" region_id]
    by (cases "free_shmem_region_by_id_nolock region_id sk")
      (auto simp: shmem_process_request_fn_netlink_def shmem_locked_defs)
next
  case (Invalid_Op v)
  then show ?thesis
    using assms grants_ok_mono [OF assms(1) subset_insertI] by (auto simp: shmem_process_request_fn_netlink_def)
qed

lemma grants_ok_run:
  "shmem_run evs sk = Inr sk' \<Longrightarrow> grants_ok G sk \<Longrightarrow> grants_ok (G \<union> event_request ` set evs) sk'"
proof (induction evs arbitrary: sk G)
  case Nil
  then show ?case by simp
next
  case (Cons ev evs)
  obtain kvmalloc vmalloc sender rq where ev: "ev = (kvmalloc, vmalloc, sender, rq)" by (cases ev) auto
  obtain code sk1 where s: "shmem_process_request_fn_netlink kvmalloc vmalloc sender rq sk = Inr (code, sk1)"
      "shmem_run evs sk1 = Inr sk'"
    using Cons.prems(1) ev
    by (cases "shmem_process_request_fn_netlink kvmalloc vmalloc sender rq sk") auto
  from Cons.IH [OF s(2) grants_ok_step [OF Cons.prems(2) s(1)]] show ?case by (simp add: ev)
qed

lemma find_pid_region_Some:
  "find_pid_region_loop sk pid region_id prs = Inr (Some pos) \<Longrightarrow>
     pos \<in> set prs \<and> spr_pid pos = pid \<and> shr_region_id (region_at sk (spr_region pos)) = region_id \<and>
     \<not> shr_freed (region_at sk (spr_region pos))"
  by (induction prs) (auto split: if_splits)

lemma remap_pages_prefix:
  "remap_pages remap p n = (ps, ok) \<Longrightarrow>
     length ps \<le> n \<and> (ok \<longrightarrow> length ps = n) \<and> (\<forall>i < length ps. ps ! i = p + of_nat i * PAGE_SIZE)"
proof (induction n arbitrary: p ps ok)
  case 0
  then show ?case by simp
next
  case (Suc n)
  show ?case
  proof (cases "remap p")
    case True
    obtain qs where q: "remap_pages remap (p + PAGE_SIZE) n = (qs, ok)" "ps = p # qs"
      using Suc.prems True by (auto split: prod.splits)
    note I = Suc.IH [OF q(1)]
    have "ps ! i = p + of_nat i * PAGE_SIZE" if "i < length ps" for i
      using that I q(2) by (cases i) (auto simp: algebra_simps)
    then show ?thesis using I q(2) by auto
  next
    case False
    then show ?thesis using Suc.prems by simp
  qed
qed

section \<open>Properties\<close>

text \<open>
  C22. Shared memory is mapped only by processes that were granted it: after any sequence of messages
  since the module was loaded, a process for which \<^verbatim>\<open>mmap\<close> maps pages or succeeds appears in a grant
  message for that region, and the pages are consecutive pages from the start of a region with
  that identifier that has not been freed.
\<close>

theorem shmem_mapping_needs_grant:
  assumes "shmem_run evs init_secure_shmem = Inr sk"
    and "labstor_mmap remap pid region_id sz sk = Inr (code, ps)" "code = 0 \<or> ps \<noteq> []"
  shows "GRANT_PID_SHMEM pid region_id \<in> event_request ` set evs \<and>
    (\<exists>r < length (sk_objs sk). shr_region_id (region_at sk r) = region_id \<and> \<not> shr_freed (region_at sk r) \<and>
       (\<forall>i < length ps. ps ! i = shr_vmalloc_ptr (region_at sk r) + of_nat i * PAGE_SIZE))"
proof -
  have "grants_ok {} init_secure_shmem" by (simp add: grants_ok_def init_secure_shmem_def)
  from grants_ok_run [OF assms(1) this]
  have g: "grants_ok (event_request ` set evs) sk" by simp
  obtain pr where f: "find_pid_region_nolock sk pid region_id = Inr pr"
    using assms(2) by (cases "find_pid_region_nolock sk pid region_id") (simp_all add: shmem_locked_defs labstor_mmap_nolock_def)
  show ?thesis
  proof (cases pr)
    case None
    then show ?thesis using assms(2,3) f by (simp add: shmem_locked_defs labstor_mmap_nolock_def)
  next
    case (Some pos)
    note p = find_pid_region_Some [OF f [unfolded Some find_pid_region_nolock_def]]
    obtain ok where r: "remap_pages remap (shr_vmalloc_ptr (region_at sk (spr_region pos))) (nat ((uint sz + 4095) div 4096)) = (ps, ok)"
      using assms(2) f Some by (auto simp: shmem_locked_defs labstor_mmap_nolock_def split: prod.splits)
    from remap_pages_prefix [OF r] p g show ?thesis
      by (intro conjI exI [of _ "spr_region pos"]) (auto simp: grants_ok_def)
  qed
qed


lemma remap_pages_two: "remap_pages (\<lambda>_. True) p 2 = ([p, p + PAGE_SIZE], True)"
  by (simp add: numeral_2_eq_2)

theorem shmem_mapping_needs_grant_witness:
  "\<exists>sk. shmem_run [(True, \<lambda>_. 65536, 10, RESERVE_SHMEM 5000 True), (True, \<lambda>_. 0, 10, GRANT_PID_SHMEM 77 1)]
      init_secure_shmem = Inr sk \<and>
    labstor_mmap (\<lambda>_. True) 77 1 8192 sk = Inr (0, [65536, 69632])"
proof -
  let ?evs = "[(True, \<lambda>_. 65536, 10, RESERVE_SHMEM 5000 True), (True, \<lambda>_. 0, 10, GRANT_PID_SHMEM 77 1)] :: shmem_event list"
  obtain sk where s: "shmem_run ?evs init_secure_shmem = Inr sk" "labstor_mmap (\<lambda>_. True) 77 1 8192 sk = Inr (0, [65536, 69632])"
    by (simp add: init_secure_shmem_def shmem_process_request_fn_netlink_def shmem_locked_defs reserve_shmem_nolock_def
        grant_pid_shmem_nolock_def find_shmem_region_nolock_def labstor_mmap_nolock_def find_pid_region_nolock_def
        Let_def remap_pages_two page_align_def)
  from shmem_mapping_needs_grant [OF s] s show ?thesis by blast
qed

definition shmem_ids_bounded :: "shmem_kernel \<Rightarrow> bool" where
  "shmem_ids_bounded sk \<longleftrightarrow> 0 \<le> sint (sk_cur_region_id sk) \<and>
     (\<forall>r \<in> set (sk_region_map sk). r < length (sk_objs sk) \<and> sint (shr_region_id (region_at sk r)) \<le> sint (sk_cur_region_id sk))"

lemma ucast_scast_id: "ucast (scast (w :: i32) :: 64 word) = w"
  by (rule bit_word_eqI) (auto simp: bit_simps)

lemma sint_Suc: "sint (w :: i32) < 2 ^ 31 - 1 \<Longrightarrow> 0 \<le> sint w \<Longrightarrow> sint (w + 1) = sint w + 1"
  by (simp add: sint_word_ariths signed_take_bit_int_eq_self)

text \<open>The state after a region was created with the next identifier.\<close>

lemma new_region:
  assumes "shmem_ids_bounded sk" "sint (sk_cur_region_id sk) < 2 ^ 31 - 1" "shr_region_id info = sk_cur_region_id sk + 1"
    and "sk_cur_region_id sk1 = sk_cur_region_id sk + 1" "sk_objs sk1 = sk_objs sk @ [info]"
    and "sk_region_map sk1 = length (sk_objs sk) # sk_region_map sk"
  shows "0 < sint (sk_cur_region_id sk + 1)" "labstor_find_shmem_region_info sk (sk_cur_region_id sk + 1) = None"
    "shmem_ids_bounded sk1"
    "\<forall>i. i \<noteq> sk_cur_region_id sk + 1 \<longrightarrow> labstor_find_shmem_region sk1 i = labstor_find_shmem_region sk i"
proof -
  let ?id = "sk_cur_region_id sk + 1"
  have r: "r < length (sk_objs sk) \<and> sint (shr_region_id (region_at sk r)) < sint ?id" if "r \<in> set (sk_region_map sk)" for r
    using assms(1,2) that sint_Suc [of "sk_cur_region_id sk"] by (force simp: shmem_ids_bounded_def)
  show "0 < sint ?id" using assms(1,2) sint_Suc [of "sk_cur_region_id sk"] by (simp add: shmem_ids_bounded_def)
  then show "shmem_ids_bounded sk1" using r assms(3-6) by (fastforce simp: shmem_ids_bounded_def nth_append)
  show "labstor_find_shmem_region_info sk ?id = None"
    using r by (force simp: labstor_find_shmem_region_info_def find_shmem_region_nolock_def find_None_iff)
  show "\<forall>i. i \<noteq> ?id \<longrightarrow> labstor_find_shmem_region sk1 i = labstor_find_shmem_region sk i"
  proof (intro allI impI)
    fix i
    assume "i \<noteq> ?id"
    moreover have "find (\<lambda>r. shr_region_id (region_at sk1 r) = i) (sk_region_map sk) =
        find (\<lambda>r. shr_region_id (region_at sk r) = i) (sk_region_map sk)"
      using r assms(5) by (intro find_cong) (auto simp: nth_append)
    ultimately have f: "find_shmem_region_nolock sk1 i = find_shmem_region_nolock sk i"
      using assms(3,5,6) by (simp add: find_shmem_region_nolock_def)
    show "labstor_find_shmem_region sk1 i = labstor_find_shmem_region sk i"
    proof (cases "find_shmem_region_nolock sk i")
      case (Some q)
      then show ?thesis using f r [of q] find_region_Some [OF Some] assms(5) by (simp add: labstor_find_shmem_region_def nth_append)
    qed (simp add: labstor_find_shmem_region_def f)
  qed
qed

text \<open>
  C23. Creating, granting and mapping shared memory works: when the kernel has memory and the counter of
  the identifiers has not reached its end, creating a region returns a positive identifier that no
  region had before, every other identifier means what it did, and the counter stays at or above
  every identifier in use, so that the next region is new again. After a grant the process maps the
  region completely, from its first page, when the pages can be entered; and a process without any
  grant maps nothing.
\<close>

theorem shmem_create_grant_map:
  assumes "shmem_ids_bounded sk" "sint (sk_cur_region_id sk) < 2 ^ 31 - 1" "vmalloc (page_align sz) \<noteq> 0"
    and "\<forall>pos \<in> set (sk_pid_regions sk). spr_pid pos \<noteq> other" "other \<noteq> pid" "0 \<le> sint fd"
  shows "\<exists>region_id sk1 sk2. ShmemClient_CreateShmem True vmalloc sender sz user_owned sk = Inr (region_id, sk1) \<and>
    0 < sint region_id \<and> labstor_find_shmem_region_info sk region_id = None \<and>
    labstor_find_shmem_region sk1 region_id = vmalloc (page_align sz) \<and>
    (\<forall>i. i \<noteq> region_id \<longrightarrow> labstor_find_shmem_region sk1 i = labstor_find_shmem_region sk i) \<and>
    shmem_ids_bounded sk1 \<and> shmem_ids_bounded sk2 \<and>
    ShmemClient_GrantPidShmem True sender pid region_id sk1 = Inr (0, sk2) \<and>
    ShmemClient_MapShmem (\<lambda>_. True) fd user pid region_id (page_align sz) sk2 =
      Inr (user, map (\<lambda>i. vmalloc (page_align sz) + of_nat i * PAGE_SIZE) [0..<nat ((uint (page_align sz) + 4095) div 4096)]) \<and>
    ShmemClient_MapShmem (\<lambda>_. True) fd user other region_id (page_align sz) sk2 = Inr (0, [])"
proof -
  let ?id = "sk_cur_region_id sk + 1" and ?n = "nat ((uint (page_align sz) + 4095) div 4096)"
  let ?p = "vmalloc (page_align sz)"
  define info where "info = \<lparr>shr_region_id = ?id, shr_size = page_align sz, shr_vmalloc_ptr = ?p,
    shr_user_owned = user_owned, shr_freed = False\<rparr>"
  define sk1 where "sk1 = sk\<lparr>sk_cur_region_id := ?id, sk_objs := sk_objs sk @ [info],
    sk_region_map := length (sk_objs sk) # sk_region_map sk\<rparr>"
  define sk2 where "sk2 = sk1\<lparr>sk_pid_regions := \<lparr>spr_pid = pid, spr_region = length (sk_objs sk), spr_is_mapped = False\<rparr> # sk_pid_regions sk\<rparr>"
  have id: "0 < sint ?id" "labstor_find_shmem_region_info sk ?id = None" "shmem_ids_bounded sk1"
      "\<forall>i. i \<noteq> ?id \<longrightarrow> labstor_find_shmem_region sk1 i = labstor_find_shmem_region sk i"
    using new_region [OF assms(1,2), of info sk1] by (simp_all add: sk1_def info_def)
  then have b: "shmem_ids_bounded sk2" by (simp add: shmem_ids_bounded_def sk2_def)
  have c: "ShmemClient_CreateShmem True vmalloc sender sz user_owned sk = Inr (?id, sk1)"
    using assms(3) by (simp add: ShmemClient_CreateShmem_def shmem_process_request_fn_netlink_def shmem_locked_defs
        reserve_shmem_nolock_def Let_def sk1_def info_def)
  have f: "find_shmem_region_nolock sk1 ?id = Some (length (sk_objs sk))"
    by (simp add: find_shmem_region_nolock_def sk1_def info_def)
  have g: "ShmemClient_GrantPidShmem True sender pid ?id sk1 = Inr (0, sk2)"
    using f by (simp add: ShmemClient_GrantPidShmem_def shmem_process_request_fn_netlink_def shmem_locked_defs
        grant_pid_shmem_nolock_def sk2_def sk1_def)
  have l: "labstor_lseek (scast w) = w" for w :: i32
    by (simp add: labstor_lseek_def ucast_scast_id)
  have m: "find_pid_region_nolock sk2 pid ?id = Inr (Some \<lparr>spr_pid = pid, spr_region = length (sk_objs sk), spr_is_mapped = False\<rparr>)"
    by (simp add: find_pid_region_nolock_def sk2_def sk1_def info_def)
  have no: "find_pid_region_loop sk' other i prs = Inr None" if "\<forall>pos \<in> set prs. spr_pid pos \<noteq> other" for sk' i prs
    using that by (induction prs) auto
  have o: "find_pid_region_nolock sk2 other ?id = Inr None"
    using no [of "sk_pid_regions sk2"] assms(4,5) by (simp add: find_pid_region_nolock_def sk2_def)
  obtain ps ok where r: "remap_pages (\<lambda>_. True) ?p ?n = (ps, ok)" by fastforce
  have "snd (remap_pages (\<lambda>_. True) q n)" for q n by (induction n arbitrary: q) (auto split: prod.splits, metis snd_conv)
  then have ok: ok using r by (metis snd_conv)
  then have ps: "ps = map (\<lambda>i. ?p + of_nat i * PAGE_SIZE) [0..<?n]"
    using remap_pages_prefix [OF r] by (intro nth_equalityI) auto
  have "ShmemClient_MapShmem (\<lambda>_. True) fd user pid ?id (page_align sz) sk2 = Inr (user, ps)"
    using m r ok assms(6) by (simp add: ShmemClient_MapShmem_def shmem_locked_defs labstor_mmap_nolock_def l sk2_def sk1_def info_def)
  moreover have "ShmemClient_MapShmem (\<lambda>_. True) fd user other ?id (page_align sz) sk2 = Inr (0, [])"
    using o assms(6) by (simp add: ShmemClient_MapShmem_def shmem_locked_defs labstor_mmap_nolock_def l)
  moreover have "labstor_find_shmem_region sk1 ?id = ?p"
    using f by (simp add: labstor_find_shmem_region_def sk1_def info_def)
  ultimately show ?thesis using c g id b ps by (intro exI [of _ ?id] exI [of _ sk1] exI [of _ sk2]) simp
qed

theorem shmem_create_grant_map_witness:
  "\<exists>region_id sk1 sk2. ShmemClient_CreateShmem True (\<lambda>_. 65536) 10 4096 True init_secure_shmem = Inr (region_id, sk1) \<and>
     labstor_find_shmem_region_info init_secure_shmem region_id = None \<and> shmem_ids_bounded sk2 \<and>
     ShmemClient_GrantPidShmem True 10 77 region_id sk1 = Inr (0, sk2) \<and>
     ShmemClient_MapShmem (\<lambda>_. True) 3 1048576 78 region_id 4096 sk2 = Inr (0, [])"
proof -
  have a: "page_align 4096 = 4096" by (simp add: page_align_def)
  have i: "shmem_ids_bounded init_secure_shmem" "sint (sk_cur_region_id init_secure_shmem) < 2 ^ 31 - 1"
    by (simp_all add: shmem_ids_bounded_def init_secure_shmem_def)
  have "(65536 :: ptr) \<noteq> 0" "\<forall>pos \<in> set (sk_pid_regions init_secure_shmem). spr_pid pos \<noteq> 78" "(78 :: i32) \<noteq> 77"
      "0 \<le> sint (3 :: i32)"
    by (simp_all add: init_secure_shmem_def)
  from shmem_create_grant_map [where vmalloc = "\<lambda>_. 65536", OF i this, of 10 4096 True 1048576] show ?thesis
    unfolding a by blast
qed

text \<open>Freeing a region that some process was granted uses the freed descriptor.\<close>

theorem shmem_free_uses_freed_region:
  assumes "find_shmem_region_nolock sk region_id = Some r" "r < length (sk_objs sk)"
    and "pos \<in> set (sk_pid_regions sk)" "spr_region pos = r"
  shows "free_shmem_region_by_id region_id sk = Inl USE_AFTER_FREE"
proof -
  define sk1 where "sk1 = sk\<lparr>sk_region_map := remove1 r (sk_region_map sk),
    sk_objs := (sk_objs sk)[r := (region_at sk r)\<lparr>shr_freed := True\<rparr>]\<rparr>"
  have f: "shr_freed (sk_objs sk1 ! spr_region pos)" using assms(2,4) by (simp add: sk1_def)
  have "drop_pid_regions sk1 region_id prs = Inl USE_AFTER_FREE" if "pos \<in> set prs" for prs
    using that f by (induction prs) auto
  then show ?thesis
    using assms(1,3) by (simp add: shmem_locked_defs free_shmem_region_by_id_nolock_def Let_def sk1_def)
qed

text \<open>A process may map more pages than the region has.\<close>

theorem shmem_mmap_ignores_region_size:
  assumes "find_pid_region_nolock sk pid region_id = Inr (Some pos)"
    and "labstor_mmap (\<lambda>_. True) pid region_id (of_nat (n * 4096)) sk = Inr (code, ps)" "n * 4096 < 2 ^ 64"
  shows "code = 0 \<and> length ps = n"
proof -
  have n: "nat ((uint (of_nat (n * 4096) :: u64) + 4095) div 4096) = n"
  proof -
    have "uint (of_nat (n * 4096) :: u64) = int (n * 4096)"
      using assms(3) by (simp only: uint_nat unat_of_nat) simp
    then show ?thesis by simp
  qed
  have t: "snd (remap_pages (\<lambda>_. True) q m)" for q m by (induction m arbitrary: q) (auto split: prod.splits, metis snd_conv)
  obtain qs ok where r: "remap_pages (\<lambda>_. True) (shr_vmalloc_ptr (region_at sk (spr_region pos))) n = (qs, ok)" by fastforce
  then have "ok" using t by (metis snd_conv)
  then show ?thesis
    using assms(1,2) r n remap_pages_prefix [OF r] by (auto simp: shmem_locked_defs labstor_mmap_nolock_def)
qed

end
