(* ===== verification/Kernel_Workers.thy ===== *)
theory Kernel_Workers
  imports Kernel_Shmem Queue_Pair Work_Queues Shmem_Allocator
begin

text \<open>
  The kernel side of the request path: the registration of the shared region with the IPC manager
  (\<^verbatim>\<open>labmods/ipc_manager/kernel\<close>) and the kernel workers (\<^verbatim>\<open>labmods/work_orchestrator/kernel\<close> and its
  netlink client). A queue pair is known by the address of its handle; \<open>ks_qps\<close> gives the handle
  at an address together with the queues it points to. Creating and scheduling kernel threads is
  outside: a step of a worker is one pass of its loop, and \<open>orchestrator_step\<close> interleaves the steps.
\<close>

section \<open>State\<close>

record labstor_worker_struct =
  kw_queue :: "ptr labstor_work_queue"
  kw_complete_ack :: bool
  kw_worker_id :: i32
  kw_cpu :: "i32 option"

text \<open>\<open>ks_alloc_at\<close> is the allocator whose header stands at an address of shared memory.\<close>

record kernel_state =
  ks_shmem :: shmem_kernel
  ks_ipc_region_id :: i32
  ks_ipc_region :: ptr
  ks_ipc_alloc :: labstor_shmem_allocator
  ks_keep_running :: bool
  ks_workers :: "labstor_worker_struct list option"
  ks_num_workers :: i32
  ks_shmem_region_id :: i32
  ks_shmem_region :: ptr
  ks_qps :: "ptr \<Rightarrow> labstor_queue_pair"
  ks_heap :: request_heap
  ks_alloc_at :: "ptr \<Rightarrow> labstor_shmem_allocator"

abbreviation LABSTOR_REQUEST_FAILED :: u32 where "LABSTOR_REQUEST_FAILED \<equiv> - 1000"

abbreviation set_kqp :: "ptr \<Rightarrow> labstor_queue_pair \<Rightarrow> kernel_state \<Rightarrow> kernel_state" where
  "set_kqp qp q ks \<equiv> ks\<lparr>ks_qps := (ks_qps ks)(qp := q)\<rparr>"

section \<open>IPC manager\<close>

definition ipc_manager_IsInitialized :: "kernel_state \<Rightarrow> bool" where
  "ipc_manager_IsInitialized ks \<longleftrightarrow> labstor_shmem_allocator_GetRegion (ks_ipc_alloc ks) \<noteq> 0"

definition ipc_manager_GetRegion :: "kernel_state \<Rightarrow> ptr" where
  "ipc_manager_GetRegion ks = labstor_shmem_allocator_GetRegion (ks_ipc_alloc ks)"

definition ipc_manager_Alloc :: "u32 \<Rightarrow> u32 \<Rightarrow> kernel_state \<Rightarrow> (ptr option \<times> kernel_state) option" where
  "ipc_manager_Alloc sz cpu ks =
     map_option (\<lambda>(p, a). (p, ks\<lparr>ks_ipc_alloc := a\<rparr>)) (labstor_shmem_allocator_Alloc (ks_ipc_alloc ks) sz cpu)"

definition ipc_manager_Free ::
  "nat \<Rightarrow> (nat \<Rightarrow> nat \<times> labstor_shmem_allocator \<Rightarrow> nat \<times> labstor_shmem_allocator) \<Rightarrow> ptr \<Rightarrow> kernel_state \<Rightarrow>
   kernel_state option"
where
  "ipc_manager_Free fuel env p ks =
     map_option (\<lambda>a. ks\<lparr>ks_ipc_alloc := a\<rparr>) (labstor_shmem_allocator_Free fuel env (ks_ipc_alloc ks) p)"

definition ipc_manager_register :: "i32 \<Rightarrow> kernel_state \<Rightarrow> kernel_state result" where
  "ipc_manager_register region_id ks =
     (let region = labstor_find_shmem_region (ks_shmem ks) region_id; ks = ks\<lparr>ks_ipc_region := region\<rparr> in
      if region = 0 then Inr ks
      else
        result_bind (labstor_shmem_allocator_Attach (ks_alloc_at ks region) region region)
          (\<lambda>a. Inr (ks\<lparr>ks_ipc_region_id := region_id, ks_ipc_alloc := a\<rparr>)))"

datatype ipc_manager_request = IPC_MANAGER_REGISTER i32 | IPC_MANAGER_UNREGISTER | IPC_MANAGER_Invalid u16

text \<open>A registration is answered with a pointer, everything else with a code.\<close>

datatype ipc_manager_reply = Reply_region ptr | Reply_code i32

definition ipc_manager_process_request_fn_netlink ::
  "i32 \<Rightarrow> ipc_manager_request \<Rightarrow> kernel_state \<Rightarrow> (ipc_manager_reply \<times> kernel_state) result"
where
  "ipc_manager_process_request_fn_netlink pid rq ks =
     (case rq of
        IPC_MANAGER_REGISTER region_id \<Rightarrow>
          result_bind (ipc_manager_register region_id ks) (\<lambda>ks. Inr (Reply_region (ks_ipc_region ks), ks))
      | IPC_MANAGER_UNREGISTER \<Rightarrow> Inr (Reply_code (- 1), ks)
      | IPC_MANAGER_Invalid _ \<Rightarrow> Inr (Reply_code (- 1), ks))"

text \<open>The client; the outer error is one of the kernel, the inner one is thrown by the client.\<close>

definition KernelIPCManager_Register :: "i32 \<Rightarrow> i32 \<Rightarrow> kernel_state \<Rightarrow> (ptr result \<times> kernel_state) result" where
  "KernelIPCManager_Register sender region_id ks =
     result_bind (ipc_manager_process_request_fn_netlink sender (IPC_MANAGER_REGISTER region_id) ks)
       (\<lambda>(reply, ks). case reply of
          Reply_region region \<Rightarrow> Inr (if region = 0 then Inl KERNEL_IPC_MANAGER_FAILED_TO_REGISTER else Inr region, ks)
        | Reply_code _ \<Rightarrow> Inr (Inl KERNEL_IPC_MANAGER_FAILED_TO_REGISTER, ks))"

section \<open>Workers\<close>

definition complete_invalid_request ::
  "nat \<Rightarrow> (nat \<Rightarrow> qp_state \<Rightarrow> qp_state) \<Rightarrow> ptr \<Rightarrow> ptr \<Rightarrow> kernel_state \<Rightarrow> kernel_state option"
where
  "complete_invalid_request fuel env qp rq ks =
     (let heap = (ks_heap ks)(rq := (ks_heap ks rq)\<lparr>rq_code := LABSTOR_REQUEST_FAILED\<rparr>) in
      map_option (\<lambda>(_, heap, q). set_kqp qp q (ks\<lparr>ks_heap := heap\<rparr>))
        (labstor_queue_pair_CompleteQuick fuel env (heap, ks_qps ks qp) rq rq))"

text \<open>What is done with a request that was taken off its queue.\<close>

definition worker_dispatch ::
  "nat \<Rightarrow> (nat \<Rightarrow> qp_state \<Rightarrow> qp_state) \<Rightarrow> (kernel_state, 'm) module_array \<Rightarrow> ptr \<Rightarrow> ptr \<Rightarrow> kernel_state \<Rightarrow>
   kernel_state option"
where
  "worker_dispatch fuel env modules qp rq ks =
     (case get_labstor_module_by_runtime_id modules (rq_ns_id (ks_heap ks rq)) of
        None \<Rightarrow> complete_invalid_request fuel env qp rq ks
      | Some module \<Rightarrow>
          (case km_process module of
             None \<Rightarrow> complete_invalid_request fuel env qp rq ks
           | Some process_request_fn \<Rightarrow> process_request_fn qp rq ks))"

text \<open>
  The inner loop. \<open>None\<close> is a loop that never ends, \<open>Some (Some code, ks)\<close> the end of the thread with
  that code, \<open>Some (None, ks)\<close> the end of the loop.
\<close>

fun worker_runtime_queue ::
  "nat \<Rightarrow> (nat \<Rightarrow> qp_state \<Rightarrow> qp_state) \<Rightarrow> (kernel_state, 'm) module_array \<Rightarrow> ptr \<Rightarrow> nat \<Rightarrow> kernel_state \<Rightarrow>
   (i32 option \<times> kernel_state) option"
where
  "worker_runtime_queue fuel env modules qp 0 ks = Some (None, ks)"
| "worker_runtime_queue fuel env modules qp (Suc n) ks =
     (if lrq_base_region (qp_sq (ks_qps ks qp)) = 0 then Some (Some (- 1), ks)
      else
        (case labstor_queue_pair_Dequeue (ks_qps ks qp) of
           (None, q) \<Rightarrow> Some (None, set_kqp qp q ks)
         | (Some rq, q) \<Rightarrow>
             (case worker_dispatch fuel env modules qp rq (set_kqp qp q ks) of
                None \<Rightarrow> None
              | Some ks \<Rightarrow> worker_runtime_queue fuel env modules qp n ks)))"

text \<open>The loop over the queue pairs of worker \<open>w\<close>, from index \<open>i\<close> on.\<close>

fun worker_runtime_scan ::
  "nat \<Rightarrow> (nat \<Rightarrow> qp_state \<Rightarrow> qp_state) \<Rightarrow> (kernel_state, 'm) module_array \<Rightarrow> nat \<Rightarrow> nat \<Rightarrow> i32 \<Rightarrow> kernel_state \<Rightarrow>
   (i32 option \<times> kernel_state) option"
where
  "worker_runtime_scan fuel env modules w 0 i ks = Some (None, ks)"
| "worker_runtime_scan fuel env modules w (Suc n) i ks =
     (case labstor_work_queue_Peek (kw_queue (the (ks_workers ks) ! w)) i of
        None \<Rightarrow> Some (None, ks)
      | Some qp \<Rightarrow>
          (case worker_runtime_queue fuel env modules qp
                  (nat (sint (labstor_queue_pair_GetDepth (ks_qps ks qp)))) ks of
             None \<Rightarrow> None
           | Some (Some code, ks) \<Rightarrow> Some (Some code, ks)
           | Some (None, ks) \<Rightarrow> worker_runtime_scan fuel env modules w n (i + 1) ks))"

definition worker_runtime_pass ::
  "nat \<Rightarrow> (nat \<Rightarrow> qp_state \<Rightarrow> qp_state) \<Rightarrow> (kernel_state, 'm) module_array \<Rightarrow> nat \<Rightarrow> kernel_state \<Rightarrow>
   (i32 option \<times> kernel_state) option"
where
  "worker_runtime_pass fuel env modules w ks =
     worker_runtime_scan fuel env modules w
       (nat (sint (labstor_work_queue_GetDepth (kw_queue (the (ks_workers ks) ! w))))) 0 ks"

text \<open>
  One iteration of the loop of worker \<open>w\<close>, or its end. \<open>world k\<close> is what the rest of the system does
  during the \<open>k\<close>-th call of \<^verbatim>\<open>yield\<close>.
\<close>

definition worker_runtime_step ::
  "nat \<Rightarrow> (nat \<Rightarrow> qp_state \<Rightarrow> qp_state) \<Rightarrow> (kernel_state, 'm) module_array \<Rightarrow> nat \<Rightarrow> kernel_state \<Rightarrow>
   (i32 option \<times> kernel_state) option"
where
  "worker_runtime_step fuel env modules w ks =
     (if \<not> ks_keep_running ks
      then Some (Some 0, ks\<lparr>ks_workers := map_option
        (\<lambda>ws. ws[w := (ws ! w)\<lparr>kw_complete_ack := True\<rparr>]) (ks_workers ks)\<rparr>)
      else worker_runtime_pass fuel env modules w ks)"

fun worker_runtime_loop ::
  "nat \<Rightarrow> (nat \<Rightarrow> qp_state \<Rightarrow> qp_state) \<Rightarrow> (nat \<Rightarrow> kernel_state \<Rightarrow> kernel_state) \<Rightarrow> (kernel_state, 'm) module_array \<Rightarrow>
   nat \<Rightarrow> nat \<Rightarrow> nat \<Rightarrow> kernel_state \<Rightarrow> (i32 \<times> kernel_state) option"
where
  "worker_runtime_loop fuel env world modules w k 0 ks = None"
| "worker_runtime_loop fuel env world modules w k (Suc n) ks =
     (case worker_runtime_step fuel env modules w ks of
        None \<Rightarrow> None
      | Some (Some code, ks) \<Rightarrow> Some (code, ks)
      | Some (None, ks) \<Rightarrow> worker_runtime_loop fuel env world modules w (Suc k) n (world k ks))"

definition worker_runtime ::
  "nat \<Rightarrow> (nat \<Rightarrow> qp_state \<Rightarrow> qp_state) \<Rightarrow> (nat \<Rightarrow> kernel_state \<Rightarrow> kernel_state) \<Rightarrow> (kernel_state, 'm) module_array \<Rightarrow>
   nat \<Rightarrow> nat \<Rightarrow> kernel_state \<Rightarrow> (i32 \<times> kernel_state) option"
where
  "worker_runtime fuel env world modules w n ks =
     (if \<not> ipc_manager_IsInitialized ks then Some (- 1, ks)
      else worker_runtime_loop fuel env world modules w 0 n ks)"

section \<open>Requests to the orchestrator\<close>

text \<open>
  The worker array is not initialised: \<open>mem i\<close> is what is in the memory of worker \<open>i\<close>. The result of
  \<^verbatim>\<open>labstor_work_queue_Init\<close> is ignored.
\<close>

fun spawn_loop :: "(nat \<Rightarrow> labstor_worker_struct) \<Rightarrow> nat \<Rightarrow> nat \<Rightarrow> ptr \<Rightarrow> u32 \<Rightarrow> labstor_worker_struct list" where
  "spawn_loop mem 0 i region work_queue_size = []"
| "spawn_loop mem (Suc n) i region work_queue_size =
     (let q = snd (labstor_work_queue_Init (kw_queue (mem i)) region work_queue_size 0) in
      \<lparr>kw_queue = q, kw_complete_ack = False, kw_worker_id = of_nat i, kw_cpu = None\<rparr> #
      spawn_loop mem n (Suc i) (labstor_work_queue_GetNextSection q) work_queue_size)"

definition spawn_workers ::
  "bool \<Rightarrow> (nat \<Rightarrow> labstor_worker_struct) \<Rightarrow> i32 \<Rightarrow> i32 \<Rightarrow> u64 \<Rightarrow> kernel_state \<Rightarrow> (bool \<times> kernel_state) result"
where
  "spawn_workers kvmalloc mem num_workers region_id region_size ks =
     (let ks = ks\<lparr>ks_num_workers := num_workers\<rparr> in
      if num_workers = 0 then Inl DIVISION_BY_ZERO
      else
        let work_queue_size = ucast region_size div num_workers in
        if \<not> kvmalloc then Inr (False, ks\<lparr>ks_workers := None\<rparr>)
        else
          let region = labstor_find_shmem_region (ks_shmem ks) region_id;
              ks = ks\<lparr>ks_shmem_region_id := region_id, ks_shmem_region := region\<rparr> in
          if region = 0 \<and> 0 < sint num_workers then Inl NULL_DEREFERENCE
          else Inr (True, ks\<lparr>ks_workers := Some (spawn_loop mem (nat (sint num_workers)) 0 region work_queue_size)\<rparr>))"

record labstor_assign_qp_request =
  aq_qp_ptr :: labstor_queue_pair_ptr
  aq_worker_id :: u32

text \<open>The handle is expected in front of the submission queue.\<close>

definition kernel_qp_address :: "ptr \<Rightarrow> labstor_queue_pair_ptr \<Rightarrow> ptr" where
  "kernel_qp_address region p = region + (scast (qpp_sq_off p) - ucast sizeof_queue_pair_kernel)"

fun register_loop :: "ptr \<Rightarrow> labstor_assign_qp_request list \<Rightarrow> kernel_state \<Rightarrow> kernel_state result" where
  "register_loop region [] ks = Inr ks"
| "register_loop region (rq # rqs) ks =
     (case ks_workers ks of
        None \<Rightarrow> Inl NULL_DEREFERENCE
      | Some ws \<Rightarrow>
          let w = unat (aq_worker_id rq); qp = kernel_qp_address region (aq_qp_ptr rq);
              ks = set_kqp qp (labstor_queue_pair_Attach (ks_qps ks qp) (aq_qp_ptr rq) region) ks in
          if length ws \<le> w then Inl OUT_OF_BOUNDS
          else
            register_loop region rqs
              (ks\<lparr>ks_workers := Some (ws[w := (ws ! w)\<lparr>kw_queue := snd (labstor_work_queue_Enqueue (kw_queue (ws ! w)) qp)\<rparr>])\<rparr>))"

text \<open>The function returns a \<^verbatim>\<open>bool\<close>, so its -1 is true.\<close>

definition register_qp :: "labstor_assign_qp_request list \<Rightarrow> kernel_state \<Rightarrow> (bool \<times> kernel_state) result" where
  "register_qp rq_vec ks =
     (if \<not> ipc_manager_IsInitialized ks then Inr (True, ks)
      else result_bind (register_loop (ipc_manager_GetRegion ks) rq_vec ks) (\<lambda>ks. Inr (True, ks)))"

definition set_worker_affinity :: "i32 \<Rightarrow> i32 \<Rightarrow> kernel_state \<Rightarrow> kernel_state result" where
  "set_worker_affinity worker_id cpu_id ks =
     (case ks_workers ks of
        None \<Rightarrow> Inl NULL_DEREFERENCE
      | Some ws \<Rightarrow>
          if sint worker_id < 0 \<or> int (length ws) \<le> sint worker_id then Inl OUT_OF_BOUNDS
          else
            let w = nat (sint worker_id) in
            Inr (ks\<lparr>ks_workers := Some (ws[w := (ws ! w)\<lparr>kw_cpu := Some cpu_id\<rparr>])\<rparr>))"

text \<open>The array and the number of workers are set together.\<close>

definition check_if_workers_stopped :: "kernel_state \<Rightarrow> bool result" where
  "check_if_workers_stopped ks =
     (if sint (ks_num_workers ks) \<le> 0 then Inr True
      else case ks_workers ks of
        None \<Rightarrow> Inl NULL_DEREFERENCE
      | Some ws \<Rightarrow> Inr (list_all kw_complete_ack ws))"

datatype orchestrator_request =
    LABSTOR_SPAWN_WORKERS i32 i32 u64
  | LABSTOR_SET_WORKER_AFFINITY i32 i32
  | LABSTOR_ASSIGN_QP "labstor_assign_qp_request list"
  | LABSTOR_PAUSE_WORKER i32
  | LABSTOR_RESUME_WORKER i32
  | Orchestrator_Invalid u16

text \<open>The reply is \<open>None\<close> for an operation that is not in the switch: no message is sent.\<close>

definition worker_process_request_fn_netlink ::
  "bool \<Rightarrow> (nat \<Rightarrow> labstor_worker_struct) \<Rightarrow> i32 \<Rightarrow> orchestrator_request \<Rightarrow> kernel_state \<Rightarrow>
   (i32 option \<times> kernel_state) result"
where
  "worker_process_request_fn_netlink kvmalloc mem pid rq ks =
     (case rq of
        LABSTOR_SPAWN_WORKERS num_workers region_id region_size \<Rightarrow>
          result_bind (spawn_workers kvmalloc mem num_workers region_id region_size ks)
            (\<lambda>(ok, ks). Inr (Some (if ok then 1 else 0), ks))
      | LABSTOR_ASSIGN_QP rq_vec \<Rightarrow>
          result_bind (register_qp rq_vec ks) (\<lambda>(ok, ks). Inr (Some (if ok then 1 else 0), ks))
      | LABSTOR_SET_WORKER_AFFINITY worker_id cpu_id \<Rightarrow>
          result_bind (set_worker_affinity worker_id cpu_id ks) (\<lambda>ks. Inr (Some 0, ks))
      | LABSTOR_PAUSE_WORKER _ \<Rightarrow> Inr (Some 0, ks)
      | LABSTOR_RESUME_WORKER _ \<Rightarrow> Inr (Some 0, ks)
      | Orchestrator_Invalid _ \<Rightarrow> Inr (None, ks))"

text \<open>Unloading the module: \<open>world k\<close> is what happens between two checks.\<close>

fun exit_wait :: "nat \<Rightarrow> (nat \<Rightarrow> kernel_state \<Rightarrow> kernel_state) \<Rightarrow> nat \<Rightarrow> kernel_state \<Rightarrow> kernel_state result option" where
  "exit_wait 0 world k ks = None"
| "exit_wait (Suc fuel) world k ks =
     (case check_if_workers_stopped ks of
        Inl err \<Rightarrow> Some (Inl err)
      | Inr True \<Rightarrow> Some (Inr ks)
      | Inr False \<Rightarrow> exit_wait fuel world (Suc k) (world k ks))"

definition exit_work_orchestrator_kernel ::
  "nat \<Rightarrow> (nat \<Rightarrow> kernel_state \<Rightarrow> kernel_state) \<Rightarrow> kernel_state \<Rightarrow> kernel_state result option"
where
  "exit_work_orchestrator_kernel fuel world ks =
     map_option (\<lambda>r. result_bind r (\<lambda>ks. Inr (ks\<lparr>ks_workers := None\<rparr>)))
       (exit_wait fuel world 0 (ks\<lparr>ks_keep_running := False\<rparr>))"

section \<open>The client of the orchestrator\<close>

text \<open>\<^verbatim>\<open>CreateWorkers\<close> sets the number of workers of the client and returns the region, whatever the reply.\<close>

definition WorkerClient_CreateWorkers ::
  "bool \<Rightarrow> (nat \<Rightarrow> labstor_worker_struct) \<Rightarrow> i32 \<Rightarrow> i32 \<Rightarrow> i32 \<Rightarrow> u64 \<Rightarrow> kernel_state \<Rightarrow> (i32 \<times> i32 \<times> kernel_state) result"
where
  "WorkerClient_CreateWorkers kvmalloc mem sender num_workers region_id region_size ks =
     result_bind (worker_process_request_fn_netlink kvmalloc mem sender
         (LABSTOR_SPAWN_WORKERS num_workers region_id region_size) ks)
       (\<lambda>(code, ks). Inr (region_id, num_workers, ks))"

text \<open>The queue pairs are given by their identifiers and pointers.\<close>

definition WorkerClient_AssignQueuePairs ::
  "(nat \<Rightarrow> labstor_worker_struct) \<Rightarrow> i32 \<Rightarrow> i32 \<Rightarrow> (labstor_qid_t \<times> labstor_queue_pair_ptr) list \<Rightarrow>
   kernel_state \<Rightarrow> kernel_state result"
where
  "WorkerClient_AssignQueuePairs mem sender num_workers assign_qp_vec ks =
     (if num_workers = 0 \<and> assign_qp_vec \<noteq> [] then Inl DIVISION_BY_ZERO
      else
        let rqs = map (\<lambda>(qid, p). \<lparr>aq_qp_ptr = p,
                   aq_worker_id = ucast (labstor_qid_Hash qid mod scast num_workers)\<rparr>) assign_qp_vec in
        result_bind (worker_process_request_fn_netlink True mem sender (LABSTOR_ASSIGN_QP rqs) ks)
          (\<lambda>(code, ks). Inr ks))"

definition WorkerClient_SetAffinity :: "(nat \<Rightarrow> labstor_worker_struct) \<Rightarrow> i32 \<Rightarrow> i32 \<Rightarrow> i32 \<Rightarrow> kernel_state \<Rightarrow> kernel_state result" where
  "WorkerClient_SetAffinity mem sender worker_id cpu_id ks =
     result_bind (worker_process_request_fn_netlink True mem sender
         (LABSTOR_SET_WORKER_AFFINITY worker_id cpu_id) ks)
       (\<lambda>(code, ks). Inr ks)"

section \<open>A worker serves its queues in order\<close>

text \<open>
  The specification. A request belongs to the handler of the module whose identifier it has; without
  one its code is set to that of a failed request and its offset is put into its bucket of the
  completion map, for which the worker waits for ever when it is taken (and returns at the first
  attempt otherwise).
\<close>

definition kernel_handler ::
  "(kernel_state, 'm) module_array \<Rightarrow> u32 \<Rightarrow> (ptr \<Rightarrow> ptr \<Rightarrow> kernel_state \<Rightarrow> kernel_state option) option"
where
  "kernel_handler modules ns_id = Option.bind (get_labstor_module_by_runtime_id modules ns_id) km_process"

definition kreject :: "ptr \<Rightarrow> ptr \<Rightarrow> kernel_state \<Rightarrow> kernel_state" where
  "kreject qp rq ks =
     (let q = ks_qps ks qp; cq = qp_cq q in
      set_kqp qp
        (q\<lparr>qp_cq := cq\<lparr>rm_cells := (rm_cells cq)(rq_req_id (ks_heap ks rq) mod rm_num_buckets cq :=
             LABSTOR_REGION_SUB rq (rm_base_region cq))\<rparr>\<rparr>)
        (ks\<lparr>ks_heap := (ks_heap ks)(rq := (ks_heap ks rq)\<lparr>rq_code := LABSTOR_REQUEST_FAILED\<rparr>)\<rparr>))"

definition kserve_one ::
  "nat \<Rightarrow> (kernel_state, 'm) module_array \<Rightarrow> ptr \<Rightarrow> ptr \<Rightarrow> kernel_state \<Rightarrow> kernel_state option"
where
  "kserve_one fuel modules qp rq ks =
     (case kernel_handler modules (rq_ns_id (ks_heap ks rq)) of
        Some process_request_fn \<Rightarrow> process_request_fn qp rq ks
      | None \<Rightarrow>
          let cq = qp_cq (ks_qps ks qp) in
          if fuel = 0 \<or> rm_cells cq (rq_req_id (ks_heap ks rq) mod rm_num_buckets cq) \<noteq> - 1 then None
          else Some (kreject qp rq ks))"

text \<open>Every request is taken off its queue and served; a step may wait for ever.\<close>

fun kserve_all ::
  "nat \<Rightarrow> (kernel_state, 'm) module_array \<Rightarrow> ptr \<Rightarrow> ptr list \<Rightarrow> kernel_state \<Rightarrow> kernel_state option"
where
  "kserve_all fuel modules qp [] ks = Some ks"
| "kserve_all fuel modules qp (rq # rqs) ks =
     Option.bind (kserve_one fuel modules qp rq
       (set_kqp qp (snd (labstor_queue_pair_Dequeue (ks_qps ks qp))) ks)) (kserve_all fuel modules qp rqs)"

fun kserve_queues ::
  "nat \<Rightarrow> (kernel_state, 'm) module_array \<Rightarrow> ptr list \<Rightarrow> kernel_state \<Rightarrow> kernel_state option"
where
  "kserve_queues fuel modules [] ks = Some ks"
| "kserve_queues fuel modules (qp # qps) ks =
     Option.bind (kserve_all fuel modules qp (qp_requests (ks_qps ks qp)) ks) (kserve_queues fuel modules qps)"

text \<open>Modules neither submit to the queues they serve nor assign queues to workers.\<close>

definition same_queues :: "kernel_state \<Rightarrow> kernel_state \<Rightarrow> bool" where
  "same_queues ks ks' \<longleftrightarrow> (\<forall>p. qp_sq (ks_qps ks' p) = qp_sq (ks_qps ks p)) \<and> ks_workers ks' = ks_workers ks"

definition kernel_handlers_ok :: "(kernel_state, 'm) module_array \<Rightarrow> bool" where
  "kernel_handlers_ok modules \<longleftrightarrow>
     (\<forall>i m f qp rq ks ks'. get_labstor_module_by_runtime_id modules i = Some m \<longrightarrow> km_process m = Some f \<longrightarrow>
        f qp rq ks = Some ks' \<longrightarrow> same_queues ks ks')"

lemma complete_invalid_same_queues:
  assumes "complete_invalid_request fuel no_env qp rq ks = Some ks'"
  shows "same_queues ks ks'"
  using assms
  by (auto simp: complete_invalid_request_def Let_def labstor_queue_pair_CompleteQuick_def same_queues_def
      dest!: CompleteInf_effect)

lemma complete_invalid_kreject:
  "complete_invalid_request fuel no_env qp rq ks =
     (let cq = qp_cq (ks_qps ks qp) in
      if fuel = 0 \<or> rm_cells cq (rq_req_id (ks_heap ks rq) mod rm_num_buckets cq) \<noteq> - 1 then None
      else Some (kreject qp rq ks))"
proof -
  define heap where "heap = (ks_heap ks)(rq := (ks_heap ks rq)\<lparr>rq_code := LABSTOR_REQUEST_FAILED\<rparr>)"
  have id: "rq_req_id (heap rq) = rq_req_id (ks_heap ks rq)" "heap(rq := (heap rq)\<lparr>rq_req_id := rq_req_id (heap rq)\<rparr>) = heap"
    by (simp_all add: heap_def)
  have c: "complete_invalid_request fuel no_env qp rq ks =
      map_option (\<lambda>(_, heap, q). set_kqp qp q (ks\<lparr>ks_heap := heap\<rparr>))
        (labstor_queue_pair_CompleteInf fuel no_env (heap, ks_qps ks qp) rq)"
    by (simp only: complete_invalid_request_def Let_def labstor_queue_pair_CompleteQuick_def heap_def [symmetric] prod.case id(2))
  show ?thesis
  proof (cases fuel)
    case 0
    then show ?thesis unfolding c by (simp add: labstor_queue_pair_CompleteInf_def)
  next
    case (Suc f)
    show ?thesis
      unfolding c using Complete_free [of "ks_qps ks qp" heap rq f] Complete_blocked [of "ks_qps ks qp" heap rq fuel]
      by (cases "rm_cells (qp_cq (ks_qps ks qp)) (rq_req_id (heap rq) mod rm_num_buckets (qp_cq (ks_qps ks qp))) = - 1")
        (simp_all add: Suc kreject_def Let_def id(1) heap_def)
  qed
qed

lemma worker_dispatch_kserve: "worker_dispatch fuel no_env modules qp rq ks = kserve_one fuel modules qp rq ks"
  by (simp add: worker_dispatch_def kserve_one_def kernel_handler_def complete_invalid_kreject split: option.split)

lemma worker_dispatch_same_queues:
  assumes "kernel_handlers_ok modules" "worker_dispatch fuel no_env modules qp rq ks = Some ks'"
  shows "same_queues ks ks'"
  using assms complete_invalid_same_queues [of fuel qp rq ks ks']
  by (auto simp: worker_dispatch_def kernel_handlers_ok_def split: option.splits)

text \<open>What serving the queue pair \<open>qp\<close> keeps.\<close>

definition served :: "ptr \<Rightarrow> kernel_state \<Rightarrow> kernel_state \<Rightarrow> bool" where
  "served qp ks ks' \<longleftrightarrow> ks_workers ks' = ks_workers ks \<and> qp_requests (ks_qps ks' qp) = [] \<and>
     (\<forall>p. lrq_base_region (qp_sq (ks_qps ks' p)) = lrq_base_region (qp_sq (ks_qps ks p))) \<and>
     (\<forall>p. p \<noteq> qp \<longrightarrow> qp_requests (ks_qps ks' p) = qp_requests (ks_qps ks p))"

lemma worker_runtime_queue_serves:
  assumes "kernel_handlers_ok modules"
  shows "lrq_base_region (qp_sq (ks_qps ks qp)) \<noteq> 0 \<Longrightarrow> qp_requests (ks_qps ks qp) = rqs \<Longrightarrow>
    worker_runtime_queue fuel no_env modules qp (length rqs) ks = map_option (Pair None) (kserve_all fuel modules qp rqs ks) \<and>
    (\<forall>ks'. kserve_all fuel modules qp rqs ks = Some ks' \<longrightarrow> served qp ks ks')"
proof (induction rqs arbitrary: ks)
  case Nil
  then show ?case by (simp add: served_def)
next
  case (Cons rq rqs)
  obtain q where dq: "labstor_queue_pair_Dequeue (ks_qps ks qp) = (Some rq, q)"
    using qp_requests_Dequeue [OF Cons.prems(2)] by fastforce
  let ?d = "set_kqp qp q ks"
  have q: "lrq_base_region (qp_sq q) = lrq_base_region (qp_sq (ks_qps ks qp))" "qp_requests q = rqs"
    using Dequeue_base_region(1) [of "ks_qps ks qp"] qp_requests_Cons(2) [OF Cons.prems(2)] dq by simp_all
  show ?case
  proof (cases "worker_dispatch fuel no_env modules qp rq ?d")
    case None
    then show ?thesis using Cons.prems(1) dq by (simp add: worker_dispatch_kserve)
  next
    case (Some ks1)
    have sq: "same_queues ?d ks1" by (rule worker_dispatch_same_queues [OF assms Some])
    have "lrq_base_region (qp_sq (ks_qps ks1 qp)) \<noteq> 0" "qp_requests (ks_qps ks1 qp) = rqs"
      using sq Cons.prems(1) q qp_requests_sq [of "ks_qps ks1 qp" q] by (simp_all add: same_queues_def)
    note ih = Cons.IH [OF this]
    have "served qp ks ks'" if "served qp ks1 ks'" for ks'
    proof -
      have "qp_requests (ks_qps ks1 p) = qp_requests (ks_qps ks p)" if "p \<noteq> qp" for p
        using sq that by (intro qp_requests_sq) (simp add: same_queues_def)
      then show ?thesis using that sq q(1) by (simp add: served_def same_queues_def)
    qed
    then show ?thesis using Cons.prems(1) dq Some ih by (simp add: worker_dispatch_kserve)
  qed
qed

definition kernel_queue_ok :: "kernel_state \<Rightarrow> ptr \<Rightarrow> bool" where
  "kernel_queue_ok ks qp \<longleftrightarrow> lrq_base_region (qp_sq (ks_qps ks qp)) \<noteq> 0 \<and> length (qp_requests (ks_qps ks qp)) < 2 ^ 31"

lemma served_queue_ok: "served qp ks ks' \<Longrightarrow> kernel_queue_ok ks p \<Longrightarrow> kernel_queue_ok ks' p"
  by (cases "p = qp") (auto simp: served_def kernel_queue_ok_def)

lemma worker_runtime_scan_serves:
  assumes "kernel_handlers_ok modules"
  shows "kw_queue (the (ks_workers ks) ! w) = q \<Longrightarrow> i + n = length (wq_entries q) \<Longrightarrow> i + n < 2 ^ 31 \<Longrightarrow>
    list_all (kernel_queue_ok ks) (wq_entries q) \<Longrightarrow>
    worker_runtime_scan fuel no_env modules w n (of_nat i) ks =
      map_option (Pair None) (kserve_queues fuel modules (drop i (wq_entries q)) ks)"
proof (induction n arbitrary: i ks)
  case 0
  then show ?case by simp
next
  case (Suc n)
  let ?es = "wq_entries q"
  have i: "i < length ?es" "i < 2 ^ 31" using Suc.prems(2,3) by simp_all
  have d: "drop i ?es = ?es ! i # drop (Suc i) ?es" using i(1) by (metis Cons_nth_drop_Suc)
  have pk: "labstor_work_queue_Peek q (of_nat i) = Some (?es ! i)"
    using wq_peek_law [OF i(2), of q] i(1) by (simp only: labstor_work_queue_Peek_def) simp
  let ?qp = "?es ! i"
  have ok: "kernel_queue_ok ks ?qp" using Suc.prems(4) i(1) by (metis list_all_length)
  then have dep: "nat (sint (labstor_queue_pair_GetDepth (ks_qps ks ?qp))) = length (qp_requests (ks_qps ks ?qp))"
    by (simp add: nat_sint_small GetDepth_requests kernel_queue_ok_def)
  note r = worker_runtime_queue_serves [OF assms, of ks ?qp _ fuel, OF _ refl]
  have b: "lrq_base_region (qp_sq (ks_qps ks ?qp)) \<noteq> 0" using ok by (simp add: kernel_queue_ok_def)
  show ?case
  proof (cases "kserve_all fuel modules ?qp (qp_requests (ks_qps ks ?qp)) ks")
    case None
    then show ?thesis using pk Suc.prems(1) r [OF b] dep d by simp
  next
    case (Some ks1)
    have sv: "served ?qp ks ks1" using r [OF b] Some by blast
    have "worker_runtime_scan fuel no_env modules w n (of_nat (Suc i)) ks1 =
        map_option (Pair None) (kserve_queues fuel modules (drop (Suc i) ?es) ks1)"
      by (rule Suc.IH) (use Suc.prems sv in \<open>auto simp: list_all_iff served_def intro: served_queue_ok [OF sv]\<close>)
    then show ?thesis using pk Suc.prems(1) r [OF b] dep d Some by (simp add: add.commute)
  qed
qed

section \<open>A sample state\<close>

text \<open>Two workers; the first has one queue pair, with one request for a module that does not exist.\<close>

definition sample_wq :: "u32 \<Rightarrow> ptr labstor_work_queue" where
  "sample_wq n = \<lparr>wq_header = 1000000, wq_queue = 1000012, wq_enqueued = n, wq_max_depth = 8, wq_plug = (0, 0),
     wq_cells = (\<lambda>_. 8136)\<rparr>"

definition sample_kernel :: kernel_state where
  "sample_kernel =
     \<lparr>ks_shmem = init_secure_shmem, ks_ipc_region_id = 1, ks_ipc_region = 4096,
      ks_ipc_alloc = \<lparr>sa_base_region = 4096, sa_concurrency = 1, sa_region_size = 65536, sa_header = 4096,
        sa_hdr_region_size = 65536, sa_hdr_concurrency = 1, sa_per_core = [], sa_core = (\<lambda>_. 0)\<rparr>,
      ks_keep_running = True,
      ks_workers = Some [\<lparr>kw_queue = sample_wq 1, kw_complete_ack = False, kw_worker_id = 0, kw_cpu = None\<rparr>,
        \<lparr>kw_queue = sample_wq 0, kw_complete_ack = False, kw_worker_id = 1, kw_cpu = None\<rparr>],
      ks_num_workers = 2, ks_shmem_region_id = 2, ks_shmem_region = 1000000,
      ks_qps = (\<lambda>_. idle_qp\<lparr>qp_sq := (qp_sq idle_qp)\<lparr>lrq_queue :=
        (lrq_queue (qp_sq idle_qp))\<lparr>rr_enqueued := 6, rr_cells := (\<lambda>_. 904)\<rparr>\<rparr>\<rparr>),
      ks_heap = (\<lambda>_. \<lparr>rq_req_id = 5, rq_ns_id = 9, rq_code = 0, rq_op = 0\<rparr>),
      ks_alloc_at = (\<lambda>_. \<lparr>sa_base_region = 0, sa_concurrency = 0, sa_region_size = 0, sa_header = 0,
        sa_hdr_region_size = 65536, sa_hdr_concurrency = 1, sa_per_core = [], sa_core = (\<lambda>_. 0)\<rparr>)\<rparr>"

text \<open>A module whose handler gives every request the code 7.\<close>

definition sample_module :: "(kernel_state, unit) labstor_module" where
  "sample_module = \<lparr>km_runtime_id = 9,
     km_process = Some (\<lambda>qp rq ks. Some (ks\<lparr>ks_heap := (ks_heap ks)(rq := (ks_heap ks rq)\<lparr>rq_code := 7\<rparr>)\<rparr>)),
     km_netlink = None\<rparr>"

lemma sample_wq_entries: "wq_entries (sample_wq 0) = []" "wq_entries (sample_wq 1) = [8136]"
  by (simp_all add: wq_entries_def sample_wq_def)

lemma sample_requests: "qp_requests (ks_qps sample_kernel qp) = [5000]"
  by (simp add: qp_requests_def rr_contents_def rr_depth_def ring_contents_def sample_kernel_def idle_qp_def region_defs)

lemma no_modules [simp]: "get_labstor_module_by_runtime_id init_labstor_module_manager i = None"
  by (auto simp: get_labstor_module_by_runtime_id_def init_labstor_module_manager_def intro!: nth_replicate)

section \<open>Properties\<close>

text \<open>
  C26. A kernel worker serves its queues completely and in order: one pass goes through the queue
  pairs in the order of their assignment and through the requests of each in the order of their
  submission, takes each off its queue and calls the handler of the module with the identifier in
  the request. When there is no such module, or it has no handler, the code of the request becomes
  that of a failed one and its offset is put into its bucket. The pass ends unless a handler or the
  wait for a bucket never ends.
\<close>

theorem kernel_worker_serves_queues:
  assumes "kernel_handlers_ok modules"
    and "length (wq_entries (kw_queue (the (ks_workers ks) ! w))) < 2 ^ 31"
    and "list_all (kernel_queue_ok ks) (wq_entries (kw_queue (the (ks_workers ks) ! w)))"
  shows "worker_runtime_pass fuel no_env modules w ks =
    map_option (Pair None) (kserve_queues fuel modules (wq_entries (kw_queue (the (ks_workers ks) ! w))) ks)"
proof -
  let ?q = "kw_queue (the (ks_workers ks) ! w)"
  have "nat (sint (labstor_work_queue_GetDepth ?q)) = length (wq_entries ?q)"
    using assms(2) by (simp add: labstor_work_queue_GetDepth_def nat_sint_small)
  then show ?thesis
    using worker_runtime_scan_serves [OF assms(1) refl, of 0 _ ks w fuel] assms(2,3)
    by (simp add: worker_runtime_pass_def)
qed

theorem kernel_worker_serves_queues_witness:
  "\<exists>ks1 ks2. worker_runtime_pass 1 no_env (register_labstor_module init_labstor_module_manager sample_module) 0 sample_kernel =
      Some (None, ks1) \<and> rq_code (ks_heap ks1 5000) = 7 \<and>
    worker_runtime_pass 1 no_env (init_labstor_module_manager :: (kernel_state, unit) module_array) 0 sample_kernel =
      Some (None, ks2) \<and> rq_code (ks_heap ks2 5000) = LABSTOR_REQUEST_FAILED"
proof -
  let ?no = "init_labstor_module_manager :: (kernel_state, unit) module_array"
  let ?ms = "register_labstor_module ?no sample_module"
  have e: "kw_queue (the (ks_workers sample_kernel) ! 0) = sample_wq 1" by (simp add: sample_kernel_def)
  have k: "kernel_queue_ok sample_kernel 8136"
    by (simp add: kernel_queue_ok_def sample_requests) (simp add: sample_kernel_def idle_qp_def)
  have g: "get_labstor_module_by_runtime_id ?ms i = (if i = 9 then Some sample_module else None)" for i
    using get_register [of ?no sample_module i]
    by (auto simp: init_labstor_module_manager_def sample_module_def get_labstor_module_by_runtime_id_def)
  have ok: "kernel_handlers_ok ?no" "kernel_handlers_ok ?ms"
    unfolding kernel_handlers_ok_def g by (auto simp: sample_module_def same_queues_def split: if_splits)
  have p: "worker_runtime_pass 1 no_env ms 0 sample_kernel =
      map_option (Pair None) (kserve_queues 1 ms [8136] sample_kernel)" if "kernel_handlers_ok ms" for ms :: "(kernel_state, unit) module_array"
    using kernel_worker_serves_queues [OF that, of sample_kernel 0 1] k by (simp add: e sample_wq_entries)
  have h: "rq_ns_id (ks_heap sample_kernel 5000) = 9" "rm_num_buckets (qp_cq (ks_qps sample_kernel 8136)) = rm_num_buckets (qp_cq idle_qp)"
      "rm_cells (qp_cq (ks_qps sample_kernel 8136)) = rm_cells (qp_cq idle_qp)"
    by (simp_all add: sample_kernel_def)
  show ?thesis
    unfolding p [OF ok(1)] p [OF ok(2)]
    by (simp add: sample_requests kserve_one_def kernel_handler_def g h Let_def kreject_def)
      (simp add: sample_module_def idle_qp_def)
qed

text \<open>
  A request for a module the kernel does not have is answered: the worker takes it off the queue,
  and the client finds it completed with the code of a failed request.
\<close>

theorem kernel_worker_rejects_unknown_module:
  assumes "qp_requests (ks_qps ks qp) = rq # rqs" "lrq_base_region (qp_sq (ks_qps ks qp)) \<noteq> 0"
    and "get_labstor_module_by_runtime_id modules (rq_ns_id (ks_heap ks rq)) = None"
    and "unat (rq - rm_base_region (qp_cq (ks_qps ks qp))) < 2 ^ 31"
    and "rm_cells (qp_cq (ks_qps ks qp)) (rq_req_id (ks_heap ks rq) mod rm_num_buckets (qp_cq (ks_qps ks qp))) = - 1"
  shows "\<exists>ks'. worker_runtime_queue (Suc fuel) no_env modules qp 1 ks = Some (None, ks') \<and>
    qp_requests (ks_qps ks' qp) = rqs \<and> rq_code (ks_heap ks' rq) = LABSTOR_REQUEST_FAILED \<and>
    fst (labstor_queue_pair_IsComplete (ks_qps ks' qp) (rq_req_id (ks_heap ks rq))) = Some rq"
proof -
  let ?b = "rq_req_id (ks_heap ks rq) mod rm_num_buckets (qp_cq (ks_qps ks qp))"
  let ?o = "LABSTOR_REGION_SUB rq (rm_base_region (qp_cq (ks_qps ks qp)))"
  obtain q where dq: "labstor_queue_pair_Dequeue (ks_qps ks qp) = (Some rq, q)"
    using qp_requests_Dequeue [OF assms(1)] by fastforce
  have q: "qp_cq q = qp_cq (ks_qps ks qp)" "qp_requests q = rqs"
    using Dequeue_base_region(2) [of "ks_qps ks qp"] qp_requests_Cons(2) [OF assms(1)] dq by simp_all
  define heap where "heap = (ks_heap ks)(rq := (ks_heap ks rq)\<lparr>rq_code := LABSTOR_REQUEST_FAILED\<rparr>)"
  define q2 where "q2 = q\<lparr>qp_cq := (qp_cq q)\<lparr>rm_cells := (rm_cells (qp_cq q))(?b := ?o)\<rparr>\<rparr>"
  have id: "rq_req_id (heap rq) = rq_req_id (ks_heap ks rq)" "heap(rq := (heap rq)\<lparr>rq_req_id := rq_req_id (heap rq)\<rparr>) = heap"
    by (simp_all add: heap_def)
  have c: "complete_invalid_request (Suc fuel) no_env qp rq (set_kqp qp q ks) = Some (set_kqp qp q2 (set_kqp qp q ks\<lparr>ks_heap := heap\<rparr>))"
    using Complete_free [of q heap rq fuel] assms(5) id q(1)
    by (simp add: complete_invalid_request_def Let_def labstor_queue_pair_CompleteQuick_def heap_def [symmetric] q2_def)
  have o: "?o \<noteq> - 1" by (rule offset_not_empty) (use assms(4) in \<open>simp add: rm_offset_ok_def\<close>)
  have r: "LABSTOR_REGION_ADD ?o (rm_base_region (qp_cq (ks_qps ks qp))) = rq"
    using region_translate(1) [OF assms(4), of "rm_base_region (qp_cq (ks_qps ks qp))"] by simp
  have "fst (labstor_queue_pair_IsComplete q2 (rq_req_id (ks_heap ks rq))) = Some rq"
    using o r q(1) by (simp add: labstor_queue_pair_IsComplete_def labstor_request_map_FindAndRemove_def q2_def)
  moreover have "qp_requests q2 = rqs" using q(2) qp_requests_sq [of q2 q] by (simp add: q2_def)
  ultimately show ?thesis
    using dq assms(2,3) c by (simp add: worker_dispatch_def heap_def)
qed

definition kworkers_room :: "nat \<Rightarrow> labstor_worker_struct list \<Rightarrow> bool" where
  "kworkers_room n ws \<longleftrightarrow>
     (\<forall>w < length ws. wq_inv (kw_queue (ws ! w)) \<and> length (wq_entries (kw_queue (ws ! w))) + n \<le> wq_cap (kw_queue (ws ! w)))"

definition attached :: "ptr \<Rightarrow> kernel_state \<Rightarrow> ptr \<Rightarrow> bool" where
  "attached region ks p \<longleftrightarrow> lrq_base_region (qp_sq (ks_qps ks p)) = region"

lemma wq_Enqueue_room:
  fixes x :: ptr
  assumes "wq_inv q" "length (wq_entries q) + Suc n \<le> wq_cap q"
  defines "q' \<equiv> snd (labstor_work_queue_Enqueue q x)"
  shows "wq_inv q'" "wq_entries q' = wq_entries q @ [x]" "length (wq_entries q') + n \<le> wq_cap q'"
proof -
  have l: "wq_enqueued q < wq_max_depth q" using assms(2) by (simp add: wq_cap_def word_less_nat_alt)
  then have q: "q' = wq_append x q" by (simp add: q'_def wq_Enqueue_append not_le)
  note a = wq_append_law [OF l, of x]
  show "wq_inv q'" "wq_entries q' = wq_entries q @ [x]" unfolding q by (rule a)+
  show "length (wq_entries q') + n \<le> wq_cap q'"
    unfolding q a(2,3) using assms(2) by (simp del: wq_entries_length)
qed

lemma register_loop_entries:
  assumes "ks_workers ks = Some ws" "\<forall>rq \<in> set rqs. unat (aq_worker_id rq) < length ws" "kworkers_room (length rqs) ws"
  shows "\<exists>ks' ws'. register_loop region rqs ks = Inr ks' \<and> ks_workers ks' = Some ws' \<and> length ws' = length ws \<and>
    (\<forall>w < length ws. wq_entries (kw_queue (ws' ! w)) = wq_entries (kw_queue (ws ! w)) @
       map (\<lambda>rq. kernel_qp_address region (aq_qp_ptr rq)) (filter (\<lambda>rq. unat (aq_worker_id rq) = w) rqs)) \<and>
    (\<forall>p. attached region ks p \<or> p \<in> (\<lambda>rq. kernel_qp_address region (aq_qp_ptr rq)) ` set rqs \<longrightarrow> attached region ks' p)"
  using assms
proof (induction rqs arbitrary: ks ws)
  case Nil
  then show ?case by auto
next
  case (Cons rq rqs)
  let ?w = "unat (aq_worker_id rq)" and ?p = "kernel_qp_address region (aq_qp_ptr rq)"
  define ks1 where "ks1 = set_kqp ?p (labstor_queue_pair_Attach (ks_qps ks ?p) (aq_qp_ptr rq) region) ks"
  define ws1 where "ws1 = ws[?w := (ws ! ?w)\<lparr>kw_queue := snd (labstor_work_queue_Enqueue (kw_queue (ws ! ?w)) ?p)\<rparr>]"
  have w: "?w < length ws" using Cons.prems(2) by simp
  have rm: "wq_inv (kw_queue (ws ! v))" "length (wq_entries (kw_queue (ws ! v))) + Suc (length rqs) \<le> wq_cap (kw_queue (ws ! v))"
    if "v < length ws" for v
    using Cons.prems(3) that by (simp_all add: kworkers_room_def del: wq_entries_length)
  note e = wq_Enqueue_room [OF rm [OF w], of ?p]
  have r1: "kworkers_room (length rqs) ws1"
    using rm e w by (fastforce simp: kworkers_room_def ws1_def nth_list_update simp del: wq_entries_length)
  have e1: "wq_entries (kw_queue (ws1 ! v)) = wq_entries (kw_queue (ws ! v)) @ (if ?w = v then [?p] else [])"
    if "v < length ws" for v
    using that w e(2) by (auto simp: ws1_def nth_list_update)
  have a1: "attached region ks1 p" if "attached region ks p \<or> p = ?p" for p
    using that by (auto simp: attached_def ks1_def labstor_queue_pair_Attach_def labstor_request_queue_Attach_def)
  have st: "register_loop region (rq # rqs) ks = register_loop region rqs (ks1\<lparr>ks_workers := Some ws1\<rparr>)"
    using Cons.prems(1) w by (simp add: Let_def ks1_def ws1_def)
  have l: "length ws1 = length ws" by (simp add: ws1_def)
  obtain ks' ws' where ih: "register_loop region rqs (ks1\<lparr>ks_workers := Some ws1\<rparr>) = Inr ks'"
      "ks_workers ks' = Some ws'" "length ws' = length ws1"
      "\<forall>w < length ws1. wq_entries (kw_queue (ws' ! w)) = wq_entries (kw_queue (ws1 ! w)) @
         map (\<lambda>rq. kernel_qp_address region (aq_qp_ptr rq)) (filter (\<lambda>rq. unat (aq_worker_id rq) = w) rqs)"
      "\<forall>p. attached region (ks1\<lparr>ks_workers := Some ws1\<rparr>) p \<or>
         p \<in> (\<lambda>rq. kernel_qp_address region (aq_qp_ptr rq)) ` set rqs \<longrightarrow> attached region ks' p"
    using Cons.IH [of "ks1\<lparr>ks_workers := Some ws1\<rparr>" ws1] Cons.prems(2) r1 l by auto
  have "attached region ks' p" if "attached region ks p \<or> p \<in> (\<lambda>rq. kernel_qp_address region (aq_qp_ptr rq)) ` set (rq # rqs)" for p
    using ih(5) that a1 [of p] by (auto simp: attached_def)
  then show ?case
    using st ih(1,2,3,4) l e1 by (intro exI [of _ ks'] exI [of _ ws'] conjI) (auto simp del: wq_entries_length)
qed

text \<open>
  C27. Queue pairs are spread over the workers by their hash: after \<^verbatim>\<open>AssignQueuePairs\<close> the work queue of
  every worker has its old entries followed by the queue pairs whose hash selects it, in their
  order, and the kernel has attached each of them to the shared region. The entries must fit into
  the section of a work queue, which is half of its capacity.
\<close>


theorem kernel_queue_assignment:
  assumes "ipc_manager_IsInitialized ks" "ks_workers ks = Some ws" "ws \<noteq> []" "length ws < 2 ^ 31"
    and "\<forall>w < length ws. wq_inv (kw_queue (ws ! w)) \<and>
           2 * (length (wq_entries (kw_queue (ws ! w))) + length vec) \<le> wq_cap (kw_queue (ws ! w))"
  defines "region \<equiv> ipc_manager_GetRegion ks"
  shows "\<exists>ks' ws'. WorkerClient_AssignQueuePairs mem sender (of_nat (length ws)) vec ks = Inr ks' \<and>
    ks_workers ks' = Some ws' \<and> length ws' = length ws \<and>
    (\<forall>w < length ws. wq_entries (kw_queue (ws' ! w)) = wq_entries (kw_queue (ws ! w)) @
       map (\<lambda>(qid, p). kernel_qp_address region p)
         (filter (\<lambda>(qid, p). unat (labstor_qid_Hash qid) mod length ws = w) vec)) \<and>
    (\<forall>(qid, p) \<in> set vec. lrq_base_region (qp_sq (ks_qps ks' (kernel_qp_address region p))) = region)"
proof -
  let ?n = "of_nat (length ws) :: i32"
  define wid where "wid qid = (ucast (labstor_qid_Hash qid mod scast ?n) :: u32)" for qid
  define rqs where "rqs = map (\<lambda>(qid, p). \<lparr>aq_qp_ptr = p, aq_worker_id = wid qid\<rparr>) vec"
  have u: "unat ?n = length ws" using assms(4) by (simp add: unat_of_nat)
  have "sint ?n = int (length ws)" using assms(4) by (simp add: signed_of_nat signed_take_bit_int_eq_self)
  then have "(scast ?n :: u64) = of_nat (length ws)" by (simp add: scast_eq)
  moreover have "unat (of_nat (length ws) :: u64) = length ws" using assms(4) by (simp add: unat_of_nat)
  ultimately have n: "?n \<noteq> 0" "unat (scast ?n :: u64) = length ws"
    using assms(3) u by (auto simp del: of_nat_eq_0_iff)
  have h: "unat (wid qid) = unat (labstor_qid_Hash qid) mod length ws" for qid
  proof -
    have "unat (labstor_qid_Hash qid mod scast ?n) = unat (labstor_qid_Hash qid) mod length ws"
      using n(2) by (simp add: unat_mod)
    moreover have "unat (labstor_qid_Hash qid) mod length ws < 2 ^ 31"
      using assms(3,4) less_trans [OF mod_less_divisor] by blast
    ultimately show ?thesis by (simp add: wid_def unsigned_ucast_eq take_bit_nat_eq_self)
  qed
  have r: "kworkers_room (length rqs) ws"
    using assms(5) by (fastforce simp: kworkers_room_def rqs_def simp del: wq_entries_length)
  have b: "\<forall>rq \<in> set rqs. unat (aq_worker_id rq) < length ws"
    using assms(3) by (auto simp: rqs_def h)
  obtain ks' ws' where e: "register_loop region rqs ks = Inr ks'" "ks_workers ks' = Some ws'" "length ws' = length ws"
      "\<forall>w < length ws. wq_entries (kw_queue (ws' ! w)) = wq_entries (kw_queue (ws ! w)) @
         map (\<lambda>rq. kernel_qp_address region (aq_qp_ptr rq)) (filter (\<lambda>rq. unat (aq_worker_id rq) = w) rqs)"
      "\<forall>p. attached region ks p \<or> p \<in> (\<lambda>rq. kernel_qp_address region (aq_qp_ptr rq)) ` set rqs \<longrightarrow> attached region ks' p"
    using register_loop_entries [OF assms(2) b r, of region] by blast
  have f: "map (\<lambda>rq. kernel_qp_address region (aq_qp_ptr rq)) (filter (\<lambda>rq. unat (aq_worker_id rq) = w) rqs) =
      map (\<lambda>(qid, p). kernel_qp_address region p) (filter (\<lambda>(qid, p). unat (labstor_qid_Hash qid) mod length ws = w) vec)" for w
    by (simp add: rqs_def filter_map o_def case_prod_unfold h)
  have "WorkerClient_AssignQueuePairs mem sender ?n vec ks = Inr ks'"
    using n(1) assms(1) e(1)
    by (simp add: WorkerClient_AssignQueuePairs_def worker_process_request_fn_netlink_def register_qp_def
        region_def rqs_def wid_def Let_def)
  moreover have "lrq_base_region (qp_sq (ks_qps ks' (kernel_qp_address region p))) = region" if "(qid, p) \<in> set vec" for qid p
    using e(5) that by (force simp: attached_def rqs_def)
  ultimately show ?thesis using e(2,3,4) f by (intro exI [of _ ks'] exI [of _ ws']) auto
qed

theorem kernel_queue_assignment_witness:
  "\<exists>ks' ws'. WorkerClient_AssignQueuePairs (\<lambda>_. the (ks_workers sample_kernel) ! 0) 10 2
      [(\<lparr>qid_flags = 0, qid_type = 0, qid_cnt = 1, qid_pid = 42\<rparr>, \<lparr>qpp_sq_off = 8192, qpp_cq_off = 9000, qpp_pid = 42\<rparr>)]
      sample_kernel = Inr ks' \<and>
    ks_workers ks' = Some ws' \<and> wq_entries (kw_queue (ws' ! 1)) = [12232] \<and> wq_entries (kw_queue (ws' ! 0)) = [8136]"
proof -
  let ?ws = "the (ks_workers sample_kernel)"
  let ?vec = "[(\<lparr>qid_flags = 0, qid_type = 0, qid_cnt = 1, qid_pid = 42\<rparr>, \<lparr>qpp_sq_off = 8192, qpp_cq_off = 9000, qpp_pid = 42\<rparr>)]
    :: (labstor_qid_t \<times> labstor_queue_pair_ptr) list"
  have a: "ipc_manager_IsInitialized sample_kernel" "ks_workers sample_kernel = Some ?ws" "?ws \<noteq> []" "length ?ws = 2"
      "length ?ws < 2 ^ 31"
    by (simp_all add: sample_kernel_def ipc_manager_IsInitialized_def labstor_shmem_allocator_GetRegion_def)
  have q: "kw_queue (?ws ! 0) = sample_wq 1" "kw_queue (?ws ! 1) = sample_wq 0" by (simp_all add: sample_kernel_def)
  have r: "\<forall>w < length ?ws. wq_inv (kw_queue (?ws ! w)) \<and>
      2 * (length (wq_entries (kw_queue (?ws ! w))) + length ?vec) \<le> wq_cap (kw_queue (?ws ! w))"
    using q by (auto simp: a(4) less_2_cases_iff wq_inv_def wq_cap_def sample_wq_def)
  have h: "unat (labstor_qid_Hash \<lparr>qid_flags = 0, qid_type = 0, qid_cnt = 1, qid_pid = 42\<rparr>) mod 2 = 1"
    by (simp add: labstor_qid_Hash_def)
  have g: "kernel_qp_address (ipc_manager_GetRegion sample_kernel) \<lparr>qpp_sq_off = 8192, qpp_cq_off = 9000, qpp_pid = 42\<rparr> = 12232"
    by (simp add: kernel_qp_address_def ipc_manager_GetRegion_def labstor_shmem_allocator_GetRegion_def sample_kernel_def)
  obtain ks' ws' where s: "WorkerClient_AssignQueuePairs (\<lambda>_. the (ks_workers sample_kernel) ! 0) 10 (of_nat (length ?ws)) ?vec sample_kernel = Inr ks'"
      "ks_workers ks' = Some ws'"
      "\<forall>w < length ?ws. wq_entries (kw_queue (ws' ! w)) = wq_entries (kw_queue (?ws ! w)) @
         map (\<lambda>(qid, p). kernel_qp_address (ipc_manager_GetRegion sample_kernel) p)
           (filter (\<lambda>(qid, p). unat (labstor_qid_Hash qid) mod length ?ws = w) ?vec)"
    using kernel_queue_assignment [OF a(1,2,3,5) r] by blast
  have "wq_entries (kw_queue (ws' ! 1)) = [12232]" "wq_entries (kw_queue (ws' ! 0)) = [8136]"
    using s(3) q h g by (simp_all add: a(4) sample_wq_entries)
  then show ?thesis using s(1,2) a(4) by auto
qed

section \<open>The threads of the orchestrator\<close>

text \<open>
  The worker threads next to each other and next to the rest of the system. A thread starts, loops
  and ends as \<open>worker_runtime\<close> says; between its iterations the other threads run, requests reach the
  orchestrator and the IPC manager, and clients change queues and requests. No workers are spawned
  while the module is unloaded.
\<close>

datatype worker_thread = Starting | Looping | Ended i32

type_synonym orchestrator = "kernel_state \<times> (nat \<Rightarrow> worker_thread)"

inductive orchestrator_step ::
  "nat \<Rightarrow> (nat \<Rightarrow> qp_state \<Rightarrow> qp_state) \<Rightarrow> (kernel_state, 'm) module_array \<Rightarrow> orchestrator \<Rightarrow> orchestrator \<Rightarrow> bool"
  for fuel env modules
where
  start_fails: "T w = Starting \<Longrightarrow> \<not> ipc_manager_IsInitialized ks \<Longrightarrow>
    orchestrator_step fuel env modules (ks, T) (ks, T(w := Ended (- 1)))"
| starts: "T w = Starting \<Longrightarrow> ipc_manager_IsInitialized ks \<Longrightarrow>
    orchestrator_step fuel env modules (ks, T) (ks, T(w := Looping))"
| loops: "T w = Looping \<Longrightarrow> worker_runtime_step fuel env modules w ks = Some (None, ks') \<Longrightarrow>
    orchestrator_step fuel env modules (ks, T) (ks', T)"
| ends: "T w = Looping \<Longrightarrow> worker_runtime_step fuel env modules w ks = Some (Some code, ks') \<Longrightarrow>
    orchestrator_step fuel env modules (ks, T) (ks', T(w := Ended code))"
| assigns: "worker_process_request_fn_netlink kvmalloc mem pid (LABSTOR_ASSIGN_QP rq_vec) ks = Inr (r, ks') \<Longrightarrow>
    orchestrator_step fuel env modules (ks, T) (ks', T)"
| pins: "worker_process_request_fn_netlink kvmalloc mem pid (LABSTOR_SET_WORKER_AFFINITY worker_id cpu_id) ks = Inr (r, ks') \<Longrightarrow>
    orchestrator_step fuel env modules (ks, T) (ks', T)"
| registers: "ipc_manager_process_request_fn_netlink pid rq ks = Inr (reply, ks') \<Longrightarrow>
    orchestrator_step fuel env modules (ks, T) (ks', T)"
| clients: "orchestrator_step fuel env modules (ks, T) (ks\<lparr>ks_qps := qps, ks_heap := heap\<rparr>, T)"

text \<open>Acknowledgements are given by the workers alone; modules do not touch the array of the workers.\<close>

definition workers_kept :: "kernel_state \<Rightarrow> kernel_state \<Rightarrow> bool" where
  "workers_kept ks ks' \<longleftrightarrow> ks_workers ks' = ks_workers ks \<and> ks_num_workers ks' = ks_num_workers ks"

definition kernel_handlers_keep_workers :: "(kernel_state, 'm) module_array \<Rightarrow> bool" where
  "kernel_handlers_keep_workers modules \<longleftrightarrow>
     (\<forall>i f qp rq ks ks'. kernel_handler modules i = Some f \<longrightarrow> f qp rq ks = Some ks' \<longrightarrow> workers_kept ks ks')"

definition acks :: "kernel_state \<Rightarrow> bool list option" where
  "acks ks = map_option (map kw_complete_ack) (ks_workers ks)"

definition unacknowledged :: "nat \<Rightarrow> orchestrator \<Rightarrow> bool" where
  "unacknowledged w s \<longleftrightarrow> (\<exists>code. snd s w = Ended code) \<and> 0 < sint (ks_num_workers (fst s)) \<and>
     (\<exists>as. acks (fst s) = Some as \<and> w < length as \<and> \<not> as ! w)"

lemma worker_dispatch_kept:
  assumes "kernel_handlers_keep_workers modules" "worker_dispatch fuel env modules qp rq ks = Some ks'"
  shows "workers_kept ks ks'"
proof (cases "kernel_handler modules (rq_ns_id (ks_heap ks rq))")
  case None
  then have "complete_invalid_request fuel env qp rq ks = Some ks'"
    using assms(2) by (auto simp: worker_dispatch_def kernel_handler_def split: option.splits)
  then show ?thesis by (auto simp: complete_invalid_request_def Let_def workers_kept_def)
next
  case (Some f)
  then have "f qp rq ks = Some ks'"
    using assms(2) by (auto simp: worker_dispatch_def kernel_handler_def split: option.splits)
  then show ?thesis using assms(1) Some by (auto simp: kernel_handlers_keep_workers_def)
qed

lemma worker_runtime_queue_kept:
  assumes "kernel_handlers_keep_workers modules"
  shows "worker_runtime_queue fuel env modules qp n ks = Some (r, ks') \<Longrightarrow> workers_kept ks ks'"
proof (induction n arbitrary: ks)
  case 0
  then show ?case by (simp add: workers_kept_def)
next
  case (Suc n)
  show ?case
  proof (cases "lrq_base_region (qp_sq (ks_qps ks qp)) = 0")
    case True
    then show ?thesis using Suc.prems by (simp add: workers_kept_def)
  next
    case False
    obtain x q where dq: "labstor_queue_pair_Dequeue (ks_qps ks qp) = (x, q)" by fastforce
    show ?thesis
    proof (cases x)
      case None
      then show ?thesis using Suc.prems False dq by (auto simp: workers_kept_def)
    next
      case (Some rq)
      then obtain ks1 where d: "worker_dispatch fuel env modules qp rq (set_kqp qp q ks) = Some ks1"
          "worker_runtime_queue fuel env modules qp n ks1 = Some (r, ks')"
        using Suc.prems False dq by (auto split: option.splits)
      show ?thesis using worker_dispatch_kept [OF assms d(1)] Suc.IH [OF d(2)] by (simp add: workers_kept_def)
    qed
  qed
qed

lemma worker_runtime_scan_kept:
  assumes "kernel_handlers_keep_workers modules"
  shows "worker_runtime_scan fuel env modules w n i ks = Some (r, ks') \<Longrightarrow> workers_kept ks ks'"
proof (induction n arbitrary: i ks)
  case 0
  then show ?case by (simp add: workers_kept_def)
next
  case (Suc n)
  show ?case
  proof (cases "labstor_work_queue_Peek (kw_queue (the (ks_workers ks) ! w)) i")
    case None
    then show ?thesis using Suc.prems by (simp add: workers_kept_def)
  next
    case (Some qp)
    then obtain c ks1 where q: "worker_runtime_queue fuel env modules qp
          (nat (sint (labstor_queue_pair_GetDepth (ks_qps ks qp)))) ks = Some (c, ks1)"
        "case c of None \<Rightarrow> worker_runtime_scan fuel env modules w n (i + 1) ks1 = Some (r, ks') | Some _ \<Rightarrow> ks' = ks1"
      using Suc.prems by (auto split: option.splits)
    note worker_runtime_queue_kept [OF assms q(1)]
    then show ?thesis using q(2) Suc.IH [of "i + 1" ks1] by (auto simp: workers_kept_def split: option.splits)
  qed
qed

text \<open>Every step keeps a worker that ended without an acknowledgement as it is.\<close>

lemma acks_set_queue [simp]: "map kw_complete_ack (ws[v := (ws ! v)\<lparr>kw_queue := q\<rparr>]) = map kw_complete_ack ws"
  by (cases "v < length ws") (simp_all add: map_update list_update_same_conv list_update_beyond)

lemma acks_set_cpu [simp]: "map kw_complete_ack (ws[v := (ws ! v)\<lparr>kw_cpu := c\<rparr>]) = map kw_complete_ack ws"
  by (cases "v < length ws") (simp_all add: map_update list_update_same_conv list_update_beyond)

lemma register_loop_acks:
  "register_loop region rqs ks = Inr ks' \<Longrightarrow> acks ks' = acks ks \<and> ks_num_workers ks' = ks_num_workers ks"
proof (induction rqs arbitrary: ks)
  case Nil
  then show ?case by simp
next
  case (Cons rq rqs)
  then show ?case by (fastforce simp: Let_def acks_def split: option.splits if_splits)
qed

lemma unacknowledged_same:
  "unacknowledged w (ks, T) \<Longrightarrow> acks ks' = acks ks \<Longrightarrow> ks_num_workers ks' = ks_num_workers ks \<Longrightarrow> unacknowledged w (ks', T)"
  by (simp add: unacknowledged_def)

lemma unacknowledged_own:
  assumes "kernel_handlers_keep_workers modules" "unacknowledged w (ks, T)"
    and "T v = Looping" "T' w = T w" "worker_runtime_step fuel env modules v ks = Some (r, ks')"
  shows "unacknowledged w (ks', T')"
proof (cases "ks_keep_running ks")
  case True
  then have "workers_kept ks ks'"
    using assms(5) worker_runtime_scan_kept [OF assms(1)] by (simp add: worker_runtime_step_def worker_runtime_pass_def)
  then show ?thesis using assms(2,4) by (simp add: unacknowledged_def workers_kept_def acks_def)
next
  case False
  have "v \<noteq> w" using assms(2,3) by (auto simp: unacknowledged_def)
  then show ?thesis using assms(2,4,5) False by (auto simp: worker_runtime_step_def unacknowledged_def acks_def map_update)
qed

lemma unacknowledged_step:
  assumes "kernel_handlers_keep_workers modules" "orchestrator_step fuel env modules s s'" "unacknowledged w s"
  shows "unacknowledged w s'"
  using assms(2,3)
proof (induction rule: orchestrator_step.induct)
  case (start_fails T v ks)
  then show ?case by (auto simp: unacknowledged_def)
next
  case (starts T v ks)
  then show ?case by (auto simp: unacknowledged_def)
next
  case (loops T v ks ks')
  then show ?case using unacknowledged_own [OF assms(1)] by blast
next
  case (ends T v ks code ks')
  then have "v \<noteq> w" by (auto simp: unacknowledged_def)
  then show ?case using ends unacknowledged_own [OF assms(1), of w ks T v "T(v := Ended code)"] by simp
next
  case (assigns kvmalloc mem pid rq_vec ks r ks' T)
  then show ?case
    using unacknowledged_same [OF assigns(2), of ks'] register_loop_acks
    by (auto simp: worker_process_request_fn_netlink_def register_qp_def result_bind_Inr split: if_splits)
next
  case (pins kvmalloc mem pid worker_id cpu_id ks r ks' T)
  then show ?case
    using unacknowledged_same [OF pins(2), of ks']
    by (auto simp: worker_process_request_fn_netlink_def set_worker_affinity_def result_bind_Inr acks_def Let_def
        split: option.splits if_splits)
next
  case (registers pid rq ks reply ks' T)
  then show ?case
    using unacknowledged_same [OF registers(2), of ks']
    by (auto simp: ipc_manager_process_request_fn_netlink_def ipc_manager_register_def result_bind_Inr acks_def Let_def
        split: ipc_manager_request.splits if_splits)
next
  case (clients ks T qps heap)
  then show ?case using unacknowledged_same [of w ks T] by (simp add: acks_def)
qed

lemma unacknowledged_steps:
  assumes "kernel_handlers_keep_workers modules" "(orchestrator_step fuel env modules)\<^sup>*\<^sup>* s s'" "unacknowledged w s"
  shows "unacknowledged w s'"
  using assms(2,3) by (induction rule: rtranclp_induct) (auto intro: unacknowledged_step [OF assms(1)])

lemma exit_wait_unacknowledged:
  assumes "\<And>k. unacknowledged w (s k)" "\<And>k. world k (fst (s k)) = fst (s (Suc k))"
  shows "exit_wait n world k (fst (s k)) = None"
proof (induction n arbitrary: k)
  case (Suc n)
  have "check_if_workers_stopped (fst (s k)) = Inr False"
    using assms(1) [of k]
    by (auto simp: check_if_workers_stopped_def unacknowledged_def acks_def list_all_length)
  then show ?case using Suc assms(2) by simp
qed simp

text \<open>Workers that loop acknowledge the end, one iteration of each suffices.\<close>

lemma exit_wait_looping:
  assumes "\<not> ks_keep_running ks" "ks_workers ks = Some ws" "k + n = length ws" "\<forall>i < k. kw_complete_ack (ws ! i)"
  shows "\<exists>ks'. exit_wait (Suc n) (\<lambda>k s. snd (the (worker_runtime_step fuel env modules k s))) k ks = Some (Inr ks')"
  using assms
proof (induction n arbitrary: k ks ws)
  case 0
  then have "check_if_workers_stopped ks = Inr True" by (simp add: check_if_workers_stopped_def list_all_length)
  then show ?case by simp
next
  case (Suc n)
  let ?ws = "ws[k := (ws ! k)\<lparr>kw_complete_ack := True\<rparr>]"
  let ?ks = "snd (the (worker_runtime_step fuel env modules k ks))"
  have s: "?ks = ks\<lparr>ks_workers := Some ?ws\<rparr>" using Suc.prems(1,2) by (simp add: worker_runtime_step_def)
  have "\<forall>i < Suc k. kw_complete_ack (?ws ! i)" using Suc.prems(3,4) by (auto simp: less_Suc_eq nth_list_update)
  then have "\<exists>ks'. exit_wait (Suc n) (\<lambda>k s. snd (the (worker_runtime_step fuel env modules k s))) (Suc k) ?ks = Some (Inr ks')"
    using Suc.prems(1,3) by (intro Suc.IH [of ?ks ?ws]) (simp_all add: s)
  moreover have "check_if_workers_stopped ks = Inr True \<or> check_if_workers_stopped ks = Inr False"
    using Suc.prems(2) by (auto simp: check_if_workers_stopped_def)
  ultimately show ?case by auto
qed



text \<open>An assignment before the IPC manager has a region assigns nothing and is answered like a success.\<close>

theorem assignment_without_region_reports_success:
  assumes "\<not> ipc_manager_IsInitialized ks"
  shows "worker_process_request_fn_netlink kvmalloc mem pid (LABSTOR_ASSIGN_QP rq_vec) ks = Inr (Some 1, ks)"
  using assms by (simp add: worker_process_request_fn_netlink_def register_qp_def)

end
