(* ===== verification/Mq_Block_Layer.thy ===== *)
theory Mq_Block_Layer
  imports Labstor_Prelude
begin

text \<open>
  The functions of the multi-queue block layer that the driver module carries with it,
  \<^verbatim>\<open>labmods/mq_driver/kernel/mq_driver_kernel.c\<close> up to \<^verbatim>\<open>blk_mq_try_issue_directly\<close>: driver tags,
  the dispatch budget and the direct issue of a request. The scalable bitmaps of the kernel and
  the operations of the device driver are arguments. A word of flags is given by the flags the
  code tests, each as a truth value.
\<close>

section \<open>Data\<close>

record sbitmap_queue =
  sbq_depth :: u32
  sbq_busy :: "i32 \<Rightarrow> bool"

record sbitmap_ops =
  so_get :: "sbitmap_queue \<Rightarrow> i32 \<times> sbitmap_queue"
  so_get_shallow :: "u32 \<Rightarrow> sbitmap_queue \<Rightarrow> i32 \<times> sbitmap_queue"
  so_clear :: "i32 \<Rightarrow> sbitmap_queue \<Rightarrow> sbitmap_queue"

record blk_mq_tags =
  bt_nr_tags :: u32
  bt_nr_reserved_tags :: u32
  bt_active_queues :: i32
  bt_bitmap_tags :: sbitmap_queue
  bt_breserved_tags :: sbitmap_queue
  bt_rqs :: "u32 \<Rightarrow> nat option"

text \<open>The scheduler's tags are absent when the queue has no elevator.\<close>

record blk_mq_hw_ctx =
  hx_blocking :: bool
  hx_tag_shared :: bool
  hx_stopped :: bool
  hx_tag_active :: bool
  hx_nr_active :: i32
  hx_dispatch_busy :: u32
  hx_elevator :: bool
  hx_quiesced :: bool
  hx_tags :: blk_mq_tags
  hx_sched_tags :: "blk_mq_tags option"

record blk_mq_alloc_data =
  ad_internal :: bool
  ad_reserved :: bool
  ad_shallow_depth :: u32

text \<open>A request of the block layer; \<open>dr_inflight\<close> is the flag \<^verbatim>\<open>RQF_MQ_INFLIGHT\<close>.\<close>

record blk_request =
  dr_id :: nat
  dr_tag :: i32
  dr_internal_tag :: i32
  dr_inflight :: bool

datatype blk_status = BLK_STS_OK | BLK_STS_RESOURCE | BLK_STS_DEV_RESOURCE | BLK_STS_other u8

record mq_ops =
  mo_get_budget :: "(blk_mq_hw_ctx \<Rightarrow> bool \<times> blk_mq_hw_ctx) option"
  mo_put_budget :: "(blk_mq_hw_ctx \<Rightarrow> blk_mq_hw_ctx) option"
  mo_queue_rq :: "blk_mq_hw_ctx \<Rightarrow> blk_request \<Rightarrow> blk_status \<times> blk_mq_hw_ctx \<times> blk_request"

abbreviation BLK_MQ_TAG_FAIL :: u32 where "BLK_MQ_TAG_FAIL \<equiv> - 1"
abbreviation BLK_QC_T_NONE :: u32 where "BLK_QC_T_NONE \<equiv> - 1"
abbreviation BLK_MQ_DISPATCH_BUSY_EWMA_WEIGHT :: u32 where "BLK_MQ_DISPATCH_BUSY_EWMA_WEIGHT \<equiv> 8"
abbreviation BLK_MQ_DISPATCH_BUSY_EWMA_FACTOR :: nat where "BLK_MQ_DISPATCH_BUSY_EWMA_FACTOR \<equiv> 4"

section \<open>Tags\<close>

text \<open>A missing context may always queue; the count of active requests is compared as unsigned.\<close>

definition hctx_may_queue :: "blk_mq_hw_ctx option \<Rightarrow> sbitmap_queue \<Rightarrow> bool" where
  "hctx_may_queue h bt =
     (case h of
        None \<Rightarrow> True
      | Some hctx \<Rightarrow>
          if \<not> hx_tag_shared hctx then True
          else if \<not> hx_tag_active hctx then True
          else if sbq_depth bt = 1 then True
          else
            let users = bt_active_queues (hx_tags hctx) in
            if users = 0 then True
            else
              let depth = max ((sbq_depth bt + users - 1) div users) 4 in
              hx_nr_active hctx < depth)"

definition blk_mq_tag_is_reserved :: "blk_mq_tags \<Rightarrow> u32 \<Rightarrow> bool" where
  "blk_mq_tag_is_reserved tags tag \<longleftrightarrow> tag < bt_nr_reserved_tags tags"

definition blk_mq_hctx_stopped :: "blk_mq_hw_ctx \<Rightarrow> bool" where
  "blk_mq_hctx_stopped hctx = hx_stopped hctx"

definition blk_mq_tag_busy_aux :: "blk_mq_hw_ctx \<Rightarrow> bool \<times> blk_mq_hw_ctx" where
  "blk_mq_tag_busy_aux hctx =
     (True,
      if hx_tag_active hctx then hctx
      else hctx\<lparr>hx_tag_active := True,
        hx_tags := (hx_tags hctx)\<lparr>bt_active_queues := bt_active_queues (hx_tags hctx) + 1\<rparr>\<rparr>)"

definition blk_mq_tag_busy :: "blk_mq_hw_ctx \<Rightarrow> bool \<times> blk_mq_hw_ctx" where
  "blk_mq_tag_busy hctx = (if \<not> hx_tag_shared hctx then (False, hctx) else blk_mq_tag_busy_aux hctx)"

definition blk_mq_tags_from_data :: "blk_mq_alloc_data \<Rightarrow> blk_mq_hw_ctx \<Rightarrow> blk_mq_tags option" where
  "blk_mq_tags_from_data data hctx = (if ad_internal data then hx_sched_tags hctx else Some (hx_tags hctx))"

definition set_tags :: "blk_mq_alloc_data \<Rightarrow> blk_mq_tags \<Rightarrow> blk_mq_hw_ctx \<Rightarrow> blk_mq_hw_ctx" where
  "set_tags data tags hctx =
     (if ad_internal data then hctx\<lparr>hx_sched_tags := Some tags\<rparr> else hctx\<lparr>hx_tags := tags\<rparr>)"

definition blk_mq_update_dispatch_busy :: "blk_mq_hw_ctx \<Rightarrow> bool \<Rightarrow> blk_mq_hw_ctx" where
  "blk_mq_update_dispatch_busy hctx busy =
     (if hx_elevator hctx then hctx
      else
        let ewma = hx_dispatch_busy hctx in
        if ewma = 0 \<and> \<not> busy then hctx
        else
          let ewma = ewma * (BLK_MQ_DISPATCH_BUSY_EWMA_WEIGHT - 1);
              ewma = (if busy then ewma + push_bit BLK_MQ_DISPATCH_BUSY_EWMA_FACTOR 1 else ewma) in
          hctx\<lparr>hx_dispatch_busy := ewma div BLK_MQ_DISPATCH_BUSY_EWMA_WEIGHT\<rparr>)"

definition blk_mq_get_tag_bit ::
  "sbitmap_ops \<Rightarrow> blk_mq_alloc_data \<Rightarrow> blk_mq_hw_ctx \<Rightarrow> sbitmap_queue \<Rightarrow> i32 \<times> sbitmap_queue"
where
  "blk_mq_get_tag_bit ops data hctx bt =
     (if \<not> ad_internal data \<and> \<not> hctx_may_queue (Some hctx) bt then (- 1, bt)
      else if ad_shallow_depth data \<noteq> 0 then so_get_shallow ops (ad_shallow_depth data) bt
      else so_get ops bt)"

text \<open>The tag, \<^verbatim>\<open>BLK_MQ_TAG_FAIL\<close> when there is none, and the context.\<close>

definition blk_mq_get_tag ::
  "sbitmap_ops \<Rightarrow> blk_mq_alloc_data \<Rightarrow> blk_mq_hw_ctx \<Rightarrow> (u32 \<times> blk_mq_hw_ctx) result"
where
  "blk_mq_get_tag ops data hctx =
     (case blk_mq_tags_from_data data hctx of
        None \<Rightarrow> Inl NULL_DEREFERENCE
      | Some tags \<Rightarrow>
          if ad_reserved data then
            if bt_nr_reserved_tags tags = 0 then Inr (BLK_MQ_TAG_FAIL, hctx)
            else
              (case blk_mq_get_tag_bit ops data hctx (bt_breserved_tags tags) of
                 (tag, bt) \<Rightarrow>
                   Inr (if tag \<noteq> - 1 then tag + 0 else BLK_MQ_TAG_FAIL,
                        set_tags data (tags\<lparr>bt_breserved_tags := bt\<rparr>) hctx))
          else
            (case blk_mq_get_tag_bit ops data hctx (bt_bitmap_tags tags) of
               (tag, bt) \<Rightarrow>
                 Inr (if tag \<noteq> - 1 then tag + bt_nr_reserved_tags tags else BLK_MQ_TAG_FAIL,
                      set_tags data (tags\<lparr>bt_bitmap_tags := bt\<rparr>) hctx)))"

definition blk_mq_put_tag :: "sbitmap_ops \<Rightarrow> blk_mq_tags \<Rightarrow> u32 \<Rightarrow> blk_mq_tags" where
  "blk_mq_put_tag ops tags tag =
     (if \<not> blk_mq_tag_is_reserved tags tag
      then
        let real_tag = tag - bt_nr_reserved_tags tags in
        tags\<lparr>bt_bitmap_tags := so_clear ops real_tag (bt_bitmap_tags tags)\<rparr>
      else tags\<lparr>bt_breserved_tags := so_clear ops tag (bt_breserved_tags tags)\<rparr>)"

definition blk_mq_put_dispatch_budget :: "mq_ops \<Rightarrow> blk_mq_hw_ctx \<Rightarrow> blk_mq_hw_ctx" where
  "blk_mq_put_dispatch_budget drv hctx = (case mo_put_budget drv of Some put \<Rightarrow> put hctx | None \<Rightarrow> hctx)"

definition blk_mq_get_dispatch_budget :: "mq_ops \<Rightarrow> blk_mq_hw_ctx \<Rightarrow> bool \<times> blk_mq_hw_ctx" where
  "blk_mq_get_dispatch_budget drv hctx = (case mo_get_budget drv of Some get \<Rightarrow> get hctx | None \<Rightarrow> (True, hctx))"

definition blk_mq_put_driver_tag_aux ::
  "sbitmap_ops \<Rightarrow> blk_mq_hw_ctx \<Rightarrow> blk_request \<Rightarrow> blk_mq_hw_ctx \<times> blk_request"
where
  "blk_mq_put_driver_tag_aux ops hctx rq =
     (let hctx = hctx\<lparr>hx_tags := blk_mq_put_tag ops (hx_tags hctx) (dr_tag rq)\<rparr>;
          rq = rq\<lparr>dr_tag := - 1\<rparr> in
      if dr_inflight rq
      then (hctx\<lparr>hx_nr_active := hx_nr_active hctx - 1\<rparr>, rq\<lparr>dr_inflight := False\<rparr>)
      else (hctx, rq))"

definition blk_mq_put_driver_tag ::
  "sbitmap_ops \<Rightarrow> blk_mq_hw_ctx \<Rightarrow> blk_request \<Rightarrow> blk_mq_hw_ctx \<times> blk_request"
where
  "blk_mq_put_driver_tag ops hctx rq =
     (if dr_tag rq = - 1 \<or> dr_internal_tag rq = - 1 then (hctx, rq) else blk_mq_put_driver_tag_aux ops hctx rq)"

text \<open>The scheduler's tags are looked at only when the request has no tag yet.\<close>

definition blk_mq_get_driver_tag ::
  "sbitmap_ops \<Rightarrow> blk_mq_hw_ctx \<Rightarrow> blk_request \<Rightarrow> (bool \<times> blk_mq_hw_ctx \<times> blk_request) result"
where
  "blk_mq_get_driver_tag ops hctx rq =
     (if dr_tag rq \<noteq> - 1 then Inr (True, hctx, rq)
      else
        case hx_sched_tags hctx of
          None \<Rightarrow> Inl NULL_DEREFERENCE
        | Some sched_tags \<Rightarrow>
            let data = \<lparr>ad_internal = False, ad_reserved = blk_mq_tag_is_reserved sched_tags (dr_internal_tag rq),
                        ad_shallow_depth = 0\<rparr>;
                (shared, hctx) = blk_mq_tag_busy hctx in
            result_bind (blk_mq_get_tag ops data hctx) (\<lambda>(tag, hctx).
            let rq = rq\<lparr>dr_tag := tag\<rparr> in
            if 0 \<le> sint (dr_tag rq)
            then
              let (hctx, rq) = (if shared then (hctx\<lparr>hx_nr_active := hx_nr_active hctx + 1\<rparr>, rq\<lparr>dr_inflight := True\<rparr>)
                                else (hctx, rq));
                  hctx = hctx\<lparr>hx_tags := (hx_tags hctx)\<lparr>bt_rqs := (bt_rqs (hx_tags hctx))(dr_tag rq := Some (dr_id rq))\<rparr>\<rparr> in
              Inr (dr_tag rq \<noteq> - 1, hctx, rq)
            else Inr (dr_tag rq \<noteq> - 1, hctx, rq)))"

section \<open>Issue\<close>

text \<open>The cookie of a request, \<^verbatim>\<open>request_to_qc_t\<close>, is a function of the kernel.\<close>

definition blk_mq_issue_directly_aux ::
  "(blk_mq_hw_ctx \<Rightarrow> blk_request \<Rightarrow> u32) \<Rightarrow> mq_ops \<Rightarrow> blk_mq_hw_ctx \<Rightarrow> blk_request \<Rightarrow>
   blk_status \<times> u32 \<times> blk_mq_hw_ctx \<times> blk_request"
where
  "blk_mq_issue_directly_aux qc drv hctx rq =
     (let new_cookie = qc hctx rq in
      case mo_queue_rq drv hctx rq of
        (BLK_STS_OK, hctx, rq) \<Rightarrow> (BLK_STS_OK, new_cookie, blk_mq_update_dispatch_busy hctx False, rq)
      | (BLK_STS_RESOURCE, hctx, rq) \<Rightarrow> (BLK_STS_RESOURCE, BLK_QC_T_NONE, blk_mq_update_dispatch_busy hctx False, rq)
      | (BLK_STS_DEV_RESOURCE, hctx, rq) \<Rightarrow>
          (BLK_STS_DEV_RESOURCE, BLK_QC_T_NONE, blk_mq_update_dispatch_busy hctx False, rq)
      | (ret, hctx, rq) \<Rightarrow> (ret, BLK_QC_T_NONE, blk_mq_update_dispatch_busy hctx False, rq))"

text \<open>-1 as a status is 255; the cookie is written only when the driver was called.\<close>

definition blk_mq_try_issue_directly_aux ::
  "sbitmap_ops \<Rightarrow> (blk_mq_hw_ctx \<Rightarrow> blk_request \<Rightarrow> u32) \<Rightarrow> mq_ops \<Rightarrow> bool \<Rightarrow> blk_mq_hw_ctx \<Rightarrow> blk_request \<Rightarrow>
   (blk_status \<times> u32 option \<times> blk_mq_hw_ctx \<times> blk_request) result"
where
  "blk_mq_try_issue_directly_aux ops qc drv bypass_insert hctx rq =
     (if blk_mq_hctx_stopped hctx \<or> hx_quiesced hctx then Inr (BLK_STS_other 255, None, hctx, rq)
      else if hx_elevator hctx \<and> \<not> bypass_insert then Inr (BLK_STS_other 255, None, hctx, rq)
      else
        case blk_mq_get_dispatch_budget drv hctx of
          (False, hctx) \<Rightarrow> Inr (BLK_STS_other 255, None, hctx, rq)
        | (True, hctx) \<Rightarrow>
            result_bind (blk_mq_get_driver_tag ops hctx rq) (\<lambda>(ok, hctx, rq).
            if \<not> ok then Inr (BLK_STS_other 255, None, blk_mq_put_dispatch_budget drv hctx, rq)
            else
              case blk_mq_issue_directly_aux qc drv hctx rq of
                (ret, cookie, hctx, rq) \<Rightarrow> Inr (ret, Some cookie, hctx, rq)))"

abbreviation LABSTOR_MQ_OK :: i32 where "LABSTOR_MQ_OK \<equiv> 0"
abbreviation LABSTOR_MQ_DEVICE_BUSY :: i32 where "LABSTOR_MQ_DEVICE_BUSY \<equiv> - 106"
abbreviation LABSTOR_MQ_NOT_OK :: i32 where "LABSTOR_MQ_NOT_OK \<equiv> - 107"

text \<open>
  The status with which the request is ended, if it is, comes with the result: the kernel's
  \<^verbatim>\<open>blk_mq_end_request\<close> then calls the completion function of its bio.
\<close>

definition blk_mq_try_issue_directly ::
  "sbitmap_ops \<Rightarrow> (blk_mq_hw_ctx \<Rightarrow> blk_request \<Rightarrow> u32) \<Rightarrow> mq_ops \<Rightarrow> blk_mq_hw_ctx \<Rightarrow> blk_request \<Rightarrow>
   (i32 \<times> blk_status option \<times> u32 option \<times> blk_mq_hw_ctx \<times> blk_request) result"
where
  "blk_mq_try_issue_directly ops qc drv hctx rq =
     result_bind (blk_mq_try_issue_directly_aux ops qc drv True hctx rq) (\<lambda>(ret, cookie, hctx, rq).
     if ret = BLK_STS_RESOURCE \<or> ret = BLK_STS_DEV_RESOURCE
     then Inr (LABSTOR_MQ_DEVICE_BUSY, Some ret, cookie, hctx, rq)
     else if ret \<noteq> BLK_STS_OK then Inr (LABSTOR_MQ_NOT_OK, Some ret, cookie, hctx, rq)
     else Inr (LABSTOR_MQ_OK, None, cookie, hctx, rq))"

section \<open>Laws\<close>

text \<open>The documented behaviour of the scalable bitmaps: a bit that is handed out was free and is busy until it is cleared.\<close>

definition sbitmap_got :: "sbitmap_queue \<Rightarrow> i32 \<Rightarrow> sbitmap_queue \<Rightarrow> bool" where
  "sbitmap_got bt i bt' \<longleftrightarrow>
     (if i = - 1 then bt' = bt
      else unat i < unat (sbq_depth bt) \<and> \<not> sbq_busy bt i \<and> bt' = bt\<lparr>sbq_busy := (sbq_busy bt)(i := True)\<rparr>)"

definition sbitmap_ok :: "sbitmap_ops \<Rightarrow> bool" where
  "sbitmap_ok ops \<longleftrightarrow>
     (\<forall>bt. case so_get ops bt of (i, bt') \<Rightarrow> sbitmap_got bt i bt') \<and>
     (\<forall>n bt. case so_get_shallow ops n bt of (i, bt') \<Rightarrow> sbitmap_got bt i bt') \<and>
     (\<forall>i bt. so_clear ops i bt = bt\<lparr>sbq_busy := (sbq_busy bt)(i := False)\<rparr>)"

text \<open>The two bitmaps share the numbers from 0 to \<open>nr_tags\<close>, which fit a signed integer.\<close>

definition tags_wf :: "blk_mq_tags \<Rightarrow> bool" where
  "tags_wf tags \<longleftrightarrow> unat (bt_nr_tags tags) < 2 ^ 31 \<and>
     unat (sbq_depth (bt_breserved_tags tags)) = unat (bt_nr_reserved_tags tags) \<and>
     unat (bt_nr_reserved_tags tags) + unat (sbq_depth (bt_bitmap_tags tags)) = unat (bt_nr_tags tags)"

definition tag_in_use :: "blk_mq_tags \<Rightarrow> u32 \<Rightarrow> bool" where
  "tag_in_use tags tag \<longleftrightarrow>
     (if blk_mq_tag_is_reserved tags tag then sbq_busy (bt_breserved_tags tags) tag
      else sbq_busy (bt_bitmap_tags tags) (tag - bt_nr_reserved_tags tags))"

text \<open>\<open>tags'\<close> is \<open>tags\<close> with \<open>tag\<close> taken.\<close>

definition tag_taken :: "blk_mq_tags \<Rightarrow> u32 \<Rightarrow> blk_mq_tags \<Rightarrow> bool" where
  "tag_taken tags tag tags' \<longleftrightarrow> unat tag < unat (bt_nr_tags tags) \<and> \<not> tag_in_use tags tag \<and>
     (\<forall>t. tag_in_use tags' t \<longleftrightarrow> tag_in_use tags t \<or> t = tag)"

lemma get_tag_bit_got:
  assumes "sbitmap_ok ops" "blk_mq_get_tag_bit ops data hctx bt = (i, bt')"
  shows "sbitmap_got bt i bt'"
  using assms by (auto simp: blk_mq_get_tag_bit_def sbitmap_ok_def sbitmap_got_def split: if_splits prod.splits; metis)

lemma reserved_tag_taken:
  assumes "tags_wf tags" "sbitmap_got (bt_breserved_tags tags) i bt'" "i \<noteq> - 1"
  shows "tag_taken tags i (tags\<lparr>bt_breserved_tags := bt'\<rparr>) \<and> tags_wf (tags\<lparr>bt_breserved_tags := bt'\<rparr>)"
  using assms
  by (auto simp: tag_taken_def tags_wf_def sbitmap_got_def tag_in_use_def blk_mq_tag_is_reserved_def word_less_nat_alt)

lemma ordinary_tag_taken:
  assumes "tags_wf tags" "sbitmap_got (bt_bitmap_tags tags) i bt'" "i \<noteq> - 1"
  defines "tag \<equiv> i + bt_nr_reserved_tags tags"
  shows "tag_taken tags tag (tags\<lparr>bt_bitmap_tags := bt'\<rparr>) \<and> tags_wf (tags\<lparr>bt_bitmap_tags := bt'\<rparr>)"
proof -
  have i: "unat i < unat (sbq_depth (bt_bitmap_tags tags))" "\<not> sbq_busy (bt_bitmap_tags tags) i"
      "bt' = (bt_bitmap_tags tags)\<lparr>sbq_busy := (sbq_busy (bt_bitmap_tags tags))(i := True)\<rparr>"
    using assms(2,3) by (simp_all add: sbitmap_got_def)
  have u: "unat tag = unat i + unat (bt_nr_reserved_tags tags)"
    using i(1) assms(1) unfolding tag_def by (intro unat_add_lem [THEN iffD1]) (simp add: tags_wf_def)
  have r: "\<not> tag < bt_nr_reserved_tags tags" using u by (simp add: word_less_nat_alt)
  have t: "t - bt_nr_reserved_tags tags = i \<longleftrightarrow> t = tag" for t by (auto simp: tag_def)
  show ?thesis
    using i u r t assms(1)
    by (auto simp: tag_taken_def tags_wf_def tag_in_use_def blk_mq_tag_is_reserved_def tag_def)
qed

lemma get_tag_taken:
  assumes "sbitmap_ok ops" "tags_wf (hx_tags hctx)" "\<not> ad_internal data"
    and "blk_mq_get_tag ops data hctx = Inr (tag, hctx')"
  shows "tags_wf (hx_tags hctx') \<and> hx_nr_active hctx' = hx_nr_active hctx \<and>
    (if tag = - 1 then hx_tags hctx' = hx_tags hctx else tag_taken (hx_tags hctx) tag (hx_tags hctx')) \<and>
    bt_nr_reserved_tags (hx_tags hctx') = bt_nr_reserved_tags (hx_tags hctx)"
proof (cases "ad_reserved data")
  case True
  obtain i bt' where b: "blk_mq_get_tag_bit ops data hctx (bt_breserved_tags (hx_tags hctx)) = (i, bt')" by fastforce
  note g = get_tag_bit_got [OF assms(1) b]
  have "i = - 1 \<Longrightarrow> bt' = bt_breserved_tags (hx_tags hctx)" using g by (simp add: sbitmap_got_def)
  then show ?thesis
    using assms(2,3,4) True b reserved_tag_taken [OF assms(2) g]
    by (auto simp: blk_mq_get_tag_def blk_mq_tags_from_data_def set_tags_def split: if_splits)
next
  case False
  obtain i bt' where b: "blk_mq_get_tag_bit ops data hctx (bt_bitmap_tags (hx_tags hctx)) = (i, bt')" by fastforce
  note g = get_tag_bit_got [OF assms(1) b]
  have m: "i = - 1 \<Longrightarrow> bt' = bt_bitmap_tags (hx_tags hctx)" using g by (simp add: sbitmap_got_def)
  show ?thesis
  proof (cases "i = - 1")
    case True
    then show ?thesis
      using assms(2,3,4) False b m
      by (auto simp: blk_mq_get_tag_def blk_mq_tags_from_data_def set_tags_def)
  next
    case i: False
    note t = ordinary_tag_taken [OF assms(2) g i]
    have "i + bt_nr_reserved_tags (hx_tags hctx) \<noteq> - 1"
    proof
      assume "i + bt_nr_reserved_tags (hx_tags hctx) = - 1"
      then have "unat (- 1 :: u32) < 2 ^ 31"
        using t assms(2) by (auto simp: tag_taken_def tags_wf_def)
      then show False using sint_small [of "- 1"] uint_ge_0 [of "- 1 :: u32"] by simp
    qed
    then show ?thesis
      using assms(3,4) False b i t
      by (auto simp: blk_mq_get_tag_def blk_mq_tags_from_data_def set_tags_def)
  qed
qed

lemma tag_busy_keeps:
  assumes "blk_mq_tag_busy hctx = (shared, hctx1)"
  shows "tag_in_use (hx_tags hctx1) = tag_in_use (hx_tags hctx)" "tags_wf (hx_tags hctx1) = tags_wf (hx_tags hctx)"
    "bt_nr_tags (hx_tags hctx1) = bt_nr_tags (hx_tags hctx)" "hx_nr_active hctx1 = hx_nr_active hctx"
    "bt_nr_reserved_tags (hx_tags hctx1) = bt_nr_reserved_tags (hx_tags hctx)"
  using assms
  by (auto simp: blk_mq_tag_busy_def blk_mq_tag_busy_aux_def tag_in_use_def fun_eq_iff tags_wf_def
      blk_mq_tag_is_reserved_def split: if_splits)

lemma tag_in_use_rqs: "tag_in_use (tags\<lparr>bt_rqs := f\<rparr>) = tag_in_use tags" "tags_wf (tags\<lparr>bt_rqs := f\<rparr>) = tags_wf tags"
  by (simp_all add: tag_in_use_def fun_eq_iff tags_wf_def blk_mq_tag_is_reserved_def)

lemma get_driver_tag_cases:
  assumes "sbitmap_ok ops" "tags_wf (hx_tags hctx)" "dr_tag rq = - 1"
    and "blk_mq_get_driver_tag ops hctx rq = Inr (ok, hctx', rq')"
  shows "tags_wf (hx_tags hctx') \<and> ok = (dr_tag rq' \<noteq> - 1) \<and> dr_internal_tag rq' = dr_internal_tag rq \<and>
    bt_nr_reserved_tags (hx_tags hctx') = bt_nr_reserved_tags (hx_tags hctx) \<and>
    (if ok
     then tag_taken (hx_tags hctx) (dr_tag rq') (hx_tags hctx') \<and> bt_rqs (hx_tags hctx') (dr_tag rq') = Some (dr_id rq) \<and>
       hx_nr_active hctx' = hx_nr_active hctx + (if hx_tag_shared hctx then 1 else 0) \<and>
       dr_inflight rq' = (dr_inflight rq \<or> hx_tag_shared hctx)
     else tag_in_use (hx_tags hctx') = tag_in_use (hx_tags hctx))"
proof -
  obtain shared hctx1 where b: "blk_mq_tag_busy hctx = (shared, hctx1)" by fastforce
  obtain st where st: "hx_sched_tags hctx = Some st"
    using assms(3,4) by (auto simp: blk_mq_get_driver_tag_def split: option.splits)
  define data where "data = \<lparr>ad_internal = False, ad_reserved = blk_mq_tag_is_reserved st (dr_internal_tag rq), ad_shallow_depth = 0\<rparr>"
  obtain tag hctx2 where g: "blk_mq_get_tag ops data hctx1 = Inr (tag, hctx2)"
  proof (cases "blk_mq_get_tag ops data hctx1")
    case (Inl err)
    then show ?thesis using assms(3,4) b st by (simp add: blk_mq_get_driver_tag_def data_def [symmetric] Let_def)
  next
    case (Inr r)
    then show ?thesis using that by (cases r) simp
  qed
  note k = tag_busy_keeps [OF b]
  have sh: "shared = hx_tag_shared hctx"
    using b by (auto simp: blk_mq_tag_busy_def blk_mq_tag_busy_aux_def split: if_splits)
  have t: "tags_wf (hx_tags hctx2)" "hx_nr_active hctx2 = hx_nr_active hctx"
      "if tag = - 1 then hx_tags hctx2 = hx_tags hctx1 else tag_taken (hx_tags hctx) tag (hx_tags hctx2)"
      "bt_nr_reserved_tags (hx_tags hctx2) = bt_nr_reserved_tags (hx_tags hctx)"
    using get_tag_taken [OF assms(1) _ _ g] k assms(2) by (auto simp: data_def tag_taken_def)
  show ?thesis
  proof (cases "tag = - 1")
    case True
    then have "hctx' = hctx2" "rq' = rq\<lparr>dr_tag := - 1\<rparr>" "\<not> ok"
      using assms(3,4) b st g by (auto simp: blk_mq_get_driver_tag_def data_def [symmetric] Let_def)
    then show ?thesis using True t k by simp
  next
    case False
    then have s: "0 \<le> sint tag"
      using t(3) assms(2) sint_small [of tag] by (simp add: tag_taken_def tags_wf_def)
    show ?thesis
      using assms(3,4) b st g False s t sh
      by (auto simp: blk_mq_get_driver_tag_def data_def [symmetric] Let_def tag_in_use_rqs tag_taken_def)
  qed
qed

section \<open>Properties\<close>

text \<open>
  C30. Driver tags are well typed: a tag that is handed out lies below the number of tags and fits a
  signed integer, was not in use, and is the only one that is in use afterwards beyond those that
  were; the request is entered in the table under it. The tags of the context stay well formed,
  and when no tag is handed out the tags in use are the same.
\<close>

theorem driver_tags_well_typed:
  assumes "sbitmap_ok ops" "tags_wf (hx_tags hctx)" "dr_tag rq = - 1"
    and "blk_mq_get_driver_tag ops hctx rq = Inr (ok, hctx', rq')"
  shows "tags_wf (hx_tags hctx') \<and>
    (if ok
     then unat (dr_tag rq') < unat (bt_nr_tags (hx_tags hctx)) \<and> 0 \<le> sint (dr_tag rq') \<and>
       \<not> tag_in_use (hx_tags hctx) (dr_tag rq') \<and>
       (\<forall>t. tag_in_use (hx_tags hctx') t \<longleftrightarrow> tag_in_use (hx_tags hctx) t \<or> t = dr_tag rq') \<and>
       bt_rqs (hx_tags hctx') (dr_tag rq') = Some (dr_id rq)
     else dr_tag rq' = - 1 \<and> tag_in_use (hx_tags hctx') = tag_in_use (hx_tags hctx))"
  using get_driver_tag_cases [OF assms] assms(2) sint_small [of "dr_tag rq'"]
  by (auto simp: tag_taken_def tags_wf_def split: if_splits)

definition list_sbitmap :: sbitmap_ops where
  "list_sbitmap =
     (let get = (\<lambda>bt. case find (\<lambda>i. \<not> sbq_busy bt (of_nat i)) [0..<unat (sbq_depth bt)] of
                   None \<Rightarrow> (- 1, bt)
                 | Some i \<Rightarrow> if (of_nat i :: i32) = - 1 then (- 1, bt)
                     else (of_nat i, bt\<lparr>sbq_busy := (sbq_busy bt)(of_nat i := True)\<rparr>)) in
      \<lparr>so_get = get, so_get_shallow = (\<lambda>n. get), so_clear = (\<lambda>i bt. bt\<lparr>sbq_busy := (sbq_busy bt)(i := False)\<rparr>)\<rparr>)"

lemma list_sbitmap_ok: "sbitmap_ok list_sbitmap"
proof -
  have "sbitmap_got bt (of_nat i) (bt\<lparr>sbq_busy := (sbq_busy bt)(of_nat i := True)\<rparr>)"
    if "find (\<lambda>i. \<not> sbq_busy bt (of_nat i)) [0..<unat (sbq_depth bt)] = Some i" "(of_nat i :: i32) \<noteq> - 1" for bt i
  proof -
    have "i < unat (sbq_depth bt)" "\<not> sbq_busy bt (of_nat i)"
      using that(1) by (auto simp: find_Some_iff)
    moreover have "unat (of_nat i :: u32) = i"
      using less_trans [OF calculation(1) unat32_less] by (simp add: unat_of_nat)
    ultimately show ?thesis using that(2) by (simp add: sbitmap_got_def)
  qed
  then show ?thesis
    by (auto simp: sbitmap_ok_def list_sbitmap_def Let_def sbitmap_got_def split: option.splits)
qed

definition sample_tags :: blk_mq_tags where
  "sample_tags = \<lparr>bt_nr_tags = 4, bt_nr_reserved_tags = 1, bt_active_queues = 0,
     bt_bitmap_tags = \<lparr>sbq_depth = 3, sbq_busy = (\<lambda>i. i = 0)\<rparr>,
     bt_breserved_tags = \<lparr>sbq_depth = 1, sbq_busy = (\<lambda>_. False)\<rparr>, bt_rqs = (\<lambda>_. None)\<rparr>"

definition sample_hctx :: blk_mq_hw_ctx where
  "sample_hctx = \<lparr>hx_blocking = False, hx_tag_shared = True, hx_stopped = False, hx_tag_active = False,
     hx_nr_active = 0, hx_dispatch_busy = 0, hx_elevator = False, hx_quiesced = False,
     hx_tags = sample_tags, hx_sched_tags = Some sample_tags\<rparr>"

definition sample_rq :: blk_request where
  "sample_rq = \<lparr>dr_id = 7, dr_tag = - 1, dr_internal_tag = 2, dr_inflight = False\<rparr>"

lemmas sample_defs = sample_tags_def sample_hctx_def sample_rq_def

lemma sample_get_tag:
  "\<exists>hctx' rq'. blk_mq_get_driver_tag list_sbitmap sample_hctx sample_rq = Inr (True, hctx', rq') \<and> dr_tag rq' = 2"
proof -
  have u: "[0..<unat (3 :: u32)] = [0, 1, 2]" by (simp add: upt_rec)
  show ?thesis
    unfolding blk_mq_get_driver_tag_def blk_mq_get_tag_def blk_mq_get_tag_bit_def blk_mq_tags_from_data_def set_tags_def
      blk_mq_tag_is_reserved_def blk_mq_tag_busy_def blk_mq_tag_busy_aux_def hctx_may_queue_def list_sbitmap_def
    using u by (simp add: sample_defs Let_def)
qed

theorem driver_tags_well_typed_witness:
  "\<exists>hctx' rq'. blk_mq_get_driver_tag list_sbitmap sample_hctx sample_rq = Inr (True, hctx', rq') \<and>
     tags_wf (hx_tags hctx') \<and> bt_rqs (hx_tags hctx') 2 = Some 7"
proof -
  obtain hctx' rq' where g: "blk_mq_get_driver_tag list_sbitmap sample_hctx sample_rq = Inr (True, hctx', rq')" "dr_tag rq' = 2"
    using sample_get_tag by blast
  have w: "tags_wf (hx_tags sample_hctx)" "dr_tag sample_rq = - 1" by (simp_all add: sample_defs tags_wf_def)
  show ?thesis
    using driver_tags_well_typed [OF list_sbitmap_ok w g(1)] g by (auto simp: sample_rq_def)
qed

text \<open>
  Taking a driver tag and giving it back restores the tags in use and the count of active requests.
\<close>

theorem driver_tag_round_trip:
  assumes "sbitmap_ok ops" "tags_wf (hx_tags hctx)" "dr_tag rq = - 1" "dr_internal_tag rq \<noteq> - 1" "\<not> dr_inflight rq"
    and "blk_mq_get_driver_tag ops hctx rq = Inr (True, hctx1, rq1)"
    and "blk_mq_put_driver_tag ops hctx1 rq1 = (hctx2, rq2)"
  shows "tag_in_use (hx_tags hctx2) = tag_in_use (hx_tags hctx) \<and> hx_nr_active hctx2 = hx_nr_active hctx \<and>
    dr_tag rq2 = - 1 \<and> \<not> dr_inflight rq2"
proof -
  let ?tag = "dr_tag rq1"
  note g = get_driver_tag_cases [OF assms(1,2,3,6), simplified]
  have c: "so_clear ops i bt = bt\<lparr>sbq_busy := (sbq_busy bt)(i := False)\<rparr>" for i bt
    using assms(1) by (simp add: sbitmap_ok_def)
  have u: "tag_in_use (hx_tags hctx1) t \<longleftrightarrow> tag_in_use (hx_tags hctx) t \<or> t = ?tag" "\<not> tag_in_use (hx_tags hctx) ?tag" for t
    using g by (auto simp: tag_taken_def)
  have "tag_in_use (blk_mq_put_tag ops (hx_tags hctx1) ?tag) t \<longleftrightarrow> tag_in_use (hx_tags hctx1) t \<and> t \<noteq> ?tag" for t
    by (auto simp: blk_mq_put_tag_def c tag_in_use_def blk_mq_tag_is_reserved_def Let_def)
  then have "tag_in_use (blk_mq_put_tag ops (hx_tags hctx1) ?tag) = tag_in_use (hx_tags hctx)"
    using u by (auto simp: fun_eq_iff)
  then show ?thesis
    using assms(4,5,7) g
    by (auto simp: blk_mq_put_driver_tag_def blk_mq_put_driver_tag_aux_def Let_def split: if_splits)
qed

text \<open>The weighted average of the busy dispatches never exceeds 16, and the driver only ever lowers it.\<close>

theorem dispatch_busy_bounded:
  assumes "hx_dispatch_busy hctx \<le> 16"
  shows "hx_dispatch_busy (blk_mq_update_dispatch_busy hctx busy) \<le> 16"
    and "hx_dispatch_busy (blk_mq_update_dispatch_busy hctx False) \<le> hx_dispatch_busy hctx"
proof -
  let ?e = "unat (hx_dispatch_busy hctx)"
  have e: "?e \<le> 16" using assms by (simp add: word_le_nat_alt)
  have m: "unat (hx_dispatch_busy hctx * 7) = ?e * 7"
    using e by (simp add: unat_word_ariths)
  have p: "unat (hx_dispatch_busy hctx * 7 + 16) = ?e * 7 + 16"
    using e m by (simp add: unat_word_ariths)
  have d: "unat (x div 8) = unat x div 8" for x :: u32 by (simp add: unat_div)
  show "hx_dispatch_busy (blk_mq_update_dispatch_busy hctx busy) \<le> 16"
    using e m p by (auto simp: blk_mq_update_dispatch_busy_def Let_def word_le_nat_alt d)
  show "hx_dispatch_busy (blk_mq_update_dispatch_busy hctx False) \<le> hx_dispatch_busy hctx"
    using e m by (auto simp: blk_mq_update_dispatch_busy_def Let_def word_le_nat_alt d)
qed

end
