(* ===== verification/Server_Call.thy ===== *)
theory Server_Call
  imports Server_Ipc
begin

text \<open>
  The pattern by which a server module passes a request on to the kernel: submit a request of its
  own on a queue pair of the kernel, keep the token, ask for its completion on later calls, then
  complete the client's request and free its own. The payload \<open>'p\<close> of a request stands at the same
  address as its header.
\<close>

record 'p server_world =
  sw_sv :: server_state
  sw_heap :: request_heap
  sw_payload :: "ptr \<Rightarrow> 'p"

text \<open>All other flags of a kernel queue are zero.\<close>

abbreviation kernel_qp_flags :: u8 where "kernel_qp_flags \<equiv> LABSTOR_QP_INTERMEDIATE"

abbreviation set_sqp :: "nat \<Rightarrow> labstor_queue_pair \<Rightarrow> 'p server_world \<Rightarrow> 'p server_world" where
  "set_sqp r qp w \<equiv> w\<lparr>sw_sv := (sw_sv w)\<lparr>sv_qps := (sv_qps (sw_sv w))[r := qp]\<rparr>\<rparr>"

definition kernel_enqueue ::
  "nat \<Rightarrow> nat \<Rightarrow> ptr \<Rightarrow> 'p server_world \<Rightarrow> (labstor_qtok_t \<times> 'p server_world) option"
where
  "kernel_enqueue fuel kern_qp rq w =
     map_option (\<lambda>(qtok, heap, qp). (qtok, set_sqp kern_qp qp (w\<lparr>sw_heap := heap\<rparr>)))
       (labstor_queue_pair_Enqueue fuel no_env (sw_heap w, sv_qps (sw_sv w) ! kern_qp) rq)"

text \<open>A request on queue pair \<open>qp\<close>: allocated, filled by \<open>start\<close> and submitted.\<close>

definition server_submit ::
  "nat \<Rightarrow> nat \<Rightarrow> u32 \<Rightarrow> u32 \<Rightarrow> (labstor_request \<times> 'p \<Rightarrow> labstor_request \<times> 'p) \<Rightarrow> 'p server_world \<Rightarrow>
   (labstor_qtok_t \<times> ptr \<times> 'p server_world) result option"
where
  "server_submit fuel qp tid sz start w =
     run_bind (IPCManager_AllocRequest_qp (sw_sv w) qp sz tid) (\<lambda>(p, sv).
     case p of
       None \<Rightarrow> Some (Inl NULL_DEREFERENCE)
     | Some rq \<Rightarrow>
         let (hd, pl) = start (sw_heap w rq, sw_payload w rq) in
         map_option (\<lambda>(qtok, w). Inr (qtok, rq, w))
           (kernel_enqueue fuel qp rq
             \<lparr>sw_sv = sv, sw_heap = (sw_heap w)(rq := hd), sw_payload = (sw_payload w)(rq := pl)\<rparr>))"

definition kernel_submit ::
  "nat \<Rightarrow> u32 \<Rightarrow> u32 \<Rightarrow> (labstor_request \<times> 'p \<Rightarrow> labstor_request \<times> 'p) \<Rightarrow> 'p server_world \<Rightarrow>
   (labstor_qtok_t \<times> ptr \<times> 'p server_world) result option"
where
  "kernel_submit fuel tid sz start w =
     run_bind (Some (IPCManager_GetQueuePairByPid tid (sw_sv w) kernel_qp_flags KERNEL_PID)) (\<lambda>kern_qp.
     server_submit fuel kern_qp tid sz start w)"

text \<open>The completed request, if there is one, and the queue pair of the token.\<close>

definition kernel_poll :: "labstor_qtok_t \<Rightarrow> 'p server_world \<Rightarrow> (ptr option \<times> nat \<times> 'p server_world) result" where
  "kernel_poll qtok w =
     result_bind (IPCManager_GetQueuePair_qtok (sw_sv w) qtok) (\<lambda>kern_qp.
     case labstor_queue_pair_IsComplete (sv_qps (sw_sv w) ! kern_qp) (qtok_req_id qtok) of
       (r, qp) \<Rightarrow> Inr (r, kern_qp, set_sqp kern_qp qp w))"

definition server_complete ::
  "nat \<Rightarrow> (nat \<Rightarrow> qp_state \<Rightarrow> qp_state) \<Rightarrow> nat \<Rightarrow> ptr \<Rightarrow> 'p server_world \<Rightarrow> 'p server_world option"
where
  "server_complete fuel env qp rq w =
     map_option (\<lambda>(_, heap, q). set_sqp qp q (w\<lparr>sw_heap := heap\<rparr>))
       (shmem_queue_pair_Complete fuel env (sw_heap w, sv_qps (sw_sv w) ! qp) (rq_req_id (sw_heap w rq)) rq)"

definition kernel_free :: "nat \<Rightarrow> nat \<Rightarrow> ptr \<Rightarrow> 'p server_world \<Rightarrow> 'p server_world result option" where
  "kernel_free fuel kern_qp kern_rq w =
     run_bind (IPCManager_FreeRequest_qp fuel no_env (sw_sv w) kern_qp kern_rq) (\<lambda>sv. Some (Inr (w\<lparr>sw_sv := sv\<rparr>)))"

text \<open>Completing the client's request and freeing the one that was sent to the kernel.\<close>

definition finish_request ::
  "nat \<Rightarrow> (nat \<Rightarrow> qp_state \<Rightarrow> qp_state) \<Rightarrow> nat \<Rightarrow> ptr \<Rightarrow> nat \<Rightarrow> ptr \<Rightarrow> 'p server_world \<Rightarrow>
   (bool \<times> 'p server_world) result option"
where
  "finish_request fuel env qp client_rq kern_qp kern_rq w =
     (case server_complete fuel env qp client_rq w of
        None \<Rightarrow> None
      | Some w \<Rightarrow> run_bind (kernel_free fuel kern_qp kern_rq w) (\<lambda>w. Some (Inr (True, w))))"

section \<open>Laws\<close>

lemma server_submit_cases:
  assumes "server_submit fuel qp tid sz start w = Some (Inr (qtok, rq, w'))"
  obtains sv hd pl where "IPCManager_AllocRequest_qp (sw_sv w) qp sz tid = Some (Inr (Some rq, sv))"
    "start (sw_heap w rq, sw_payload w rq) = (hd, pl)"
    "kernel_enqueue fuel qp rq \<lparr>sw_sv = sv, sw_heap = (sw_heap w)(rq := hd), sw_payload = (sw_payload w)(rq := pl)\<rparr> =
       Some (qtok, w')"
  using assms by (fastforce simp: server_submit_def run_bind_Inr Let_def split_beta prod_eq_iff split: option.splits)

lemma kernel_submit_effect:
  assumes "kernel_submit fuel tid sz start w = Some (Inr (qtok, rq, w'))"
  shows "sw_heap w' = (sw_heap w)(rq := (fst (start (sw_heap w rq, sw_payload w rq)))\<lparr>rq_req_id := qtok_req_id qtok\<rparr>)"
    "sw_payload w' = (sw_payload w)(rq := snd (start (sw_heap w rq, sw_payload w rq)))"
proof -
  obtain r where "server_submit fuel r tid sz start w = Some (Inr (qtok, rq, w'))"
    using assms unfolding kernel_submit_def run_bind_Inr by blast
  then obtain sv hd pl where s: "start (sw_heap w rq, sw_payload w rq) = (hd, pl)"
      "kernel_enqueue fuel r rq \<lparr>sw_sv = sv, sw_heap = (sw_heap w)(rq := hd), sw_payload = (sw_payload w)(rq := pl)\<rparr> =
         Some (qtok, w')"
    by (rule server_submit_cases)
  obtain h q where h: "labstor_queue_pair_Enqueue fuel no_env ((sw_heap w)(rq := hd), sv_qps sv ! r) rq = Some (qtok, h, q)"
      "sw_heap w' = h" "sw_payload w' = (sw_payload w)(rq := pl)"
    using s(2) by (auto simp: kernel_enqueue_def)
  show "sw_heap w' = (sw_heap w)(rq := (fst (start (sw_heap w rq, sw_payload w rq)))\<lparr>rq_req_id := qtok_req_id qtok\<rparr>)"
      "sw_payload w' = (sw_payload w)(rq := snd (start (sw_heap w rq, sw_payload w rq)))"
    using Enqueue_effect(1) [OF h(1)] h(2,3) s(1) by simp_all
qed

lemma GetQueuePair_qtok_qps [simp]:
  "IPCManager_GetQueuePair_qtok (sv\<lparr>sv_qps := qps\<rparr>) qtok = IPCManager_GetQueuePair_qtok sv qtok"
  by (simp add: IPCManager_GetQueuePair_qtok_def IPCManager_GetQueuePair_def server_ipc_def)

end
