(* ===== verification/Blkdev_Table.thy ===== *)
theory Blkdev_Table
  imports Kernel_Server Mpmc_Ring Server_Call Client_Call Module_Id
begin

text \<open>
  The table of block devices, \<^verbatim>\<open>labmods/blkdev_table\<close>: the requests, the kernel module that opens
  devices and keeps them in an array, the server module that numbers them and passes requests on
  to the kernel, and the client. Opening a device is a function of the kernel and an argument.
\<close>

section \<open>Requests\<close>

record blkdev_payload =
  bp_kern_qtok :: labstor_qtok_t
  bp_pathlen :: i32
  bp_dev_id :: u32
  bp_path :: cstring

abbreviation MAX_MOUNTED_BDEVS :: nat where "MAX_MOUNTED_BDEVS \<equiv> 64"
abbreviation BLKDEV_TABLE_RUNTIME_ID :: u32 where "BLKDEV_TABLE_RUNTIME_ID \<equiv> 5"
abbreviation sizeof_blkdev_request :: u32 where "sizeof_blkdev_request \<equiv> 36"

definition blkdev_table_register_request_GetSize :: "u32 \<Rightarrow> u32" where
  "blkdev_table_register_request_GetSize pathlen = sizeof_blkdev_request + pathlen + 1"

text \<open>\<open>n\<close> characters and the null character, written over the memory behind the request.\<close>

definition copy_path :: "nat \<Rightarrow> cstring \<Rightarrow> cstring \<Rightarrow> cstring" where
  "copy_path n path old = take n path @ 0 # drop (Suc n) old"

definition blkdev_ClientStart ::
  "i32 \<Rightarrow> cstring \<Rightarrow> i32 \<Rightarrow> i32 \<Rightarrow> labstor_request \<times> blkdev_payload \<Rightarrow> labstor_request \<times> blkdev_payload"
where
  "blkdev_ClientStart ns_id path pathlen devid r =
     ((fst r)\<lparr>rq_op := 2, rq_ns_id := ns_id, rq_code := 0\<rparr>,
      (snd r)\<lparr>bp_pathlen := pathlen, bp_path := copy_path (nat (sint pathlen)) path (bp_path (snd r))\<rparr>)"

definition blkdev_ServerStart ::
  "i32 \<Rightarrow> labstor_request \<times> blkdev_payload \<Rightarrow> labstor_request \<times> blkdev_payload \<Rightarrow> labstor_request \<times> blkdev_payload"
where
  "blkdev_ServerStart ns_id rq r =
     ((fst r)\<lparr>rq_ns_id := ns_id, rq_op := rq_op (fst rq)\<rparr>,
      (snd r)\<lparr>bp_pathlen := bp_pathlen (snd rq),
        bp_path := copy_path (nat (sint (bp_pathlen (snd rq)))) (bp_path (snd rq)) (bp_path (snd r))\<rparr>)"

definition blkdev_Copy ::
  "labstor_request \<times> blkdev_payload \<Rightarrow> labstor_request \<times> blkdev_payload \<Rightarrow> labstor_request \<times> blkdev_payload"
where
  "blkdev_Copy rq r = (labstor_request_SetCode (fst r) (rq_code (fst rq)), (snd r)\<lparr>bp_dev_id := bp_dev_id (snd rq)\<rparr>)"

section \<open>The kernel module\<close>

record blkdev_kernel =
  bk_bdevs :: "nat \<Rightarrow> nat option"
  bk_heap :: request_heap
  bk_payload :: "ptr \<Rightarrow> blkdev_payload"
  bk_qp :: labstor_queue_pair

text \<open>The code for a device that could not be opened; the number is \<^verbatim>\<open>PTR_ERR\<close>.\<close>

definition open_error_code :: "i32 \<Rightarrow> i32" where
  "open_error_code err = (if err = - 13 then - 2 else if err = - 15 then - 3 else if err = - 12 then - 4 else - 5)"

text \<open>
  \<open>blkdev_get\<close> opens a device: \<open>Inr\<close> is the device, \<open>Inl\<close> the error, with 0 for a null pointer. The
  code is -1 for a device that is opened.
\<close>

definition register_bdev ::
  "nat \<Rightarrow> (nat \<Rightarrow> qp_state \<Rightarrow> qp_state) \<Rightarrow> (cstring \<Rightarrow> i32 + nat) \<Rightarrow> ptr \<Rightarrow> blkdev_kernel \<Rightarrow> blkdev_kernel option"
where
  "register_bdev fuel env blkdev_get rq k =
     (let (code, bdev) = (case blkdev_get (c_str (bp_path (bk_payload k rq))) of
                            Inl err \<Rightarrow> (open_error_code err, None)
                          | Inr bdev \<Rightarrow> (- 1, Some bdev));
          dev_id = bp_dev_id (bk_payload k rq);
          (code, bdevs) = (if dev_id < of_nat MAX_MOUNTED_BDEVS
                           then (code, (bk_bdevs k)(unat dev_id := bdev))
                           else (- 5, bk_bdevs k));
          heap = (bk_heap k)(rq := (bk_heap k rq)\<lparr>rq_code := code\<rparr>) in
      map_option (\<lambda>(_, heap, qp). k\<lparr>bk_bdevs := bdevs, bk_heap := heap, bk_qp := qp\<rparr>)
        (labstor_queue_pair_CompleteInf fuel env (heap, bk_qp k) rq))"

definition unregister_bdev_id :: "nat \<Rightarrow> blkdev_kernel \<Rightarrow> blkdev_kernel" where
  "unregister_bdev_id bdev_id k =
     (if bk_bdevs k bdev_id = None then k else k\<lparr>bk_bdevs := (bk_bdevs k)(bdev_id := None)\<rparr>)"

text \<open>The handler of this operation is empty: the request is never completed.\<close>

definition unregister_bdev :: "ptr \<Rightarrow> blkdev_kernel \<Rightarrow> blkdev_kernel" where
  "unregister_bdev rq k = k"

definition labstor_get_bdev :: "(nat \<Rightarrow> nat option) \<Rightarrow> i32 \<Rightarrow> nat option result" where
  "labstor_get_bdev bdevs bdev_id =
     (if 0 \<le> sint bdev_id \<and> sint bdev_id < int MAX_MOUNTED_BDEVS then Inr (bdevs (nat (sint bdev_id)))
      else Inl OUT_OF_BOUNDS)"

definition bdev_table_process_request_fn ::
  "nat \<Rightarrow> (nat \<Rightarrow> qp_state \<Rightarrow> qp_state) \<Rightarrow> (cstring \<Rightarrow> i32 + nat) \<Rightarrow> ptr \<Rightarrow> blkdev_kernel \<Rightarrow> blkdev_kernel option"
where
  "bdev_table_process_request_fn fuel env blkdev_get rq k =
     (if rq_op (bk_heap k rq) = 2 then register_bdev fuel env blkdev_get rq k
      else if rq_op (bk_heap k rq) = 3 then Some (unregister_bdev rq k)
      else Some k)"

definition exit_blkdev_table :: "blkdev_kernel \<Rightarrow> blkdev_kernel" where
  "exit_blkdev_table k = fold unregister_bdev_id [0..<MAX_MOUNTED_BDEVS] k"

section \<open>The server module\<close>

fun enqueue_ids :: "u32 list \<Rightarrow> u32 ring_buffer \<Rightarrow> u32 ring_buffer" where
  "enqueue_ids [] rb = rb"
| "enqueue_ids (i # is) rb = enqueue_ids is (snd (ring_buffer_Enqueue_simple rb i))"

definition BlkdevTable_Server :: "u32 ring_buffer \<Rightarrow> ptr \<Rightarrow> u32 ring_buffer result" where
  "BlkdevTable_Server raw region =
     result_bind (ring_buffer_Init 4 raw region (ring_buffer_GetSize 4 (of_nat MAX_MOUNTED_BDEVS)) 0)
       (\<lambda>rb. Inr (enqueue_ids (map of_nat [0..<MAX_MOUNTED_BDEVS]) rb))"

record blkdev_server =
  bs_world :: "blkdev_payload server_world"
  bs_dev_ids :: "u32 ring_buffer"

text \<open>
  The code of the client's request is the step of the protocol. When no number is left the number
  in the request stays what it is. The request to the kernel is allocated without room for the path.
\<close>

definition BlkdevTable_RegisterBlkdev ::
  "nat \<Rightarrow> (nat \<Rightarrow> qp_state \<Rightarrow> qp_state) \<Rightarrow> u32 \<Rightarrow> nat \<Rightarrow> ptr \<Rightarrow> blkdev_server \<Rightarrow> (bool \<times> blkdev_server) result option"
where
  "BlkdevTable_RegisterBlkdev fuel env tid qp client_rq s =
     (let w = bs_world s; code = rq_code (sw_heap w client_rq) in
      if code = 0 then
        let (id, ids) = ring_buffer_Dequeue (bs_dev_ids s);
            start = (\<lambda>r. let (hd, pl) = blkdev_ServerStart BLKDEV_TABLE_RUNTIME_ID (sw_heap w client_rq, sw_payload w client_rq) r in
                         (hd, case id of None \<Rightarrow> pl | Some i \<Rightarrow> pl\<lparr>bp_dev_id := i\<rparr>)) in
        run_bind (kernel_submit fuel tid sizeof_blkdev_request start w) (\<lambda>(qtok, kern_rq, w).
        Some (Inr (False, s\<lparr>bs_dev_ids := ids, bs_world :=
          w\<lparr>sw_payload := (sw_payload w)(client_rq := (sw_payload w client_rq)\<lparr>bp_kern_qtok := qtok\<rparr>),
            sw_heap := (sw_heap w)(client_rq := labstor_request_SetCode (sw_heap w client_rq) 1)\<rparr>\<rparr>)))
      else if code = 1 then
        run_bind (Some (kernel_poll (bp_kern_qtok (sw_payload w client_rq)) w)) (\<lambda>(r, kern_qp, w).
        case r of
          None \<Rightarrow> Some (Inr (False, s\<lparr>bs_world := w\<rparr>))
        | Some kern_rq \<Rightarrow>
            let (hd, pl) = blkdev_Copy (sw_heap w kern_rq, sw_payload w kern_rq) (sw_heap w client_rq, sw_payload w client_rq);
                w = w\<lparr>sw_heap := (sw_heap w)(client_rq := hd), sw_payload := (sw_payload w)(client_rq := pl)\<rparr> in
            run_bind (finish_request fuel env qp client_rq kern_qp kern_rq w) (\<lambda>(b, w).
            Some (Inr (b, s\<lparr>bs_world := w\<rparr>))))
      else Some (Inr (True, s)))"

definition BlkdevTable_ProcessRequest ::
  "nat \<Rightarrow> (nat \<Rightarrow> qp_state \<Rightarrow> qp_state) \<Rightarrow> u32 \<Rightarrow> nat \<Rightarrow> ptr \<Rightarrow> blkdev_server \<Rightarrow> (bool \<times> blkdev_server) result option"
where
  "BlkdevTable_ProcessRequest fuel env tid qp request s =
     (if rq_op (sw_heap (bs_world s) request) = 2 then BlkdevTable_RegisterBlkdev fuel env tid qp request s
      else Some (Inr (False, s)))"

section \<open>The client\<close>

text \<open>The number is returned whatever the code of the answer.\<close>

definition BlkdevTable_Client_RegisterBlkdev ::
  "nat \<Rightarrow> (nat \<Rightarrow> labstor_queue_pair \<Rightarrow> labstor_queue_pair) \<Rightarrow>
   (ptr \<Rightarrow> blkdev_payload client_world \<Rightarrow> blkdev_payload client_world) \<Rightarrow> u32 \<Rightarrow> i32 \<Rightarrow> cstring \<Rightarrow>
   blkdev_payload client_world \<Rightarrow> (u32 \<times> blkdev_payload client_world) result option"
where
  "BlkdevTable_Client_RegisterBlkdev fuel env server tid ns_id path w =
     client_call fuel env server tid 0 (blkdev_table_register_request_GetSize (of_nat (length path)))
       (\<lambda>r. Inr (blkdev_ClientStart ns_id path (of_nat (length path)) (- 1) r)) (bp_dev_id \<circ> snd) w"

section \<open>Properties\<close>

lemma enqueue_ids_contents:
  assumes "rb_inv rb" "rb_headroom rb (length ids)" "length (rb_contents rb) + length ids \<le> rb_capacity rb"
  shows "rb_inv (enqueue_ids ids rb) \<and> rb_contents (enqueue_ids ids rb) = rb_contents rb @ ids"
  using assms
proof (induction ids arbitrary: rb)
  case (Cons i ids)
  obtain b rb' where e: "ring_buffer_Enqueue_simple rb i = (b, rb')" by fastforce
  note l = rb_enq_law [OF Cons.prems(1) Cons.prems(2) [simplified] e]
  then have "rb_contents rb' = rb_contents rb @ [i]"
    using Cons.prems(3) by (simp add: list_enq_def split: if_splits)
  then show ?case using Cons.IH [of rb'] Cons.prems(3) l e by simp
qed simp

text \<open>
  The server module starts with every number of a device once: the numbers from 0 to 63 in order.
\<close>

theorem blkdev_server_numbers:
  "\<exists>rb. BlkdevTable_Server raw region = Inr rb \<and> rb_inv rb \<and> rb_contents rb = map of_nat [0..<MAX_MOUNTED_BDEVS]"
proof -
  obtain rb where i: "ring_buffer_Init 4 raw region (ring_buffer_GetSize 4 64) 0 = Inr rb"
    by (simp add: ring_buffer_Init_def ring_buffer_GetSize_def Let_def)
  have "rb_inv rb" "rb_contents rb = []" "rb_capacity rb = 64"
    using rb_Init_ok [OF i] by (simp_all add: ring_buffer_GetSize_def rb_capacity_def)
  moreover have "rb_headroom rb 64" using rb_Init_headroom [OF i, of 64] by simp
  ultimately show ?thesis
    using enqueue_ids_contents [of rb "map of_nat [0..<MAX_MOUNTED_BDEVS]"] i
    by (simp add: BlkdevTable_Server_def del: upt_Suc)
qed

text \<open>
  C31. Registering a device with the kernel: the request is completed, the table has the device under
  the number of the request when it could be opened and nothing under it otherwise, no other number
  changes, and a number that is too large changes nothing. The code of the answer is negative in
  every case, also when the device was opened.
\<close>

theorem blkdev_kernel_registers:
  fixes blkdev_get :: "cstring \<Rightarrow> i32 + nat"
  assumes "completable (bk_heap k) (bk_qp k) rq"
  defines "dev \<equiv> bp_dev_id (bk_payload k rq)" and "opened \<equiv> blkdev_get (c_str (bp_path (bk_payload k rq)))"
  shows "\<exists>k'. register_bdev (Suc fuel) no_env blkdev_get rq k = Some k' \<and>
    completed_as (bk_qp k') (rq_req_id (bk_heap k rq)) rq \<and> sint (rq_code (bk_heap k' rq)) < 0 \<and>
    (\<forall>i. labstor_get_bdev (bk_bdevs k') i =
       (if i = dev \<and> unat dev < 64 then Inr (case opened of Inl err \<Rightarrow> None | Inr bdev \<Rightarrow> Some bdev)
        else labstor_get_bdev (bk_bdevs k) i))"
proof -
  define code where "code = (if dev < 64 then (case opened of Inl err \<Rightarrow> open_error_code err | Inr bdev \<Rightarrow> - 1) else - 5)"
  define bdevs where "bdevs = (if dev < 64 then (bk_bdevs k)(unat dev := (case opened of Inl err \<Rightarrow> None | Inr bdev \<Rightarrow> Some bdev))
    else bk_bdevs k)"
  define heap where "heap = (bk_heap k)(rq := (bk_heap k rq)\<lparr>rq_code := code\<rparr>)"
  have h: "rq_req_id (heap rq) = rq_req_id (bk_heap k rq)" "rq_code (heap rq) = code" by (simp_all add: heap_def)
  have "completable heap (bk_qp k) rq" using assms(1) h by (simp add: completable_def)
  then obtain qp where c: "labstor_queue_pair_CompleteInf (Suc fuel) no_env (heap, bk_qp k) rq = Some ((), heap, qp)"
      "completed_as qp (rq_req_id (bk_heap k rq)) rq"
    using CompleteInf_completes [of heap "bk_qp k" rq fuel] h by auto
  define k' where "k' = k\<lparr>bk_bdevs := bdevs, bk_heap := heap, bk_qp := qp\<rparr>"
  have r: "register_bdev (Suc fuel) no_env blkdev_get rq k = Some k'"
    using c(1)
    by (cases opened)
      (simp_all add: register_bdev_def Let_def k'_def heap_def bdevs_def code_def dev_def [symmetric]
        opened_def [symmetric] split: if_splits)
  have n: "sint code < 0"
    by (auto simp: code_def open_error_code_def split: sum.splits)
  have d: "nat (sint i) = unat dev \<longleftrightarrow> i = dev"
    if "0 \<le> sint i" "sint i < 64" "dev < 64" for i
  proof -
    have "unat dev < 64" using that(3) by (simp add: word_less_nat_alt)
    then have "sint dev = int (unat dev)" by (simp add: sint_small)
    then show ?thesis using that(1) word_sint_inj [of i dev] by (auto simp: nat_eq_iff)
  qed
  have u: "dev < 64 \<longleftrightarrow> unat dev < 64" by (simp add: word_less_nat_alt)
  have s: "0 \<le> sint dev" "sint dev < 64" if "dev < 64"
  proof -
    have a: "unat dev < 64" using that u by simp
    have "sint dev = int (unat dev)" by (rule sint_small) (use a in simp)
    then show "0 \<le> sint dev" "sint dev < 64" using a by linarith+
  qed
  have "labstor_get_bdev (bk_bdevs k') i = (if i = dev \<and> unat dev < 64 then Inr (case opened of Inl err \<Rightarrow> None | Inr bdev \<Rightarrow> Some bdev)
      else labstor_get_bdev (bk_bdevs k) i)" for i
    using d [of i] s u by (auto simp: labstor_get_bdev_def k'_def bdevs_def)
  then show ?thesis using r c(2) n h by (intro exI [of _ k']) (simp add: k'_def)
qed

theorem blkdev_kernel_registers_witness:
  "\<exists>k'. register_bdev 1 no_env (\<lambda>_. Inr 7) 5000
      \<lparr>bk_bdevs = (\<lambda>_. None), bk_heap = (\<lambda>_. \<lparr>rq_req_id = 5, rq_ns_id = 5, rq_code = 0, rq_op = 2\<rparr>),
       bk_payload = (\<lambda>_. \<lparr>bp_kern_qtok = \<lparr>qtok_qid = \<lparr>qid_flags = 0, qid_type = 0, qid_cnt = 0, qid_pid = 0\<rparr>, qtok_req_id = 0\<rparr>,
         bp_pathlen = 1, bp_dev_id = 3, bp_path = [47, 0]\<rparr>), bk_qp = idle_qp\<rparr> = Some k' \<and>
     labstor_get_bdev (bk_bdevs k') 3 = Inr (Some 7) \<and> labstor_get_bdev (bk_bdevs k') 4 = Inr None \<and> sint (rq_code (bk_heap k' 5000)) < 0"
proof -
  let ?k = "\<lparr>bk_bdevs = (\<lambda>_. None), bk_heap = (\<lambda>_. \<lparr>rq_req_id = 5, rq_ns_id = 5, rq_code = 0, rq_op = 2\<rparr>),
       bk_payload = (\<lambda>_. \<lparr>bp_kern_qtok = \<lparr>qtok_qid = \<lparr>qid_flags = 0, qid_type = 0, qid_cnt = 0, qid_pid = 0\<rparr>, qtok_req_id = 0\<rparr>,
         bp_pathlen = 1, bp_dev_id = 3, bp_path = [47, 0]\<rparr>), bk_qp = idle_qp\<rparr>"
  have "completable (bk_heap ?k) (bk_qp ?k) 5000" by (simp add: completable_def idle_qp_def)
  from blkdev_kernel_registers [OF this, of 0 "\<lambda>_. Inr 7"]
  obtain k' where k: "register_bdev 1 no_env (\<lambda>_. Inr 7) 5000 ?k = Some k'" "sint (rq_code (bk_heap k' 5000)) < 0"
      "\<forall>i. labstor_get_bdev (bk_bdevs k') i = (if i = 3 then Inr (Some 7) else labstor_get_bdev (bk_bdevs ?k) i)"
    by auto
  have "labstor_get_bdev (bk_bdevs k') 3 = Inr (Some 7)" "labstor_get_bdev (bk_bdevs k') 4 = Inr None"
    using k(3) by (simp_all add: labstor_get_bdev_def [of "\<lambda>_. None"])
  then show ?thesis using k(1,2) by blast
qed

end
