(* ===== verification/Mq_Driver.thy ===== *)
theory Mq_Driver
  imports Mq_Block_Layer Blkdev_Table Server_Worker
begin

text \<open>
  The multi-queue driver, \<^verbatim>\<open>labmods/mq_driver\<close>: requests, the kernel module that submits I/O to
  the hardware queues of a device, the server module that passes requests on to it, and the
  client. The device, the page cache and the pinning of user pages are arguments.
\<close>

section \<open>Requests\<close>

text \<open>
  The request is one structure in shared memory with two declarations. That of the kernel has a
  member \<^verbatim>\<open>num_hw_queues_\<close> at byte 56 that the userspace declaration does not have, so the members
  behind it differ: byte 56 is the cookie of userspace, byte 60 the flags of userspace and the
  cookie of the kernel, byte 64 the lock of userspace and the flags of the kernel.
\<close>

record mq_request =
  mr_dev_id :: i32
  mr_user_buf :: ptr
  mr_sector :: u64
  mr_buf_size :: u64
  mr_hctx :: i32
  mr_pid :: i32
  mr_w56 :: u32
  mr_w60 :: u32
  mr_w64 :: u32
  mr_kern_qtok :: labstor_qtok_t
  mr_kern_rq :: ptr
  mr_num_hw_queues :: i32
  mr_queue_depth :: i32

abbreviation LABSTOR_MQ_POLLED_IO :: u32 where "LABSTOR_MQ_POLLED_IO \<equiv> 2"
abbreviation LABSTOR_MQ_IO_IS_COMPLETE :: u32 where "LABSTOR_MQ_IO_IS_COMPLETE \<equiv> 4"
abbreviation LABSTOR_MQ_CANT_ALLOCATE_PAGES :: u32 where "LABSTOR_MQ_CANT_ALLOCATE_PAGES \<equiv> - 102"
abbreviation LABSTOR_MQ_INVALID_DEVICE_ID :: u32 where "LABSTOR_MQ_INVALID_DEVICE_ID \<equiv> - 103"
abbreviation LABSTOR_MQ_CANNOT_ALLOCATE_BIO :: u32 where "LABSTOR_MQ_CANNOT_ALLOCATE_BIO \<equiv> - 104"
abbreviation LABSTOR_MQ_CANNOT_ALLOCATE_REQUEST :: u32 where "LABSTOR_MQ_CANNOT_ALLOCATE_REQUEST \<equiv> - 105"
abbreviation MQ_DRIVER_RUNTIME_ID :: i32 where "MQ_DRIVER_RUNTIME_ID \<equiv> 4"
abbreviation MAX_PAGES_PER_GET :: nat where "MAX_PAGES_PER_GET \<equiv> 128"
abbreviation MQ_PAGE_SIZE :: u64 where "MQ_PAGE_SIZE \<equiv> 4096"
abbreviation sizeof_mq_request :: u32 where "sizeof_mq_request \<equiv> 88"

type_synonym mq_message = "labstor_request \<times> mq_request"

definition io_request_IOStart ::
  "i32 \<Rightarrow> i32 \<Rightarrow> u16 \<Rightarrow> i32 \<Rightarrow> ptr \<Rightarrow> u64 \<Rightarrow> u64 \<Rightarrow> i32 \<Rightarrow> mq_message \<Rightarrow> mq_message"
where
  "io_request_IOStart ns_id pid opc dev_id user_buf buf_size sector hctx r =
     ((fst r)\<lparr>rq_ns_id := ns_id, rq_op := opc, rq_code := 0\<rparr>,
      (snd r)\<lparr>mr_pid := pid, mr_dev_id := dev_id, mr_user_buf := user_buf, mr_buf_size := buf_size,
        mr_sector := sector, mr_hctx := hctx, mr_w60 := 0\<rparr>)"

text \<open>The client does not know the device; it sends number 0.\<close>

definition io_request_IOClientStart ::
  "i32 \<Rightarrow> i32 \<Rightarrow> u16 \<Rightarrow> ptr \<Rightarrow> u64 \<Rightarrow> u64 \<Rightarrow> i32 \<Rightarrow> mq_message \<Rightarrow> mq_message"
where
  "io_request_IOClientStart ns_id pid opc user_buf buf_size sector hctx r =
     io_request_IOStart ns_id pid opc 0 user_buf buf_size sector hctx r"

definition io_request_IOKernelStart :: "i32 \<Rightarrow> mq_message \<Rightarrow> mq_message \<Rightarrow> mq_message" where
  "io_request_IOKernelStart ns_id rq r =
     io_request_IOStart ns_id (mr_pid (snd rq)) (rq_op (fst rq)) (mr_dev_id (snd rq)) (mr_user_buf (snd rq))
       (mr_buf_size (snd rq)) (mr_sector (snd rq)) (mr_hctx (snd rq)) r"

definition io_request_PollStart :: "labstor_request \<Rightarrow> labstor_request" where
  "io_request_PollStart r = r\<lparr>rq_op := 2\<rparr>"

definition io_request_IsSubmitted :: "mq_request \<Rightarrow> bool" where
  "io_request_IsSubmitted r \<longleftrightarrow> mr_w60 r AND 1 \<noteq> 0"

definition io_request_AcknowledgeSubmission :: "mq_request \<Rightarrow> mq_request" where
  "io_request_AcknowledgeSubmission r = r\<lparr>mr_w60 := mr_w60 r OR 1\<rparr>"

definition io_request_PollingEnabled :: "mq_request \<Rightarrow> bool" where
  "io_request_PollingEnabled r \<longleftrightarrow> mr_w60 r AND LABSTOR_MQ_POLLED_IO \<noteq> 0"

definition io_request_IOIsComplete :: "mq_request \<Rightarrow> bool" where
  "io_request_IOIsComplete r \<longleftrightarrow> mr_w60 r AND LABSTOR_MQ_IO_IS_COMPLETE \<noteq> 0"

text \<open>
  A request for the statistics of a queue has its device at the same place; the two answers are
  \<open>mr_num_hw_queues\<close> and \<open>mr_queue_depth\<close>. Its \<^verbatim>\<open>Start\<close> sets neither the module nor the operation.
\<close>

definition stats_request_ClientStart :: "i32 \<Rightarrow> mq_message \<Rightarrow> mq_message" where
  "stats_request_ClientStart ns_id r = ((fst r)\<lparr>rq_ns_id := ns_id\<rparr>, snd r)"

definition stats_request_Start :: "i32 \<Rightarrow> i32 \<Rightarrow> mq_message \<Rightarrow> mq_message" where
  "stats_request_Start ns_id dev_id r = (fst r, (snd r)\<lparr>mr_dev_id := dev_id\<rparr>)"

definition stats_request_Copy :: "mq_request \<Rightarrow> mq_request \<Rightarrow> mq_request" where
  "stats_request_Copy old_rq r =
     r\<lparr>mr_num_hw_queues := mr_num_hw_queues old_rq, mr_queue_depth := mr_queue_depth old_rq\<rparr>"

section \<open>The kernel module\<close>

text \<open>
  A device and its request queue: \<open>dq_has_ops\<close> tells whether the driver can take requests
  directly, \<open>dq_poll\<close> whether the queue polls.
\<close>

record mq_device =
  dq_nr_hw_queues :: i32
  dq_nr_requests :: i32
  dq_poll :: bool
  dq_has_ops :: bool
  dq_hctx :: "nat \<Rightarrow> blk_mq_hw_ctx"

record mq_bio =
  bio_private :: ptr
  bio_dev :: nat
  bio_pages :: "ptr list"
  bio_sector :: u64
  bio_write :: bool

record mq_kernel =
  mk_bdevs :: "nat \<Rightarrow> nat option"
  mk_devices :: "nat \<Rightarrow> mq_device"
  mk_heap :: request_heap
  mk_payload :: "ptr \<Rightarrow> mq_request"
  mk_qp :: labstor_queue_pair
  mk_bios :: "mq_bio list"

text \<open>
  The kernel around the module. \<open>me_task\<close> tells whether there is a process, \<open>me_pin\<close> gives the pages
  of a range of its memory that could be pinned, \<open>me_rq_alloc\<close> allocates a request on a hardware
  queue, \<open>me_submit_bio\<close> is the cookie of a bio given to the bio layer, and \<open>me_poll\<close> the effect of polling.
\<close>

record mq_environment =
  me_task :: "i32 \<Rightarrow> bool"
  me_page_cache :: bool
  me_pin :: "i32 \<Rightarrow> ptr \<Rightarrow> i32 \<Rightarrow> ptr list"
  me_bio_alloc :: "i32 \<Rightarrow> bool"
  me_rq_alloc :: "nat \<Rightarrow> i32 \<Rightarrow> i32 + blk_request"
  me_submit_bio :: "mq_bio \<Rightarrow> u32"
  me_sbitmap :: sbitmap_ops
  me_qc :: "blk_mq_hw_ctx \<Rightarrow> blk_request \<Rightarrow> u32"
  me_driver :: mq_ops
  me_poll :: "nat \<Rightarrow> u32 \<Rightarrow> mq_kernel \<Rightarrow> mq_kernel"

text \<open>The numbers of the status values are those of the kernel.\<close>

definition status_code :: "blk_status \<Rightarrow> u32" where
  "status_code st = (case st of BLK_STS_OK \<Rightarrow> 0 | BLK_STS_RESOURCE \<Rightarrow> 9 | BLK_STS_DEV_RESOURCE \<Rightarrow> 13
     | BLK_STS_other v \<Rightarrow> ucast v)"

abbreviation set_payload :: "ptr \<Rightarrow> (mq_request \<Rightarrow> mq_request) \<Rightarrow> mq_kernel \<Rightarrow> mq_kernel" where
  "set_payload rq f k \<equiv> k\<lparr>mk_payload := (mk_payload k)(rq := f (mk_payload k rq))\<rparr>"

abbreviation set_code :: "ptr \<Rightarrow> u32 \<Rightarrow> mq_kernel \<Rightarrow> mq_kernel" where
  "set_code rq code k \<equiv> k\<lparr>mk_heap := (mk_heap k)(rq := (mk_heap k rq)\<lparr>rq_code := code\<rparr>)\<rparr>"

text \<open>The completion of a bio with a status; \<open>None\<close> is a null pointer.\<close>

definition io_complete :: "blk_status \<Rightarrow> ptr option \<Rightarrow> mq_kernel \<Rightarrow> mq_kernel" where
  "io_complete st private k =
     (case private of
        None \<Rightarrow> k
      | Some rq \<Rightarrow>
          set_payload rq (\<lambda>r. r\<lparr>mr_w64 := mr_w64 r OR LABSTOR_MQ_IO_IS_COMPLETE\<rparr>)
            (set_code rq (if st \<noteq> BLK_STS_OK then status_code st else 0) k))"

text \<open>A cache object has room for \<^verbatim>\<open>MAX_PAGES_PER_GET\<close> pages, which is not checked.\<close>

definition convert_user_buf ::
  "mq_environment \<Rightarrow> i32 \<Rightarrow> ptr \<Rightarrow> u64 \<Rightarrow> (ptr list \<times> i32) option result"
where
  "convert_user_buf me pid user_buf len =
     (let num_pages = ucast (if len mod MQ_PAGE_SIZE \<noteq> 0 then len div MQ_PAGE_SIZE + 1 else len div MQ_PAGE_SIZE) in
      if \<not> me_page_cache me then Inr None
      else if \<not> me_task me pid then Inl NULL_DEREFERENCE
      else
        let pages = me_pin me pid user_buf num_pages in
        if MAX_PAGES_PER_GET < length pages then Inl OUT_OF_BOUNDS
        else if sint num_pages \<noteq> int (length pages) then Inr None
        else Inr (Some (pages, num_pages)))"

definition create_bio ::
  "mq_environment \<Rightarrow> ptr \<Rightarrow> nat \<Rightarrow> ptr list \<Rightarrow> i32 \<Rightarrow> u64 \<Rightarrow> bool \<Rightarrow> mq_bio option"
where
  "create_bio me rq bdev pages num_pages sector is_write =
     (if \<not> me_bio_alloc me num_pages then None
      else Some \<lparr>bio_private = rq, bio_dev = bdev, bio_pages = take (nat (sint num_pages)) pages,
                 bio_sector = sector, bio_write = is_write\<rparr>)"

definition bio_to_rq :: "mq_environment \<Rightarrow> nat \<Rightarrow> i32 \<Rightarrow> mq_bio \<Rightarrow> blk_request option" where
  "bio_to_rq me dev hctx_idx bio =
     (case me_rq_alloc me dev hctx_idx of Inl err \<Rightarrow> None | Inr r \<Rightarrow> Some r)"

definition mq_finish ::
  "nat \<Rightarrow> (nat \<Rightarrow> qp_state \<Rightarrow> qp_state) \<Rightarrow> ptr \<Rightarrow> u32 \<Rightarrow> mq_kernel \<Rightarrow> mq_kernel result option"
where
  "mq_finish fuel env rq code k =
     (let k = set_code rq code k in
      map_option (\<lambda>(_, heap, qp). Inr (k\<lparr>mk_heap := heap, mk_qp := qp\<rparr>))
        (labstor_queue_pair_CompleteInf fuel env (mk_heap k, mk_qp k) rq))"

text \<open>
  The direct issue on a hardware queue. When the request is ended at once the kernel calls
  \<^verbatim>\<open>io_complete\<close>; otherwise the bio is with the device. The cookie is not kept.
\<close>

definition issue_request ::
  "mq_environment \<Rightarrow> nat \<Rightarrow> i32 \<Rightarrow> mq_bio \<Rightarrow> blk_request \<Rightarrow> mq_kernel \<Rightarrow> (u32 \<times> mq_kernel) result"
where
  "issue_request me dev hctx_idx bio dev_rq k =
     (let d = mk_devices k dev; h = nat (sint hctx_idx) in
      result_bind (blk_mq_try_issue_directly (me_sbitmap me) (me_qc me) (me_driver me) (dq_hctx d h) dev_rq)
        (\<lambda>(success, ended, cookie, hctx, dev_rq).
        let k = k\<lparr>mk_devices := (mk_devices k)(dev := d\<lparr>dq_hctx := (dq_hctx d)(h := hctx)\<rparr>)\<rparr> in
        Inr (success, case ended of None \<Rightarrow> k\<lparr>mk_bios := mk_bios k @ [bio]\<rparr>
                                  | Some st \<Rightarrow> io_complete st (Some (bio_private bio)) k)))"

text \<open>The part of \<^verbatim>\<open>submit_mq_driver_io\<close> that has pages and a device.\<close>

definition submit_to_device ::
  "nat \<Rightarrow> (nat \<Rightarrow> qp_state \<Rightarrow> qp_state) \<Rightarrow> mq_environment \<Rightarrow> ptr \<Rightarrow> ptr list \<Rightarrow> i32 \<Rightarrow> nat \<Rightarrow> mq_kernel \<Rightarrow>
   mq_kernel result option"
where
  "submit_to_device fuel env me rq pages num_pages dev k =
     (let r = mk_payload k rq; d = mk_devices k dev;
          k = (if dq_poll d then set_payload rq (\<lambda>r. r\<lparr>mr_w64 := mr_w64 r OR LABSTOR_MQ_POLLED_IO\<rparr>) k else k) in
      case create_bio me rq dev pages num_pages (mr_sector r) (rq_op (mk_heap k rq) = 3) of
        None \<Rightarrow> mq_finish fuel env rq LABSTOR_MQ_CANNOT_ALLOCATE_BIO k
      | Some bio \<Rightarrow>
          if dq_has_ops d \<and> 0 \<le> sint (mr_hctx r)
          then
            (case bio_to_rq me dev (mr_hctx r) bio of
               None \<Rightarrow> mq_finish fuel env rq LABSTOR_MQ_CANNOT_ALLOCATE_REQUEST k
             | Some dev_rq \<Rightarrow>
                 run_bind (Some (issue_request me dev (mr_hctx r) bio dev_rq k)) (\<lambda>(success, k).
                 mq_finish fuel env rq success k))
          else
            let cookie = me_submit_bio me bio;
                k = set_payload rq (\<lambda>r. r\<lparr>mr_w60 := cookie\<rparr>) (k\<lparr>mk_bios := mk_bios k @ [bio]\<rparr>) in
            mq_finish fuel env rq LABSTOR_MQ_OK k)"

definition submit_mq_driver_io ::
  "nat \<Rightarrow> (nat \<Rightarrow> qp_state \<Rightarrow> qp_state) \<Rightarrow> mq_environment \<Rightarrow> ptr \<Rightarrow> mq_kernel \<Rightarrow> mq_kernel result option"
where
  "submit_mq_driver_io fuel env me rq k =
     (let r = mk_payload k rq in
      run_bind (Some (convert_user_buf me (mr_pid r) (mr_user_buf r) (mr_buf_size r))) (\<lambda>conv.
      case conv of
        None \<Rightarrow> mq_finish fuel env rq LABSTOR_MQ_CANT_ALLOCATE_PAGES k
      | Some (pages, num_pages) \<Rightarrow>
          run_bind (Some (labstor_get_bdev (mk_bdevs k) (mr_dev_id r))) (\<lambda>bdev.
          case bdev of
            None \<Rightarrow> mq_finish fuel env rq LABSTOR_MQ_INVALID_DEVICE_ID k
          | Some dev \<Rightarrow> submit_to_device fuel env me rq pages num_pages dev k)))"

text \<open>A missing device is dereferenced.\<close>

definition poll_io_completion ::
  "nat \<Rightarrow> (nat \<Rightarrow> qp_state \<Rightarrow> qp_state) \<Rightarrow> mq_environment \<Rightarrow> ptr \<Rightarrow> mq_kernel \<Rightarrow> mq_kernel result option"
where
  "poll_io_completion fuel env me rq k =
     (let r = mk_payload k rq in
      run_bind (Some (labstor_get_bdev (mk_bdevs k) (mr_dev_id r))) (\<lambda>bdev.
      case bdev of
        None \<Rightarrow> Some (Inl NULL_DEREFERENCE)
      | Some dev \<Rightarrow>
          let k = (if mr_w64 r AND LABSTOR_MQ_IO_IS_COMPLETE = 0 \<and> mr_w64 r AND LABSTOR_MQ_POLLED_IO \<noteq> 0
                   then me_poll me dev (mr_w60 r) k else k) in
          mq_finish fuel env rq LABSTOR_MQ_OK k))"

definition get_num_hw_queues ::
  "nat \<Rightarrow> (nat \<Rightarrow> qp_state \<Rightarrow> qp_state) \<Rightarrow> ptr \<Rightarrow> mq_kernel \<Rightarrow> mq_kernel result option"
where
  "get_num_hw_queues fuel env rq k =
     run_bind (Some (labstor_get_bdev (mk_bdevs k) (mr_dev_id (mk_payload k rq)))) (\<lambda>bdev.
     case bdev of
       None \<Rightarrow> Some (Inl NULL_DEREFERENCE)
     | Some dev \<Rightarrow>
         let d = mk_devices k dev in
         mq_finish fuel env rq 0
           (set_payload rq (\<lambda>r. r\<lparr>mr_num_hw_queues := dq_nr_hw_queues d, mr_queue_depth := dq_nr_requests d\<rparr>) k))"

text \<open>An unknown operation is only reported; its request is never completed.\<close>

definition mq_process_request_fn ::
  "nat \<Rightarrow> (nat \<Rightarrow> qp_state \<Rightarrow> qp_state) \<Rightarrow> mq_environment \<Rightarrow> ptr \<Rightarrow> mq_kernel \<Rightarrow> mq_kernel result option"
where
  "mq_process_request_fn fuel env me rq k =
     (let opc = rq_op (mk_heap k rq) in
      if opc = 3 \<or> opc = 4 then submit_mq_driver_io fuel env me rq k
      else if opc = 1 then get_num_hw_queues fuel env rq k
      else if opc = 2 then poll_io_completion fuel env me rq k
      else Some (Inr k))"

section \<open>The server module\<close>

record mq_server =
  mq_world :: "mq_request server_world"
  mq_dev_id :: i32

text \<open>
  The code of the client's request is the step of the protocol: 0 submits, 1 waits for the
  submission, 2 for a poll, 3 for the interrupt. The device of the server module is not used.
\<close>

definition MQDriver_IO ::
  "nat \<Rightarrow> (nat \<Rightarrow> qp_state \<Rightarrow> qp_state) \<Rightarrow> u32 \<Rightarrow> nat \<Rightarrow> ptr \<Rightarrow> mq_request server_world \<Rightarrow>
   (bool \<times> mq_request server_world) result option"
where
  "MQDriver_IO fuel env tid qp client_rq w =
     (let code = rq_code (sw_heap w client_rq); qtok = mr_kern_qtok (sw_payload w client_rq);
          set_step = (\<lambda>f c w. w\<lparr>sw_payload := (sw_payload w)(client_rq := f (sw_payload w client_rq)),
                       sw_heap := (sw_heap w)(client_rq := labstor_request_SetCode (sw_heap w client_rq) c)\<rparr>) in
      if code = 0 then
        run_bind (kernel_submit fuel tid sizeof_mq_request
            (io_request_IOKernelStart MQ_DRIVER_RUNTIME_ID (sw_heap w client_rq, sw_payload w client_rq)) w)
          (\<lambda>(qtok, kern_rq, w). Some (Inr (False, set_step (\<lambda>r. r\<lparr>mr_kern_qtok := qtok\<rparr>) 1 w)))
      else if code = 1 then
        run_bind (Some (kernel_poll qtok w)) (\<lambda>(r, kern_qp, w).
        case r of
          None \<Rightarrow> Some (Inr (False, w))
        | Some kern_rq \<Rightarrow>
            if io_request_PollingEnabled (sw_payload w kern_rq)
            then
              map_option (\<lambda>(qtok, w). Inr (False, set_step (\<lambda>r. r\<lparr>mr_kern_qtok := qtok\<rparr>) 2 w))
                (kernel_enqueue fuel kern_qp kern_rq
                  (w\<lparr>sw_heap := (sw_heap w)(kern_rq := io_request_PollStart (sw_heap w kern_rq))\<rparr>))
            else Some (Inr (False, set_step (\<lambda>r. r\<lparr>mr_kern_rq := kern_rq\<rparr>) 3 w)))
      else if code = 2 then
        run_bind (Some (kernel_poll qtok w)) (\<lambda>(r, kern_qp, w).
        case r of
          None \<Rightarrow> Some (Inr (False, w))
        | Some kern_rq \<Rightarrow>
            if \<not> io_request_IOIsComplete (sw_payload w kern_rq)
            then
              map_option (\<lambda>(qtok, w). Inr (False, set_step (\<lambda>r. r\<lparr>mr_kern_qtok := qtok\<rparr>) 2 w))
                (kernel_enqueue fuel kern_qp kern_rq w)
            else finish_request fuel env qp client_rq kern_qp kern_rq w)
      else if code = 3 then
        run_bind (Some (IPCManager_GetQueuePair_qtok (sw_sv w) qtok)) (\<lambda>kern_qp.
        let kern_rq = mr_kern_rq (sw_payload w client_rq) in
        if \<not> io_request_IOIsComplete (sw_payload w kern_rq) then Some (Inr (False, w))
        else finish_request fuel env qp client_rq kern_qp kern_rq w)
      else Some (Inr (True, w)))"

text \<open>The initialisation keeps the device and reports success without completing the request.\<close>

definition MQDriver_Initialize :: "i32 \<Rightarrow> mq_server \<Rightarrow> (bool \<times> mq_server) result option" where
  "MQDriver_Initialize dev_id s = Some (Inr (True, s\<lparr>mq_dev_id := dev_id\<rparr>))"

text \<open>
  The statistics: the server waits for the kernel inside the call. \<open>kern\<close> is what the kernel does
  meanwhile.
\<close>

definition MQDriver_GetStatistics ::
  "nat \<Rightarrow> (nat \<Rightarrow> qp_state \<Rightarrow> qp_state) \<Rightarrow> (mq_request server_world \<Rightarrow> mq_request server_world) \<Rightarrow> u32 \<Rightarrow> i32 \<Rightarrow> nat \<Rightarrow> ptr \<Rightarrow>
   mq_request server_world \<Rightarrow> (bool \<times> mq_request server_world) result option"
where
  "MQDriver_GetStatistics fuel env kern tid dev_id qp client_rq w =
     run_bind (kernel_submit fuel tid 28 (stats_request_Start MQ_DRIVER_RUNTIME_ID dev_id) w) (\<lambda>(qtok, kern_rq, w).
     let w = kern w in
     run_bind (IPCManager_Wait fuel no_env (sw_sv w) qtok) (\<lambda>(rq, sv).
     let w = w\<lparr>sw_sv := sv, sw_payload := (sw_payload w)(client_rq :=
               stats_request_Copy (sw_payload w kern_rq) (sw_payload w client_rq))\<rparr> in
     run_bind (Some (IPCManager_GetQueuePair_qtok (sw_sv w) qtok)) (\<lambda>kern_qp.
     finish_request fuel env qp client_rq kern_qp kern_rq w)))"

definition MQDriver_ProcessRequest ::
  "nat \<Rightarrow> (nat \<Rightarrow> qp_state \<Rightarrow> qp_state) \<Rightarrow> (mq_request server_world \<Rightarrow> mq_request server_world) \<Rightarrow> u32 \<Rightarrow> nat \<Rightarrow> ptr \<Rightarrow> mq_server \<Rightarrow> (bool \<times> mq_server) result option"
where
  "MQDriver_ProcessRequest fuel env kern tid qp request s =
     (let opc = rq_op (sw_heap (mq_world s) request) in
      if opc = 0 then MQDriver_Initialize (mr_dev_id (sw_payload (mq_world s) request)) s
      else if opc = 3 \<or> opc = 4 then
        run_bind (MQDriver_IO fuel env tid qp request (mq_world s)) (\<lambda>(b, w). Some (Inr (b, s\<lparr>mq_world := w\<rparr>)))
      else if opc = 1 then
        run_bind (MQDriver_GetStatistics fuel env kern tid (mq_dev_id s) qp request (mq_world s))
          (\<lambda>(b, w). Some (Inr (b, s\<lparr>mq_world := w\<rparr>)))
      else Some (Inr (True, s)))"

section \<open>The client\<close>

definition MQDriver_Client_AIO ::
  "nat \<Rightarrow> u32 \<Rightarrow> i32 \<Rightarrow> i32 \<Rightarrow> u16 \<Rightarrow> ptr \<Rightarrow> u64 \<Rightarrow> u64 \<Rightarrow> i32 \<Rightarrow> mq_request client_world \<Rightarrow>
   (labstor_qtok_t \<times> ptr \<times> mq_request client_world) result option"
where
  "MQDriver_Client_AIO fuel tid ns_id pid opc user_buf buf_size sector hctx w =
     client_submit fuel tid 0 sizeof_mq_request
       (\<lambda>r. Inr (io_request_IOClientStart ns_id pid opc user_buf buf_size sector hctx r)) w"

definition MQDriver_Client_IO ::
  "nat \<Rightarrow> (nat \<Rightarrow> labstor_queue_pair \<Rightarrow> labstor_queue_pair) \<Rightarrow>
   (ptr \<Rightarrow> mq_request client_world \<Rightarrow> mq_request client_world) \<Rightarrow> u32 \<Rightarrow> i32 \<Rightarrow> i32 \<Rightarrow> u16 \<Rightarrow> ptr \<Rightarrow> u64 \<Rightarrow> u64 \<Rightarrow> i32 \<Rightarrow>
   mq_request client_world \<Rightarrow> (unit \<times> mq_request client_world) result option"
where
  "MQDriver_Client_IO fuel env server tid ns_id pid opc user_buf buf_size sector hctx w =
     client_call fuel env server tid 0 sizeof_mq_request
       (\<lambda>r. Inr (io_request_IOClientStart ns_id pid opc user_buf buf_size sector hctx r)) (\<lambda>_. ()) w"

definition MQDriver_Client_GetNumHWQueues ::
  "nat \<Rightarrow> (nat \<Rightarrow> labstor_queue_pair \<Rightarrow> labstor_queue_pair) \<Rightarrow>
   (ptr \<Rightarrow> mq_request client_world \<Rightarrow> mq_request client_world) \<Rightarrow> u32 \<Rightarrow> i32 \<Rightarrow>
   mq_request client_world \<Rightarrow> (i32 \<times> mq_request client_world) result option"
where
  "MQDriver_Client_GetNumHWQueues fuel env server tid ns_id w =
     client_call fuel env server tid 0 28 (\<lambda>r. Inr (stats_request_ClientStart ns_id r)) (mr_num_hw_queues \<circ> snd) w"

section \<open>Laws\<close>

text \<open>What the userspace flags of a request look like to the kernel: it never writes them on the way to a hardware queue.\<close>

lemma io_complete_w60 [simp]: "mr_w60 (mk_payload (io_complete st private k) p) = mr_w60 (mk_payload k p)"
  by (simp add: io_complete_def split: option.splits)

lemma mq_finish_payload:
  assumes "mq_finish fuel env rq code k = Some (Inr k')"
  shows "mk_payload k' = mk_payload k"
  using assms by (auto simp: mq_finish_def Let_def)

lemma issue_request_w60:
  assumes "issue_request me dev hctx_idx bio dev_rq k = Inr (success, k')"
  shows "mr_w60 (mk_payload k' p) = mr_w60 (mk_payload k p)"
  using assms by (auto simp: issue_request_def Let_def result_bind_Inr split: option.splits)

lemma submit_to_device_w60:
  assumes "submit_to_device fuel env me rq pages num_pages dev k = Some (Inr k')"
    and "dq_has_ops (mk_devices k dev)" "0 \<le> sint (mr_hctx (mk_payload k rq))"
  shows "mr_w60 (mk_payload k' rq) = mr_w60 (mk_payload k rq)"
proof -
  define k1 where "k1 = (if dq_poll (mk_devices k dev)
    then set_payload rq (\<lambda>r. r\<lparr>mr_w64 := mr_w64 r OR LABSTOR_MQ_POLLED_IO\<rparr>) k else k)"
  have e: "mr_w60 (mk_payload k1 rq) = mr_w60 (mk_payload k rq)" by (simp add: k1_def)
  let ?c = "create_bio me rq dev pages num_pages (mr_sector (mk_payload k rq)) (rq_op (mk_heap k1 rq) = 3)"
  show ?thesis
  proof (cases ?c)
    case None
    then have "mq_finish fuel env rq LABSTOR_MQ_CANNOT_ALLOCATE_BIO k1 = Some (Inr k')"
      using assms(1) unfolding k1_def by (simp add: submit_to_device_def Let_def)
    then show ?thesis using e by (simp add: mq_finish_payload)
  next
    case (Some bio)
    have s: "(case bio_to_rq me dev (mr_hctx (mk_payload k rq)) bio of
         None \<Rightarrow> mq_finish fuel env rq LABSTOR_MQ_CANNOT_ALLOCATE_REQUEST k1
       | Some dev_rq \<Rightarrow> run_bind (Some (issue_request me dev (mr_hctx (mk_payload k rq)) bio dev_rq k1))
           (\<lambda>(success, k). mq_finish fuel env rq success k)) = Some (Inr k')"
      using assms Some unfolding k1_def by (simp add: submit_to_device_def Let_def)
    show ?thesis
    proof (cases "bio_to_rq me dev (mr_hctx (mk_payload k rq)) bio")
      case None
      then show ?thesis using s e by (simp add: mq_finish_payload)
    next
      case (Some dev_rq)
      then obtain success k2 where "issue_request me dev (mr_hctx (mk_payload k rq)) bio dev_rq k1 = Inr (success, k2)"
          "mq_finish fuel env rq success k2 = Some (Inr k')"
        using s by (auto simp: run_bind_Inr)
      then show ?thesis using e by (simp add: mq_finish_payload issue_request_w60 [where p = rq])
    qed
  qed
qed

lemma submit_w60:
  assumes "submit_mq_driver_io fuel env me rq k = Some (Inr k')"
    and "\<forall>dev. dq_has_ops (mk_devices k dev)" "0 \<le> sint (mr_hctx (mk_payload k rq))"
  shows "mr_w60 (mk_payload k' rq) = mr_w60 (mk_payload k rq)"
proof -
  have s: "mr_w60 (mk_payload k' rq) = mr_w60 (mk_payload k rq)"
    if "submit_to_device fuel env me rq a b y k = Some (Inr k')" for a b y
    using submit_to_device_w60 [OF that] assms(2,3) by blast
  have f: "mr_w60 (mk_payload k' rq) = mr_w60 (mk_payload k rq)"
    if "mq_finish fuel env rq code k = Some (Inr k')" for code
    using mq_finish_payload [OF that] by simp
  show ?thesis
    using assms(1)
    by (auto simp: submit_mq_driver_io_def Let_def run_bind_Inr split: option.splits; use s f in blast)
qed

section \<open>Properties\<close>

text \<open>
  C29. I/O through a hardware queue never completes: whatever the outcome of the submission and however
  often and with whatever status the device reports completion to the kernel, the server module
  sees a request that is neither polled nor complete, because the kernel writes its flags at
  another place of the request. The server waits for the interrupt; each of its steps reports that
  the request is not finished and changes nothing.
\<close>

theorem mq_io_never_completes:
  assumes "submit_mq_driver_io fuel env me rq k = Some (Inr k')"
    and "\<forall>dev. dq_has_ops (mk_devices k dev)" "0 \<le> sint (mr_hctx (mk_payload k rq))"
    and "mk_payload k rq = snd (io_request_IOKernelStart MQ_DRIVER_RUNTIME_ID client r0)"
    and "rq_code (sw_heap w client_rq) = 3" "mr_kern_rq (sw_payload w client_rq) = rq"
    and "sw_payload w rq = mk_payload (fold (\<lambda>st. io_complete st (Some rq)) sts k') rq"
    and "IPCManager_GetQueuePair_qtok (sw_sv w) (mr_kern_qtok (sw_payload w client_rq)) = Inr kern_qp"
  shows "\<not> io_request_PollingEnabled (sw_payload w rq) \<and>
    MQDriver_IO fuel' env' tid qp client_rq w = Some (Inr (False, w))"
proof -
  have c: "mr_w60 (mk_payload (fold (\<lambda>st. io_complete st (Some rq)) sts k0) rq) = mr_w60 (mk_payload k0 rq)" for k0
    by (induction sts arbitrary: k0) simp_all
  have "mr_w60 (mk_payload k rq) = 0"
    using assms(4) by (simp add: io_request_IOKernelStart_def io_request_IOStart_def)
  then have "mr_w60 (sw_payload w rq) = 0"
    using c [of k'] submit_w60 [OF assms(1-3)] assms(7) by simp
  then show ?thesis
    using assms(5,6,8)
    by (simp add: io_request_PollingEnabled_def io_request_IOIsComplete_def MQDriver_IO_def Let_def)
qed

definition sample_mq_environment :: mq_environment where
  "sample_mq_environment = \<lparr>me_task = (\<lambda>_. True), me_page_cache = False, me_pin = (\<lambda>_ _ _. []), me_bio_alloc = (\<lambda>_. True),
     me_rq_alloc = (\<lambda>_ _. Inl 0), me_submit_bio = (\<lambda>_. 0), me_sbitmap = list_sbitmap, me_qc = (\<lambda>_ _. 0),
     me_driver = \<lparr>mo_get_budget = None, mo_put_budget = None, mo_queue_rq = (\<lambda>h r. (BLK_STS_OK, h, r))\<rparr>,
     me_poll = (\<lambda>_ _ k. k)\<rparr>"

definition sample_mq_request :: mq_request where
  "sample_mq_request = \<lparr>mr_dev_id = 0, mr_user_buf = 0, mr_sector = 0, mr_buf_size = 4096, mr_hctx = 0, mr_pid = 42,
     mr_w56 = 0, mr_w60 = 0, mr_w64 = 0, mr_kern_qtok = \<lparr>qtok_qid = labstor_queue_pair_GetQID (sv_qps busy_server ! 0), qtok_req_id = 5\<rparr>,
     mr_kern_rq = 5000, mr_num_hw_queues = 0, mr_queue_depth = 0\<rparr>"

definition sample_mq_kernel :: mq_kernel where
  "sample_mq_kernel = \<lparr>mk_bdevs = (\<lambda>_. Some 0), mk_devices = (\<lambda>_. \<lparr>dq_nr_hw_queues = 1, dq_nr_requests = 64, dq_poll = False,
     dq_has_ops = True, dq_hctx = (\<lambda>_. sample_hctx)\<rparr>),
     mk_heap = (\<lambda>_. \<lparr>rq_req_id = 5, rq_ns_id = 4, rq_code = 0, rq_op = 3\<rparr>), mk_payload = (\<lambda>_. sample_mq_request),
     mk_qp = idle_qp, mk_bios = []\<rparr>"

theorem mq_io_never_completes_witness:
  "\<exists>k'. submit_mq_driver_io 1 no_env sample_mq_environment 5000 sample_mq_kernel = Some (Inr k') \<and>
    (let w = \<lparr>sw_sv = busy_server, sw_heap = (\<lambda>_. \<lparr>rq_req_id = 5, rq_ns_id = 4, rq_code = 3, rq_op = 3\<rparr>),
       sw_payload = (\<lambda>_. sample_mq_request)(5000 := mk_payload (io_complete BLK_STS_OK (Some 5000) k') 5000)\<rparr> in
     MQDriver_IO 1 no_env 0 0 4160 w = Some (Inr (False, w)))"
proof -
  obtain k' where k: "submit_mq_driver_io 1 no_env sample_mq_environment 5000 sample_mq_kernel = Some (Inr k')"
  proof -
    have "completable (mk_heap sample_mq_kernel) (mk_qp sample_mq_kernel) 5000"
      by (simp add: completable_def sample_mq_kernel_def idle_qp_def)
    then have "completable ((mk_heap sample_mq_kernel)(5000 := (mk_heap sample_mq_kernel 5000)\<lparr>rq_code := - 102\<rparr>))
        (mk_qp sample_mq_kernel) 5000"
      by (simp add: completable_def)
    from CompleteInf_completes [OF this, of 0] show ?thesis
      using that by (auto simp: submit_mq_driver_io_def Let_def convert_user_buf_def sample_mq_environment_def mq_finish_def)
  qed
  define w where "w = \<lparr>sw_sv = busy_server, sw_heap = (\<lambda>_. \<lparr>rq_req_id = 5, rq_ns_id = 4, rq_code = 3, rq_op = 3\<rparr>),
       sw_payload = (\<lambda>_. sample_mq_request)(5000 := mk_payload (io_complete BLK_STS_OK (Some 5000) k') 5000)\<rparr>"
  have q: "IPCManager_GetQueuePair busy_server (labstor_queue_pair_GetQID (sv_qps busy_server ! 0)) = Inr 0"
    using busy_server_facts(3) by (simp add: registered_def list_all_iff)
  have p: "mk_payload sample_mq_kernel 5000 = snd (io_request_IOKernelStart MQ_DRIVER_RUNTIME_ID
      (\<lparr>rq_req_id = 5, rq_ns_id = 4, rq_code = 0, rq_op = 3\<rparr>, sample_mq_request)
      (\<lparr>rq_req_id = 5, rq_ns_id = 4, rq_code = 0, rq_op = 3\<rparr>, sample_mq_request))"
    by (simp add: io_request_IOKernelStart_def io_request_IOStart_def sample_mq_kernel_def sample_mq_request_def)
  have "MQDriver_IO 1 no_env 0 0 4160 w = Some (Inr (False, w))"
    by (rule mq_io_never_completes [OF k _ _ p, where sts = "[BLK_STS_OK]" and w = w and client_rq = 4160 and kern_qp = 0, THEN conjunct2])
      (use q in \<open>simp_all add: w_def sample_mq_kernel_def sample_mq_request_def IPCManager_GetQueuePair_qtok_def\<close>)
  then show ?thesis using k unfolding Let_def w_def by blast
qed

text \<open>
  Every I/O goes to device 0: the request of a client carries number 0 and the server module passes
  that number on, whatever device it was initialised with.
\<close>

theorem mq_io_ignores_device:
  "mr_dev_id (snd (io_request_IOKernelStart ns_id
     (io_request_IOClientStart ns_id' pid opc user_buf buf_size sector hctx r) r')) = 0"
  by (simp add: io_request_IOKernelStart_def io_request_IOClientStart_def io_request_IOStart_def)

text \<open>
  A submission that fails before it reaches the device is answered: when the pages cannot be pinned
  or the device does not exist, the request is completed with the code of the failure, and nothing
  was given to a device.
\<close>

theorem mq_submission_is_answered:
  assumes "completable (mk_heap k) (mk_qp k) rq"
    and "convert_user_buf me (mr_pid (mk_payload k rq)) (mr_user_buf (mk_payload k rq)) (mr_buf_size (mk_payload k rq)) = Inr conv"
    and "labstor_get_bdev (mk_bdevs k) (mr_dev_id (mk_payload k rq)) = Inr bdev"
    and "conv = None \<or> bdev = None"
  shows "\<exists>k'. submit_mq_driver_io (Suc fuel) no_env me rq k = Some (Inr k') \<and>
    completed_as (mk_qp k') (rq_req_id (mk_heap k rq)) rq \<and>
    rq_code (mk_heap k' rq) = (if conv = None then LABSTOR_MQ_CANT_ALLOCATE_PAGES else LABSTOR_MQ_INVALID_DEVICE_ID) \<and>
    mk_bios k' = mk_bios k \<and> mk_devices k' = mk_devices k"
proof -
  have f: "\<exists>k'. mq_finish (Suc fuel) no_env rq code k = Some (Inr k') \<and>
      completed_as (mk_qp k') (rq_req_id (mk_heap k rq)) rq \<and> rq_code (mk_heap k' rq) = code \<and>
      mk_bios k' = mk_bios k \<and> mk_devices k' = mk_devices k" for code
  proof -
    let ?h = "(mk_heap k)(rq := (mk_heap k rq)\<lparr>rq_code := code\<rparr>)"
    have "completable ?h (mk_qp k) rq" using assms(1) by (simp add: completable_def)
    from CompleteInf_completes [OF this, of fuel] show ?thesis by (auto simp: mq_finish_def Let_def)
  qed
  show ?thesis
    using assms(2-4) f [of LABSTOR_MQ_CANT_ALLOCATE_PAGES] f [of LABSTOR_MQ_INVALID_DEVICE_ID]
    by (auto simp: submit_mq_driver_io_def Let_def split: option.splits)
qed

end
