(* ===== verification/Generic_Posix.thy ===== *)
theory Generic_Posix
  imports Namespace
begin

text \<open>
  The POSIX interface of the clients, \<^verbatim>\<open>labmods/generic_posix\<close>: the allocator of file descriptors,
  the client that finds the module a path belongs to and passes calls on to it, and the functions
  that replace those of the C library. The modules' own functions, the functions of the C library,
  \<^verbatim>\<open>malloc\<close>, the dynamic linker and the registrar's answers are arguments; \<open>'w\<close> is the state they act
  on. A path is given without its terminating null character and is shorter than \<open>2 ^ 31\<close>.
\<close>

section \<open>File descriptors\<close>

abbreviation (input) LABSTOR_FD_MIN :: i32 where "LABSTOR_FD_MIN \<equiv> 50000"
abbreviation (input) LABSTOR_MAX_FDS_PER_THREAD :: i32 where "LABSTOR_MAX_FDS_PER_THREAD \<equiv> 1000"
abbreviation (input) LABSTOR_INVALID_FD :: i32 where "LABSTOR_INVALID_FD \<equiv> - 1"
abbreviation (input) GENERIC_FS_INVALID_FD :: i32 where "GENERIC_FS_INVALID_FD \<equiv> - 1350"
abbreviation (input) GENERIC_FS_PATH_NOT_FOUND :: i32 where "GENERIC_FS_PATH_NOT_FOUND \<equiv> - 1351"

text \<open>The characters of \<^verbatim>\<open>"lab::"\<close>.\<close>

abbreviation (input) LABSTOR_PATH_PREFIX :: cstring where "LABSTOR_PATH_PREFIX \<equiv> [108, 97, 98, 58, 58]"

record fd_allocator =
  fa_min_fd :: i32
  fa_alloced_fds :: i32
  fa_max_fds :: i32
  fa_free_fds :: "i32 ring_buffer"

definition FDAllocator_new ::
  "i32 ring_buffer \<Rightarrow> i32 \<Rightarrow> ptr \<Rightarrow> u64 \<Rightarrow> i32 \<Rightarrow> fd_allocator result"
where
  "FDAllocator_new raw min_fd region fd_alloc_size max_fds_per_thread =
     result_bind (ring_buffer_Init 4 raw region (ucast fd_alloc_size) max_fds_per_thread) (\<lambda>free_fds.
     Inr \<lparr>fa_min_fd = min_fd, fa_alloced_fds = 0, fa_max_fds = max_fds_per_thread, fa_free_fds = free_fds\<rparr>)"

text \<open>A descriptor that was returned, or else the next new one; the count of new ones stays as it is.\<close>

definition FDAllocator_Allocate :: "fd_allocator \<Rightarrow> (i32 \<times> fd_allocator) result" where
  "FDAllocator_Allocate a =
     (case ring_buffer_Dequeue (fa_free_fds a) of
        (Some fd, r) \<Rightarrow> Inr (fd, a\<lparr>fa_free_fds := r\<rparr>)
      | (None, r) \<Rightarrow>
          let fd = fa_min_fd a + fa_alloced_fds a in
          if sint (fa_min_fd a + fa_max_fds a) \<le> sint fd then Inl TOO_MANY_FDS
          else Inr (fd, a\<lparr>fa_free_fds := r\<rparr>))"

definition FDAllocator_Free :: "i32 \<Rightarrow> fd_allocator \<Rightarrow> fd_allocator" where
  "FDAllocator_Free fd a = a\<lparr>fa_free_fds := snd (ring_buffer_Enqueue_simple (fa_free_fds a) fd)\<rparr>"

section \<open>The client\<close>

record posix_client =
  pc_is_initialized :: bool
  pc_locked :: bool
  pc_ns_id :: u32
  pc_fd_min :: i32
  pc_prefix :: cstring
  pc_fds :: "fd_allocator list"
  pc_fd_to_ns_id :: "i32 \<rightharpoonup> u32"
  pc_namespace :: module_namespace
  pc_table :: module_table
  pc_objs :: "module_object list"
  pc_mem :: string_mem

text \<open>The loop of the constructor moves on before it uses the region: \<open>n\<close> iterations are left, \<open>i\<close> is its counter.\<close>

fun posix_fd_allocators ::
  "(nat \<Rightarrow> i32 ring_buffer) \<Rightarrow> u64 \<Rightarrow> nat \<Rightarrow> nat \<Rightarrow> ptr \<Rightarrow> fd_allocator list result"
where
  "posix_fd_allocators raw fd_alloc_size 0 i region = Inr []"
| "posix_fd_allocators raw fd_alloc_size (Suc n) i region =
     (let region = region + fd_alloc_size in
      result_bind (FDAllocator_new (raw i) (LABSTOR_FD_MIN + of_nat i * LABSTOR_MAX_FDS_PER_THREAD) region
                     fd_alloc_size LABSTOR_MAX_FDS_PER_THREAD) (\<lambda>a.
      result_bind (posix_fd_allocators raw fd_alloc_size n (Suc i) region) (\<lambda>as. Inr (a # as))))"

text \<open>
  \<open>region\<close> is what \<^verbatim>\<open>malloc\<close> returned; \<open>c\<close> holds the singletons and what the members that are not
  initialised hold.
\<close>

definition GenericPosix_Client_new ::
  "(nat \<Rightarrow> i32 ring_buffer) \<Rightarrow> nat \<Rightarrow> ptr \<Rightarrow> posix_client \<Rightarrow> posix_client result"
where
  "GenericPosix_Client_new raw n_cpu region c =
     (let fd_alloc_size = ucast (ring_buffer_GetSize 4 LABSTOR_MAX_FDS_PER_THREAD) :: u64 in
      result_bind (posix_fd_allocators raw fd_alloc_size n_cpu 0 region) (\<lambda>fds.
      Inr (c\<lparr>pc_is_initialized := False, pc_locked := False, pc_prefix := [], pc_fds := fds,
             pc_fd_to_ns_id := Map.empty\<rparr>)))"

text \<open>
  \<open>answer\<close> is the identifier that the registrar gives for the name of this module, in \<^verbatim>\<open>Initialize\<close>
  after the connection to the server; the mutex is not released.
\<close>

definition GenericPosix_Client_Initialize :: "u32 \<Rightarrow> posix_client \<Rightarrow> posix_client" where
  "GenericPosix_Client_Initialize answer c =
     (if pc_locked c then c
      else if pc_is_initialized c then c\<lparr>pc_locked := True\<rparr>
      else c\<lparr>pc_locked := True, pc_ns_id := answer, pc_is_initialized := True, pc_fd_min := LABSTOR_FD_MIN,
             pc_prefix := LABSTOR_PATH_PREFIX\<rparr>)"

definition GenericPosix_Client_Register :: "u32 \<Rightarrow> posix_client \<Rightarrow> posix_client" where
  "GenericPosix_Client_Register answer c = c\<lparr>pc_ns_id := answer\<rparr>"

definition GenericPosix_AllocateFD :: "nat \<Rightarrow> posix_client \<Rightarrow> (i32 \<times> posix_client) result" where
  "GenericPosix_AllocateFD tid c =
     (if tid < length (pc_fds c) then
        result_bind (FDAllocator_Allocate (pc_fds c ! tid)) (\<lambda>(fd, a). Inr (fd, c\<lparr>pc_fds := (pc_fds c)[tid := a]\<rparr>))
      else Inl OUT_OF_BOUNDS)"

definition GenericPosix_FreeFD :: "nat \<Rightarrow> i32 \<Rightarrow> posix_client \<Rightarrow> posix_client result" where
  "GenericPosix_FreeFD tid fd c =
     (if tid < length (pc_fds c) then Inr (c\<lparr>pc_fds := (pc_fds c)[tid := FDAllocator_Free fd (pc_fds c ! tid)]\<rparr>)
      else Inl OUT_OF_BOUNDS)"

subsection \<open>The module of a path\<close>

text \<open>The last slash before position \<open>len\<close>, or 0.\<close>

fun PriorSlash :: "cstring \<Rightarrow> nat \<Rightarrow> nat" where
  "PriorSlash path 0 = 0"
| "PriorSlash path (Suc i) = (if path ! i = 47 then i else PriorSlash path i)"

lemma PriorSlash_less: "0 < len \<Longrightarrow> PriorSlash path len < len"
  by (induction path len rule: PriorSlash.induct) (fastforce simp: less_Suc_eq)+

text \<open>
  The search for the name of a module: each prefix is copied to the heap, at \<open>malloc len\<close>, and looked
  up in the namespace.
\<close>

function posix_resolve ::
  "(nat \<Rightarrow> ptr) \<Rightarrow> module_namespace \<Rightarrow> cstring \<Rightarrow> nat \<Rightarrow> string_mem \<Rightarrow> (nat \<times> u32) option \<times> string_mem"
where
  "posix_resolve malloc ns path len mem =
     (if len = 0 then (None, mem)
      else case string_of_std mem (malloc len) string_null (take len path) of
        (path_str, mem) \<Rightarrow>
          (case Namespace_GetNamespaceID_opt mem ns path_str of
             Some ns_id \<Rightarrow> (Some (len, ns_id), mem)
           | None \<Rightarrow> posix_resolve malloc ns path (PriorSlash path len) mem))"
  by auto
termination
  by (relation "measure (\<lambda>(malloc, ns, path, len, mem). len)") (simp_all add: PriorSlash_less)

declare posix_resolve.simps [simp del]

record 'w posix_env =
  pe_malloc :: "nat \<Rightarrow> ptr"
  pe_dl :: "cstring \<Rightarrow> (nat \<times> labstor_id option) option"
  pe_lib_id :: "nat \<Rightarrow> labstor_id"
  pe_path :: "u32 \<Rightarrow> cstring"
  pe_open :: "nat \<Rightarrow> i32 \<Rightarrow> cstring \<Rightarrow> nat \<Rightarrow> i32 \<Rightarrow> 'w \<Rightarrow> i32 \<times> 'w"
  pe_close :: "nat \<Rightarrow> i32 \<Rightarrow> 'w \<Rightarrow> i32 \<times> 'w"

text \<open>The module of an identifier, which is loaded when this process does not have it.\<close>

definition posix_module :: "'w posix_env \<Rightarrow> u32 \<Rightarrow> posix_client \<Rightarrow> (nat \<times> posix_client) result" where
  "posix_module e ns_id c =
     (case Namespace_GetModule (pc_namespace c) ns_id of
        Some module \<Rightarrow> Inr (module, c)
      | None \<Rightarrow>
          result_bind (Client_Namespace_LoadClientModule (pe_dl e) (pe_lib_id e) (pe_path e ns_id) ns_id
                         (pc_table c, pc_namespace c, pc_objs c)) (\<lambda>(module, mt, ns, objs).
          Inr (module, c\<lparr>pc_table := mt, pc_namespace := ns, pc_objs := objs\<rparr>)))"

text \<open>\<^verbatim>\<open>emplace\<close> keeps the entry that is there already.\<close>

definition GenericPosix_Open ::
  "'w posix_env \<Rightarrow> nat \<Rightarrow> cstring \<Rightarrow> i32 \<Rightarrow> posix_client \<times> 'w \<Rightarrow> (i32 \<times> posix_client \<times> 'w) result"
where
  "GenericPosix_Open e tid path oflag cw =
     (case cw of (c, w) \<Rightarrow>
        if \<not> strncmp_eq path (pc_prefix c) (length (pc_prefix c)) then Inr (GENERIC_FS_PATH_NOT_FOUND, c, w)
        else case posix_resolve (pe_malloc e) (pc_namespace c) path (length path) (pc_mem c) of
          (None, mem) \<Rightarrow> Inr (GENERIC_FS_PATH_NOT_FOUND, c\<lparr>pc_mem := mem\<rparr>, w)
        | (Some (len, ns_id), mem) \<Rightarrow>
            result_bind (posix_module e ns_id (c\<lparr>pc_mem := mem\<rparr>)) (\<lambda>(module, c).
            result_bind (GenericPosix_AllocateFD tid c) (\<lambda>(fd, c).
            let c = c\<lparr>pc_fd_to_ns_id := (case pc_fd_to_ns_id c fd of
                                           None \<Rightarrow> (pc_fd_to_ns_id c)(fd \<mapsto> ns_id)
                                         | Some _ \<Rightarrow> pc_fd_to_ns_id c)\<rparr> in
            case pe_open e module fd path len oflag w of (r, w) \<Rightarrow> Inr (r, c, w))))"

subsection \<open>Calls on a descriptor\<close>

text \<open>
  The four functions \<^verbatim>\<open>AIO\<close> and \<^verbatim>\<open>IO\<close> have the same body: \<open>method\<close> is the function of the module that
  they call and \<open>invalid\<close> what they return for a descriptor of the C library. Indexing the table
  enters the identifier 0 for a descriptor that has none.
\<close>

definition posix_descriptor :: "i32 \<Rightarrow> posix_client \<Rightarrow> (nat \<times> posix_client) result" where
  "posix_descriptor fd c =
     (let ns_id = (case pc_fd_to_ns_id c fd of None \<Rightarrow> 0 | Some i \<Rightarrow> i);
          c = c\<lparr>pc_fd_to_ns_id := (pc_fd_to_ns_id c)(fd \<mapsto> ns_id)\<rparr> in
      case Namespace_GetModule (pc_namespace c) ns_id of
        None \<Rightarrow> Inl NULL_DEREFERENCE
      | Some client \<Rightarrow> Inr (client, c))"

definition GenericPosix_IO ::
  "'r \<Rightarrow> (nat \<Rightarrow> 'w \<Rightarrow> 'r \<times> 'w) \<Rightarrow> i32 \<Rightarrow> posix_client \<times> 'w \<Rightarrow> ('r \<times> posix_client \<times> 'w) result"
where
  "GenericPosix_IO invalid method fd cw =
     (case cw of (c, w) \<Rightarrow>
        if sint fd < sint (pc_fd_min c) then Inr (invalid, c, w)
        else result_bind (posix_descriptor fd c) (\<lambda>(client, c).
             case method client w of (r, w) \<Rightarrow> Inr (r, c, w)))"

definition GenericPosix_Close ::
  "'w posix_env \<Rightarrow> nat \<Rightarrow> i32 \<Rightarrow> posix_client \<times> 'w \<Rightarrow> (i32 \<times> posix_client \<times> 'w) result"
where
  "GenericPosix_Close e tid fd cw =
     (case cw of (c, w) \<Rightarrow>
        if sint fd < sint (pc_fd_min c) then Inr (LABSTOR_INVALID_FD, c, w)
        else result_bind (posix_descriptor fd c) (\<lambda>(client, c).
             case pe_close e client fd w of (_, w) \<Rightarrow>
             result_bind (GenericPosix_FreeFD tid fd (c\<lparr>pc_fd_to_ns_id := (pc_fd_to_ns_id c)(fd := None)\<rparr>)) (\<lambda>c.
             Inr (0, c, w))))"

section \<open>The functions of the C library\<close>

text \<open>\<open>real\<close> is the call of the C library's function with the same arguments.\<close>

definition wrapper_open ::
  "bool \<Rightarrow> 'w posix_env \<Rightarrow> nat \<Rightarrow> ('w \<Rightarrow> i32 \<times> 'w) \<Rightarrow> cstring \<Rightarrow> i32 \<Rightarrow> posix_client \<times> 'w \<Rightarrow>
   (i32 \<times> posix_client \<times> 'w) result"
where
  "wrapper_open initialized e tid real path oflag cw =
     result_bind (if initialized then GenericPosix_Open e tid path oflag cw
                  else Inr (GENERIC_FS_PATH_NOT_FOUND, cw)) (\<lambda>(fd, c, w).
     if fd = GENERIC_FS_PATH_NOT_FOUND then case real w of (fd, w) \<Rightarrow> Inr (fd, c, w)
     else Inr (fd, c, w))"

definition wrapper_close ::
  "bool \<Rightarrow> 'w posix_env \<Rightarrow> nat \<Rightarrow> ('w \<Rightarrow> i32 \<times> 'w) \<Rightarrow> i32 \<Rightarrow> posix_client \<times> 'w \<Rightarrow>
   (i32 \<times> posix_client \<times> 'w) result"
where
  "wrapper_close initialized e tid real fd cw =
     result_bind (if initialized then GenericPosix_Close e tid fd cw
                  else Inr (GENERIC_FS_INVALID_FD, cw)) (\<lambda>(ret, c, w).
     if ret = GENERIC_FS_INVALID_FD then case real w of (ret, w) \<Rightarrow> Inr (ret, c, w)
     else Inr (ret, c, w))"

text \<open>\<^verbatim>\<open>read\<close> and \<^verbatim>\<open>write\<close>, with the module's function \<open>method\<close>; sizes are 64 bits wide.\<close>

definition wrapper_io ::
  "bool \<Rightarrow> (nat \<Rightarrow> 'w \<Rightarrow> u64 \<times> 'w) \<Rightarrow> ('w \<Rightarrow> u64 \<times> 'w) \<Rightarrow> i32 \<Rightarrow> posix_client \<times> 'w \<Rightarrow>
   (u64 \<times> posix_client \<times> 'w) result"
where
  "wrapper_io initialized method real fd cw =
     result_bind (if initialized then GenericPosix_IO (- 1) method fd cw
                  else Inr (- 1350, cw)) (\<lambda>(ret, c, w).
     if ret = - 1350 then case real w of (ret, w) \<Rightarrow> Inr (ret, c, w)
     else Inr (ret, c, w))"

text \<open>\<^verbatim>\<open>pread\<close>, \<^verbatim>\<open>pwrite\<close> and the vector functions call the C library's function only.\<close>

definition wrapper_direct :: "('w \<Rightarrow> 'r \<times> 'w) \<Rightarrow> posix_client \<times> 'w \<Rightarrow> 'r \<times> posix_client \<times> 'w" where
  "wrapper_direct real cw = (case cw of (c, w) \<Rightarrow> case real w of (r, w) \<Rightarrow> (r, c, w))"

lemma wrappers_before_init:
  "wrapper_open False e tid real path oflag cw = Inr (wrapper_direct real cw)"
  "wrapper_close False e tid real fd cw = Inr (wrapper_direct real cw)"
  "wrapper_io False method real_io fd cw = Inr (wrapper_direct real_io cw)"
  by (simp_all add: wrapper_open_def wrapper_close_def wrapper_io_def wrapper_direct_def split: prod.splits)

section \<open>The search for a module\<close>

text \<open>The lengths of the prefixes of a path that end before a slash, and of the whole path.\<close>

definition path_prefixes :: "cstring \<Rightarrow> nat set" where
  "path_prefixes path = {n. 0 < n \<and> n \<le> length path \<and> (n = length path \<or> path ! n = 47)}"

text \<open>The namespace maps names to identifiers by \<open>names\<close>, whatever the heap \<open>H\<close> holds.\<close>

definition same_outside :: "ptr set \<Rightarrow> string_mem \<Rightarrow> string_mem \<Rightarrow> bool" where
  "same_outside H mem mem' \<longleftrightarrow> sm_length mem' = sm_length mem \<and> (\<forall>p. p \<notin> H \<longrightarrow> sm_char mem' p = sm_char mem p)"

definition namespace_holds :: "ptr set \<Rightarrow> string_mem \<Rightarrow> module_namespace \<Rightarrow> (cstring \<Rightarrow> u32 option) \<Rightarrow> bool" where
  "namespace_holds H mem ns names \<longleftrightarrow>
     (\<forall>mem'. same_outside H mem mem' \<longrightarrow>
        (\<forall>s. Namespace_GetNamespaceID_opt mem' ns s = names (string_ToString mem' s)))"

definition heap_buffers :: "ptr set \<Rightarrow> (nat \<Rightarrow> ptr) \<Rightarrow> nat \<Rightarrow> bool" where
  "heap_buffers H malloc k \<longleftrightarrow> (\<forall>n \<le> k. \<forall>i < n. malloc n + of_nat i \<in> H)"

lemma PriorSlash_last:
  "PriorSlash path len = 0 \<or> path ! PriorSlash path len = 47"
  "PriorSlash path len < i \<Longrightarrow> i < len \<Longrightarrow> path ! i \<noteq> 47"
  by (induction path len rule: PriorSlash.induct) (auto simp: less_Suc_eq split: if_splits)

lemma same_outside_string_of_std:
  assumes "same_outside H mem0 mem" "heap_buffers H malloc k" "len \<le> k" "0 \<notin> set str" "length str = len"
    and "string_of_std mem (malloc len) raw str = (s, mem')"
  shows "same_outside H mem0 mem'"
proof -
  have m: "mem' = mem\<lparr>sm_char := memcpy_chars (malloc len) str (sm_char mem)\<rparr>"
    using assms(4,6) by (simp add: string_of_std_def c_str_id prod_eq_iff)
  have "memcpy_chars (malloc len) str (sm_char mem) p = sm_char mem p" if "p \<notin> H" for p
    using that assms(2,3,5) by (intro memcpy_chars_outside) (auto simp: heap_buffers_def)
  then show ?thesis
    using assms(1) by (simp add: same_outside_def m)
qed

abbreviation (input) longest_prefix :: "(cstring \<Rightarrow> u32 option) \<Rightarrow> cstring \<Rightarrow> nat \<Rightarrow> (nat \<times> u32) option \<Rightarrow> bool" where
  "longest_prefix names path len r \<equiv>
     (case r of
        None \<Rightarrow> \<forall>n \<in> path_prefixes path. n \<le> len \<longrightarrow> names (take n path) = None
      | Some (n, ns_id) \<Rightarrow> n \<in> path_prefixes path \<and> n \<le> len \<and> names (take n path) = Some ns_id \<and>
          (\<forall>m \<in> path_prefixes path. n < m \<and> m \<le> len \<longrightarrow> names (take m path) = None))"

lemma posix_resolve_longest:
  assumes ns: "namespace_holds H mem0 ns names" "heap_buffers H malloc (length path)"
    and path: "0 \<notin> set path" "length path < 2 ^ 32"
    and "same_outside H mem0 mem" "len \<le> length path" "len = 0 \<or> len \<in> path_prefixes path"
  shows "longest_prefix names path len (fst (posix_resolve malloc ns path len mem))"
  using assms(5-)
proof (induction len arbitrary: mem rule: less_induct)
  case (less len)
  show ?case
  proof (cases "len = 0")
    case True
    then show ?thesis by (auto simp: posix_resolve.simps [of _ _ _ 0] path_prefixes_def)
  next
    case False
    obtain s mem' where s: "string_of_std mem (malloc len) string_null (take len path) = (s, mem')" by fastforce
    have str: "0 \<notin> set (take len path)" "length (take len path) = len"
      using path(1) less.prems(2) by (auto dest: in_set_takeD)
    have out: "same_outside H mem0 mem'"
      using same_outside_string_of_std [OF less.prems(1) ns(2) less.prems(2) str s] .
    have "string_ToString mem' s = take len path"
      using string_of_std_contents [OF _ str(1) s] path(2) by simp
    then have l: "Namespace_GetNamespaceID_opt mem' ns s = names (take len path)"
      using ns(1) out by (simp add: namespace_holds_def)
    let ?p = "PriorSlash path len"
    have p: "?p < len" "?p = 0 \<or> ?p \<in> path_prefixes path"
      using PriorSlash_less [of len path] PriorSlash_last(1) [of path len] False less.prems(2)
      by (auto simp: path_prefixes_def)
    have between: "m \<le> ?p" if "m \<in> path_prefixes path" "m < len" for m
      using that PriorSlash_last(2) [of path len m] less.prems(2) by (auto simp: path_prefixes_def not_less [symmetric])
    show ?thesis
    proof (cases "names (take len path)")
      case (Some ns_id)
      then show ?thesis
        using False less.prems(3) by (auto simp: posix_resolve.simps [of _ _ _ len] s l)
    next
      case None
      have step: "posix_resolve malloc ns path len mem = posix_resolve malloc ns path ?p mem'"
        using False by (simp add: posix_resolve.simps [of _ _ _ len] s l None)
      have ih: "longest_prefix names path ?p (fst (posix_resolve malloc ns path ?p mem'))"
        using less.IH [OF p(1) out _ p(2)] p(1) less.prems(2) by simp
      have "m \<le> ?p \<or> names (take m path) = None" if "m \<in> path_prefixes path" "m \<le> len" for m
        using between [OF that(1)] that(2) None by (cases "m = len") auto
      then show ?thesis
        unfolding step using ih p(1)
        by (cases "fst (posix_resolve malloc ns path ?p mem')") (auto dest: less_imp_le)
    qed
  qed
qed

lemma posix_module_found:
  assumes "posix_module e ns_id c = Inr (m, c')"
  shows "Namespace_GetModule (pc_namespace c') ns_id = Some m" "pc_fd_to_ns_id c' = pc_fd_to_ns_id c"
  using assms
  by (auto simp: posix_module_def Client_Namespace_LoadClientModule_def Namespace_RegisterPrivateState_def
      Namespace_GetModule_def Let_def result_bind_Inr split: option.splits if_splits)

section \<open>Descriptors of one thread\<close>

text \<open>A thread that has no returned descriptor and may have new ones.\<close>

definition fd_fresh :: "fd_allocator \<Rightarrow> bool" where
  "fd_fresh a \<longleftrightarrow> rb_inv (fa_free_fds a) \<and> rb_contents (fa_free_fds a) = [] \<and>
     sint (fa_min_fd a + fa_alloced_fds a) < sint (fa_min_fd a + fa_max_fds a)"

lemma Allocate_fresh:
  "fd_fresh a \<Longrightarrow> FDAllocator_Allocate a = Inr (fa_min_fd a + fa_alloced_fds a, a)"
  by (auto simp: fd_fresh_def FDAllocator_Allocate_def rb_dequeue_eq rb_contents_def rb_depth_def
      ring_contents_def)

text \<open>A path that belongs to a module this process has loaded.\<close>

definition posix_resolves :: "'w posix_env \<Rightarrow> posix_client \<Rightarrow> cstring \<Rightarrow> nat \<Rightarrow> u32 \<Rightarrow> nat \<Rightarrow> bool" where
  "posix_resolves e c path n ns_id m \<longleftrightarrow>
     strncmp_eq path (pc_prefix c) (length (pc_prefix c)) \<and>
     fst (posix_resolve (pe_malloc e) (pc_namespace c) path (length path) (pc_mem c)) = Some (n, ns_id) \<and>
     Namespace_GetModule (pc_namespace c) ns_id = Some m"

lemma Open_resolves:
  assumes "posix_resolves e c path n ns_id m" "tid < length (pc_fds c)" "fd_fresh (pc_fds c ! tid)"
    and fd: "fd = fa_min_fd (pc_fds c ! tid) + fa_alloced_fds (pc_fds c ! tid)"
  shows "\<exists>mem. GenericPosix_Open e tid path oflag (c, w) =
    (case pe_open e m fd path n oflag w of (r, w') \<Rightarrow>
       Inr (r, c\<lparr>pc_mem := mem, pc_fd_to_ns_id := (case pc_fd_to_ns_id c fd of
                  None \<Rightarrow> (pc_fd_to_ns_id c)(fd \<mapsto> ns_id) | Some _ \<Rightarrow> pc_fd_to_ns_id c)\<rparr>, w')) \<and>
    mem = snd (posix_resolve (pe_malloc e) (pc_namespace c) path (length path) (pc_mem c))"
proof -
  obtain mem where r: "posix_resolve (pe_malloc e) (pc_namespace c) path (length path) (pc_mem c) = (Some (n, ns_id), mem)"
    using assms(1) by (cases "posix_resolve (pe_malloc e) (pc_namespace c) path (length path) (pc_mem c)")
      (simp add: posix_resolves_def)
  have "posix_module e ns_id (c\<lparr>pc_mem := mem\<rparr>) = Inr (m, c\<lparr>pc_mem := mem\<rparr>)"
    using assms(1) by (simp add: posix_resolves_def posix_module_def)
  moreover have "GenericPosix_AllocateFD tid (c\<lparr>pc_mem := mem\<rparr>) = Inr (fd, c\<lparr>pc_mem := mem\<rparr>)"
    using assms(2) Allocate_fresh [OF assms(3)] by (simp add: GenericPosix_AllocateFD_def fd)
  ultimately show ?thesis
    using assms(1) r by (auto simp: GenericPosix_Open_def posix_resolves_def split: option.splits)
qed

section \<open>An example\<close>

text \<open>
  Two modules, mounted as \<^verbatim>\<open>"lab::a"\<close> at 4196 and \<^verbatim>\<open>"lab::b"\<close> at 4296 in a map of two buckets, and a client
  with one thread; the heap is at 65536.
\<close>

definition lab_name :: "cchar \<Rightarrow> cstring" where
  "lab_name x = LABSTOR_PATH_PREFIX @ [x]"

definition posix_heap :: "ptr set" where
  "posix_heap = {p. 65536 \<le> p}"

definition posix_mem :: string_mem where
  "posix_mem = \<lparr>sm_length = (\<lambda>_. 6),
     sm_char = memcpy_chars 4200 (lab_name 97) (memcpy_chars 4300 (lab_name 98) (\<lambda>_. 0))\<rparr>"

definition posix_keys :: "string_map_bucket unordered_map" where
  "posix_keys = \<lparr>um_header = 8192, um_base_region = 4096, um_num_buckets = 2, um_buckets = 8208,
     um_hdr_num_buckets = 2, um_max_collisions = 1, um_bitmap = (\<lambda>_. 5),
     um_cells = (\<lambda>b. if b = 0 then \<lparr>sb_off = 100, sb_value = 0\<rparr> else \<lparr>sb_off = 200, sb_value = 1\<rparr>)\<rparr>"

definition posix_names :: "cstring \<Rightarrow> u32 option" where
  "posix_names s = (if s = lab_name 97 then Some 0 else if s = lab_name 98 then Some 1 else None)"

definition posix_env1 :: "unit posix_env" where
  "posix_env1 = \<lparr>pe_malloc = (\<lambda>_. 65536), pe_dl = (\<lambda>_. None), pe_lib_id = (\<lambda>_. \<lparr>id_key = []\<rparr>), pe_path = (\<lambda>_. []),
     pe_open = (\<lambda>m fd path n oflag w. (fd, w)), pe_close = (\<lambda>m fd w. (0, w))\<rparr>"

definition posix_client1 :: posix_client where
  "posix_client1 = \<lparr>pc_is_initialized = True, pc_locked = True, pc_ns_id = 7, pc_fd_min = LABSTOR_FD_MIN,
     pc_prefix = LABSTOR_PATH_PREFIX,
     pc_fds = [\<lparr>fa_min_fd = LABSTOR_FD_MIN, fa_alloced_fds = 0, fa_max_fds = LABSTOR_MAX_FDS_PER_THREAD,
       fa_free_fds = \<lparr>rb_header = 4096, rb_queue = 4112, rb_enqueued = 0, rb_dequeued = 0, rb_e_lock = 0,
         rb_d_lock = 0, rb_max_depth = 1000, rb_cells = (\<lambda>_. 0)\<rparr>\<rparr>],
     pc_fd_to_ns_id = Map.empty,
     pc_namespace = (empty_namespace posix_keys)\<lparr>nsp_private := [Some 0, Some 1]\<rparr>,
     pc_table = \<lparr>mt_pool = (\<lambda>_. None), mt_refs = (\<lambda>_. 0), mt_upgrades = []\<rparr>, pc_objs = [], pc_mem = posix_mem\<rparr>"

lemma posix_mem_names:
  assumes "same_outside posix_heap posix_mem mem"
  shows "string_ToString mem (string_Attach mem 4196) = lab_name 97"
    "string_ToString mem (string_Attach mem 4296) = lab_name 98"
proof -
  have c: "sm_char mem p = sm_char posix_mem p" if "p < 65536" for p
    using assms that by (auto simp: same_outside_def posix_heap_def)
  have l: "sm_length mem = (\<lambda>_. 6)" using assms by (simp add: same_outside_def posix_mem_def)
  have "4200 + of_nat i < (65536 :: ptr)" "4300 + of_nat i < (65536 :: ptr)" if "i < 6" for i
    using that by (simp_all add: word_less_nat_alt unat_word_ariths unat_of_nat)
  then have "read_chars (sm_char mem) 4200 6 = read_chars (sm_char posix_mem) 4200 6"
    "read_chars (sm_char mem) 4300 6 = read_chars (sm_char posix_mem) 4300 6"
    using c by (simp_all add: read_chars_nth)
  moreover have "read_chars (sm_char posix_mem) 4200 6 = lab_name 97" "read_chars (sm_char posix_mem) 4300 6 = lab_name 98"
    by (code_simp+)
  ultimately show "string_ToString mem (string_Attach mem 4196) = lab_name 97"
    "string_ToString mem (string_Attach mem 4296) = lab_name 98"
    by (simp_all add: string_ToString_def string_Attach_def l)
qed

lemma posix_namespace_holds:
  "namespace_holds posix_heap posix_mem (pc_namespace posix_client1) posix_names"
proof -
  have "Namespace_GetNamespaceID_opt mem (pc_namespace posix_client1) s = posix_names (string_ToString mem s)"
    if m: "same_outside posix_heap posix_mem mem" for mem s
  proof -
    let ?bc = "string_map_bucket_class mem"
    have k: "bk_GetKey ?bc (um_cells posix_keys 0) 4096 = string_Attach mem 4196"
      "bk_GetKey ?bc (um_cells posix_keys 1) 4096 = string_Attach mem 4296"
      by (simp_all add: string_map_bucket_class_def string_map_bucket_GetKey_def posix_keys_def LABSTOR_REGION_ADD_def)
    have c: "bk_KeyCompare ?bc a b \<longleftrightarrow> string_ToString mem a = string_ToString mem b" for a b
      by (simp add: string_map_bucket_class_def string_eq_contents)
    have b: "labstor_bit2map_IsSet (um_bitmap posix_keys) 0 1" "labstor_bit2map_IsSet (um_bitmap posix_keys) 1 1"
      "um_iters posix_keys = Suc (Suc 0)" "um_num_buckets posix_keys = 2" "um_base_region posix_keys = 4096"
      by (code_simp+)
    have h: "(h :: u32) mod 2 = 0 \<or> h mod 2 = 1" for h by (metis one_mod_two_eq_one parity_cases odd_iff_mod_2_eq_one even_iff_mod_2_eq_zero)
    have v: "bk_GetValue ?bc (um_cells posix_keys 0) 4096 = 0" "bk_GetValue ?bc (um_cells posix_keys 1) 4096 = 1"
      by (simp_all add: string_map_bucket_class_def posix_keys_def)
    have d: "lab_name 97 \<noteq> lab_name 98" by code_simp
    obtain j where j: "bk_KeyHash ?bc s 4096 mod 2 = j" "j = 0 \<or> j = 1" using h by blast
    have n: "(0 + 1) mod 2 = (1 :: u32)" "(1 + 1) mod 2 = (0 :: u32)" by simp_all
    have "um_Find_loop ?bc (Suc (Suc 0)) j s posix_keys = posix_names (string_ToString mem s)"
      using j(2)
    proof
      assume "j = 0"
      then show ?thesis unfolding um_Find_loop.simps b(4,5) using n b(1,2) k v c posix_mem_names [OF m]
        by (auto simp: posix_names_def)
    next
      assume "j = 1"
      then show ?thesis unfolding um_Find_loop.simps b(4,5) using n b(1,2) k v c posix_mem_names [OF m] d
        by (auto simp: posix_names_def)
    qed
    then have "unordered_map_Find ?bc posix_keys s = posix_names (string_ToString mem s)"
      unfolding unordered_map_Find_def b(3-5) j(1) .
    then show ?thesis
      by (simp add: Namespace_GetNamespaceID_opt_def posix_client1_def empty_namespace_def)
  qed
  then show ?thesis by (simp add: namespace_holds_def)
qed

lemma posix_env1_heap: "k < 2 ^ 32 \<Longrightarrow> heap_buffers posix_heap (pe_malloc posix_env1) k"
  by (auto simp: heap_buffers_def posix_heap_def posix_env1_def word_le_nat_alt unat_word_ariths unat_of_nat)

lemma posix_client1_mem [simp]: "pc_mem posix_client1 = posix_mem"
  by (simp add: posix_client1_def)

lemma posix_client1_fresh:
  "0 < length (pc_fds posix_client1)" "fd_fresh (pc_fds posix_client1 ! 0)"
  "fa_min_fd (pc_fds posix_client1 ! 0) + fa_alloced_fds (pc_fds posix_client1 ! 0) = 50000"
  "pc_fd_to_ns_id posix_client1 = Map.empty" "pc_fd_min posix_client1 = 50000"
  by (simp_all add: posix_client1_def fd_fresh_def rb_inv_def rb_contents_def rb_depth_def rb_capacity_def)

section \<open>Properties\<close>

text \<open>
  C18. Opening a path finds the module with the longest name: when the path has the prefix of the
  interface, the call goes to the module that is mounted under the longest part of the path that
  ends before a slash or is the whole path, with the length of that part and with a descriptor that
  the table knows. When no part of it is a name, the result is the code on which the caller asks the C
  library, and nothing but the copies on the heap has changed. A path without the prefix of the
  interface always has that result, and nothing at all has changed.
\<close>

theorem posix_open_longest_prefix:
  assumes "namespace_holds H (pc_mem c) (pc_namespace c) names" "heap_buffers H (pe_malloc e) (length path)"
    and "0 \<notin> set path" "length path < 2 ^ 31"
    and "GenericPosix_Open e tid path oflag (c, w) = Inr (r, c', w')"
  shows "if \<not> strncmp_eq path (pc_prefix c) (length (pc_prefix c))
    then r = GENERIC_FS_PATH_NOT_FOUND \<and> c' = c \<and> w' = w
    else (r = GENERIC_FS_PATH_NOT_FOUND \<and> w' = w \<and> (\<exists>mem. c' = c\<lparr>pc_mem := mem\<rparr>) \<and>
        (\<forall>n \<in> path_prefixes path. names (take n path) = None)) \<or>
      (\<exists>n ns_id m fd. n \<in> path_prefixes path \<and> names (take n path) = Some ns_id \<and>
        (\<forall>k \<in> path_prefixes path. n < k \<longrightarrow> names (take k path) = None) \<and>
        Namespace_GetModule (pc_namespace c') ns_id = Some m \<and> pc_fd_to_ns_id c' fd \<noteq> None \<and>
        pe_open e m fd path n oflag w = (r, w'))"
proof (cases "strncmp_eq path (pc_prefix c) (length (pc_prefix c))")
  case False
  then show ?thesis using assms(5) by (simp add: GenericPosix_Open_def)
next
  case True
  obtain q mem where q: "posix_resolve (pe_malloc e) (pc_namespace c) path (length path) (pc_mem c) = (q, mem)" by fastforce
  have "length path = 0 \<or> length path \<in> path_prefixes path" by (auto simp: path_prefixes_def)
  then have l: "longest_prefix names path (length path) q"
    using posix_resolve_longest [OF assms(1-3), of "pc_mem c" "length path"] assms(4) q
    by (simp add: same_outside_def)
  have le: "\<forall>n \<in> path_prefixes path. n \<le> length path" by (simp add: path_prefixes_def)
  show ?thesis
  proof (cases q)
    case None
    then show ?thesis using assms(5) True q l le by (auto simp: GenericPosix_Open_def)
  next
    case (Some p)
    obtain n ns_id where p: "q = Some (n, ns_id)" using Some by (cases p) simp
    obtain m c1 fd c2 where s: "posix_module e ns_id (c\<lparr>pc_mem := mem\<rparr>) = Inr (m, c1)"
        "GenericPosix_AllocateFD tid c1 = Inr (fd, c2)" "pe_open e m fd path n oflag w = (r, w')"
        "c' = c2\<lparr>pc_fd_to_ns_id := (case pc_fd_to_ns_id c2 fd of
                  None \<Rightarrow> (pc_fd_to_ns_id c2)(fd \<mapsto> ns_id) | Some _ \<Rightarrow> pc_fd_to_ns_id c2)\<rparr>"
      using assms(5) True q p by (auto simp: GenericPosix_Open_def result_bind_Inr Let_def case_prod_Inr)
    have "Namespace_GetModule (pc_namespace c') ns_id = Some m"
      using posix_module_found(1) [OF s(1)] s(2,4)
      by (auto simp: GenericPosix_AllocateFD_def result_bind_Inr split: if_splits)
    moreover have "pc_fd_to_ns_id c' fd \<noteq> None" by (simp add: s(4) split: option.split)
    moreover have "n \<in> path_prefixes path" "names (take n path) = Some ns_id"
        "\<forall>k \<in> path_prefixes path. n < k \<longrightarrow> names (take k path) = None"
      using l p le by simp_all
    ultimately have "\<exists>n ns_id m fd. n \<in> path_prefixes path \<and> names (take n path) = Some ns_id \<and>
        (\<forall>k \<in> path_prefixes path. n < k \<longrightarrow> names (take k path) = None) \<and>
        Namespace_GetModule (pc_namespace c') ns_id = Some m \<and> pc_fd_to_ns_id c' fd \<noteq> None \<and>
        pe_open e m fd path n oflag w = (r, w')"
      using s(3) by blast
    then show ?thesis using True by presburger
  qed
qed

theorem posix_open_longest_prefix_witness:
  "\<exists>c'. GenericPosix_Open posix_env1 0 (lab_name 98 @ [47, 120]) 0 (posix_client1, ()) = Inr (50000, c', ()) \<and>
    (\<exists>ns_id m. posix_names (lab_name 98) = Some ns_id \<and> Namespace_GetModule (pc_namespace c') ns_id = Some m)"
proof -
  let ?path = "lab_name 98 @ [47, 120]"
  have h: "heap_buffers posix_heap (pe_malloc posix_env1) (length ?path)"
    by (rule posix_env1_heap) (simp add: lab_name_def)
  have z: "0 \<notin> set ?path" "length ?path < 2 ^ 31" by (simp_all add: lab_name_def)
  have r: "posix_resolves posix_env1 posix_client1 ?path 6 1 1" by code_simp
  obtain c' where o: "GenericPosix_Open posix_env1 0 ?path 0 (posix_client1, ()) = Inr (50000, c', ())"
    using Open_resolves [OF r _ posix_client1_fresh(2) refl] posix_client1_fresh
    by (auto simp: posix_env1_def split: prod.splits)
  have "list_all (\<lambda>n. 0 < n \<and> (n = 8 \<or> ?path ! n = 47) \<longrightarrow> n = 6 \<or> n = 8) [0..<9]" by code_simp
  then have n: "n = 6 \<or> n = 8" if "n \<in> path_prefixes ?path" for n
    using that by (auto simp: path_prefixes_def lab_name_def list_all_iff)
  have t: "posix_names (take 8 ?path) = None" "take 6 ?path = lab_name 98" by (code_simp+)
  have "namespace_holds posix_heap (pc_mem posix_client1) (pc_namespace posix_client1) posix_names"
    using posix_namespace_holds by simp
  note D = posix_open_longest_prefix [OF this h z o]
  have "strncmp_eq ?path (pc_prefix posix_client1) (length (pc_prefix posix_client1))" by code_simp
  moreover have "50000 \<noteq> (- 1351 :: i32)" by simp
  ultimately obtain k ns_id m where k: "k \<in> path_prefixes ?path" "posix_names (take k ?path) = Some ns_id"
      "Namespace_GetModule (pc_namespace c') ns_id = Some m"
    using D by auto
  then have "k = 6" using n [OF k(1)] t(1) by auto
  then have "posix_names (lab_name 98) = Some ns_id" using k(2) t(2) by simp
  then show ?thesis using o k(3) by blast
qed

text \<open>
  C21. Two files that a thread opens have the same descriptor, and a call on the second goes to the
  module of the first: the count of descriptors is never advanced, and the table keeps its first
  entry. \<open>m1\<close> and \<open>m2\<close> are the modules of the two paths; \<open>method\<close> stands for any read or write.
\<close>

theorem posix_opens_share_descriptor:
  assumes "tid < length (pc_fds c)" "fd_fresh (pc_fds c ! tid)"
    and fd: "fd = fa_min_fd (pc_fds c ! tid) + fa_alloced_fds (pc_fds c ! tid)"
    and "pc_fd_to_ns_id c fd = None" "sint (pc_fd_min c) \<le> sint fd"
    and "posix_resolves e c path1 n1 id1 m1" "GenericPosix_Open e tid path1 flags1 (c, w) = Inr (r1, c1, w1)"
    and "posix_resolves e c1 path2 n2 id2 m2"
  shows "pe_open e m1 fd path1 n1 flags1 w = (r1, w1) \<and>
    (\<exists>r2 c2 w2. GenericPosix_Open e tid path2 flags2 (c1, w1) = Inr (r2, c2, w2) \<and>
       pe_open e m2 fd path2 n2 flags2 w1 = (r2, w2) \<and>
       GenericPosix_IO invalid method fd (c2, w2) = (case method m1 w2 of (r, w) \<Rightarrow> Inr (r, c2, w)))"
proof -
  obtain mem where "GenericPosix_Open e tid path1 flags1 (c, w) =
      (case pe_open e m1 fd path1 n1 flags1 w of (r, w') \<Rightarrow>
         Inr (r, c\<lparr>pc_mem := mem, pc_fd_to_ns_id := (pc_fd_to_ns_id c)(fd \<mapsto> id1)\<rparr>, w'))"
    using Open_resolves [OF assms(6,1,2) fd, of flags1 w] assms(4) by auto
  then have 1: "pe_open e m1 fd path1 n1 flags1 w = (r1, w1)"
      "c1 = c\<lparr>pc_mem := mem, pc_fd_to_ns_id := (pc_fd_to_ns_id c)(fd \<mapsto> id1)\<rparr>"
    using assms(7) by (auto split: prod.splits)
  have f: "pc_fds c1 = pc_fds c" "pc_fd_to_ns_id c1 fd = Some id1" by (simp_all add: 1(2))
  have keep: "c1\<lparr>pc_mem := x, pc_fd_to_ns_id := pc_fd_to_ns_id c1\<rparr> = c1\<lparr>pc_mem := x\<rparr>" for x by (cases c1) simp
  obtain mem2 where "GenericPosix_Open e tid path2 flags2 (c1, w1) =
      (case pe_open e m2 fd path2 n2 flags2 w1 of (r, w') \<Rightarrow> Inr (r, c1\<lparr>pc_mem := mem2\<rparr>, w'))"
    using Open_resolves [OF assms(8), of tid fd flags2 w1] assms(1,2) fd f keep by auto
  moreover obtain r2 w2 where 2: "pe_open e m2 fd path2 n2 flags2 w1 = (r2, w2)" by fastforce
  moreover have "posix_descriptor fd (c1\<lparr>pc_mem := mem2\<rparr>) = Inr (m1, c1\<lparr>pc_mem := mem2\<rparr>)"
    using assms(6) by (simp add: posix_descriptor_def 1(2) posix_resolves_def)
  ultimately show ?thesis
    using 1(1) assms(5) by (intro conjI exI [of _ r2] exI [of _ "c1\<lparr>pc_mem := mem2\<rparr>"] exI [of _ w2])
      (simp_all add: GenericPosix_IO_def 1(2))
qed

theorem posix_opens_share_descriptor_witness:
  "\<exists>c1 c2. GenericPosix_Open posix_env1 0 (lab_name 97) 0 (posix_client1, ()) = Inr (50000, c1, ()) \<and>
    GenericPosix_Open posix_env1 0 (lab_name 98) 0 (c1, ()) = Inr (50000, c2, ()) \<and>
    GenericPosix_IO 0 (\<lambda>m w. (m, w)) 50000 (c2, ()) = Inr (0, c2, ()) \<and>
    Namespace_GetModule (pc_namespace posix_client1) 1 = Some 1"
proof -
  have r: "posix_resolves posix_env1 posix_client1 (lab_name 97) 6 0 0" by code_simp
  let ?mem = "snd (posix_resolve (pe_malloc posix_env1) (pc_namespace posix_client1) (lab_name 97) (length (lab_name 97)) (pc_mem posix_client1))"
  let ?c1 = "posix_client1\<lparr>pc_mem := ?mem, pc_fd_to_ns_id := [50000 \<mapsto> 0]\<rparr>"
  have o: "GenericPosix_Open posix_env1 0 (lab_name 97) 0 (posix_client1, ()) = Inr (50000, ?c1, ())"
    using Open_resolves [OF r _ posix_client1_fresh(2) refl] posix_client1_fresh
    by (auto simp: posix_env1_def split: prod.splits)
  have r2: "posix_resolves posix_env1 ?c1 (lab_name 98) 6 1 1" by code_simp
  have m: "Namespace_GetModule (pc_namespace posix_client1) 1 = Some 1" by code_simp
  from posix_opens_share_descriptor [OF posix_client1_fresh(1,2) posix_client1_fresh(3) [symmetric] _ _ r o r2,
      of 0 0 "\<lambda>m w. (m, w)"]
  show ?thesis
    using o m posix_client1_fresh(4,5) by (auto simp: posix_env1_def)
qed

text \<open>
  A descriptor of the C library is not passed on to it once the interface is up: \<^verbatim>\<open>close\<close>, \<^verbatim>\<open>read\<close> and
  \<^verbatim>\<open>write\<close> return -1, which is not the code that leads to the C library's function.
\<close>

theorem ordinary_descriptors_fail:
  assumes "sint fd < sint (pc_fd_min c)"
  shows "wrapper_close True e tid real_close fd (c, w) = Inr (- 1, c, w)"
    "wrapper_io True method real_io fd (c, w) = Inr (- 1, c, w)"
  using assms by (simp_all add: wrapper_close_def wrapper_io_def GenericPosix_Close_def GenericPosix_IO_def)

text \<open>Before \<^verbatim>\<open>Initialize\<close>, which the library does not call, the prefix is empty and every path has it.\<close>

theorem uninitialised_prefix_matches_every_path:
  assumes "GenericPosix_Client_new raw n_cpu region c0 = Inr c"
  shows "strncmp_eq path (pc_prefix c) (length (pc_prefix c))"
  using assms by (auto simp: GenericPosix_Client_new_def result_bind_Inr strncmp_eq_def Let_def)

lemma posix_fd_allocators_regions:
  "posix_fd_allocators raw sz n i region = Inr as \<Longrightarrow>
     length as = n \<and> (\<forall>k < n. rb_header (fa_free_fds (as ! k)) = region + of_nat (Suc k) * sz)"
proof (induction n arbitrary: i region as)
  case (Suc n)
  obtain a as' where a: "as = a # as'" "rb_header (fa_free_fds a) = region + sz"
      "posix_fd_allocators raw sz n (Suc i) (region + sz) = Inr as'"
    using Suc.prems by (auto simp: Let_def result_bind_Inr FDAllocator_new_def dest: rb_Init_ok(4))
  show ?case
    using Suc.IH [OF a(3)] a(2) unfolding a(1) by (auto simp: nth_Cons algebra_simps split: nat.splits)
qed simp

text \<open>
  The descriptor table of the last processor lies behind the memory that was allocated for all of
  them, which has 4024 bytes for each processor.
\<close>

theorem posix_fd_region_overrun:
  assumes "GenericPosix_Client_new raw n_cpu region c0 = Inr c" "0 < n_cpu"
  shows "rb_header (fa_free_fds (pc_fds c ! (n_cpu - 1))) = region + of_nat n_cpu * 4024"
proof -
  obtain as where as: "posix_fd_allocators raw 4024 n_cpu 0 region = Inr as" "pc_fds c = as"
    using assms(1) by (auto simp: GenericPosix_Client_new_def result_bind_Inr Let_def ring_buffer_GetSize_def)
  show ?thesis
    using posix_fd_allocators_regions [OF as(1)] assms(2) as(2) by (simp add: Suc_diff_1 del: of_nat_Suc)
qed

end
