(* ===== verification/Block_Allocator.thy ===== *)
theory Block_Allocator
  imports Mpmc_Ring
begin

text \<open>
  The allocator of disk blocks, \<^verbatim>\<open>labmods/labstor_fs/lib/block_allocator.h\<close>: two ring buffers hold the
  free blocks of the two sizes. Structures of type \<^verbatim>\<open>Block\<close> have 16 bytes.
\<close>

section \<open>The structure\<close>

abbreviation (input) SMALL_BLOCK_SIZE :: "'l::len word" where "SMALL_BLOCK_SIZE \<equiv> 4096"
abbreviation (input) LARGE_BLOCK_SIZE :: "'l::len word" where "LARGE_BLOCK_SIZE \<equiv> 131072"

record disk_block =
  blk_off :: u64
  blk_size :: i32

record block_allocator =
  ba_small_blocks :: "disk_block ring_buffer"
  ba_large_blocks :: "disk_block ring_buffer"

definition BlockAllocator_GetNumLargeBlocks :: "u64 \<Rightarrow> u64 \<Rightarrow> u64" where
  "BlockAllocator_GetNumLargeBlocks disk_size num_small_blocks =
     (disk_size - num_small_blocks * SMALL_BLOCK_SIZE) div LARGE_BLOCK_SIZE"

definition BlockAllocator_GetSize :: "u64 \<Rightarrow> u64 \<Rightarrow> u64" where
  "BlockAllocator_GetSize disk_size num_small_blocks =
     ucast (ring_buffer_GetSize 16 (ucast num_small_blocks)) +
     ucast (ring_buffer_GetSize 16 (ucast (BlockAllocator_GetNumLargeBlocks disk_size num_small_blocks)))"

text \<open>A loop of \<open>n\<close> insertions of consecutive blocks; the second result is the offset behind them.\<close>

fun enqueue_blocks :: "nat \<Rightarrow> u64 \<Rightarrow> i32 \<Rightarrow> disk_block ring_buffer \<Rightarrow> disk_block ring_buffer \<times> u64" where
  "enqueue_blocks 0 off sz rb = (rb, off)"
| "enqueue_blocks (Suc n) off sz rb =
     enqueue_blocks n (off + ucast sz) sz (snd (ring_buffer_Enqueue_simple rb \<lparr>blk_off = off, blk_size = sz\<rparr>))"

definition BlockAllocator_Initialize ::
  "block_allocator \<Rightarrow> u64 \<Rightarrow> u64 \<Rightarrow> u64 \<Rightarrow> ptr \<Rightarrow> u64 \<Rightarrow> block_allocator result"
where
  "BlockAllocator_Initialize ba disk_off disk_size num_small_blocks region region_size =
     (let num_large_blocks = BlockAllocator_GetNumLargeBlocks disk_size num_small_blocks in
      result_bind (ring_buffer_Init 16 (ba_small_blocks ba) region (ucast region_size) (ucast num_small_blocks)) (\<lambda>small.
      let (small, off) = enqueue_blocks (unat num_small_blocks) disk_off SMALL_BLOCK_SIZE small;
          section = ring_buffer_GetNextSection 16 small;
          section_size = region_size - ucast (ring_buffer_GetSize 16 (rb_max_depth small)) in
      result_bind (ring_buffer_Init 16 (ba_large_blocks ba) section (ucast section_size) (ucast num_large_blocks)) (\<lambda>large.
      Inr \<lparr>ba_small_blocks = small,
           ba_large_blocks = fst (enqueue_blocks (unat num_large_blocks) off LARGE_BLOCK_SIZE large)\<rparr>)))"

definition BlockAllocator_Attach :: "block_allocator \<Rightarrow> ptr \<Rightarrow> block_allocator" where
  "BlockAllocator_Attach ba region =
     (let small = ring_buffer_Attach (ba_small_blocks ba) region in
      \<lparr>ba_small_blocks = small,
       ba_large_blocks = ring_buffer_Attach (ba_large_blocks ba) (ring_buffer_GetNextSection 16 small)\<rparr>)"

text \<open>The attempts of \<^verbatim>\<open>GetBlock\<close> and \<^verbatim>\<open>FreeBlock\<close>, with the results that they drop.\<close>

definition BlockAllocator_take :: "i32 \<Rightarrow> block_allocator \<Rightarrow> disk_block option \<times> block_allocator" where
  "BlockAllocator_take sz ba =
     (if sz = SMALL_BLOCK_SIZE
      then apsnd (\<lambda>r. ba\<lparr>ba_small_blocks := r\<rparr>) (ring_buffer_Dequeue (ba_small_blocks ba))
      else apsnd (\<lambda>r. ba\<lparr>ba_large_blocks := r\<rparr>) (ring_buffer_Dequeue (ba_large_blocks ba)))"

definition BlockAllocator_give :: "disk_block \<Rightarrow> block_allocator \<Rightarrow> bool \<times> block_allocator" where
  "BlockAllocator_give block ba =
     (if blk_size block = SMALL_BLOCK_SIZE
      then apsnd (\<lambda>r. ba\<lparr>ba_small_blocks := r\<rparr>) (ring_buffer_Enqueue_simple (ba_small_blocks ba) block)
      else apsnd (\<lambda>r. ba\<lparr>ba_large_blocks := r\<rparr>) (ring_buffer_Enqueue_simple (ba_large_blocks ba) block))"

text \<open>When there is no block, the caller's block stays what it was.\<close>

definition BlockAllocator_GetBlock :: "i32 \<Rightarrow> disk_block \<Rightarrow> block_allocator \<Rightarrow> disk_block \<times> block_allocator" where
  "BlockAllocator_GetBlock sz block ba =
     (case BlockAllocator_take sz ba of (r, ba) \<Rightarrow> (case r of None \<Rightarrow> block | Some b \<Rightarrow> b, ba))"

definition BlockAllocator_FreeBlock :: "disk_block \<Rightarrow> block_allocator \<Rightarrow> block_allocator" where
  "BlockAllocator_FreeBlock block ba = snd (BlockAllocator_give block ba)"

section \<open>One size\<close>

text \<open>
  A ring that holds free blocks of the set \<open>B\<close>, each at most once and with a place for every one, is a
  pool of blocks.
\<close>

definition disk_pool_inv :: "disk_block set \<Rightarrow> disk_block ring_buffer \<Rightarrow> bool" where
  "disk_pool_inv B r \<longleftrightarrow> rb_inv r \<and> distinct (rb_contents r) \<and> set (rb_contents r) \<subseteq> B \<and> finite B \<and>
     card B \<le> rb_capacity r"

abbreviation rb_blocks :: "disk_block ring_buffer \<Rightarrow> disk_block set" where
  "rb_blocks r \<equiv> set (rb_contents r)"

interpretation disk_pool: block_pool "disk_pool_inv B" "\<lambda>_. B" rb_blocks rb_headroom
    "\<lambda>_ :: unit. ring_buffer_Dequeue" rb_enq for B
proof
  show "rb_blocks s \<subseteq> B" if "disk_pool_inv B s" for s using that by (simp add: disk_pool_inv_def)
  show "rb_headroom s k" if "rb_headroom s n" "k \<le> n" for s :: "disk_block ring_buffer" and n k
    using that by (rule mpmc_fifo.headroom_mono)
next
  fix s n c x s'
  assume a: "disk_pool_inv B s" "rb_headroom s n" "ring_buffer_Dequeue s = (Some x, s')"
  then have l: "rb_inv s'" "rb_capacity s' = rb_capacity s" "rb_headroom s' n" "rb_contents s = x # rb_contents s'"
    using mpmc_fifo.deq_law [of s n "Some x" s'] by (auto simp: disk_pool_inv_def list_deq_def split: list.splits)
  then show "x \<in> rb_blocks s \<and> rb_blocks s' = rb_blocks s - {x} \<and> B = B \<and> disk_pool_inv B s' \<and> rb_headroom s' n"
    using a(1) by (auto simp: disk_pool_inv_def)
next
  fix s n c s'
  assume a: "disk_pool_inv B s" "rb_headroom s n" "ring_buffer_Dequeue s = (None, s')"
  then have "rb_inv s'" "rb_capacity s' = rb_capacity s" "rb_headroom s' n" "rb_contents s = []" "rb_contents s' = []"
    using mpmc_fifo.deq_law [of s n None s'] by (auto simp: disk_pool_inv_def list_deq_def split: list.splits)
  then show "rb_blocks s = {} \<and> rb_blocks s' = {} \<and> B = B \<and> disk_pool_inv B s' \<and> rb_headroom s' n"
    using a(1) by (simp add: disk_pool_inv_def)
next
  fix s n x b s'
  assume a: "disk_pool_inv B s" "rb_headroom s (Suc n)" "x \<in> B - rb_blocks s" "ring_buffer_Enqueue_simple s x = (b, s')"
  then have "rb_blocks s \<subset> B" by (auto simp: disk_pool_inv_def)
  then have "length (rb_contents s) < rb_capacity s"
    using a(1) psubset_card_mono [of B "rb_blocks s"] by (simp add: disk_pool_inv_def distinct_card)
  then have "b" "rb_inv s'" "rb_capacity s' = rb_capacity s" "rb_headroom s' n" "rb_contents s' = rb_contents s @ [x]"
    using mpmc_fifo.enq_law [of s n x b s'] a by (auto simp: disk_pool_inv_def list_enq_cases)
  then show "b \<and> rb_blocks s' = insert x (rb_blocks s) \<and> B = B \<and> disk_pool_inv B s' \<and> rb_headroom s' n"
    using a by (auto simp: disk_pool_inv_def)
qed

section \<open>Both sizes\<close>

definition disk_inv :: "disk_block set \<Rightarrow> disk_block set \<Rightarrow> nat \<Rightarrow> block_allocator \<Rightarrow> disk_block set \<Rightarrow> bool" where
  "disk_inv S B k ba L \<longleftrightarrow>
     disk_pool_inv S (ba_small_blocks ba) \<and> disk_pool_inv B (ba_large_blocks ba) \<and>
     rb_headroom (ba_small_blocks ba) k \<and> rb_headroom (ba_large_blocks ba) k \<and>
     L = (S - rb_blocks (ba_small_blocks ba)) \<union> (B - rb_blocks (ba_large_blocks ba))"

lemma disk_inv_take:
  assumes "disk_inv S B k s L" "S \<inter> B = {}" "BlockAllocator_take sz s = (Some x, s')"
  shows "disk_inv S B k s' (insert x L)" "x \<in> (if sz = 4096 then S else B)" "x \<notin> L"
proof -
  have "disk_inv S B k s' (insert x L) \<and> x \<in> (if sz = 4096 then S else B) \<and> x \<notin> L"
  proof (cases "sz = 4096")
    case True
    then obtain r where r: "ring_buffer_Dequeue (ba_small_blocks s) = (Some x, r)" "s' = s\<lparr>ba_small_blocks := r\<rparr>"
      using assms(3) by (cases "ring_buffer_Dequeue (ba_small_blocks s)") (auto simp: BlockAllocator_take_def)
    then show ?thesis
      using disk_pool.alloc_some [of S "ba_small_blocks s" k x r] disk_pool.avail_blocks [of S "ba_small_blocks s"] assms(1,2) True
      by (auto simp: disk_inv_def)
  next
    case False
    then obtain r where r: "ring_buffer_Dequeue (ba_large_blocks s) = (Some x, r)" "s' = s\<lparr>ba_large_blocks := r\<rparr>"
      using assms(3) by (cases "ring_buffer_Dequeue (ba_large_blocks s)") (auto simp: BlockAllocator_take_def)
    then show ?thesis
      using disk_pool.alloc_some [of B "ba_large_blocks s" k x r] disk_pool.avail_blocks [of B "ba_large_blocks s"] assms(1,2) False
      by (auto simp: disk_inv_def)
  qed
  then show "disk_inv S B k s' (insert x L)" "x \<in> (if sz = 4096 then S else B)" "x \<notin> L" by simp_all
qed

lemma disk_inv_take_none:
  assumes "disk_inv S B k s L" "BlockAllocator_take sz s = (None, s')"
  shows "disk_inv S B k s' L" "(if sz = 4096 then S else B) \<subseteq> L"
proof -
  have "disk_inv S B k s' L \<and> (if sz = 4096 then S else B) \<subseteq> L"
  proof (cases "sz = 4096")
    case True
    then obtain r where r: "ring_buffer_Dequeue (ba_small_blocks s) = (None, r)" "s' = s\<lparr>ba_small_blocks := r\<rparr>"
      using assms(2) by (cases "ring_buffer_Dequeue (ba_small_blocks s)") (auto simp: BlockAllocator_take_def)
    then show ?thesis
      using disk_pool.alloc_none [of S "ba_small_blocks s" k r] assms(1) True by (auto simp: disk_inv_def)
  next
    case False
    then obtain r where r: "ring_buffer_Dequeue (ba_large_blocks s) = (None, r)" "s' = s\<lparr>ba_large_blocks := r\<rparr>"
      using assms(2) by (cases "ring_buffer_Dequeue (ba_large_blocks s)") (auto simp: BlockAllocator_take_def)
    then show ?thesis
      using disk_pool.alloc_none [of B "ba_large_blocks s" k r] assms(1) False by (auto simp: disk_inv_def)
  qed
  then show "disk_inv S B k s' L" "(if sz = 4096 then S else B) \<subseteq> L" by simp_all
qed

lemma disk_inv_give:
  assumes "disk_inv S B (Suc k) s L" "S \<inter> B = {}" "\<forall>x \<in> S. blk_size x = 4096" "\<forall>x \<in> B. blk_size x \<noteq> 4096"
    and "x \<in> L" "BlockAllocator_give x s = (b, s')"
  shows "b" "disk_inv S B k s' (L - {x})"
proof -
  have m: "rb_headroom r k" if "rb_headroom r (Suc k)" for r :: "disk_block ring_buffer"
    using mpmc_fifo.headroom_mono that by (metis le_Suc_eq order_refl)
  have "b \<and> disk_inv S B k s' (L - {x})"
  proof (cases "blk_size x = 4096")
    case True
    then have x: "x \<in> S - rb_blocks (ba_small_blocks s)" using assms(1,4,5) by (auto simp: disk_inv_def)
    obtain r where r: "ring_buffer_Enqueue_simple (ba_small_blocks s) x = (b, r)" "s' = s\<lparr>ba_small_blocks := r\<rparr>"
      using assms(6) True by (cases "ring_buffer_Enqueue_simple (ba_small_blocks s) x") (auto simp: BlockAllocator_give_def)
    then show ?thesis
      using disk_pool.free_law [of S "ba_small_blocks s" k x b r] x assms(1,2) m [of "ba_large_blocks s"]
      by (auto simp: disk_inv_def)
  next
    case False
    then have x: "x \<in> B - rb_blocks (ba_large_blocks s)" using assms(1,3,5) by (auto simp: disk_inv_def)
    obtain r where r: "ring_buffer_Enqueue_simple (ba_large_blocks s) x = (b, r)" "s' = s\<lparr>ba_large_blocks := r\<rparr>"
      using assms(6) False by (cases "ring_buffer_Enqueue_simple (ba_large_blocks s) x") (auto simp: BlockAllocator_give_def)
    then show ?thesis
      using disk_pool.free_law [of B "ba_large_blocks s" k x b r] x assms(1,2) m [of "ba_small_blocks s"]
      by (auto simp: disk_inv_def)
  qed
  then show "b" "disk_inv S B k s' (L - {x})" by simp_all
qed

lemma disk_inv_reach:
  assumes "pool_reach BlockAllocator_take BlockAllocator_give s0 n s L" "disk_inv S B (n + k) s0 {}"
    and d: "S \<inter> B = {}" "\<forall>x \<in> S. blk_size x = 4096" "\<forall>x \<in> B. blk_size x \<noteq> 4096"
  shows "disk_inv S B k s L"
  using assms(1,2)
proof (induction arbitrary: k rule: pool_reach.induct)
  case (take n s L c x s')
  then show ?case using disk_inv_take(1) [OF _ d(1)] by blast
next
  case (none n s L c s')
  then show ?case using disk_inv_take_none(1) by blast
next
  case (give n s L x s')
  then show ?case using disk_inv_give(2) [OF give.IH [of "Suc k"] d] by simp
next
  case (lost n s L x s')
  have "disk_inv S B (Suc k) s L" using lost.prems by (intro lost.IH) simp
  then show ?case using disk_inv_give(1) [OF _ d lost.hyps(2,3)] by blast
qed simp

section \<open>Initialisation\<close>

definition tile :: "u64 \<Rightarrow> i32 \<Rightarrow> nat \<Rightarrow> disk_block list" where
  "tile off sz n = map (\<lambda>i. \<lparr>blk_off = off + of_nat i * ucast sz, blk_size = sz\<rparr>) [0..<n]"

lemma tile_Suc: "tile off sz (Suc n) = \<lparr>blk_off = off, blk_size = sz\<rparr> # tile (off + ucast sz) sz n"
  by (simp add: tile_def upt_conv_Cons map_Suc_upt [symmetric] algebra_simps del: upt_Suc)

lemma enqueue_blocks_tile:
  assumes "rb_inv r" "rb_headroom r (n + k)" "length (rb_contents r) + n \<le> rb_capacity r"
    and "enqueue_blocks n off sz r = (r', off')"
  shows "rb_inv r' \<and> rb_headroom r' k \<and> rb_capacity r' = rb_capacity r \<and>
    rb_contents r' = rb_contents r @ tile off sz n \<and> off' = off + of_nat n * ucast sz"
  using assms
proof (induction n arbitrary: r off)
  case (Suc n)
  obtain r1 where r1: "ring_buffer_Enqueue_simple r \<lparr>blk_off = off, blk_size = sz\<rparr> = (True, r1)" "rb_inv r1"
      "rb_capacity r1 = rb_capacity r" "rb_headroom r1 (n + k)"
      "rb_contents r1 = rb_contents r @ [\<lparr>blk_off = off, blk_size = sz\<rparr>]"
    using mpmc_fifo.enq_space [OF Suc.prems(1), of "n + k" "\<lparr>blk_off = off, blk_size = sz\<rparr>"] Suc.prems(2,3) by auto
  show ?case
    using Suc.IH [OF r1(2,4), of "off + ucast sz"] Suc.prems(3,4) r1
    by (simp add: tile_Suc algebra_simps)
qed (simp add: tile_def)

lemma tile_set: "x \<in> set (tile off sz n) \<longleftrightarrow> (\<exists>i < n. x = \<lparr>blk_off = off + of_nat i * ucast sz, blk_size = sz\<rparr>)"
  by (auto simp: tile_def)

text \<open>The bytes of a block on the disk.\<close>

definition block_bytes :: "disk_block \<Rightarrow> nat set" where
  "block_bytes b = {unat (blk_off b)..<unat (blk_off b) + unat (blk_size b)}"

lemma tile_offset:
  assumes "unat off + n * unat sz < 2 ^ 64" "i < n"
  shows "unat (off + of_nat i * ucast (sz :: i32) :: u64) = unat off + i * unat sz"
proof -
  have "i * unat sz \<le> n * unat sz" using assms(2) by simp
  then have b: "unat off + i * unat sz < 2 ^ 64" using assms(1) by linarith
  have "off + of_nat i * ucast sz = (of_nat (unat off + i * unat sz) :: u64)"
    by (simp add: word_unat_eq_iff unat_word_ariths unat_of_nat mod_simps)
  moreover have "unat (of_nat (unat off + i * unat sz) :: u64) = (unat off + i * unat sz) mod 2 ^ 64"
    by (simp only: unat_of_nat) simp
  ultimately show ?thesis using b by (simp only: mod_less)
qed

lemma tile_bytes:
  assumes "unat off + n * unat sz < 2 ^ 64" "x \<in> set (tile off sz n)"
  obtains i where "i < n" "blk_size x = sz" "block_bytes x = {unat off + i * unat sz..<unat off + Suc i * unat sz}"
    "block_bytes x \<subseteq> {unat off..<unat off + n * unat sz}" "unat (blk_off x) = unat off + i * unat sz"
proof -
  obtain i where i: "i < n" "x = \<lparr>blk_off = off + of_nat i * ucast sz, blk_size = sz\<rparr>"
    using assms(2) by (auto simp: tile_set)
  have "Suc i * unat sz \<le> n * unat sz" using i(1) by (intro mult_le_mono1) simp
  then show ?thesis
    using that [of i] i tile_offset [OF assms(1) i(1)] by (auto simp: block_bytes_def add_ac)
qed

lemma ranges_disjoint: "A \<subseteq> {a..<b} \<Longrightarrow> A' \<subseteq> {b..<c} \<Longrightarrow> A \<inter> A' = {}" for b :: nat
  by (meson atLeastLessThan_iff disjoint_iff not_le subsetD)

lemma tile_range:
  assumes "unat off + n * unat sz < 2 ^ 64" "x \<in> set (tile off sz n)"
  shows "blk_size x = sz \<and> block_bytes x \<subseteq> {unat off..<unat off + n * unat sz}"
  using tile_bytes [OF assms] by metis

lemma tile_disjoint:
  assumes "unat off + n * unat sz < 2 ^ 64" "x \<in> set (tile off sz n)" "y \<in> set (tile off sz n)" "x \<noteq> y"
  shows "block_bytes x \<inter> block_bytes y = {}"
proof -
  obtain i where i: "blk_size x = sz" "block_bytes x = {unat off + i * unat sz..<unat off + Suc i * unat sz}"
      "unat (blk_off x) = unat off + i * unat sz"
    by (rule tile_bytes [OF assms(1,2)])
  obtain j where j: "blk_size y = sz" "block_bytes y = {unat off + j * unat sz..<unat off + Suc j * unat sz}"
      "unat (blk_off y) = unat off + j * unat sz"
    by (rule tile_bytes [OF assms(1,3)])
  have "i \<noteq> j" using assms(4) i j by (cases x; cases y) (auto simp: word_unat_eq_iff)
  then have "Suc i * unat sz \<le> j * unat sz \<or> Suc j * unat sz \<le> i * unat sz"
    by (metis Suc_leI mult_le_mono1 nat_neq_iff)
  then show ?thesis unfolding i(2) j(2) by auto
qed

lemma tile_distinct:
  assumes "unat off + n * unat sz < 2 ^ 64" "sz \<noteq> 0"
  shows "distinct (tile off sz n)" "card (set (tile off sz n)) = n"
proof -
  have "inj_on (\<lambda>i. \<lparr>blk_off = off + of_nat i * ucast sz, blk_size = sz\<rparr>) {0..<n}"
    using assms tile_offset [OF assms(1)] unat_gt_0 [of sz]
    by (intro inj_onI) (metis add_left_cancel atLeastLessThan_iff disk_block.ext_inject mult_right_cancel not_less_zero)
  then show "distinct (tile off sz n)" by (simp add: tile_def distinct_map)
  then show "card (set (tile off sz n)) = n" by (simp add: distinct_card) (simp add: tile_def)
qed

lemma ring_tile_pool:
  assumes "ring_buffer_Init 16 r0 region rsize (ucast (n :: u64)) = Inr r" "0 < n" "unat n < 2 ^ 31"
    and "unat off + unat n * unat sz < 2 ^ 64" "sz \<noteq> 0" "enqueue_blocks (unat n) off sz r = (r', off')"
  shows "disk_pool_inv (set (tile off sz (unat n))) r'" "rb_headroom r' (2 ^ 31)"
    "rb_blocks r' = set (tile off sz (unat n))" "off' = off + n * ucast sz"
proof -
  have u: "unat (ucast n :: u32) = unat n" using assms(3) by (simp add: unat_narrow)
  then have nz: "(ucast n :: u32) \<noteq> 0" using assms(2) by (metis unat_gt_0 unat_0 less_numeral_extra(3) word_gt_0)
  note I = rb_Init_ok [OF assms(1)]
  have c: "rb_capacity r = unat n" using I(5) nz u by (simp add: rb_capacity_def)
  have "rb_headroom r (unat n + 2 ^ 31)" using rb_Init_headroom [OF assms(1)] assms(3) by simp
  then have E: "rb_inv r'" "rb_headroom r' (2 ^ 31)" "rb_capacity r' = unat n" "rb_contents r' = tile off sz (unat n)"
      "off' = off + of_nat (unat n) * ucast sz"
    using enqueue_blocks_tile [OF I(1) _ _ assms(6), of "2 ^ 31"] I(2) c by simp_all
  then show "disk_pool_inv (set (tile off sz (unat n))) r'" "rb_headroom r' (2 ^ 31)"
      "rb_blocks r' = set (tile off sz (unat n))" "off' = off + n * ucast sz"
    using tile_distinct [OF assms(4,5)] by (simp_all add: disk_pool_inv_def)
qed

lemma Initialize_disk_inv:
  assumes init: "BlockAllocator_Initialize ba0 disk_off disk_size n region region_size = Inr ba"
    and l: "l = BlockAllocator_GetNumLargeBlocks disk_size n" and "0 < n" "unat n < 2 ^ 31" "0 < l" "unat l < 2 ^ 31"
    and fit: "unat n * 4096 \<le> unat disk_size" "unat disk_off + unat disk_size < 2 ^ 64"
  defines "S \<equiv> set (tile disk_off 4096 (unat n))" and "B \<equiv> set (tile (disk_off + n * 4096) 131072 (unat l))"
  shows "disk_inv S B (2 ^ 31) ba {}" "unat (disk_off + n * 4096) = unat disk_off + unat n * 4096"
    "unat (disk_off + n * 4096) + unat l * 131072 \<le> unat disk_off + unat disk_size"
proof -
  have m: "unat (n * 4096) = unat n * 4096" using assms(4) by (simp add: unat_word_ariths)
  show o: "unat (disk_off + n * 4096) = unat disk_off + unat n * 4096"
    using fit by (simp add: unat_word_ariths m)
  have "unat (disk_size - n * 4096) = unat disk_size - unat n * 4096"
    using fit(1) m by (simp add: unat_sub word_le_nat_alt)
  then have "unat l * 131072 \<le> unat disk_size - unat n * 4096"
    by (simp add: l BlockAllocator_GetNumLargeBlocks_def unat_div)
  then show b: "unat (disk_off + n * 4096) + unat l * 131072 \<le> unat disk_off + unat disk_size"
    using o fit by linarith
  obtain small small' off large where i:
      "ring_buffer_Init 16 (ba_small_blocks ba0) region (ucast region_size) (ucast n) = Inr small"
      "enqueue_blocks (unat n) disk_off 4096 small = (small', off)"
      "ring_buffer_Init 16 (ba_large_blocks ba0) (ring_buffer_GetNextSection 16 small')
         (ucast (region_size - ucast (ring_buffer_GetSize 16 (rb_max_depth small')))) (ucast l) = Inr large"
      "ba = \<lparr>ba_small_blocks = small', ba_large_blocks = fst (enqueue_blocks (unat l) off 131072 large)\<rparr>"
    using init by (auto simp: BlockAllocator_Initialize_def result_bind_Inr Let_def l case_prod_Inr)
  have s: "disk_pool_inv S small'" "rb_headroom small' (2 ^ 31)" "rb_blocks small' = S" "off = disk_off + n * 4096"
    using ring_tile_pool [OF i(1) assms(3,4) _ _ i(2)] o b fit by (simp_all add: S_def)
  obtain large' off' where e: "enqueue_blocks (unat l) off 131072 large = (large', off')" by fastforce
  have "disk_pool_inv B large'" "rb_headroom large' (2 ^ 31)" "rb_blocks large' = B"
    using ring_tile_pool [OF i(3) assms(5,6) _ _ e] b fit by (simp_all add: s(4) B_def)
  then show "disk_inv S B (2 ^ 31) ba {}" using s i(4) e by (simp add: disk_inv_def)
qed

text \<open>The blocks of two tilings, the second one behind the first.\<close>

lemma two_tiles_disjoint:
  assumes a: "unat a + m * unat u < 2 ^ 64" and b: "unat b + l * unat v < 2 ^ 64" and ab: "unat a + m * unat u \<le> unat b"
    and x: "x \<in> set (tile a u m) \<union> set (tile b v l)" and y: "y \<in> set (tile a u m) \<union> set (tile b v l)" and "x \<noteq> y"
  shows "block_bytes x \<inter> block_bytes y = {}"
proof -
  have A: "block_bytes z \<subseteq> {unat a..<unat a + m * unat u}" if "z \<in> set (tile a u m)" for z
    using tile_range [OF a that] by simp
  have B: "block_bytes z \<subseteq> {unat a + m * unat u..<unat b + l * unat v}" if "z \<in> set (tile b v l)" for z
    using tile_range [OF b that] ab by (auto dest!: subsetD)
  consider "x \<in> set (tile a u m)" "y \<in> set (tile a u m)" | "x \<in> set (tile b v l)" "y \<in> set (tile b v l)"
    | "x \<in> set (tile a u m)" "y \<in> set (tile b v l)" | "x \<in> set (tile b v l)" "y \<in> set (tile a u m)"
    using x y by blast
  then show ?thesis
  proof cases
    case 1
    then show ?thesis using tile_disjoint [OF a] \<open>x \<noteq> y\<close> by blast
  next
    case 2
    then show ?thesis using tile_disjoint [OF b] \<open>x \<noteq> y\<close> by blast
  next
    case 3
    then show ?thesis using ranges_disjoint A [of x] B [of y] by blast
  next
    case 4
    then show ?thesis using ranges_disjoint [of "block_bytes y"] A [of y] B [of x] by (metis Int_commute)
  qed
qed

section \<open>Properties\<close>

text \<open>
  C7. No byte of the disk is handed out twice: after \<^verbatim>\<open>Initialize\<close>, whatever sequence of \<^verbatim>\<open>GetBlock\<close>
  calls of both sizes and of \<^verbatim>\<open>FreeBlock\<close> calls for blocks that are held has been made, a block that
  \<^verbatim>\<open>GetBlock\<close> finds is a small one when 4096 bytes were asked for and a large one otherwise, lies within the disk
  and shares no byte with a block that is still held. The numbers of blocks are below \<open>2 ^ 31\<close>, as the loop counters require,
  and at most \<open>2 ^ 31\<close> blocks have been freed.
\<close>

theorem disk_blocks_never_overlap:
  assumes "BlockAllocator_Initialize ba0 disk_off disk_size n region region_size = Inr ba"
    and "l = BlockAllocator_GetNumLargeBlocks disk_size n" "0 < n" "unat n < 2 ^ 31" "0 < l" "unat l < 2 ^ 31"
    and "unat n * 4096 \<le> unat disk_size" "unat disk_off + unat disk_size < 2 ^ 64"
    and "pool_reach BlockAllocator_take BlockAllocator_give ba k s L" "k \<le> 2 ^ 31"
    and "BlockAllocator_take sz s = (Some x, s')"
  shows "blk_size x = (if sz = SMALL_BLOCK_SIZE then SMALL_BLOCK_SIZE else LARGE_BLOCK_SIZE) \<and>
    block_bytes x \<subseteq> {unat disk_off..<unat disk_off + unat disk_size} \<and>
    (\<forall>y \<in> L. block_bytes x \<inter> block_bytes y = {})"
proof -
  define S where "S = set (tile disk_off 4096 (unat n))"
  define B where "B = set (tile (disk_off + n * 4096) 131072 (unat l))"
  note I = Initialize_disk_inv [OF assms(1-8), folded S_def B_def]
  have fits: "unat disk_off + unat n * unat (4096 :: i32) < 2 ^ 64"
      "unat (disk_off + n * 4096) + unat l * unat (131072 :: i32) < 2 ^ 64"
    using I(2,3) assms(7,8) by simp_all
  have S: "blk_size x = 4096 \<and> block_bytes x \<subseteq> {unat disk_off..<unat disk_off + unat n * 4096}" if "x \<in> S" for x
    using tile_range [OF fits(1)] that by (simp add: S_def)
  have B: "blk_size x = 131072 \<and> block_bytes x \<subseteq> {unat disk_off + unat n * 4096..<unat disk_off + unat disk_size}"
    if "x \<in> B" for x
  proof -
    have r: "blk_size x = 131072" "block_bytes x \<subseteq> {unat (disk_off + n * 4096)..<unat (disk_off + n * 4096) + unat l * 131072}"
      using tile_range [OF fits(2)] that by (simp_all add: B_def)
    then show ?thesis using I(2,3) by (auto dest!: subsetD)
  qed
  have ne: "(131072 :: i32) \<noteq> 4096" by simp
  have d: "S \<inter> B = {}" "\<forall>x \<in> S. blk_size x = 4096" "\<forall>x \<in> B. blk_size x \<noteq> 4096"
    using S B ne by (metis disjoint_iff)+
  have "disk_inv S B (k + (2 ^ 31 - k)) ba {}" using I(1) assms(10) by simp
  from disk_inv_reach [OF assms(9) this d]
  have J: "disk_inv S B (2 ^ 31 - k) s L" .
  note T = disk_inv_take [OF J d(1) assms(11)]
  have L: "L \<subseteq> S \<union> B" using J by (auto simp: disk_inv_def)
  have "block_bytes x \<inter> block_bytes y = {}" if y: "y \<in> L" for y
  proof -
    have xy: "x \<noteq> y" "x \<in> S \<union> B" "y \<in> S \<union> B" using T y L by (auto split: if_splits)
    show ?thesis
      by (rule two_tiles_disjoint [OF fits _ xy(2,3) [unfolded S_def B_def] xy(1)]) (use I(2,3) in simp)
  qed
  moreover have "blk_size x = (if sz = 4096 then 4096 else 131072)"
    using T(2) S [of x] B [of x] by (simp split: if_splits)
  moreover have "block_bytes x \<subseteq> {unat disk_off..<unat disk_off + unat disk_size}"
    using T(2) S [of x] B [of x] assms(7) by (cases "sz = 4096") (auto dest!: subsetD)
  ultimately show ?thesis by blast
qed

text \<open>A disk with two small blocks and a large one behind the first 4096 bytes.\<close>

definition blank_disk :: block_allocator where
  "blank_disk =
     (let r = \<lparr>rb_header = 0, rb_queue = 0, rb_enqueued = 0, rb_dequeued = 0, rb_e_lock = 0, rb_d_lock = 0,
               rb_max_depth = 0, rb_cells = (\<lambda>_. \<lparr>blk_off = 0, blk_size = 0\<rparr>)\<rparr> in
      \<lparr>ba_small_blocks = r, ba_large_blocks = r\<rparr>)"

theorem disk_blocks_never_overlap_witness:
  "\<exists>ba x1 s1 x2 s2. BlockAllocator_Initialize blank_disk 4096 139264 2 65536 1000 = Inr ba \<and>
     BlockAllocator_take 4096 ba = (Some x1, s1) \<and> BlockAllocator_take 4096 s1 = (Some x2, s2) \<and>
     block_bytes x2 \<inter> block_bytes x1 = {}"
proof -
  have "case BlockAllocator_Initialize blank_disk 4096 139264 2 65536 1000 of
      Inl _ \<Rightarrow> False
    | Inr ba \<Rightarrow> (case BlockAllocator_take 4096 ba of (r1, s1) \<Rightarrow>
        \<not> Option.is_none r1 \<and> \<not> Option.is_none (fst (BlockAllocator_take 4096 s1)))"
    by code_simp
  then obtain ba x1 s1 x2 s2 where b: "BlockAllocator_Initialize blank_disk 4096 139264 2 65536 1000 = Inr ba"
      "BlockAllocator_take 4096 ba = (Some x1, s1)" "BlockAllocator_take 4096 s1 = (Some x2, s2)"
    by (auto simp: Option.is_none_def prod_eq_iff split: sum.splits prod.splits)
  have r: "pool_reach BlockAllocator_take BlockAllocator_give ba 0 s1 {x1}"
    using pool_reach.take [of BlockAllocator_take BlockAllocator_give ba 0 ba "{}", OF pool_reach.init b(2)] by simp
  have l: "BlockAllocator_GetNumLargeBlocks 139264 2 = 1" by code_simp
  from disk_blocks_never_overlap [OF b(1) refl _ _ _ _ _ _ r _ b(3)] l b show ?thesis by auto
qed

text \<open>
  When no block of the size is left, \<^verbatim>\<open>GetBlock\<close> reports nothing: the caller goes on with the block it
  had, which it may use already.
\<close>

theorem exhausted_GetBlock_keeps_block:
  assumes "disk_inv S B k ba L" "S \<inter> B = {}" "(if sz = 4096 then S else B) \<subseteq> L"
  shows "fst (BlockAllocator_GetBlock sz block ba) = block"
proof -
  obtain r ba' where r: "BlockAllocator_take sz ba = (r, ba')" by fastforce
  then have "r = None" using disk_inv_take(2,3) [OF assms(1,2)] assms(3) by (cases r) blast+
  then show ?thesis using r by (simp add: BlockAllocator_GetBlock_def)
qed

end
