(* ===== verification/Error_Format.thy ===== *)
theory Error_Format
  imports Labstor_Prelude
begin

text \<open>
  Errors and their messages: \<^verbatim>\<open>include/labstor/userspace/util/serializeable.h\<close>, \<^verbatim>\<open>util/error.h\<close> and the
  table of errors in \<^verbatim>\<open>util/errors.h\<close>. The decimal text of a floating point number is the argument
  \<open>ftos\<close>, and the text of an object that serialises itself the argument \<open>oser\<close>. The buffer of the
  formatter has 8192 bytes; a write behind it and an argument that is missing are undefined
  behaviour in the code and the error \<open>OUT_OF_BOUNDS\<close> here.
\<close>

section \<open>Arguments\<close>

text \<open>\<^verbatim>\<open>std::to_string\<close> of an integer.\<close>

fun dec_of_nat :: "nat \<Rightarrow> string" where
  "dec_of_nat n = (if n < 10 then [char_of (48 + n)] else dec_of_nat (n div 10) @ [char_of (48 + n mod 10)])"

declare dec_of_nat.simps [simp del]

definition to_string :: "int \<Rightarrow> string" where
  "to_string i = (if i < 0 then CHR ''-'' # dec_of_nat (nat (- i)) else dec_of_nat (nat i))"

definition SizeType_unit_to_str :: "u64 \<Rightarrow> string" where
  "SizeType_unit_to_str unit =
     (if unit = 1 then ''BYTES'' else if unit = push_bit 10 1 then ''KB'' else if unit = push_bit 20 1 then ''MB''
      else if unit = push_bit 30 1 then ''GB'' else if unit = push_bit 40 1 then ''TB'' else '''')"

definition SizeType_ToString :: "('f \<Rightarrow> string) \<Rightarrow> 'f \<Rightarrow> u64 \<Rightarrow> string" where
  "SizeType_ToString ftos num unit = ftos num @ SizeType_unit_to_str unit"

text \<open>
  The constructors of \<^verbatim>\<open>Arg\<close>: the integer types, the floating point types, the strings, the pointers to
  objects, and the template for all other types.
\<close>

datatype ('f, 'o) format_arg =
    Arg_int int
  | Arg_float 'f
  | Arg_string string
  | Arg_object 'o
  | Arg_template 'o

text \<open>The template sets the object but the type of a string, so the text is the empty string.\<close>

definition Arg_serialize :: "('f \<Rightarrow> string) \<Rightarrow> ('o \<Rightarrow> string) \<Rightarrow> ('f, 'o) format_arg \<Rightarrow> string" where
  "Arg_serialize ftos oser a =
     (case a of Arg_int i \<Rightarrow> to_string i | Arg_float f \<Rightarrow> ftos f | Arg_string s \<Rightarrow> s
      | Arg_object obj \<Rightarrow> oser obj | Arg_template obj \<Rightarrow> '''')"

section \<open>The formatter\<close>

abbreviation (input) FORMAT_BUFFER :: nat where "FORMAT_BUFFER \<equiv> 8192"

text \<open>The loop: the rest of the format, the texts of the arguments that are left, and the buffer.\<close>

fun Formatter_loop :: "string \<Rightarrow> string list \<Rightarrow> string \<Rightarrow> string result" where
  "Formatter_loop [] args buffer = Inr buffer"
| "Formatter_loop (c # cs) args buffer =
     (if c = CHR ''{'' \<and> cs \<noteq> [] \<and> hd cs = CHR ''}'' then
        case args of
          [] \<Rightarrow> Inl OUT_OF_BOUNDS
        | a # as \<Rightarrow> if FORMAT_BUFFER < length buffer + length a then Inl OUT_OF_BOUNDS
                    else Formatter_loop (tl cs) as (buffer @ a)
      else if FORMAT_BUFFER \<le> length buffer then Inl OUT_OF_BOUNDS
      else Formatter_loop cs args (buffer @ [c]))"

definition Formatter_format ::
  "('f \<Rightarrow> string) \<Rightarrow> ('o \<Rightarrow> string) \<Rightarrow> string \<Rightarrow> ('f, 'o) format_arg list \<Rightarrow> string result"
where
  "Formatter_format ftos oser fmt args = Formatter_loop fmt (map (Arg_serialize ftos oser) args) []"

section \<open>Errors\<close>

record error_object =
  er_code :: int
  er_fmt :: string
  er_msg :: string

definition Error_format ::
  "('f \<Rightarrow> string) \<Rightarrow> ('o \<Rightarrow> string) \<Rightarrow> error_object \<Rightarrow> ('f, 'o) format_arg list \<Rightarrow> error_object result"
where
  "Error_format ftos oser e args =
     result_bind (Formatter_format ftos oser (er_fmt e) args) (\<lambda>msg.
     Inr \<lparr>er_code = er_code e, er_fmt = er_fmt e, er_msg = msg\<rparr>)"

text \<open>The table of errors: name, code and format.\<close>

definition labstor_errors :: "(string \<times> int \<times> string) list" where
  "labstor_errors =
     [(''FILE_NOT_FOUND'', 0, ''File not found at {}''),
      (''INVALID_STORAGE_TYPE'', 1, ''{} is not a valid storage method''),
      (''INVALID_SERIALIZER_TYPE'', 2, ''{} is not a valid serializer type''),
      (''INVALID_TRANSPORT_TYPE'', 3, ''{} is not a valid transport type''),
      (''INVALID_AFFINITY'', 3, ''Could not set CPU affinity of thread: {}''),
      (''MMAP_FAILED'', 4, ''Could not mmap file: {}''),
      (''LAZY_ERROR'', 5, ''Error in function {}''),
      (''DLSYM_MODULE_NOT_FOUND'', 100, ''Module {} was not loaded; error {}''),
      (''DLSYM_MODULE_NO_CONSTRUCTOR'', 101, ''Module {} has no constructor''),
      (''UNIX_SOCKET_FAILED'', 200, ''Failed to create socket: {}''),
      (''UNIX_BIND_FAILED'', 201, ''Failed to bind socket: {}''),
      (''UNIX_CONNECT_FAILED'', 202, ''Failed to connect over socket: {}''),
      (''UNIX_SENDMSG_FAILED'', 203, ''Failed to send message over socket: {}''),
      (''UNIX_RECVMSG_FAILED'', 204, ''Failed to receive message over socket: {}''),
      (''UNIX_SETSOCKOPT_FAILED'', 205, ''Failed to set socket options: {}''),
      (''UNIX_GETSOCKOPT_FAILED'', 205, ''Failed to acquire user credentials: {}''),
      (''UNIX_LISTEN_FAILED'', 206, ''Failed to listen for connections: {}''),
      (''UNIX_ACCEPT_FAILED'', 207, ''Failed accept connections: {}''),
      (''INVALID_RING_BUFFER_SIZE'', 300, ''Failed to allocate ring buffer, {} is too small to support {} requests.''),
      (''INVALID_UNORDERED_MAP_SIZE'', 301, ''Failed to allocate unordered map, {} is too small to support {} requests.''),
      (''INVALID_UNORDERED_MAP_KEY'', 301, ''No such key in map''),
      (''INVALID_QP_QUERY'', 302, ''There is no such queue: pid={}, type={}, flags={}, cnt={}.''),
      (''INVALID_REGION_SUB'', 303, ''The pointer {} exists outside of {}''),
      (''SHMEM_CREATE_FAILED'', 400, ''Failed to allocate SHMEM''),
      (''INVALID_MODULE_ID'', 500, ''Failed to find module {}''),
      (''INVALID_NAMESPACE_ENTRY'', 501, ''Failed to find namespace entry {}''),
      (''WORK_ORCHESTRATOR_WORK_QUEUE_ALLOC_FAILED'', 502, ''Failed to allocate work queue entries''),
      (''WORK_ORCHESTRATOR_WORK_QUEUE_MMAP_FAILED'', 503, ''Failed to mmap work queue entries''),
      (''WORK_ORCHESTRATOR_HAS_NO_WORKERS'', 504, ''Work orchestrator has no {} workers''),
      (''IPC_MANAGER_CANT_REGISTER_QP'', 505, ''IPCManager failed to register qp''),
      (''KERNEL_IPC_MANAGER_FAILED_TO_REGISTER'', 506, ''IPCManager failed to initialize: {}''),
      (''MODULE_DOES_NOT_EXIST'', 507, ''Module does not exist: {}''),
      (''NOT_ENOUGH_REQUEST_MEMORY'', 508, ''{}: {} were allocated. Minimum of {} expected''),
      (''FAILED_TO_ASSIGN_QUEUE'', 509, ''Failed to assign queue {} to worker {}''),
      (''INVALID_QP_FLAGS'', 510, ''Attempted to find QP with invalid flags set: {}''),
      (''INVALID_QP_CNT'', 511, ''Attempted to find QP with invalid index: {}''),
      (''FAILED_TO_SET_NAMESPACE_KEY'', 512, ''Failed to insert {} into the namespace''),
      (''SPDK_CANT_CREATE_QP'', 513, ''Failed to allocate queue {}''),
      (''SPDK_CANT_RESET_ZONE'', 513, ''Failed to reset zone''),
      (''FAILED_TO_ENQUEUE'', 508, ''Failed to enqueue a request''),
      (''FAILED_TO_DEQUEUE'', 509, ''Failed to enqueue a request''),
      (''FAILED_TO_COMPLETE'', 510, ''Failed to enqueue a request''),
      (''QP_WAIT_TIMED_OUT'', 511, ''Failed to wait for a request''),
      (''NOT_YET_IMPLEMENTED'', 1000, ''{} is not yet implemented'')]"

text \<open>The error of a name; the condition \<^verbatim>\<open>LABSTOR_ERROR_IS\<close> compares the codes.\<close>

definition error_named :: "string \<Rightarrow> error_object option" where
  "error_named name =
     map_option (\<lambda>(code, fmt). \<lparr>er_code = code, er_fmt = fmt, er_msg = ''''\<rparr>) (map_of labstor_errors name)"

definition LABSTOR_ERROR_IS :: "error_object \<Rightarrow> error_object \<Rightarrow> bool" where
  "LABSTOR_ERROR_IS err check \<longleftrightarrow> er_code err = er_code check"

section \<open>Templates\<close>

text \<open>The parts of a format between its places, and their combination with the texts for the places.\<close>

fun format_pieces :: "string \<Rightarrow> string list" where
  "format_pieces [] = [[]]"
| "format_pieces (c # cs) =
     (if c = CHR ''{'' \<and> cs \<noteq> [] \<and> hd cs = CHR ''}'' then [] # format_pieces (tl cs)
      else case format_pieces cs of p # ps \<Rightarrow> (c # p) # ps | [] \<Rightarrow> [[c]])"

fun fill_template :: "string list \<Rightarrow> string list \<Rightarrow> string" where
  "fill_template [] ts = []"
| "fill_template [p] ts = p"
| "fill_template (p # q # ps) ts = p @ hd ts @ fill_template (q # ps) (tl ts)"

definition format_places :: "string \<Rightarrow> nat" where
  "format_places fmt = length (format_pieces fmt) - 1"

lemma format_pieces_nonempty [simp]: "format_pieces s \<noteq> []"
  by (induction s rule: format_pieces.induct) (auto split: list.splits)

lemma fill_template_Cons:
  "ps \<noteq> [] \<Longrightarrow> fill_template (p # ps) ts = p @ hd ts @ fill_template ps (tl ts)"
  by (cases ps) simp_all

lemma fill_template_prefix: "fill_template ((c # p) # ps) ts = c # fill_template (p # ps) ts"
  by (cases ps) simp_all

lemma Formatter_loop_template:
  "length buffer \<le> 8192 \<Longrightarrow>
   Formatter_loop fmt args buffer =
     (if length (format_pieces fmt) \<le> Suc (length args) \<and>
         length buffer + length (fill_template (format_pieces fmt) args) \<le> 8192
      then Inr (buffer @ fill_template (format_pieces fmt) args) else Inl OUT_OF_BOUNDS)"
proof (induction fmt args buffer rule: Formatter_loop.induct)
  case (2 c cs args buffer)
  show ?case
  proof (cases "c = CHR ''{'' \<and> cs \<noteq> [] \<and> hd cs = CHR ''}''")
    case place: True
    show ?thesis
    proof (cases args)
      case Nil
      then show ?thesis using place by (simp add: Suc_le_eq)
    next
      case (Cons a as)
      then show ?thesis
        using place "2.IH"(1) [OF place Cons] by (auto simp: fill_template_Cons)
    qed
  next
    case False
    obtain p ps where p: "format_pieces cs = p # ps" using format_pieces_nonempty [of cs] by (cases "format_pieces cs") auto
    show ?thesis
      using "2.IH"(2) [OF False] "2.prems" False p by (auto simp: fill_template_prefix)
  qed
qed simp

text \<open>Filling every place with the place again gives the format: the parts are those of the format.\<close>

lemma fill_template_places:
  "length (format_pieces fmt) \<le> Suc n \<Longrightarrow> fill_template (format_pieces fmt) (replicate n ''{}'') = fmt"
proof (induction fmt arbitrary: n rule: format_pieces.induct)
  case (2 c cs)
  show ?case
  proof (cases "c = CHR ''{'' \<and> cs \<noteq> [] \<and> hd cs = CHR ''}''")
    case True
    then have "n = Suc (n - 1)" "length (format_pieces (tl cs)) \<le> Suc (n - 1)"
      using "2.prems" format_pieces_nonempty [of "tl cs"] by (cases n; simp)+
    then show ?thesis
      using True "2.IH"(1) [OF True, of "n - 1"] by (cases n; cases cs) (simp_all add: fill_template_Cons)
  next
    case False
    obtain p ps where p: "format_pieces cs = p # ps" using format_pieces_nonempty [of cs] by (cases "format_pieces cs") auto
    then show ?thesis using "2.IH"(2) [OF False, of n] "2.prems" False by (auto simp: fill_template_prefix)
  qed
qed simp

section \<open>Properties\<close>

text \<open>
  C37. The formatter fills a template: the format is the sequence of its parts with \<^verbatim>\<open>{}\<close> between
  them, and the message is the same sequence with the texts of the arguments between them, in their
  order, when there is an argument for every place and the message fits the buffer. Otherwise the
  code reads an argument that does not exist or writes behind its buffer.
\<close>

theorem formatter_fills_template:
  "Formatter_format ftos oser fmt args =
     (let msg = fill_template (format_pieces fmt) (map (Arg_serialize ftos oser) args) in
      if format_places fmt \<le> length args \<and> length msg \<le> FORMAT_BUFFER then Inr msg else Inl OUT_OF_BOUNDS) \<and>
   fill_template (format_pieces fmt) (replicate (format_places fmt) ''{}'') = fmt"
proof
  have "Suc (format_places fmt) = length (format_pieces fmt)"
    using format_pieces_nonempty [of fmt] by (cases "format_pieces fmt") (simp_all add: format_places_def)
  then show "fill_template (format_pieces fmt) (replicate (format_places fmt) ''{}'') = fmt"
      "Formatter_format ftos oser fmt args =
         (let msg = fill_template (format_pieces fmt) (map (Arg_serialize ftos oser) args) in
          if format_places fmt \<le> length args \<and> length msg \<le> 8192 then Inr msg else Inl OUT_OF_BOUNDS)"
    by (simp_all add: fill_template_places Formatter_format_def Formatter_loop_template Let_def le_diff_conv)
qed

text \<open>
  An error that is raised without the arguments of its message is not raised: the queue pool calls
  \<^verbatim>\<open>INVALID_QP_QUERY.format()\<close>, whose message has four places, and clients call
  \<^verbatim>\<open>NOT_YET_IMPLEMENTED.format()\<close>, whose message has one.
\<close>

theorem errors_without_arguments:
  "\<forall>name \<in> {''INVALID_QP_QUERY'', ''NOT_YET_IMPLEMENTED''}.
     \<exists>e. error_named name = Some e \<and> 0 < format_places (er_fmt e) \<and> Error_format ftos oser e [] = Inl OUT_OF_BOUNDS"
proof -
  have "Error_format ftos oser e [] = Inl OUT_OF_BOUNDS" if "0 < format_places (er_fmt e)" for e
  proof -
    have "\<not> length (format_pieces (er_fmt e)) \<le> Suc 0" using that by (simp add: format_places_def)
    then show ?thesis by (simp add: Error_format_def Formatter_format_def Formatter_loop_template)
  qed
  moreover have "map_option (\<lambda>e. format_places (er_fmt e)) (error_named ''INVALID_QP_QUERY'') = Some 4"
    "map_option (\<lambda>e. format_places (er_fmt e)) (error_named ''NOT_YET_IMPLEMENTED'') = Some 1" by (code_simp+)
  ultimately show ?thesis by fastforce
qed

text \<open>Different errors have the same code, so a test for one of them also finds the other.\<close>

theorem error_codes_collide:
  "list_all (\<lambda>(a, b). case (error_named a, error_named b) of
       (Some x, Some y) \<Rightarrow> LABSTOR_ERROR_IS x y \<and> er_fmt x \<noteq> er_fmt y | _ \<Rightarrow> False)
     [(''NOT_ENOUGH_REQUEST_MEMORY'', ''FAILED_TO_ENQUEUE''), (''FAILED_TO_ASSIGN_QUEUE'', ''FAILED_TO_DEQUEUE''),
      (''INVALID_QP_FLAGS'', ''FAILED_TO_COMPLETE''), (''INVALID_QP_CNT'', ''QP_WAIT_TIMED_OUT'')]"
  by code_simp

end
