(* ===== verification/Ipc_Test.thy ===== *)
theory Ipc_Test
  imports Kernel_Server Server_Call Registrar
begin

text \<open>
  The module that measures the path of a request, \<^verbatim>\<open>labmods/ipc_test\<close>: a client submits requests, the
  server passes each on to the kernel, the kernel completes it at once, and the server completes
  the client's request when it finds that of the kernel completed.
\<close>

section \<open>Requests\<close>

record ipc_test_payload =
  it_kern_qtok :: labstor_qtok_t
  it_nonce :: i32

type_synonym ipc_test_request = "labstor_request \<times> ipc_test_payload"

abbreviation (input) kStartIPCTest :: u16 where "kStartIPCTest \<equiv> 0"
abbreviation (input) IPC_TEST_MODULE_RUNTIME_ID :: u32 where "IPC_TEST_MODULE_RUNTIME_ID \<equiv> 0"
abbreviation (input) sizeof_ipc_test_request :: u32 where "sizeof_ipc_test_request \<equiv> 32"

definition ipc_test_IPCClientStart :: "u32 \<Rightarrow> i32 \<Rightarrow> ipc_test_request \<Rightarrow> ipc_test_request" where
  "ipc_test_IPCClientStart ns_id nonce r =
     ((fst r)\<lparr>rq_ns_id := ns_id, rq_op := kStartIPCTest, rq_code := 0\<rparr>, (snd r)\<lparr>it_nonce := nonce\<rparr>)"

definition ipc_test_IPCKernelStart :: "u32 \<Rightarrow> ipc_test_request \<Rightarrow> ipc_test_request" where
  "ipc_test_IPCKernelStart ns_id r = ((fst r)\<lparr>rq_ns_id := ns_id, rq_op := kStartIPCTest\<rparr>, snd r)"

definition ipc_test_Copy :: "ipc_test_request \<Rightarrow> ipc_test_request \<Rightarrow> ipc_test_request" where
  "ipc_test_Copy rq r = (labstor_request_SetCode (fst r) (rq_code (fst rq)), (snd r)\<lparr>it_nonce := it_nonce (snd rq)\<rparr>)"

section \<open>The kernel module\<close>

definition complete_test :: "nat \<Rightarrow> (nat \<Rightarrow> qp_state \<Rightarrow> qp_state) \<Rightarrow> ptr \<Rightarrow> qp_state \<Rightarrow> qp_state option" where
  "complete_test fuel env kern_rq st =
     (case st of (heap, qp) \<Rightarrow>
        map_option snd (labstor_queue_pair_CompleteInf fuel env
          (heap(kern_rq := (heap kern_rq)\<lparr>rq_code := LABSTOR_REQUEST_SUCCESS\<rparr>), qp) kern_rq))"

definition ipc_test_process_request_fn ::
  "nat \<Rightarrow> (nat \<Rightarrow> qp_state \<Rightarrow> qp_state) \<Rightarrow> ptr \<Rightarrow> qp_state \<Rightarrow> qp_state option"
where
  "ipc_test_process_request_fn fuel env rq st =
     (if rq_op (fst st rq) = kStartIPCTest then complete_test fuel env rq st else Some st)"

section \<open>The server module\<close>

text \<open>The code of the client's request is the step of the protocol.\<close>

definition IPCTest_IPC ::
  "nat \<Rightarrow> (nat \<Rightarrow> qp_state \<Rightarrow> qp_state) \<Rightarrow> u32 \<Rightarrow> nat \<Rightarrow> ptr \<Rightarrow> ipc_test_payload server_world \<Rightarrow>
   (bool \<times> ipc_test_payload server_world) result option"
where
  "IPCTest_IPC fuel env tid qp client_rq w =
     (let code = rq_code (sw_heap w client_rq) in
      if code = 0 then
        run_bind (kernel_submit fuel tid sizeof_ipc_test_request (ipc_test_IPCKernelStart IPC_TEST_MODULE_RUNTIME_ID) w) (\<lambda>(qtok, kern_rq, w).
        Some (Inr (False,
          w\<lparr>sw_payload := (sw_payload w)(client_rq := (sw_payload w client_rq)\<lparr>it_kern_qtok := qtok\<rparr>),
            sw_heap := (sw_heap w)(client_rq := labstor_request_SetCode (sw_heap w client_rq) 1)\<rparr>)))
      else if code = 1 then
        run_bind (Some (kernel_poll (it_kern_qtok (sw_payload w client_rq)) w)) (\<lambda>(r, kern_qp, w).
        case r of
          None \<Rightarrow> Some (Inr (False, w))
        | Some kern_rq \<Rightarrow>
            let (hd, pl) = ipc_test_Copy (sw_heap w kern_rq, sw_payload w kern_rq) (sw_heap w client_rq, sw_payload w client_rq) in
            finish_request fuel env qp client_rq kern_qp kern_rq
              (w\<lparr>sw_heap := (sw_heap w)(client_rq := hd), sw_payload := (sw_payload w)(client_rq := pl)\<rparr>))
      else Some (Inr (True, w)))"

definition IPCTest_ProcessRequest ::
  "nat \<Rightarrow> (nat \<Rightarrow> qp_state \<Rightarrow> qp_state) \<Rightarrow> u32 \<Rightarrow> nat \<Rightarrow> ptr \<Rightarrow> ipc_test_payload server_world \<Rightarrow>
   (bool \<times> ipc_test_payload server_world) result option"
where
  "IPCTest_ProcessRequest fuel env tid qp request w =
     (if rq_op (sw_heap w request) = kStartIPCTest then IPCTest_IPC fuel env tid qp request w
      else Some (Inr (True, w)))"

section \<open>The client\<close>

abbreviation (input) IPC_TEST_MODULE_ID :: cstring where "IPC_TEST_MODULE_ID \<equiv> map of_char ''IPCTest''"

definition IPCTest_Client_Register ::
  "nat \<Rightarrow> (nat \<Rightarrow> labstor_queue_pair \<Rightarrow> labstor_queue_pair) \<Rightarrow> registrar_server \<Rightarrow> u32 \<Rightarrow>
   registrar_client_world \<Rightarrow> (u32 \<times> registrar_client_world) result option"
where
  "IPCTest_Client_Register fuel env server tid =
     Registrar_Client_RegisterInstance fuel env server tid IPC_TEST_MODULE_ID IPC_TEST_MODULE_ID"

text \<open>
  The queue pair is chosen once; every submission chooses the same one, since the choice depends on
  the thread and the pool alone. The requests are not freed, and their codes are not read; \<open>dev_id\<close> is what the variable that is
  returned happens to hold. \<open>server\<close> is what the server does while the client waits.
\<close>

definition IPCTest_Client_Start ::
  "nat \<Rightarrow> (nat \<Rightarrow> labstor_queue_pair \<Rightarrow> labstor_queue_pair) \<Rightarrow>
   (ipc_test_payload client_world \<Rightarrow> ipc_test_payload client_world) \<Rightarrow> u32 \<Rightarrow> u32 \<Rightarrow> i32 \<Rightarrow> nat \<Rightarrow>
   ipc_test_payload client_world \<Rightarrow> (i32 \<times> ipc_test_payload client_world) result option"
where
  "IPCTest_Client_Start fuel env server tid ns_id dev_id batch_size w =
     run_bind (Some (client_GetQueuePair tid (cw_ipc w) 0)) (\<lambda>qp.
     run_bind (client_submit_many fuel tid 0 sizeof_ipc_test_request (\<lambda>r. Inr (ipc_test_IPCClientStart ns_id 24 r)) batch_size w) (\<lambda>(qtoks, w).
     let w = server w in
     run_bind (client_Wait_all fuel env (cw_ipc w) qtoks) (\<lambda>cl. Some (Inr (dev_id, w\<lparr>cw_ipc := cl\<rparr>)))))"

section \<open>Properties\<close>

lemma completable_cq: "qp_cq a = qp_cq b \<Longrightarrow> completable heap a rq = completable heap b rq"
  by (simp add: completable_def)

lemma completable_id: "rq_req_id (h rq) = rq_req_id (h' rq) \<Longrightarrow> completable h a rq = completable h' a rq"
  by (simp add: completable_def)

lemma Dequeue_cq [simp]: "qp_cq (snd (labstor_queue_pair_Dequeue qp)) = qp_cq qp"
  by (simp add: labstor_queue_pair_Dequeue_def split: prod.split)

text \<open>The kernel completes every test that it is given, at once and with success.\<close>

lemma kernel_completes_test:
  assumes "rq_op (heap rq) = kStartIPCTest" "completable heap qp rq"
  obtains q where "ipc_test_process_request_fn (Suc fuel) no_env rq (heap, qp) =
      Some (heap(rq := (heap rq)\<lparr>rq_code := LABSTOR_REQUEST_SUCCESS\<rparr>), q)"
    "completed_as q (rq_req_id (heap rq)) rq"
proof -
  let ?h = "heap(rq := (heap rq)\<lparr>rq_code := LABSTOR_REQUEST_SUCCESS\<rparr>)"
  have "completable ?h qp rq" using assms(2) completable_id [of ?h rq heap] by simp
  from CompleteInf_completes [OF this, of fuel] show ?thesis
    using that assms(1) by (auto simp: ipc_test_process_request_fn_def complete_test_def)
qed

text \<open>The second step of the server, once the request to the kernel is completed.\<close>

lemma server_completes_test:
  assumes "rq_code (sw_heap w rq) = 1" "it_kern_qtok (sw_payload w rq) = t"
    and "IPCManager_GetQueuePair_qtok (sw_sv w) t = Inr kq" "completed_as (sv_qps (sw_sv w) ! kq) (qtok_req_id t) kern_rq"
    and "kern_rq \<noteq> rq" "kq \<noteq> qp" "qp < length (sv_qps (sw_sv w))" "completable (sw_heap w) (sv_qps (sw_sv w) ! qp) rq"
  obtains w' where "IPCTest_IPC (Suc fuel) no_env tid qp rq w =
      run_bind (kernel_free (Suc fuel) kq kern_rq w') (\<lambda>w. Some (Inr (True, w)))"
    "completed_as (sv_qps (sw_sv w') ! qp) (rq_req_id (sw_heap w rq)) rq"
    "rq_code (sw_heap w' rq) = rq_code (sw_heap w kern_rq)" "it_nonce (sw_payload w' rq) = it_nonce (sw_payload w kern_rq)"
proof -
  obtain q where q: "labstor_queue_pair_IsComplete (sv_qps (sw_sv w) ! kq) (qtok_req_id t) = (Some kern_rq, q)"
    using assms(4) by (cases "labstor_queue_pair_IsComplete (sv_qps (sw_sv w) ! kq) (qtok_req_id t)") (simp add: completed_as_def)
  let ?h = "(sw_heap w)(rq := (sw_heap w rq)\<lparr>rq_code := rq_code (sw_heap w kern_rq)\<rparr>)"
  have "completable ?h (sv_qps (sw_sv w) ! qp) rq" using assms(8) completable_id [of ?h rq "sw_heap w"] by simp
  from CompleteInf_completes [OF this, of fuel] obtain q' where
    q': "labstor_queue_pair_CompleteInf (Suc fuel) no_env (?h, sv_qps (sw_sv w) ! qp) rq = Some ((), ?h, q')"
      "completed_as q' (rq_req_id (sw_heap w rq)) rq" by auto
  define w' where "w' = w\<lparr>
     sw_payload := (sw_payload w)(rq := (sw_payload w rq)\<lparr>it_nonce := it_nonce (sw_payload w kern_rq)\<rparr>),
     sw_heap := ?h, sw_sv := (sw_sv w)\<lparr>sv_qps := (sv_qps (sw_sv w))[kq := q, qp := q']\<rparr>\<rparr>"
  have "IPCTest_IPC (Suc fuel) no_env tid qp rq w =
      run_bind (kernel_free (Suc fuel) kq kern_rq w') (\<lambda>w. Some (Inr (True, w)))"
    using assms(1-3,6) q q'(1)
    by (simp add: IPCTest_IPC_def kernel_poll_def ipc_test_Copy_def labstor_request_SetCode_def finish_request_def
        server_complete_def shmem_queue_pair_Complete_def w'_def)
  then show ?thesis
    by (rule that) (use assms(7) q'(2) in \<open>simp_all add: w'_def\<close>)
qed

text \<open>
  C25. A test goes through the whole system: the server's first call submits a request to the
  kernel, the kernel takes it off the queue and completes it, and the server's second call
  completes the client's request with the kernel's code, which is success, before it frees its own.
  The client's number is replaced by what the memory of the request to the kernel held, since it is
  not sent along.
\<close>

theorem ipc_test_round_trip:
  assumes "rq_code (sw_heap w rq) = 0"
    and "kernel_submit (Suc fuel) tid sizeof_ipc_test_request (ipc_test_IPCKernelStart IPC_TEST_MODULE_RUNTIME_ID) w =
           Some (Inr (t, kern_rq, w0))"
    and "kern_rq \<noteq> rq" "IPCManager_GetQueuePair_qtok (sw_sv w0) t = Inr kq" "kq \<noteq> qp"
    and "kq < length (sv_qps (sw_sv w0))" "qp < length (sv_qps (sw_sv w0))"
    and "completable (sw_heap w0) (sv_qps (sw_sv w0) ! kq) kern_rq" "completable (sw_heap w0) (sv_qps (sw_sv w0) ! qp) rq"
  shows "\<exists>w1 heap q w2. IPCTest_IPC (Suc fuel) no_env tid qp rq w = Some (Inr (False, w1)) \<and>
    ipc_test_process_request_fn (Suc fuel) no_env kern_rq
      (sw_heap w1, snd (labstor_queue_pair_Dequeue (sv_qps (sw_sv w1) ! kq))) = Some (heap, q) \<and>
    IPCTest_IPC (Suc fuel) no_env tid qp rq (set_sqp kq q (w1\<lparr>sw_heap := heap\<rparr>)) =
      run_bind (kernel_free (Suc fuel) kq kern_rq w2) (\<lambda>w. Some (Inr (True, w))) \<and>
    completed_as (sv_qps (sw_sv w2) ! qp) (rq_req_id (sw_heap w rq)) rq \<and>
    rq_code (sw_heap w2 rq) = LABSTOR_REQUEST_SUCCESS \<and> it_nonce (sw_payload w2 rq) = it_nonce (sw_payload w kern_rq)"
proof -
  note e = kernel_submit_effect [OF assms(2)]
  define w1 where "w1 = w0\<lparr>sw_payload := (sw_payload w0)(rq := (sw_payload w0 rq)\<lparr>it_kern_qtok := t\<rparr>),
     sw_heap := (sw_heap w0)(rq := labstor_request_SetCode (sw_heap w0 rq) 1)\<rparr>"
  have 1: "IPCTest_IPC (Suc fuel) no_env tid qp rq w = Some (Inr (False, w1))"
    using assms(1,2) by (simp add: IPCTest_IPC_def w1_def)
  have k: "sw_heap w1 kern_rq = sw_heap w0 kern_rq" "rq_op (sw_heap w0 kern_rq) = 0"
      "rq_req_id (sw_heap w0 kern_rq) = qtok_req_id t" "sw_sv w1 = sw_sv w0"
      "it_nonce (sw_payload w1 kern_rq) = it_nonce (sw_payload w kern_rq)" "rq_code (sw_heap w1 rq) = 1"
      "rq_req_id (sw_heap w1 rq) = rq_req_id (sw_heap w rq)" "it_kern_qtok (sw_payload w1 rq) = t"
    using assms(3) by (simp_all add: w1_def e ipc_test_IPCKernelStart_def labstor_request_SetCode_def)
  let ?q1 = "snd (labstor_queue_pair_Dequeue (sv_qps (sw_sv w1) ! kq))"
  have "completable (sw_heap w1) ?q1 kern_rq"
    using assms(8) k(1) completable_cq [of ?q1 "sv_qps (sw_sv w0) ! kq"] completable_id [of "sw_heap w1" kern_rq "sw_heap w0"] k(4)
    by simp
  from kernel_completes_test [OF _ this, of fuel] k obtain q where
    q: "ipc_test_process_request_fn (Suc fuel) no_env kern_rq (sw_heap w1, ?q1) =
          Some ((sw_heap w1)(kern_rq := (sw_heap w1 kern_rq)\<lparr>rq_code := 0\<rparr>), q)"
      "completed_as q (qtok_req_id t) kern_rq" by auto
  let ?heap = "(sw_heap w1)(kern_rq := (sw_heap w1 kern_rq)\<lparr>rq_code := 0\<rparr>)"
  define v where "v = set_sqp kq q (w1\<lparr>sw_heap := ?heap\<rparr>)"
  have v: "rq_code (sw_heap v rq) = 1" "it_kern_qtok (sw_payload v rq) = t"
      "IPCManager_GetQueuePair_qtok (sw_sv v) t = Inr kq" "completed_as (sv_qps (sw_sv v) ! kq) (qtok_req_id t) kern_rq"
      "qp < length (sv_qps (sw_sv v))" "rq_req_id (sw_heap v rq) = rq_req_id (sw_heap w rq)"
      "rq_code (sw_heap v kern_rq) = 0" "it_nonce (sw_payload v kern_rq) = it_nonce (sw_payload w kern_rq)"
    using k(4-8) q(2) assms(3,4,6,7) by (simp_all add: v_def)
  have "completable (sw_heap v) (sv_qps (sw_sv v) ! qp) rq"
    using assms(3,5,9) completable_id [of "sw_heap v" rq "sw_heap w0"] by (simp add: v_def w1_def labstor_request_SetCode_def)
  from server_completes_test [OF v(1-4) assms(3,5) v(5) this, of fuel tid]
  obtain w2 where "IPCTest_IPC (Suc fuel) no_env tid qp rq v =
      run_bind (kernel_free (Suc fuel) kq kern_rq w2) (\<lambda>w. Some (Inr (True, w)))"
      "completed_as (sv_qps (sw_sv w2) ! qp) (rq_req_id (sw_heap w rq)) rq"
      "rq_code (sw_heap w2 rq) = 0" "it_nonce (sw_payload w2 rq) = it_nonce (sw_payload w kern_rq)"
    unfolding v(6-8) by blast
  with 1 q(1) show ?thesis unfolding v_def by blast
qed

text \<open>A server with a queue pair of the kernel, one of process 77, and four free requests for the kernel.\<close>

definition linked_allocator :: labstor_shmem_allocator where
  "linked_allocator = \<lparr>sa_base_region = 4096, sa_concurrency = 1, sa_region_size = 512, sa_header = 16384,
     sa_hdr_region_size = 512, sa_hdr_concurrency = 1,
     sa_per_core = [\<lparr>pa_base_region = 4096, pa_header = 16392, pa_region_size = 512, pa_request_unit = 34,
       pa_objs = \<lparr>rr_header = 16400, rr_queue = 16412, rr_enqueued = 4, rr_dequeued = 0, rr_max_depth = 4,
         rr_cells = (\<lambda>i. 12400 + 34 * i)\<rparr>\<rparr>],
     sa_core = (\<lambda>_. 0)\<rparr>"

definition linked_qp :: "labstor_qid_t \<Rightarrow> labstor_queue_pair" where
  "linked_qp qid = idle_qp\<lparr>qp_sq := (qp_sq idle_qp)\<lparr>lrq_qid := qid\<rparr>\<rparr>"

definition linked_server :: server_state where
  "linked_server = (IPCManager_new 1)\<lparr>sv_pid_to_ipc := [77 \<mapsto> Some 0, 0 \<mapsto> Some 1],
     sv_ipcs := [PerProcessIPC_new \<lparr>cr_pid = 77, cr_uid = 1000, cr_gid = 1000, cr_priority = 0\<rparr> 5,
       (PerProcessIPC_new \<lparr>cr_pid = 0, cr_uid = 0, cr_gid = 0, cr_priority = 0\<rparr> 6)\<lparr>
         pp_pool := \<lparr>qpl_type_ids = [], qpl_qps = [replicate 16 [] @ [[0]]]\<rparr>,
         pp_mm := \<lparr>mm_private_alloc = None, mm_shmem_alloc = Some linked_allocator, mm_qp_alloc = None\<rparr>\<rparr>],
     sv_qps := [linked_qp \<lparr>qid_flags = kernel_qp_flags, qid_type = 0, qid_cnt = 0, qid_pid = 0\<rparr>,
       linked_qp \<lparr>qid_flags = 0, qid_type = 0, qid_cnt = 0, qid_pid = 77\<rparr>]\<rparr>"

definition linked_world :: "ipc_test_payload server_world" where
  "linked_world = \<lparr>sw_sv = linked_server, sw_heap = (\<lambda>_. \<lparr>rq_req_id = 5, rq_ns_id = 0, rq_code = 0, rq_op = 0\<rparr>),
     sw_payload = (\<lambda>_. \<lparr>it_kern_qtok = \<lparr>qtok_qid = \<lparr>qid_flags = 0, qid_type = 0, qid_cnt = 0, qid_pid = 0\<rparr>, qtok_req_id = 0\<rparr>,
       it_nonce = 24\<rparr>)\<rparr>"

lemma linked_server_queue:
  "IPCManager_GetQueuePairByPid 0 linked_server kernel_qp_flags 0 = Inr 0"
  "qtok_qid t = \<lparr>qid_flags = kernel_qp_flags, qid_type = 0, qid_cnt = 0, qid_pid = 0\<rparr> \<Longrightarrow>
   sv_pid_to_ipc sv = sv_pid_to_ipc linked_server \<Longrightarrow> pp_pool (sv_ipcs sv ! 1) = pp_pool (sv_ipcs linked_server ! 1) \<Longrightarrow>
   IPCManager_GetQueuePair_qtok sv t = Inr 0"
  by (simp_all add: linked_server_def IPCManager_new_def PerProcessIPC_new_def
      IPCManager_GetQueuePairByPid_def IPCManager_GetQueuePairByPidHash_def server_ipc_def IPCManager_GetQueuePair_def
      IPCManager_GetQueuePair_qtok_def QueuePool_GetNumQueuePairsFast_def QueuePool_GetQueuePair_def qp_flag_defs queue_pair_GetQID_def
      QueuePool_GetQueuePair_off_def nth_append)

lemma linked_server_alloc:
  obtains sv where "IPCManager_AllocRequest_qp linked_server 0 32 0 = Some (Inr (Some 16498, sv))"
    "sv_qps sv = sv_qps linked_server" "sv_pid_to_ipc sv = sv_pid_to_ipc linked_server"
    "pp_pool (sv_ipcs sv ! 1) = pp_pool (sv_ipcs linked_server ! 1)"
  by (simp add: linked_server_def IPCManager_new_def PerProcessIPC_new_def IPCManager_AllocRequest_qp_def
      IPCManager_AllocRequest_def server_ipc_def linked_qp_def idle_qp_def MemoryManager_AllocRequest_def qp_flag_defs
      labstor_queue_pair_GetQID_def labstor_request_queue_GetQID_def labstor_shmem_allocator_Alloc_def
      labstor_private_shmem_allocator_Alloc_def labstor_request_ring_buffer_Dequeue_def LABSTOR_REGION_ADD_def linked_allocator_def)

lemma linked_world_submits:
  obtains t w0 where "kernel_submit 1 0 32 (ipc_test_IPCKernelStart 0) linked_world = Some (Inr (t, 16498, w0))"
    "IPCManager_GetQueuePair_qtok (sw_sv w0) t = Inr 0" "length (sv_qps (sw_sv w0)) = 2"
    "completable (sw_heap w0) (sv_qps (sw_sv w0) ! 0) 16498" "completable (sw_heap w0) (sv_qps (sw_sv w0) ! 1) 4160"
proof -
  obtain sv where sv: "IPCManager_AllocRequest_qp linked_server 0 32 0 = Some (Inr (Some 16498, sv))"
    "sv_qps sv = sv_qps linked_server" "sv_pid_to_ipc sv = sv_pid_to_ipc linked_server"
    "pp_pool (sv_ipcs sv ! 1) = pp_pool (sv_ipcs linked_server ! 1)" by (rule linked_server_alloc)
  have qps: "sv_qps linked_server = [linked_qp \<lparr>qid_flags = kernel_qp_flags, qid_type = 0, qid_cnt = 0, qid_pid = 0\<rparr>,
       linked_qp \<lparr>qid_flags = 0, qid_type = 0, qid_cnt = 0, qid_pid = 77\<rparr>]" by (simp add: linked_server_def)
  have i: "rr_inv (lrq_queue (qp_sq (linked_qp qid)))"
      "rr_depth (lrq_queue (qp_sq (linked_qp qid))) < rr_capacity (lrq_queue (qp_sq (linked_qp qid)))" for qid
    by (simp_all add: linked_qp_def idle_qp_def rr_inv_def rr_depth_def rr_capacity_def)
  obtain q where q: "labstor_queue_pair_Enqueue 1 no_env (h, linked_qp qid) rq =
        Some (\<lparr>qtok_qid = qid, qtok_req_id = 5\<rparr>, h(rq := (h rq)\<lparr>rq_req_id := 5\<rparr>), q rq qid)"
      "qp_cq (q rq qid) = qp_cq idle_qp" for h qid rq
  proof
    show "labstor_queue_pair_Enqueue 1 no_env (h, linked_qp qid) rq =
        Some (\<lparr>qtok_qid = qid, qtok_req_id = 5\<rparr>, h(rq := (h rq)\<lparr>rq_req_id := 5\<rparr>),
          (linked_qp qid)\<lparr>qp_sq := (qp_sq (linked_qp qid))\<lparr>lrq_queue :=
             snd (labstor_request_ring_buffer_Enqueue (lrq_queue (qp_sq (linked_qp qid))) (LABSTOR_REGION_SUB rq 4096))\<rparr>\<rparr>)"
      for h qid rq
      using lrq_Enqueue_space [OF i, of 0 h qid rq] by (simp add: labstor_queue_pair_Enqueue_def linked_qp_def idle_qp_def)
  qed (simp add: linked_qp_def)
  let ?k = "\<lparr>qid_flags = kernel_qp_flags, qid_type = 0, qid_cnt = 0, qid_pid = 0\<rparr>"
  let ?w = "\<lparr>sw_sv = sv\<lparr>sv_qps := [q 16498 ?k, sv_qps sv ! 1]\<rparr>,
     sw_heap = (sw_heap linked_world)(16498 := (sw_heap linked_world 16498)\<lparr>rq_req_id := 5\<rparr>),
     sw_payload = sw_payload linked_world\<rparr>"
  have "kernel_submit 1 0 32 (ipc_test_IPCKernelStart 0) linked_world = Some (Inr (\<lparr>qtok_qid = ?k, qtok_req_id = 5\<rparr>, 16498, ?w))"
    using sv(1,2) qps linked_server_queue(1) q(1)
    by (simp add: kernel_submit_def server_submit_def linked_world_def ipc_test_IPCKernelStart_def kernel_enqueue_def fun_upd_idem)
  then show ?thesis
    by (rule that) (use sv(2) linked_server_queue(2) [OF _ sv(3,4)] qps q(2) in
      \<open>simp_all add: completable_def linked_world_def linked_qp_def idle_qp_def\<close>)
qed

theorem ipc_test_round_trip_witness:
  "\<exists>w1 w2 w3. IPCTest_IPC 1 no_env 0 1 4160 linked_world = Some (Inr (False, w1)) \<and>
     IPCTest_IPC 1 no_env 0 1 4160 w2 = run_bind (kernel_free 1 0 16498 w3) (\<lambda>w. Some (Inr (True, w))) \<and>
     completed_as (sv_qps (sw_sv w3) ! 1) 5 4160 \<and> rq_code (sw_heap w3 4160) = LABSTOR_REQUEST_SUCCESS"
proof -
  obtain t w0 where s: "kernel_submit 1 0 32 (ipc_test_IPCKernelStart 0) linked_world = Some (Inr (t, 16498, w0))"
      "IPCManager_GetQueuePair_qtok (sw_sv w0) t = Inr 0" "length (sv_qps (sw_sv w0)) = 2"
      "completable (sw_heap w0) (sv_qps (sw_sv w0) ! 0) 16498" "completable (sw_heap w0) (sv_qps (sw_sv w0) ! 1) 4160"
    by (rule linked_world_submits)
  have h: "rq_code (sw_heap linked_world 4160) = 0" "rq_req_id (sw_heap linked_world 4160) = 5" by (simp_all add: linked_world_def)
  have l: "16498 \<noteq> (4160 :: ptr)" "0 \<noteq> (1 :: nat)" "0 < length (sv_qps (sw_sv w0))" "1 < length (sv_qps (sw_sv w0))" using s(3) by simp_all
  from ipc_test_round_trip [OF h(1) s(1) [unfolded One_nat_def] l(1) s(2) l(2-4) s(4,5)] show ?thesis
    unfolding h(2) One_nat_def by blast
qed

end
