(* ===== verification/Block_Fs.thy ===== *)
theory Block_Fs
  imports Server_Call Registrar
begin

text \<open>
  The file system that passes I/O on to a block module, \<^verbatim>\<open>labmods/block_fs\<close>, with the requests of
  \<^verbatim>\<open>labmods/generic_posix/generic_posix.h\<close> and \<^verbatim>\<open>labmods/generic_block/generic_block.h\<close>. The memory of the requests is split by type: a request is read as a file request,
  a block request or a registration.
\<close>

section \<open>Requests\<close>

record posix_io =
  pio_fd :: i32
  pio_buf :: ptr
  pio_off :: u64
  pio_size :: u64
  pio_num_qtoks :: i32
  pio_cur_qtok :: i32
  pio_qtoks :: "int \<Rightarrow> labstor_qtok_t"

record block_io =
  bio_off :: u64
  bio_size :: u64
  bio_buf :: ptr

record fs_payload =
  fsp_io :: posix_io
  fsp_block :: block_io
  fsp_next :: labstor_id

type_synonym fs_request = "labstor_request \<times> fs_payload"
type_synonym fs_world = "fs_payload server_world"

text \<open>The operations of a file system and those of a block module; the operation of a registration is zero.\<close>

abbreviation (input) posix_kInit :: u16 where "posix_kInit \<equiv> 0"
abbreviation (input) posix_kRead :: u16 where "posix_kRead \<equiv> 3"
abbreviation (input) posix_kWrite :: u16 where "posix_kWrite \<equiv> 4"
abbreviation (input) block_kRead :: u16 where "block_kRead \<equiv> 1"
abbreviation (input) block_kWrite :: u16 where "block_kWrite \<equiv> 2"
abbreviation (input) sizeof_posix_io :: u32 where "sizeof_posix_io \<equiv> 64"
abbreviation (input) sizeof_block_io :: u32 where "sizeof_block_io \<equiv> 40"
abbreviation (input) SMALL_BLOCK_SIZE :: u64 where "SMALL_BLOCK_SIZE \<equiv> 4096"

text \<open>\<^verbatim>\<open>Start\<close> of a file request leaves the code what it was.\<close>

definition posix_io_Start :: "u32 \<Rightarrow> u16 \<Rightarrow> i32 \<Rightarrow> ptr \<Rightarrow> u64 \<Rightarrow> u64 \<Rightarrow> fs_request \<Rightarrow> fs_request" where
  "posix_io_Start ns_id opc fd buf off sz r =
     ((fst r)\<lparr>rq_ns_id := ns_id, rq_op := opc\<rparr>,
      (snd r)\<lparr>fsp_io := (fsp_io (snd r))\<lparr>pio_fd := fd, pio_buf := buf, pio_off := off, pio_size := sz\<rparr>\<rparr>)"

definition posix_io_SetQtoks :: "i32 \<Rightarrow> (int \<Rightarrow> labstor_qtok_t) \<Rightarrow> posix_io \<Rightarrow> posix_io" where
  "posix_io_SetQtoks num_qtoks qtoks p = p\<lparr>pio_num_qtoks := num_qtoks, pio_cur_qtok := 0, pio_qtoks := qtoks\<rparr>"

definition block_io_Start :: "u32 \<Rightarrow> u16 \<Rightarrow> u64 \<Rightarrow> u64 \<Rightarrow> ptr \<Rightarrow> fs_request \<Rightarrow> fs_request" where
  "block_io_Start ns_id opc off sz buf r =
     ((fst r)\<lparr>rq_ns_id := ns_id, rq_code := 0, rq_op := opc\<rparr>,
      (snd r)\<lparr>fsp_block := \<lparr>bio_off = off, bio_size = sz, bio_buf = buf\<rparr>\<rparr>)"

text \<open>The registration sets the code to the operation and leaves the operation what it was.\<close>

definition blockfs_register_Start :: "u32 \<Rightarrow> cstring \<Rightarrow> fs_request \<Rightarrow> fs_request result" where
  "blockfs_register_Start ns_id next_module r =
     result_bind (labstor_id_copy (fsp_next (snd r)) next_module) (\<lambda>next.
     Inr ((fst r)\<lparr>rq_ns_id := ns_id, rq_code := 0\<rparr>, (snd r)\<lparr>fsp_next := next\<rparr>))"

section \<open>The server module\<close>

text \<open>\<open>addr\<close> is where the name of the next module stands in the request.\<close>

definition BlockFS_Initialize :: "string_mem \<Rightarrow> module_namespace \<Rightarrow> labstor_string \<Rightarrow> ptr \<Rightarrow> fs_payload \<Rightarrow> u32" where
  "BlockFS_Initialize mem ns raw addr p = Namespace_GetNamespaceID mem ns (string_of_id raw addr (fsp_next p))"

text \<open>The loop over the tokens of the block requests: \<open>n\<close> of them are left.\<close>

fun BlockFS_await :: "nat \<Rightarrow> nat \<Rightarrow> ptr \<Rightarrow> fs_world \<Rightarrow> bool \<times> fs_world" where
  "BlockFS_await 0 priv_qp rq w = (True, w)"
| "BlockFS_await (Suc n) priv_qp rq w =
     (let p = fsp_io (sw_payload w rq) in
      case labstor_queue_pair_IsComplete (sv_qps (sw_sv w) ! priv_qp) (qtok_req_id (pio_qtoks p (sint (pio_cur_qtok p)))) of
        (None, qp) \<Rightarrow> (False, set_sqp priv_qp qp w)
      | (Some _, qp) \<Rightarrow>
          BlockFS_await n priv_qp rq
            (set_sqp priv_qp qp
              (w\<lparr>sw_payload := (sw_payload w)(rq := (sw_payload w rq)\<lparr>fsp_io := p\<lparr>pio_cur_qtok := pio_cur_qtok p + 1\<rparr>\<rparr>)\<rparr>)))"

text \<open>
  Every call allocates an array of tokens, \<open>raw\<close> before it is written; a length that is not
  positive is an error of \<^verbatim>\<open>new\<close> or a write behind the array. The block request has the operation of
  the file request.
\<close>

definition BlockFS_IO ::
  "nat \<Rightarrow> (int \<Rightarrow> labstor_qtok_t) \<Rightarrow> u32 \<Rightarrow> u32 \<Rightarrow> ptr \<Rightarrow> fs_world \<Rightarrow> (bool \<times> fs_world) result option"
where
  "BlockFS_IO fuel raw tid next_module client_rq w =
     (let p = fsp_io (sw_payload w client_rq);
          num_blocks = (ucast (pio_size p div SMALL_BLOCK_SIZE + 1) :: i32);
          code = rq_code (sw_heap w client_rq) in
      if sint num_blocks \<le> 0 then Some (Inl OUT_OF_BOUNDS)
      else if code = 0 then
        run_bind (Some (IPCManager_GetQueuePair_flags tid (sw_sv w) LABSTOR_QP_PRIVATE)) (\<lambda>priv_qp.
        run_bind (server_submit fuel priv_qp tid sizeof_block_io
            (block_io_Start next_module (rq_op (sw_heap w client_rq)) (pio_off p) (pio_size p) (pio_buf p)) w) (\<lambda>(qtok, block_rq, w).
        Some (Inr (False, w\<lparr>
          sw_payload := (sw_payload w)(client_rq := (sw_payload w client_rq)\<lparr>
            fsp_io := posix_io_SetQtoks 0 (raw(0 := qtok)) (fsp_io (sw_payload w client_rq))\<rparr>),
          sw_heap := (sw_heap w)(client_rq := labstor_request_SetCode (sw_heap w client_rq) 1)\<rparr>))))
      else if code = 1 then
        run_bind (Some (IPCManager_GetQueuePair_qtok (sw_sv w) (pio_qtoks p 0))) (\<lambda>priv_qp.
        Some (Inr (BlockFS_await (nat (sint (pio_num_qtoks p) - sint (pio_cur_qtok p))) priv_qp client_rq w)))
      else Some (Inr (True, w)))"

text \<open>
  The state of the module is the identifier of the next one. Opening and closing a file do nothing,
  and so do all other operations.
\<close>

definition BlockFS_ProcessRequest ::
  "nat \<Rightarrow> (int \<Rightarrow> labstor_qtok_t) \<Rightarrow> string_mem \<Rightarrow> module_namespace \<Rightarrow> labstor_string \<Rightarrow> ptr \<Rightarrow> u32 \<Rightarrow> ptr \<Rightarrow>
   u32 \<times> fs_world \<Rightarrow> (bool \<times> u32 \<times> fs_world) result option"
where
  "BlockFS_ProcessRequest fuel raw mem ns rstr addr tid request st =
     (case st of (next_module, w) \<Rightarrow>
      let opc = rq_op (sw_heap w request) in
      if opc = posix_kInit then Some (Inr (True, BlockFS_Initialize mem ns rstr addr (sw_payload w request), w))
      else if opc = posix_kRead \<or> opc = posix_kWrite then
        run_bind (BlockFS_IO fuel raw tid next_module request w) (\<lambda>(d, w). Some (Inr (d, next_module, w)))
      else Some (Inr (True, next_module, w)))"

section \<open>The client\<close>

text \<open>A file is its offset.\<close>

record blockfs_client =
  bfc_ns_id :: u32
  bfc_files :: "i32 \<rightharpoonup> i32"
  bfc_world :: "fs_payload client_world"

definition BlockFS_Client_Open :: "i32 \<Rightarrow> blockfs_client \<Rightarrow> i32 \<times> blockfs_client" where
  "BlockFS_Client_Open fd c =
     (fd, c\<lparr>bfc_files := (case bfc_files c fd of None \<Rightarrow> (bfc_files c)(fd \<mapsto> 0) | Some _ \<Rightarrow> bfc_files c)\<rparr>)"

definition BlockFS_Client_Close :: "i32 \<Rightarrow> blockfs_client \<Rightarrow> i32 \<times> blockfs_client" where
  "BlockFS_Client_Close fd c = (0, c\<lparr>bfc_files := (bfc_files c)(fd := None)\<rparr>)"

definition BlockFS_Client_AIO ::
  "nat \<Rightarrow> u32 \<Rightarrow> u16 \<Rightarrow> i32 \<Rightarrow> ptr \<Rightarrow> u64 \<Rightarrow> u64 \<Rightarrow> blockfs_client \<Rightarrow>
   (labstor_qtok_t \<times> ptr \<times> blockfs_client) result option"
where
  "BlockFS_Client_AIO fuel tid opc fd buf off sz c =
     run_bind (client_submit fuel tid 0 sizeof_posix_io (\<lambda>r. Inr (posix_io_Start (bfc_ns_id c) opc fd buf off sz r)) (bfc_world c))
       (\<lambda>(qtok, rq, w). Some (Inr (qtok, rq, c\<lparr>bfc_world := w\<rparr>)))"

text \<open>The index operator enters a file at offset zero for an unknown descriptor.\<close>

definition file_off :: "i32 \<Rightarrow> blockfs_client \<Rightarrow> i32" where
  "file_off fd c = (case bfc_files c fd of None \<Rightarrow> 0 | Some off \<Rightarrow> off)"

definition advance_file :: "i32 \<Rightarrow> u64 \<Rightarrow> blockfs_client \<Rightarrow> blockfs_client" where
  "advance_file fd n c = c\<lparr>bfc_files := (bfc_files c)(fd \<mapsto> file_off fd c + ucast n)\<rparr>"

definition BlockFS_Client_AIO_file ::
  "nat \<Rightarrow> u32 \<Rightarrow> u16 \<Rightarrow> i32 \<Rightarrow> ptr \<Rightarrow> u64 \<Rightarrow> blockfs_client \<Rightarrow> (labstor_qtok_t \<times> ptr \<times> blockfs_client) result option"
where
  "BlockFS_Client_AIO_file fuel tid opc fd buf sz c =
     run_bind (BlockFS_Client_AIO fuel tid opc fd buf (scast (file_off fd c)) sz c) (\<lambda>(qtok, rq, c).
     Some (Inr (qtok, rq, advance_file fd sz c)))"

text \<open>
  The variant with an offset does not use it: it calls the variant of \<^verbatim>\<open>AIO\<close> that takes the offset of
  the file. \<open>server\<close> is what the server does while the client waits.
\<close>

definition BlockFS_Client_IO ::
  "nat \<Rightarrow> (nat \<Rightarrow> labstor_queue_pair \<Rightarrow> labstor_queue_pair) \<Rightarrow>
   (ptr \<Rightarrow> fs_payload client_world \<Rightarrow> fs_payload client_world) \<Rightarrow> u32 \<Rightarrow> u16 \<Rightarrow> i32 \<Rightarrow> ptr \<Rightarrow> u64 \<Rightarrow> u64 \<Rightarrow>
   blockfs_client \<Rightarrow> (u64 \<times> blockfs_client) result option"
where
  "BlockFS_Client_IO fuel env server tid opc fd buf off sz c =
     run_bind (BlockFS_Client_AIO_file fuel tid opc fd buf sz c) (\<lambda>(qtok, rq, c).
     run_bind (client_finish fuel env qtok (pio_size \<circ> fsp_io \<circ> snd) (server rq (bfc_world c))) (\<lambda>(ret, w).
     Some (Inr (ret, c\<lparr>bfc_world := w\<rparr>))))"

definition BlockFS_Client_IO_file ::
  "nat \<Rightarrow> (nat \<Rightarrow> labstor_queue_pair \<Rightarrow> labstor_queue_pair) \<Rightarrow>
   (ptr \<Rightarrow> fs_payload client_world \<Rightarrow> fs_payload client_world) \<Rightarrow> u32 \<Rightarrow> u16 \<Rightarrow> i32 \<Rightarrow> ptr \<Rightarrow> u64 \<Rightarrow>
   blockfs_client \<Rightarrow> (u64 \<times> blockfs_client) result option"
where
  "BlockFS_Client_IO_file fuel env server tid opc fd buf sz c =
     run_bind (BlockFS_Client_IO fuel env server tid opc fd buf (scast (file_off fd c)) sz c) (\<lambda>(ret, c).
     Some (Inr (ret, advance_file fd ret c)))"

definition BlockFS_Client_Register ::
  "nat \<Rightarrow> (nat \<Rightarrow> labstor_queue_pair \<Rightarrow> labstor_queue_pair) \<Rightarrow>
   (ptr \<Rightarrow> fs_payload client_world \<Rightarrow> fs_payload client_world) \<Rightarrow> u32 \<Rightarrow> u32 \<Rightarrow> cstring \<Rightarrow> blockfs_client \<Rightarrow>
   blockfs_client result option"
where
  "BlockFS_Client_Register fuel env server tid answer next_module c =
     (let c = c\<lparr>bfc_ns_id := answer\<rparr> in
      run_bind (client_call fuel env server tid 0 48 (blockfs_register_Start (bfc_ns_id c) next_module) (rq_ns_id \<circ> fst) (bfc_world c))
        (\<lambda>(_, w). Some (Inr (c\<lparr>bfc_world := w\<rparr>))))"

section \<open>Properties\<close>

text \<open>A queue pair holds no completed request that it did not hold before.\<close>

definition nothing_completed :: "labstor_queue_pair \<Rightarrow> labstor_queue_pair \<Rightarrow> bool" where
  "nothing_completed qp qp' \<longleftrightarrow> rm_num_buckets (qp_cq qp') = rm_num_buckets (qp_cq qp) \<and>
     (\<forall>b. rm_cells (qp_cq qp') b \<in> {rm_cells (qp_cq qp) b, - 1})"

lemma nothing_completed_refl [simp]: "nothing_completed qp qp"
  by (simp add: nothing_completed_def)

lemma nothing_completed_trans: "nothing_completed a b \<Longrightarrow> nothing_completed b c \<Longrightarrow> nothing_completed a c"
  unfolding nothing_completed_def by (metis insert_iff singletonD)

lemma nothing_completed_IsComplete: "nothing_completed qp (snd (labstor_queue_pair_IsComplete qp t))"
  by (auto simp: nothing_completed_def labstor_queue_pair_IsComplete_def labstor_request_map_FindAndRemove_def Let_def)

definition qps_idle :: "server_state \<Rightarrow> server_state \<Rightarrow> bool" where
  "qps_idle sv sv' \<longleftrightarrow> length (sv_qps sv') = length (sv_qps sv) \<and>
     (\<forall>q < length (sv_qps sv). nothing_completed (sv_qps sv ! q) (sv_qps sv' ! q))"

lemma qps_idle_refl [simp]: "qps_idle sv sv"
  by (simp add: qps_idle_def)

lemma qps_idle_set:
  assumes "nothing_completed (sv_qps sv ! q) qp" "sv_qps sv' = (sv_qps sv)[q := qp]"
  shows "qps_idle sv sv'"
proof -
  have "nothing_completed (sv_qps sv ! j) ((sv_qps sv)[q := qp] ! j)" if "j < length (sv_qps sv)" for j
    using assms(1) that by (cases "j = q") simp_all
  then show ?thesis using assms(2) by (simp add: qps_idle_def)
qed

lemma qps_idle_trans: "qps_idle a b \<Longrightarrow> qps_idle b c \<Longrightarrow> qps_idle a c"
  by (auto simp: qps_idle_def intro: nothing_completed_trans)

lemma BlockFS_await_idle: "qps_idle (sw_sv w) (sw_sv (snd (BlockFS_await n q rq w)))"
proof (induction n q rq w rule: BlockFS_await.induct)
  case (2 n q rq w)
  let ?t = "qtok_req_id (pio_qtoks (fsp_io (sw_payload w rq)) (sint (pio_cur_qtok (fsp_io (sw_payload w rq)))))"
  obtain r qp where i: "labstor_queue_pair_IsComplete (sv_qps (sw_sv w) ! q) ?t = (r, qp)" by fastforce
  have n: "nothing_completed (sv_qps (sw_sv w) ! q) qp"
    using nothing_completed_IsComplete [of "sv_qps (sw_sv w) ! q" ?t] i by simp
  show ?case
    using i 2 [OF refl i [symmetric]] qps_idle_set [OF n] by (cases r) (auto simp: Let_def elim!: qps_idle_trans [rotated])
qed simp

lemma AllocRequest_qps: "IPCManager_AllocRequest_qp sv q sz tid = Some (Inr (r, sv')) \<Longrightarrow> sv_qps sv' = sv_qps sv"
  by (auto simp: IPCManager_AllocRequest_qp_def IPCManager_AllocRequest_def run_bind_Inr)

lemma kernel_enqueue_idle:
  assumes "kernel_enqueue fuel q rq w = Some (qtok, w')"
  shows "qps_idle (sw_sv w) (sw_sv w')"
proof -
  obtain h qp where e: "labstor_queue_pair_Enqueue fuel no_env (sw_heap w, sv_qps (sw_sv w) ! q) rq = Some (qtok, h, qp)"
      "sv_qps (sw_sv w') = (sv_qps (sw_sv w))[q := qp]"
    using assms by (auto simp: kernel_enqueue_def)
  have "nothing_completed (sv_qps (sw_sv w) ! q) qp"
    using Enqueue_effect(2) [OF e(1)] by (simp add: nothing_completed_def)
  then show ?thesis using e(2) by (rule qps_idle_set)
qed

lemma server_submit_idle:
  assumes "server_submit fuel q tid sz start w = Some (Inr (qtok, rq, w'))"
  shows "qps_idle (sw_sv w) (sw_sv w')"
proof -
  obtain sv hd pl where s: "IPCManager_AllocRequest_qp (sw_sv w) q sz tid = Some (Inr (Some rq, sv))"
    "kernel_enqueue fuel q rq \<lparr>sw_sv = sv, sw_heap = (sw_heap w)(rq := hd), sw_payload = (sw_payload w)(rq := pl)\<rparr> =
       Some (qtok, w')"
    using assms by (rule server_submit_cases)
  show ?thesis using kernel_enqueue_idle [OF s(2)] AllocRequest_qps [OF s(1)] by (simp add: qps_idle_def)
qed

text \<open>
  The file system never completes a request: whatever it is asked to do, no queue pair of the server
  holds a completed request afterwards that it did not hold before.
\<close>

theorem blockfs_never_completes:
  assumes "BlockFS_ProcessRequest fuel raw mem ns rstr addr tid rq (next, w) = Some (Inr (d, next', w'))"
  shows "qps_idle (sw_sv w) (sw_sv w')"
proof -
  have "qps_idle (sw_sv w) (sw_sv w')" if io: "BlockFS_IO fuel raw tid next rq w = Some (Inr (d, w'))"
  proof (cases "rq_code (sw_heap w rq) = 0")
    case True
    then obtain q start qtok block_rq w0 where
      "server_submit fuel q tid sizeof_block_io start w = Some (Inr (qtok, block_rq, w0))" "sw_sv w' = sw_sv w0"
      using io by (auto simp: BlockFS_IO_def Let_def run_bind_Inr split: if_splits)
    then show ?thesis using server_submit_idle by metis
  next
    case False
    then show ?thesis
      using io BlockFS_await_idle [of w] by (auto simp: BlockFS_IO_def Let_def run_bind_Inr split: if_splits) (metis snd_conv)
  qed
  then show ?thesis
    using assms by (auto simp: BlockFS_ProcessRequest_def Let_def run_bind_Inr split: if_splits)
qed

text \<open>
  A read or write at the position of the file moves it twice, once by the size that was asked for when the
  request is submitted and once by the size of the answer.
\<close>

theorem blockfs_io_advances_twice:
  assumes "BlockFS_Client_IO_file fuel env server tid opc fd buf sz c = Some (Inr (ret, c'))"
  shows "file_off fd c' = file_off fd c + ucast sz + ucast ret"
proof -
  obtain c1 where 1: "BlockFS_Client_IO fuel env server tid opc fd buf (scast (file_off fd c)) sz c = Some (Inr (ret, c1))"
      "c' = advance_file fd ret c1"
    using assms by (auto simp: BlockFS_Client_IO_file_def run_bind_Inr)
  then obtain qtok rq c2 where 2: "BlockFS_Client_AIO_file fuel tid opc fd buf sz c = Some (Inr (qtok, rq, c2))"
      "bfc_files c1 = bfc_files c2"
    by (auto simp: BlockFS_Client_IO_def run_bind_Inr)
  then obtain c3 where "c2 = advance_file fd sz c3" "bfc_files c3 = bfc_files c"
    by (auto simp: BlockFS_Client_AIO_file_def BlockFS_Client_AIO_def run_bind_Inr)
  with 1(2) 2(2) show ?thesis by (simp add: advance_file_def file_off_def)
qed

end
