(* ===== verification/No_Op.thy ===== *)
theory No_Op
  imports Block_Fs
begin

text \<open>
  The I/O scheduler that passes requests on unchanged, \<^verbatim>\<open>labmods/no_op\<close>, with the client of block
  modules in \<^verbatim>\<open>labmods/generic_block/client\<close> and the requests of \<^verbatim>\<open>labmods/generic_queue/generic_queue.h\<close>.
  Functions of the code that end without a \<^verbatim>\<open>return\<close> have the result \<open>None\<close>.
\<close>

section \<open>Requests\<close>

record queue_io =
  qio_off :: u64
  qio_size :: u64
  qio_buf :: ptr
  qio_hctx :: i32

record noop_payload =
  np_block :: block_io
  np_queue :: queue_io
  np_next :: labstor_id
  np_num_hw_queues :: i32
  np_queue_depth :: i32

type_synonym noop_request = "labstor_request \<times> noop_payload"
type_synonym noop_world = "noop_payload server_world"

abbreviation (input) sizeof_queue_io :: u32 where "sizeof_queue_io \<equiv> 48"
abbreviation (input) sizeof_stats_request :: u32 where "sizeof_stats_request \<equiv> 28"

definition queue_io_Start :: "u32 \<Rightarrow> u16 \<Rightarrow> u64 \<Rightarrow> u64 \<Rightarrow> ptr \<Rightarrow> i32 \<Rightarrow> noop_request \<Rightarrow> noop_request" where
  "queue_io_Start ns_id opc off sz buf hctx r =
     ((fst r)\<lparr>rq_ns_id := ns_id, rq_code := 0, rq_op := opc\<rparr>,
      (snd r)\<lparr>np_queue := \<lparr>qio_off = off, qio_size = sz, qio_buf = buf, qio_hctx = hctx\<rparr>\<rparr>)"

definition noop_register_Start :: "u32 \<Rightarrow> cstring \<Rightarrow> noop_request \<Rightarrow> noop_request result" where
  "noop_register_Start ns_id next_module r =
     result_bind (labstor_id_copy (np_next (snd r)) next_module) (\<lambda>next.
     Inr ((fst r)\<lparr>rq_ns_id := ns_id, rq_code := 0\<rparr>, (snd r)\<lparr>np_next := next\<rparr>))"

section \<open>The server module\<close>

record noop_server =
  no_next_module :: i32
  no_num_hw_queues :: i32
  no_queue_depth :: i32

text \<open>\<open>others\<close> is what the other workers do while this one waits for the next module.\<close>

definition NoOp_Initialize ::
  "nat \<Rightarrow> (nat \<Rightarrow> labstor_queue_pair \<Rightarrow> labstor_queue_pair) \<Rightarrow> (noop_world \<Rightarrow> noop_world) \<Rightarrow> string_mem \<Rightarrow>
   module_namespace \<Rightarrow> labstor_string \<Rightarrow> ptr \<Rightarrow> u32 \<Rightarrow> ptr \<Rightarrow> noop_world \<Rightarrow>
   (bool option \<times> noop_server \<times> noop_world) result option"
where
  "NoOp_Initialize fuel env others mem ns rstr addr tid request w =
     (let next_module = Namespace_GetNamespaceID mem ns (string_of_id rstr addr (np_next (sw_payload w request))) in
      run_bind (Some (IPCManager_GetNextQueuePair tid (sw_sv w) (LABSTOR_QP_PRIVATE OR LABSTOR_QP_INTERMEDIATE))) (\<lambda>priv_qp.
      run_bind (server_submit fuel priv_qp tid sizeof_stats_request (\<lambda>r. ((fst r)\<lparr>rq_ns_id := next_module\<rparr>, snd r)) w)
        (\<lambda>(qtok, rq, w).
      let w = others w in
      case labstor_queue_pair_Wait fuel env (sv_qps (sw_sv w) ! priv_qp) (qtok_req_id qtok) of
        None \<Rightarrow> None
      | Some (stats_rq, qp) \<Rightarrow>
          let w = set_sqp priv_qp qp w;
              st = \<lparr>no_next_module = next_module, no_num_hw_queues = np_num_hw_queues (sw_payload w stats_rq),
                    no_queue_depth = np_queue_depth (sw_payload w stats_rq)\<rparr> in
          run_bind (kernel_free fuel priv_qp stats_rq w) (\<lambda>w. Some (Inr (None, st, w))))))"

text \<open>The remainder of C, whose sign is that of the first operand.\<close>

definition c_rem :: "i32 \<Rightarrow> i32 \<Rightarrow> i32" where
  "c_rem a b = word_of_int (sgn (sint a) * (\<bar>sint a\<bar> mod \<bar>sint b\<bar>))"

text \<open>A request is allocated and filled, and that is all.\<close>

definition NoOp_IO :: "u32 \<Rightarrow> noop_server \<Rightarrow> ptr \<Rightarrow> noop_world \<Rightarrow> (bool option \<times> noop_world) result option" where
  "NoOp_IO tid st client_rq w =
     (if no_num_hw_queues st = 0 then Some (Inl DIVISION_BY_ZERO)
      else
        let hctx = c_rem tid (no_num_hw_queues st) in
        run_bind (Some (IPCManager_GetNextQueuePair tid (sw_sv w) LABSTOR_QP_PRIVATE)) (\<lambda>priv_qp.
        run_bind (IPCManager_AllocRequest_qp (sw_sv w) priv_qp sizeof_queue_io tid) (\<lambda>(p, sv).
        case p of
          None \<Rightarrow> Some (Inl NULL_DEREFERENCE)
        | Some rq \<Rightarrow>
            let b = np_block (sw_payload w client_rq);
                (hd, pl) = queue_io_Start (no_next_module st) (rq_op (sw_heap w client_rq)) (bio_off b) (bio_size b) (bio_buf b)
                             hctx (sw_heap w rq, sw_payload w rq) in
            Some (Inr (None, \<lparr>sw_sv = sv, sw_heap = (sw_heap w)(rq := hd), sw_payload = (sw_payload w)(rq := pl)\<rparr>)))))"

definition NoOp_ProcessRequest ::
  "nat \<Rightarrow> (nat \<Rightarrow> labstor_queue_pair \<Rightarrow> labstor_queue_pair) \<Rightarrow> (noop_world \<Rightarrow> noop_world) \<Rightarrow> string_mem \<Rightarrow>
   module_namespace \<Rightarrow> labstor_string \<Rightarrow> ptr \<Rightarrow> u32 \<Rightarrow> ptr \<Rightarrow> noop_server \<times> noop_world \<Rightarrow>
   (bool option \<times> noop_server \<times> noop_world) result option"
where
  "NoOp_ProcessRequest fuel env others mem ns rstr addr tid request sw =
     (case sw of (st, w) \<Rightarrow>
      let opc = rq_op (sw_heap w request) in
      if opc = 0 then NoOp_Initialize fuel env others mem ns rstr addr tid request w
      else if opc = block_kWrite \<or> opc = block_kRead then
        run_bind (NoOp_IO tid st request w) (\<lambda>(r, w). Some (Inr (r, st, w)))
      else Some (Inr (None, st, w)))"

section \<open>The client\<close>

text \<open>\<open>raw\<close> is a token as its constructor leaves it.\<close>

definition NoOp_Client_AIO ::
  "labstor_qtok_t \<Rightarrow> ptr \<Rightarrow> u64 \<Rightarrow> u64 \<Rightarrow> u16 \<Rightarrow> noop_payload client_world \<Rightarrow>
   (labstor_qtok_t \<times> noop_payload client_world) result option"
where
  "NoOp_Client_AIO raw buf sz off opc w = Some (Inr (raw, w))"

text \<open>The client of block modules: \<open>aio\<close> is the function of the derived class.\<close>

definition GenericBlock_Client_IO ::
  "nat \<Rightarrow> (nat \<Rightarrow> labstor_queue_pair \<Rightarrow> labstor_queue_pair) \<Rightarrow> ('p client_world \<Rightarrow> 'p client_world) \<Rightarrow>
   (ptr \<Rightarrow> u64 \<Rightarrow> u64 \<Rightarrow> u16 \<Rightarrow> 'p client_world \<Rightarrow> (labstor_qtok_t \<times> 'p client_world) result option) \<Rightarrow>
   ptr \<Rightarrow> u64 \<Rightarrow> u64 \<Rightarrow> u16 \<Rightarrow> 'p client_world \<Rightarrow> (u32 \<times> 'p client_world) result option"
where
  "GenericBlock_Client_IO fuel env server aio buf sz off opc w =
     run_bind (aio buf sz off opc w) (\<lambda>(qtok, w). client_finish fuel env qtok (rq_code \<circ> fst) (server w))"

definition NoOp_Client_Register ::
  "nat \<Rightarrow> (nat \<Rightarrow> labstor_queue_pair \<Rightarrow> labstor_queue_pair) \<Rightarrow>
   (ptr \<Rightarrow> noop_payload client_world \<Rightarrow> noop_payload client_world) \<Rightarrow> u32 \<Rightarrow> u32 \<Rightarrow> cstring \<Rightarrow>
   noop_payload client_world \<Rightarrow> (u32 \<times> noop_payload client_world) result option"
where
  "NoOp_Client_Register fuel env server tid answer next_module w =
     run_bind (client_call fuel env server tid 0 112 (noop_register_Start answer next_module) (rq_ns_id \<circ> fst) w)
       (\<lambda>(_, w). Some (Inr (answer, w)))"

section \<open>Properties\<close>

text \<open>
  The scheduler drops every read and write: no queue of the server changes, so the request is neither passed on
  nor completed, and the call has no defined result. The request that it filled stays allocated.
\<close>

theorem noop_io_is_dropped:
  assumes "NoOp_IO tid st client_rq w = Some (Inr (r, w'))"
  shows "r = None \<and> sv_qps (sw_sv w') = sv_qps (sw_sv w)"
proof -
  obtain q rq sv where "IPCManager_AllocRequest_qp (sw_sv w) q sizeof_queue_io tid = Some (Inr (Some rq, sv))"
      "r = None" "sw_sv w' = sv"
    using assms
    by (fastforce simp: NoOp_IO_def Let_def run_bind_Inr split_beta prod_eq_iff split: if_splits option.splits)
  then show ?thesis using AllocRequest_qps by metis
qed

end
