(* ===== verification/Dummy_Module.thy ===== *)
theory Dummy_Module
  imports Server_Call Client_Call
begin

text \<open>
  The module for tests, \<^verbatim>\<open>labmods/dummy\<close>: a client asks a hundred times for a value and the server
  answers each request at once. The payload of a request is the value.
\<close>

abbreviation (input) dummy_kInit :: u16 where "dummy_kInit \<equiv> 0"
abbreviation (input) dummy_kGetValue :: u16 where "dummy_kGetValue \<equiv> 4"
abbreviation (input) sizeof_dummy_request :: u32 where "sizeof_dummy_request \<equiv> 20"

definition dummy_request_Start :: "u32 \<Rightarrow> labstor_request \<times> u32 \<Rightarrow> labstor_request \<times> u32" where
  "dummy_request_Start ns_id r = ((fst r)\<lparr>rq_ns_id := ns_id, rq_code := 0, rq_op := dummy_kGetValue\<rparr>, snd r)"

definition Dummy_ProcessRequest ::
  "nat \<Rightarrow> (nat \<Rightarrow> qp_state \<Rightarrow> qp_state) \<Rightarrow> nat \<Rightarrow> ptr \<Rightarrow> u32 server_world \<Rightarrow> (bool \<times> u32 server_world) option"
where
  "Dummy_ProcessRequest fuel env qp request w =
     (if rq_op (sw_heap w request) = dummy_kInit then Some (True, w)
      else if rq_op (sw_heap w request) = dummy_kGetValue then
        map_option (Pair True)
          (server_complete fuel env qp request (w\<lparr>sw_payload := (sw_payload w)(request := 5543)\<rparr>))
      else Some (True, w))"

text \<open>Every request is freed with the token of the last one, of which only the flags are used.\<close>

fun dummy_wait_free ::
  "nat \<Rightarrow> (nat \<Rightarrow> labstor_queue_pair \<Rightarrow> labstor_queue_pair) \<Rightarrow> labstor_qtok_t \<Rightarrow> labstor_qtok_t list \<Rightarrow>
   client_ipc \<Rightarrow> client_ipc result option"
where
  "dummy_wait_free fuel env qtok [] cl = Some (Inr cl)"
| "dummy_wait_free fuel env qtok (t # ts) cl =
     run_bind (client_Wait fuel env cl t) (\<lambda>(rq, cl).
     run_bind (MemoryManager_FreeRequest fuel no_env (cl_mm cl) (qid_flags (qtok_qid qtok)) rq) (\<lambda>mm.
     dummy_wait_free fuel env qtok ts (cl\<lparr>cl_mm := mm\<rparr>)))"

definition Dummy_Client_GetValue ::
  "nat \<Rightarrow> (nat \<Rightarrow> labstor_queue_pair \<Rightarrow> labstor_queue_pair) \<Rightarrow> (u32 client_world \<Rightarrow> u32 client_world) \<Rightarrow> u32 \<Rightarrow> u32 \<Rightarrow>
   u32 client_world \<Rightarrow> u32 client_world result option"
where
  "Dummy_Client_GetValue fuel env server tid ns_id w =
     run_bind (client_submit_many fuel tid 0 sizeof_dummy_request (\<lambda>r. Inr (dummy_request_Start ns_id r)) 100 w) (\<lambda>(qtoks, w).
     let w = server w in
     run_bind (dummy_wait_free fuel env (last qtoks) qtoks (cw_ipc w)) (\<lambda>cl. Some (Inr (w\<lparr>cw_ipc := cl\<rparr>))))"

text \<open>
  A request for the value is answered by the call that finds it: the client finds it completed, with
  the value in it and its code unchanged.
\<close>

theorem dummy_answers:
  assumes "rq_op (sw_heap w rq) = dummy_kGetValue" "qp < length (sv_qps (sw_sv w))"
    and "completable (sw_heap w) (sv_qps (sw_sv w) ! qp) rq"
  shows "\<exists>w'. Dummy_ProcessRequest (Suc fuel) no_env qp rq w = Some (True, w') \<and>
    completed_as (sv_qps (sw_sv w') ! qp) (rq_req_id (sw_heap w rq)) rq \<and>
    sw_payload w' rq = 5543 \<and> sw_heap w' = sw_heap w"
  using CompleteInf_completes [OF assms(3), of fuel] assms(1,2)
  by (auto simp: Dummy_ProcessRequest_def server_complete_def shmem_queue_pair_Complete_def)

end
