(* ===== verification/Spec2Isabelle.thy ===== *)
theory Spec2Isabelle
  imports
    Request_Ring
    Mpmc_Ring
    Bit2map_Concurrent
    Request_Map
    Queue_Pair
    Work_Queues
    Server_Worker
    Server_Daemons
    Upgrade_Daemon
    Kernel_Workers
    Mq_Driver
    Generic_Posix
    Block_Allocator
    Error_Format
    Ipc_Test
    No_Op
    Dummy_Module
begin

text \<open>
  \<^bold>\<open>LabStor\<close> is a platform for storage stacks that are made of loadable modules. This library models
  its shared-memory data structures, the client library, the trusted server, the kernel modules and
  the modules that come with it, and proves what they keep, what they compute and where they fail.
  All paths below are relative to \<^verbatim>\<open>src/\<close>.

  \<^bold>\<open>The parts and how they interact.\<close> A client connects to the trusted server over a socket. The server
  creates a region of shared memory through the kernel and answers with its layout; the client builds an allocator
  for requests and a number of queue pairs in it and sends the addresses back. From then on a call is a
  request that the client allocates, fills and submits on a queue pair; a worker of the server takes it off the
  queue and gives it to the module with the identifier in the request; the module completes the request on the
  same queue pair, where the client finds it. A module of the server may submit requests of its own to other modules or, on
  queue pairs that the server shares with the kernel, to kernel modules, which kernel workers serve in the
  same way. The namespace gives every mounted module an identifier and a name; the registrar is the module
  through which clients mount and find modules.

  \<^bold>\<open>How the code becomes definitions.\<close> A structure is a record with the fields of the code, and its
  shared part, which other processes see, is in the same record; an address is a 64-bit word, and offsets
  and counters have the width they have in the code, so they wrap around here where they do there. A function
  that changes memory takes the state and returns the new one. An exception is a value on the left of
  \<^typ>\<open>'a result\<close>; undefined behaviour and traps (null pointers, indices out of bounds, deleted objects,
  division by zero) are errors of the same type. A loop that waits for another thread has fuel and an
  environment, which is what the other threads do between two attempts; \<open>None\<close> is a wait that has not
  ended. The theorems about such loops state for which fuel they return, most often one attempt, or that no fuel is
  enough. Loops with a bound in the code have none here. Code outside the repository (the Linux
  kernel, the C library, the loader of libraries, YAML files, the clock) is an argument of the functions that
  call it. The build is the one without the options \<^verbatim>\<open>ENABLE_LOCKING\<close>, \<^verbatim>\<open>LABSTOR_MEM_DEBUG\<close> and
  \<^verbatim>\<open>LABSTOR_YIELD_SPINWAIT\<close>. Helper definitions for the body of a loop or for one branch translate lines of
  the operation that calls them.

  \<^bold>\<open>Foundations.\<close>
  \<^item> \<open>Labstor_Prelude\<close>: machine types, errors, the region arithmetic of
    \<^verbatim>\<open>include/labstor/constants/macros.h\<close>, binding of fallible steps, and the laws of counters and ring slots
    that all rings share.
  \<^item> \<open>Labstor_Interfaces\<close>: the contracts as locales: \<open>bounded_fifo\<close> (a ring is a queue while its
    counters do not wrap), \<open>block_pool\<close> (an allocator never hands out a block twice), \<open>completion_table\<close>
    (what was posted is found once) and \<open>bounded_log\<close> (a work queue only grows). \<open>Queue_Pool\<close> adds
    \<open>queue_directory\<close> and \<open>Unordered_Map\<close> adds \<open>hash_bucket\<close>. Every one is interpreted on the definitions of
    the components.
  \<^item> \<open>Busy_Wait\<close>: spin loops, locks and timers (\<^verbatim>\<open>constants/busy_wait.h\<close>, \<^verbatim>\<open>userspace/util/timer.h\<close>,
    \<^verbatim>\<open>userspace/types/shmem_spinlock.h\<close>); a lock is acquired as soon as it is free, and the timed lock always times out.
  \<^item> \<open>Error_Format\<close>: errors and their messages (\<^verbatim>\<open>userspace/util/serializeable.h\<close>, \<^verbatim>\<open>error.h\<close>,
    \<^verbatim>\<open>errors.h\<close>); the formatter equals a reference that splits the format at its places.

  \<^bold>\<open>Data structures in shared memory\<close> (\<^verbatim>\<open>include/labstor/types\<close>).
  \<^item> \<open>Request_Ring\<close>, \<open>Mpmc_Ring\<close>: the two ring buffers, each a refinement of a bounded queue; the
    refinement ends where a counter wraps and the depth is not a power of two.
  \<^item> \<open>Bitmaps\<close>, \<open>Bit2map_Concurrent\<close>: the bitmap and the map with two bits per entry; each entry is a
    state machine, and in every interleaving of any number of threads at most one of them holds an entry.
  \<^item> \<open>Requests\<close>, \<open>Request_Map\<close>, \<open>Request_Queue\<close>, \<open>Queue_Pair\<close>: a request that a client submits
    is dequeued by the server at its own address, and after its completion it is what the client's wait returns; the
    map of completed requests refines a partial map while the live identifiers have different buckets, and in every map
    hands out a foreign request otherwise.
  \<^item> \<open>Work_Queues\<close>: the queues a worker polls, as logs of assignments.
  \<^item> \<open>Private_Allocator\<close>, \<open>Shmem_Allocator\<close>: live blocks never overlap and an allocation fails
    only when all blocks are live; with the shipped sizes the last block ends behind the region.
  \<^item> \<open>Module_Id\<close>, \<open>Shmem_String\<close>, \<open>Unordered_Map\<close>: identifiers, strings and the hash map with its three
    kinds of keys; insertion and lookup refine a finite map, and removal does not.

  \<^bold>\<open>The client and the server\<close> (\<^verbatim>\<open>include/labstor/userspace\<close>, \<^verbatim>\<open>src/userspace\<close>).
  \<^item> \<open>Queue_Pool\<close>, \<open>Client_Ipc\<close>: tables of queue pairs and memory of a process, and the connection of a client: its
    queue pairs are fresh, laid out one behind the other, and registered.
  \<^item> \<open>Server_Ipc\<close>, \<open>Server_Worker\<close>: the server registers the queue pairs of a client at its own addresses and
    assigns them to workers in turn; the layout of the memory configuration; a worker serves its queues
    in order, as runs of an inductive relation, and a request for an unknown module blocks its queue.
  \<^item> \<open>Namespace\<close>: namespace and module tables on both sides; a module that was added is found, and an
    upgrade leaves deleted modules mounted.
  \<^item> \<open>Server_Daemons\<close>: the socket of the server and the search for lost clients, which never ends.
  \<^item> \<open>Upgrade_Daemon\<close>: the thread for upgrades, which never changes a module, next to the registrar and the
    clients; in every state that they reach, a request for an upgrade is not completed.
  \<^item> \<open>Client_Call\<close>, \<open>Server_Call\<close>: the call patterns that all modules share.

  \<^bold>\<open>The kernel\<close> (\<^verbatim>\<open>src/kernel/server\<close> and the kernel parts of \<^verbatim>\<open>labmods\<close>).
  \<^item> \<open>Kernel_Server\<close>: module table and dispatch of netlink messages to exactly the module that is addressed.
  \<^item> \<open>Kernel_Shmem\<close>: shared regions; every region gets a new identifier, and a process maps pages only after
    a grant, for any sequence of calls.
  \<^item> \<open>Kernel_Workers\<close>: registration of the region and the workers, which serve the requests of their
    queues in order; the threads of the workers as a step relation, in which unloading waits for ever for a worker that
    ended without an acknowledgement, whatever the others do.
  \<^item> \<open>Mq_Block_Layer\<close>, \<open>Mq_Driver\<close>, \<open>Blkdev_Table\<close>: block devices and the multi-queue driver with their
    clients and server modules; driver tags stay well typed, and an I/O of the driver never completes.

  \<^bold>\<open>The other modules\<close> (\<^verbatim>\<open>labmods\<close>).
  \<^item> \<open>Registrar\<close>: lookups are answered; upgrades are queued and not completed (\<open>Upgrade_Daemon\<close>).
  \<^item> \<open>Generic_Posix\<close>: descriptors and the search for the module of a path, which finds the longest
    prefix that is mounted.
  \<^item> \<open>Block_Fs\<close>, \<open>No_Op\<close>, \<open>Dummy_Module\<close>: the block file system, which completes no request, the scheduler, which drops
    every one, and the module for tests, which answers.
  \<^item> \<open>Block_Allocator\<close>: disk blocks of LabFS; live blocks never share a byte.
  \<^item> \<open>Ipc_Test\<close>: the path of a request through client, server and kernel and back.

  \<^bold>\<open>Bounds and fuel.\<close> Theorems about rings hold until a 32-bit counter wraps around when the depth is not a power of
  two (the headroom of \<open>bounded_fifo\<close>), and for any number of operations otherwise. Offsets are below \<open>2 ^ 31\<close>, the range of
  \<^verbatim>\<open>labstor_off_t\<close>. A wait has fuel one where the theorem says that it returns without waiting; statements that a call never
  returns are for every fuel.

  \<^bold>\<open>Not modelled.\<close>
  \<^item> Input and output of sockets and netlink, creation and affinity of threads, singletons, tracing, and the
    programs around the library (\<^verbatim>\<open>main\<close> of the server, the utilities, the tests and benchmarks): they change no state of the
    model beyond the calls that are modelled.
  \<^item> The acceptance of a connection is modelled from the registration of the client on.
  \<^item> LabFS beyond its block allocator, the LRU module and the time keeper: they are not part of the build, and
    LabFS does not compile. The SPDK driver only calls a library that is not in the repository.
  \<^item> \<^verbatim>\<open>labstack.h\<close> and \<^verbatim>\<open>path_parser.h\<close>: YAML documents and regular expressions of the C++ library.
  \<^item> Memory ordering: the steps of \<open>Bit2map_Concurrent\<close> are sequentially consistent, and in the other structures an
    operation is one step, as the code intends for a single producer and a single consumer.
\<close>

section \<open>A worker and the modules of the namespace\<close>

text \<open>The module for tests as a worker calls it; the value it returns is not part of the worker's state.\<close>

definition dummy_code :: "nat module_code" where
  "dummy_code m qp rq creds st =
     map_option (\<lambda>(is_complete, w). (Inr is_complete, (sw_sv w, sw_heap w)))
       (Dummy_ProcessRequest 1 no_env qp rq \<lparr>sw_sv = fst st, sw_heap = snd st, sw_payload = (\<lambda>_. 0)\<rparr>)"

text \<open>Two requests for the value, which the queue of \<open>busy_server\<close> holds.\<close>

definition value_requests :: request_heap where
  "value_requests = (\<lambda>rq. \<lparr>rq_req_id = (if rq = 4160 then 0 else 1), rq_ns_id = 1, rq_code = 0, rq_op = dummy_kGetValue\<rparr>)"

text \<open>A namespace in which it is mounted with the identifier 1.\<close>

definition dummy_namespace :: module_namespace where
  "dummy_namespace = (empty_namespace (um_blank \<lparr>sb_off = 0, sb_value = 0\<rparr>))\<lparr>nsp_private := [None, Some 0]\<rparr>"

text \<open>A module that completes the request at the head of a queue takes one step of a run.\<close>

lemma dummy_code_step:
  assumes "qp < length (sv_qps sv)" "qp_requests (sv_qps sv ! qp) = rq # rqs" "rq_op (heap rq) = dummy_kGetValue"
    and "rm_cells (qp_cq (sv_qps sv ! qp)) (rq_req_id (heap rq) mod rm_num_buckets (qp_cq (sv_qps sv ! qp))) = - 1"
    and "get_module (rq_ns_id (heap rq)) = Some m"
  defines "q \<equiv> (sv_qps sv ! qp)\<lparr>qp_cq := (qp_cq (sv_qps sv ! qp))\<lparr>rm_cells := (rm_cells (qp_cq (sv_qps sv ! qp)))
      (rq_req_id (heap rq) mod rm_num_buckets (qp_cq (sv_qps sv ! qp)) :=
         LABSTOR_REGION_SUB rq (rm_base_region (qp_cq (sv_qps sv ! qp))))\<rparr>\<rparr>"
  assumes "queue_run get_module dummy_code qp creds (set_qp qp (snd (labstor_queue_pair_Dequeue q)) sv, heap) rqs out"
  shows "queue_run get_module dummy_code qp creds (sv, heap) (rq # rqs) out"
proof (rule queue_run.finished)
  show "get_module (rq_ns_id (heap rq)) = Some m" by (rule assms(5))
  show "dummy_code m qp rq creds (sv, heap) = Some (Inr True, (set_qp qp q sv, heap))"
    using assms(3) Complete_free [of "sv_qps sv ! qp" heap rq 0] assms(4)
    by (simp add: dummy_code_def Dummy_ProcessRequest_def server_complete_def shmem_queue_pair_Complete_def q_def)
  show "same_tables sv (set_qp qp q sv)"
    by (rule same_tables_set_qp) (simp add: q_def labstor_queue_pair_GetQID_def)
  show "qp_requests (sv_qps (set_qp qp q sv) ! qp) = rq # rqs @ []"
    using assms(1,2) qp_requests_sq [of q "sv_qps sv ! qp"] by (simp add: q_def)
  show "queue_run get_module dummy_code qp creds
      (set_qp qp (snd (labstor_queue_pair_Dequeue (sv_qps (set_qp qp q sv) ! qp))) (set_qp qp q sv), heap) rqs out"
    using assms(1,7) by simp
qed

text \<open>
  C12. A worker serves its queues in order: whenever its queue pairs and their requests can be served one
  after the other by the modules that the namespace has for them, \<^verbatim>\<open>DoWork\<close> does just that and returns
  in the same state, for every fuel and whatever else happens, because it waits for nothing. The
  queue pairs come in the order of their assignment, and the requests of each in the order of their submission; each is given to
  its module with the credentials stored with the queue pair and taken off the queue when the
  module has finished with it. A request that is not finished ends the pass over its queue and
  stays at its head; an error of a module ends the whole pass, and \<^verbatim>\<open>DoWork\<close> catches it.
\<close>

theorem worker_serves_queues_in_order:
  assumes "sv_workers sv ! w = Some worker" "length (wq_entries (wk_queue worker)) < 2 ^ 31"
    and "list_all (registered sv) (wq_entries (wk_queue worker))"
    and "queues_run (Namespace_GetModule ns) process (sv, heap) (wq_entries (wk_queue worker)) out"
  shows "Worker_DoWork fuel env (Namespace_GetModule ns) process w (sv, heap) = Some out"
  by (rule Worker_DoWork_run [OF assms])

theorem worker_serves_queues_in_order_witness:
  "\<exists>sv. Worker_DoWork 1 no_env (Namespace_GetModule dummy_namespace) dummy_code 0
      (busy_server, value_requests) = Some (None, (sv, value_requests)) \<and>
    qp_requests (sv_qps sv ! 0) = [] \<and>
    fst (labstor_queue_pair_IsComplete (sv_qps sv ! 0) 0) = Some 4160 \<and>
    fst (labstor_queue_pair_IsComplete (sv_qps sv ! 0) 1) = Some 4224"
proof -
  let ?gm = "Namespace_GetModule dummy_namespace" and ?heap = value_requests
  have g: "?gm (rq_ns_id (?heap rq)) = Some 0" for rq
    by (simp add: Namespace_GetModule_def dummy_namespace_def value_requests_def)
  have o: "rq_op (?heap rq) = dummy_kGetValue" for rq by (simp add: value_requests_def)
  have m: "(1 :: u32) mod 4 = 1" "(0 :: u32) mod 4 = 0" by (simp_all add: word_unat_eq_iff unat_mod)
  define q1 where "q1 = snd (labstor_queue_pair_Dequeue (busy_qp\<lparr>qp_cq := (qp_cq busy_qp)\<lparr>rm_cells := (\<lambda>_. - 1)(0 := 64)\<rparr>\<rparr>))"
  define q2 where "q2 = snd (labstor_queue_pair_Dequeue (q1\<lparr>qp_cq := (qp_cq q1)\<lparr>rm_cells := (\<lambda>_. - 1)(0 := 64, 1 := 128)\<rparr>\<rparr>))"
  have c: "qp_cq q1 = (qp_cq busy_qp)\<lparr>rm_cells := (\<lambda>_. - 1)(0 := 64)\<rparr>"
      "qp_cq q2 = (qp_cq busy_qp)\<lparr>rm_cells := (\<lambda>_. - 1)(0 := 64, 1 := 128)\<rparr>"
    by (simp_all add: q1_def q2_def)
  have "qp_requests (busy_qp\<lparr>qp_cq := x\<rparr>) = [4160, 4224]" for x
    using busy_server_facts(5) qp_requests_sq [of "busy_qp\<lparr>qp_cq := x\<rparr>" busy_qp] by simp
  then have r1: "qp_requests q1 = [4224]" unfolding q1_def by (rule qp_requests_Cons(2))
  then have "qp_requests (q1\<lparr>qp_cq := x\<rparr>) = [4224]" for x
    using qp_requests_sq [of "q1\<lparr>qp_cq := x\<rparr>" q1] by simp
  then have r2: "qp_requests q2 = []" unfolding q2_def by (rule qp_requests_Cons(2))
  define sv2 where "sv2 = set_qp 0 q2 (set_qp 0 q1 busy_server)"
  have b: "LABSTOR_REGION_SUB 4160 (rm_base_region (qp_cq busy_qp)) = 64" "LABSTOR_REGION_SUB 4224 (rm_base_region (qp_cq busy_qp)) = 128"
      "rm_num_buckets (qp_cq busy_qp) = 4" "rm_cells (qp_cq busy_qp) = (\<lambda>_. - 1)"
    by (simp_all add: busy_qp_def region_defs)
  have i: "rq_req_id (?heap 4160) = 0" "rq_req_id (?heap 4224) = 1" by (simp_all add: value_requests_def)
  have s2: "queue_run ?gm dummy_code 0 0 (set_qp 0 q1 busy_server, ?heap) [4224] (None, (sv2, ?heap))"
    by (rule dummy_code_step [where m = 0])
      (simp_all add: busy_server_facts(4) r1 o g c(1) b i m sv2_def q2_def queue_run.all_done)
  have "queue_run ?gm dummy_code 0 0 (busy_server, ?heap) [4160, 4224] (None, (sv2, ?heap))"
    by (rule dummy_code_step [where m = 0])
      (use s2 in \<open>simp_all add: busy_server_facts(4,5) o g b i m q1_def\<close>)
  then have "queues_run ?gm dummy_code (busy_server, ?heap) [(0, 0)] (None, (sv2, ?heap))"
    using busy_server_facts(4,5) by (auto intro!: queues_run.intros)
  then have "Worker_DoWork 1 no_env ?gm dummy_code 0 (busy_server, ?heap) = Some (None, (sv2, ?heap))"
    using worker_serves_queues_in_order [OF busy_server_facts(1)] busy_server_facts(2,3) by simp
  moreover have "sv_qps sv2 = [q2]" by (simp add: sv2_def busy_server_facts(4))
  ultimately show ?thesis
    using r2 by (intro exI [of _ sv2])
      (simp add: labstor_queue_pair_IsComplete_def labstor_request_map_FindAndRemove_def c(2) busy_qp_def m region_defs)
qed

end
